(* ===== verification/Prelude.thy ===== *)
theory Prelude
  imports Main "HOL-Library.Word" "HOL-Library.AList" "HOL-Library.Multiset"
begin

text \<open>
  Shared vocabulary of the development.

  Go values: an \<open>int64\<close> is a \<open>64 word\<close> (its signed reading is \<open>sint\<close>, its sums wrap as Go's do),
  a \<open>time.Time\<close> or a \<open>time.Duration\<close> is a number of nanoseconds, a Go map is an association list
  whose keys are distinct and whose order is the order in which a \<open>range\<close> loop visits it, and a
  call that may panic returns a sum with the panic on the left.

  Lemmas: sums over the entries of an association list and how \<open>AList.update\<close> and
  \<open>AList.delete\<close> change them, which every accounting proof of the components uses.
\<close>

section \<open>Go values\<close>

type_synonym int64 = "64 word"
type_synonym int32 = "32 word"
type_synonym byte = "8 word"
type_synonym go_time = int
type_synonym duration = int
type_synonym ('k, 'v) go_map = "('k \<times> 'v) list"

text \<open>Within its range a word is the integer it was made of.\<close>

lemma sint_small: "- (2 ^ 63) \<le> x \<Longrightarrow> x < 2 ^ 63 \<Longrightarrow> sint (word_of_int x :: int64) = x"
  by (simp add: sint_sbintrunc' signed_take_bit_int_eq_self)

lemma unat_of_nat_small: "n < 2 ^ 64 \<Longrightarrow> unat (of_nat n :: int64) = n"
  by (simp add: unat_of_nat take_bit_nat_eq_self)

datatype panic =
    MustParsePanic string \<comment> \<open>\<open>resource.MustParse\<close> on text that is no quantity\<close>
  | NilDereference
  | NilMapWrite
  | SliceOutOfRange
  | DivideByZero

type_synonym 'a may_panic = "panic + 'a"

text \<open>Decimal text of an integer, as \<open>%d\<close> prints it.\<close>

fun show_nat :: "nat \<Rightarrow> string" where
  "show_nat n = (if n < 10 then [char_of (48 + n)] else show_nat (n div 10) @ [char_of (48 + n mod 10)])"

declare show_nat.simps [simp del]

definition show_int :: "int \<Rightarrow> string" where
  "show_int i = (if i < 0 then ''-'' @ show_nat (nat (- i)) else show_nat (nat i))"

text \<open>\<open>namespace + "/" + name\<close>, the key under which every component files a model.\<close>

definition slash_key :: "string \<Rightarrow> string \<Rightarrow> string" where
  "slash_key namespace name = namespace @ ''/'' @ name"

lemma append_sep_inject:
  assumes "x \<notin> set as" and "x \<notin> set cs"
  shows "as @ x # bs = cs @ x # ds \<longleftrightarrow> as = cs \<and> bs = ds"
  using assms
proof (induction as arbitrary: cs)
  case Nil
  then show ?case by (cases cs) auto
next
  case (Cons a as)
  then show ?case by (cases cs) auto
qed

lemma slash_key_inject:
  assumes "CHR ''/'' \<notin> set ns" and "CHR ''/'' \<notin> set ns'"
  shows "slash_key ns n = slash_key ns' n' \<longleftrightarrow> ns = ns' \<and> n = n'"
  using append_sep_inject [OF assms] by (simp add: slash_key_def)

section \<open>Association lists as Go maps\<close>

named_theorems map_laws \<open>lookups after updates and deletions of association lists\<close>
named_theorems sum_laws \<open>sums over association lists after updates and deletions\<close>

abbreviation keys_distinct :: "('k, 'v) go_map \<Rightarrow> bool" where
  "keys_distinct m \<equiv> distinct (map fst m)"

lemma map_of_update [map_laws]:
  "map_of (AList.update k v m) k' = (if k' = k then Some v else map_of m k')"
  by (simp add: update_conv')

lemma map_of_delete [map_laws]:
  "map_of (AList.delete k m) k' = (if k' = k then None else map_of m k')"
  by (simp add: delete_conv')

lemma keys_distinct_update [intro, simp]:
  "keys_distinct m \<Longrightarrow> keys_distinct (AList.update k v m)"
  by (rule distinct_update)

lemma keys_distinct_delete [intro, simp]:
  "keys_distinct m \<Longrightarrow> keys_distinct (AList.delete k m)"
  by (rule distinct_delete)

lemma update_in_place:
  "map_of m k = Some v \<Longrightarrow> AList.update k v m = m"
  by (induction m) (auto split: if_splits)

lemma update_update_same [simp]:
  "AList.update k v (AList.update k w m) = AList.update k v m"
  by (induction m) auto

lemma update_absent:
  "map_of m k = None \<Longrightarrow> AList.update k v m = m @ [(k, v)]"
  by (induction m) (auto split: if_splits)

lemma delete_absent:
  "map_of m k = None \<Longrightarrow> AList.delete k m = m"
  by (induction m) (auto split: if_splits)

lemma delete_append:
  "AList.delete k (m @ m') = AList.delete k m @ AList.delete k m'"
  by (simp add: AList.delete_eq)

lemma delete_update_absent:
  "map_of m k = None \<Longrightarrow> AList.delete k (AList.update k v m) = m"
  by (simp add: update_absent delete_append delete_absent)

lemma set_update_subset:
  "set (AList.update k v m) \<subseteq> insert (k, v) (set m)"
  by (induction m) auto

lemma set_delete_subset:
  "set (AList.delete k m) \<subseteq> set m"
  by (simp add: AList.delete_eq)

lemma list_all_update:
  "list_all P m \<Longrightarrow> P (k, v) \<Longrightarrow> list_all P (AList.update k v m)"
  using set_update_subset [of k v m] by (auto simp: list_all_iff)

lemma list_all_delete: "list_all P m \<Longrightarrow> list_all P (AList.delete k m)"
  using set_delete_subset [of k m] by (auto simp: list_all_iff)

lemma list_all_lookup:
  "list_all P m \<Longrightarrow> map_of m k = Some v \<Longrightarrow> P (k, v)"
  by (auto simp: list_all_iff dest: map_of_SomeD)

section \<open>Sums over the entries of a map\<close>

definition entry_sum :: "('v \<Rightarrow> 'a::ab_group_add) \<Rightarrow> ('k, 'v) go_map \<Rightarrow> 'a" where
  "entry_sum f m = sum_list (map (\<lambda>(k, v). f v) m)"

lemma entry_sum_Nil [simp]: "entry_sum f [] = 0"
  by (simp add: entry_sum_def)

lemma entry_sum_Cons [simp]: "entry_sum f ((k, v) # m) = f v + entry_sum f m"
  by (simp add: entry_sum_def)

lemma entry_sum_append [simp]: "entry_sum f (m @ m') = entry_sum f m + entry_sum f m'"
  by (simp add: entry_sum_def)

lemma entry_sum_update_new [sum_laws]:
  "map_of m k = None \<Longrightarrow> entry_sum f (AList.update k v m) = entry_sum f m + f v"
  by (simp add: update_absent)

lemma entry_sum_update_old [sum_laws]:
  "map_of m k = Some w \<Longrightarrow> entry_sum f (AList.update k v m) = entry_sum f m - f w + f v"
proof (induction m)
  case Nil
  then show ?case by simp
next
  case (Cons e m)
  then show ?case by (cases e) (auto simp: algebra_simps split: if_splits)
qed

lemma entry_sum_delete_old [sum_laws]:
  "keys_distinct m \<Longrightarrow> map_of m k = Some w \<Longrightarrow> entry_sum f (AList.delete k m) = entry_sum f m - f w"
proof (induction m)
  case Nil
  then show ?case by simp
next
  case (Cons e m)
  obtain k' v where e: "e = (k', v)" by (cases e)
  show ?case
  proof (cases "k' = k")
    case True
    with Cons.prems e have "map_of m k = None" and "v = w"
      by (auto simp: map_of_eq_None_iff)
    with True e show ?thesis by (simp add: delete_absent)
  next
    case False
    with Cons e show ?thesis by (auto simp: algebra_simps)
  qed
qed

lemma entry_sum_delete_absent [sum_laws]:
  "map_of m k = None \<Longrightarrow> entry_sum f (AList.delete k m) = entry_sum f m"
  by (simp add: delete_absent)

lemma entry_sum_cong:
  "(\<And>k v. (k, v) \<in> set m \<Longrightarrow> f v = g v) \<Longrightarrow> entry_sum f m = entry_sum g m"
  by (auto simp: entry_sum_def intro!: arg_cong [where f = sum_list] map_cong)

lemma entry_sum_zero:
  "(\<And>k v. (k, v) \<in> set m \<Longrightarrow> f v = 0) \<Longrightarrow> entry_sum f m = 0"
proof -
  assume "\<And>k v. (k, v) \<in> set m \<Longrightarrow> f v = 0"
  then have "entry_sum f m = entry_sum (\<lambda>_. 0) m"
    by (rule entry_sum_cong)
  then show ?thesis by (simp add: entry_sum_def split_def)
qed

text \<open>The sum does not depend on the order in which the map is visited.\<close>

lemma entry_sum_order:
  "mset m = mset m' \<Longrightarrow> entry_sum f m = entry_sum f m'"
  by (metis entry_sum_def mset_map sum_mset_sum_list)

end
