(* ===== verification/Interfaces.thy ===== *)
theory Interfaces
  imports Prelude
begin

text \<open>
  The contracts between the components, as locales, with what their clients prove from them.

  \<^item> \<open>budget_ledger\<close> is what the proxy's eviction loops and the controller need of the budget
    tracker: which models hold memory, what the global total is, and what a release does to both.
    The theory Budget interprets it on the tracker.
  \<^item> \<open>request_counter\<close> is what the request handler and the idle checks need of the deployment
    registry: the number of requests in flight per model under record and finish. The theory
    Registry interprets it on the registry; \<open>evictable_counter\<close> adds the removal of an entry.
\<close>

section \<open>The ledger of allocations\<close>

locale budget_ledger =
  fixes inv :: "'s \<Rightarrow> bool"
    and key :: "'n \<Rightarrow> 'k"
    and held :: "'s \<Rightarrow> 'k \<Rightarrow> 'a option"
    and amount :: "'a \<Rightarrow> int64"
    and total_held :: "'s \<Rightarrow> int64"
    and release :: "'c \<Rightarrow> 'n \<Rightarrow> 's \<Rightarrow> 's"
  assumes inv_release: "inv s \<Longrightarrow> inv (release c n s)"
    and held_release: "inv s \<Longrightarrow> held (release c n s) = (held s)(key n := None)"
    and total_release: "inv s \<Longrightarrow> total_held (release c n s)
          = total_held s - (case held s (key n) of None \<Rightarrow> 0 | Some a \<Rightarrow> amount a)"
begin

lemma release_idempotent_held:
  "inv s \<Longrightarrow> held (release c n (release d n s)) = held (release d n s)"
  by (simp add: held_release inv_release)

lemma release_again_total:
  "inv s \<Longrightarrow> total_held (release c n (release d n s)) = total_held (release d n s)"
  by (simp add: total_release held_release inv_release)

lemma fold_release:
  assumes "inv s"
  shows "inv (fold (\<lambda>(c, n). release c n) cns s)
    \<and> held (fold (\<lambda>(c, n). release c n) cns s)
        = (\<lambda>k. if k \<in> (\<lambda>(c, n). key n) ` set cns then None else held s k)"
  using assms
proof (induction cns arbitrary: s)
  case Nil
  then show ?case by simp
next
  case (Cons cn cns)
  obtain c n where cn: "cn = (c, n)" by (cases cn)
  from Cons.IH [OF inv_release [OF Cons.prems]] show ?case
    by (auto simp: cn held_release [OF Cons.prems] fun_eq_iff)
qed

lemma fold_release_total:
  assumes "inv s" and "distinct (map (\<lambda>(c, n). key n) cns)"
  shows "total_held (fold (\<lambda>(c, n). release c n) cns s)
    = total_held s - (\<Sum>(c, n)\<leftarrow>cns. case held s (key n) of None \<Rightarrow> 0 | Some a \<Rightarrow> amount a)"
  using assms
proof (induction cns arbitrary: s)
  case Nil
  then show ?case by simp
next
  case (Cons cn cns)
  obtain c n where cn: "cn = (c, n)" by (cases cn)
  from Cons.prems(2) have fresh: "key n \<notin> (\<lambda>(c, n). key n) ` set cns" by (auto simp: cn)
  have same: "(\<Sum>(c, m)\<leftarrow>cns. case held (release c' n s) (key m) of None \<Rightarrow> 0 | Some a \<Rightarrow> amount a)
      = (\<Sum>(c, m)\<leftarrow>cns. case held s (key m) of None \<Rightarrow> 0 | Some a \<Rightarrow> amount a)" for c'
    using fresh
    by (intro arg_cong [where f = sum_list] map_cong refl)
      (force simp: held_release [OF Cons.prems(1)])
  have rest: "distinct (map (\<lambda>(c, n). key n) cns)" using Cons.prems(2) by simp
  show ?case
    using Cons.IH [OF inv_release [OF Cons.prems(1), of c n] rest]
    unfolding same by (simp add: cn total_release [OF Cons.prems(1)])
qed

end

section \<open>The count of requests in flight\<close>

locale request_counter =
  fixes key :: "'n \<Rightarrow> 'k"
    and active :: "'r \<Rightarrow> 'k \<Rightarrow> nat"
    and start :: "'t \<Rightarrow> 'n \<Rightarrow> 'r \<Rightarrow> 'r"
    and finish :: "'n \<Rightarrow> 'r \<Rightarrow> 'r"
  assumes active_start: "active (start now n r) = (active r)(key n := Suc (active r (key n)))"
    and active_finish: "active (finish n r) = (active r)(key n := active r (key n) - 1)"
begin

lemma start_finish: "active (finish n (start now n r)) = active r"
  by (simp add: active_start active_finish)

lemma finish_start_other:
  "key n \<noteq> key m \<Longrightarrow> active (finish n (start now m r)) = active (start now m (finish n r))"
  by (auto simp: active_start active_finish)

text \<open>A bracket: whatever runs in between, if it leaves the counts alone the bracket restores them.\<close>

lemma bracket:
  "active r' = active (start now n r) \<Longrightarrow> active (finish n r') = active r"
  by (simp add: active_start active_finish)

lemma bracket_positive:
  "active r' = active (start now n r) \<Longrightarrow> 0 < active r' (key n)"
  by (simp add: active_start)

end

locale evictable_counter = request_counter key active start finish
  for key :: "'n \<Rightarrow> 'k" and active :: "'r \<Rightarrow> 'k \<Rightarrow> nat"
    and start :: "'t \<Rightarrow> 'n \<Rightarrow> 'r \<Rightarrow> 'r" and finish :: "'n \<Rightarrow> 'r \<Rightarrow> 'r" +
  fixes remove :: "'n \<Rightarrow> 'r \<Rightarrow> 'r"
  assumes active_remove: "active (remove n r) = (active r)(key n := 0)"
begin

lemma remove_idle: "active r (key n) = 0 \<Longrightarrow> active (remove n r) = active r"
  by (simp add: active_remove fun_upd_idem)

lemma remove_all_idle:
  "(\<And>n. n \<in> set ns \<Longrightarrow> active r (key n) = 0) \<Longrightarrow> active (fold remove ns r) = active r"
proof (induction ns arbitrary: r)
  case Nil
  then show ?case by simp
next
  case (Cons n ns)
  then have "active (remove n r) = active r" by (simp add: remove_idle)
  with Cons show ?case by simp
qed

text \<open>
  Removing an entry while its request is in flight loses the count: the finish that follows finds
  nothing to decrement.
\<close>

lemma remove_in_flight:
  "active (finish n (remove n (start now n r))) = (active r)(key n := 0)"
  by (simp add: active_start active_finish active_remove)

end

end
