(* ===== verification/Budget.thy ===== *)
theory Budget
  imports Interfaces Complex_Main
begin

text \<open>
  The budget tracker, \<open>internal/budget/tracker.go\<close>: per node pool a total and an allocated amount
  of memory, per model an allocation and an observed peak.

  A \<open>resource.Quantity\<close> (Kubernetes code, outside the repository) is a type parameter \<open>'q\<close>: its
  documented exact arithmetic and order are those of an ordered group, and \<open>Value()\<close> and
  \<open>ParseQuantity\<close> are the fields of the record \<open>quantity_api\<close>, about which nothing is assumed.
  A node selector is the list of its entries (\<open>None\<close> for a nil map). The code keys a pool by the
  first entry that a \<open>range\<close> loop yields, and Go starts that loop anywhere, so every operation
  takes a \<open>choice\<close>: the entry at which its first, second, ... such loop starts. A \<open>float64\<close> is a
  rational together with the rounding function \<open>fl\<close> of the hardware.
\<close>

section \<open>State\<close>

record 'q quantity_api =
  ParseQuantity :: "string \<Rightarrow> 'q option"
  Value :: "'q \<Rightarrow> int64"

type_synonym selector = "(string \<times> string) list option"
type_synonym choice = "nat \<Rightarrow> nat"

record 'q ModelAllocation =
  ma_Name :: string
  ma_Namespace :: string
  ma_Memory :: 'q
  ma_NodeSelector :: selector

record 'q NodeBudget =
  Total :: 'q
  Allocated :: 'q

record 'q modelUsage =
  us_name :: string
  us_namespace :: string
  us_observedPeak :: "'q option"

record 'q Tracker =
  nodeBudgets :: "(string, 'q NodeBudget) go_map"
  allocations :: "(string, 'q ModelAllocation) go_map"
  usageTracking :: "(string, 'q modelUsage) go_map"

definition NewTracker :: "'q Tracker" where
  "NewTracker = \<lparr>nodeBudgets = [], allocations = [], usageTracking = []\<rparr>"

section \<open>Keys\<close>

definition modelKey :: "string \<Rightarrow> string \<Rightarrow> string" where
  "modelKey name namespace = slash_key namespace name"

fun nodeSelectorKey :: "nat \<Rightarrow> selector \<Rightarrow> string" where
  "nodeSelectorKey c None = ''default''"
| "nodeSelectorKey c (Some []) = ''default''"
| "nodeSelectorKey c (Some (kv # kvs)) =
     (let (k, v) = (kv # kvs) ! (c mod Suc (length kvs)) in k @ ''='' @ v)"

definition MustParse :: "'q quantity_api \<Rightarrow> string \<Rightarrow> 'q may_panic" where
  "MustParse Q s = (case ParseQuantity Q s of None \<Rightarrow> Inl (MustParsePanic s) | Some q \<Rightarrow> Inr q)"

section \<open>Operations\<close>

text \<open>The two updates \<open>if budget, ok := t.nodeBudgets[key]; ok { budget.Allocated.Add/Sub(m) }\<close>.\<close>

definition addAllocated :: "string \<Rightarrow> 'q::ab_group_add \<Rightarrow> 'q Tracker \<Rightarrow> 'q Tracker" where
  "addAllocated pool m t =
     (case map_of (nodeBudgets t) pool of
        None \<Rightarrow> t
      | Some b \<Rightarrow> t\<lparr>nodeBudgets := AList.update pool (b\<lparr>Allocated := Allocated b + m\<rparr>) (nodeBudgets t)\<rparr>)"

definition subAllocated :: "string \<Rightarrow> 'q::ab_group_add \<Rightarrow> 'q Tracker \<Rightarrow> 'q Tracker" where
  "subAllocated pool m t =
     (case map_of (nodeBudgets t) pool of
        None \<Rightarrow> t
      | Some b \<Rightarrow> t\<lparr>nodeBudgets := AList.update pool (b\<lparr>Allocated := Allocated b - m\<rparr>) (nodeBudgets t)\<rparr>)"

definition putAllocation ::
  "string \<Rightarrow> string \<Rightarrow> 'q \<Rightarrow> selector \<Rightarrow> 'q Tracker \<Rightarrow> 'q Tracker" where
  "putAllocation name namespace m sel t =
     t\<lparr>allocations := AList.update (modelKey name namespace)
         \<lparr>ma_Name = name, ma_Namespace = namespace, ma_Memory = m, ma_NodeSelector = sel\<rparr>
         (allocations t)\<rparr>"

definition SyncAllocation ::
  "'q::ab_group_add quantity_api \<Rightarrow> choice \<Rightarrow> string \<Rightarrow> string \<Rightarrow> string \<Rightarrow> selector \<Rightarrow> 'q Tracker
    \<Rightarrow> (bool \<times> 'q Tracker) may_panic" where
  "SyncAllocation Q ch name namespace memoryStr sel t =
     (case map_of (allocations t) (modelKey name namespace) of
        Some _ \<Rightarrow> Inr (False, t)
      | None \<Rightarrow>
          (case MustParse Q memoryStr of
             Inl p \<Rightarrow> Inl p
           | Inr memory \<Rightarrow>
               Inr (True, addAllocated (nodeSelectorKey (ch 0) sel) memory
                            (putAllocation name namespace memory sel t))))"

definition SetNodeBudget :: "string \<Rightarrow> 'q::zero \<Rightarrow> 'q Tracker \<Rightarrow> 'q Tracker" where
  "SetNodeBudget key amount t =
     (case map_of (nodeBudgets t) key of
        Some b \<Rightarrow> t\<lparr>nodeBudgets := AList.update key (b\<lparr>Total := amount\<rparr>) (nodeBudgets t)\<rparr>
      | None \<Rightarrow> t\<lparr>nodeBudgets := AList.update key \<lparr>Total = amount, Allocated = 0\<rparr> (nodeBudgets t)\<rparr>)"

definition CanAllocate ::
  "'q::linordered_ab_group_add quantity_api \<Rightarrow> choice \<Rightarrow> string \<Rightarrow> string \<Rightarrow> string \<Rightarrow> selector
    \<Rightarrow> 'q Tracker \<Rightarrow> bool may_panic" where
  "CanAllocate Q ch name namespace memoryStr sel t =
     (case MustParse Q memoryStr of
        Inl p \<Rightarrow> Inl p
      | Inr memory \<Rightarrow>
          (let checkNew = (\<lambda>c. case map_of (nodeBudgets t) (nodeSelectorKey c sel) of
                 None \<Rightarrow> True
               | Some b \<Rightarrow> Total b - Allocated b \<ge> memory)
           in Inr (case map_of (allocations t) (modelKey name namespace) of
                Some existing \<Rightarrow>
                  (case map_of (nodeBudgets t) (nodeSelectorKey (ch 0) sel) of
                     Some b \<Rightarrow> Allocated b - ma_Memory existing + memory \<le> Total b
                   | None \<Rightarrow> checkNew (ch 1))
              | None \<Rightarrow> checkNew (ch 0))))"

definition canAllocateLocked ::
  "'q::linordered_ab_group_add quantity_api \<Rightarrow> choice \<Rightarrow> string \<Rightarrow> string \<Rightarrow> string \<Rightarrow> selector
    \<Rightarrow> 'q Tracker \<Rightarrow> bool may_panic" where
  "canAllocateLocked Q ch name namespace memoryStr sel t =
     (case MustParse Q memoryStr of
        Inl p \<Rightarrow> Inl p
      | Inr memory \<Rightarrow>
          Inr (case map_of (allocations t) (modelKey name namespace) of
              Some existing \<Rightarrow>
                (case map_of (nodeBudgets t) (nodeSelectorKey (ch 0) sel) of
                   Some b \<Rightarrow> Allocated b - ma_Memory existing + memory \<le> Total b
                 | None \<Rightarrow> True)
            | None \<Rightarrow>
                (case map_of (nodeBudgets t) (nodeSelectorKey (ch 0) sel) of
                   None \<Rightarrow> True
                 | Some b \<Rightarrow> Total b - Allocated b \<ge> memory)))"

definition Allocate ::
  "'q::linordered_ab_group_add quantity_api \<Rightarrow> choice \<Rightarrow> string \<Rightarrow> string \<Rightarrow> string \<Rightarrow> selector
    \<Rightarrow> 'q Tracker \<Rightarrow> (bool \<times> 'q Tracker) may_panic" where
  "Allocate Q ch name namespace memoryStr sel t =
     (case canAllocateLocked Q ch name namespace memoryStr sel t of
        Inl p \<Rightarrow> Inl p
      | Inr False \<Rightarrow> Inr (False, t)
      | Inr True \<Rightarrow>
          (case MustParse Q memoryStr of
             Inl p \<Rightarrow> Inl p
           | Inr memory \<Rightarrow>
               (let t1 = (case map_of (allocations t) (modelKey name namespace) of
                      Some existing \<Rightarrow>
                        subAllocated (nodeSelectorKey (ch 1) (ma_NodeSelector existing))
                          (ma_Memory existing) t
                    | None \<Rightarrow> t);
                    t2 = putAllocation name namespace memory sel t1
                in Inr (True, addAllocated (nodeSelectorKey (ch 2) sel) memory t2))))"

definition ReleaseModel ::
  "choice \<Rightarrow> string \<Rightarrow> string \<Rightarrow> 'q::ab_group_add Tracker \<Rightarrow> 'q Tracker" where
  "ReleaseModel ch name namespace t =
     (case map_of (allocations t) (modelKey name namespace) of
        None \<Rightarrow> t
      | Some a \<Rightarrow>
          (let t1 = subAllocated (nodeSelectorKey (ch 0) (ma_NodeSelector a)) (ma_Memory a) t
           in t1\<lparr>allocations := AList.delete (modelKey name namespace) (allocations t1)\<rparr>))"

definition GetAvailableMemory :: "choice \<Rightarrow> selector \<Rightarrow> 'q::ab_group_add Tracker \<Rightarrow> 'q" where
  "GetAvailableMemory ch sel t =
     (case map_of (nodeBudgets t) (nodeSelectorKey (ch 0) sel) of
        None \<Rightarrow> 0
      | Some b \<Rightarrow> Total b - Allocated b)"

definition GetAllocatedMemory :: "choice \<Rightarrow> selector \<Rightarrow> 'q::zero Tracker \<Rightarrow> 'q" where
  "GetAllocatedMemory ch sel t =
     (case map_of (nodeBudgets t) (nodeSelectorKey (ch 0) sel) of
        Some b \<Rightarrow> Allocated b
      | None \<Rightarrow> 0)"

definition GetAllocation :: "string \<Rightarrow> string \<Rightarrow> 'q Tracker \<Rightarrow> 'q ModelAllocation option" where
  "GetAllocation name namespace t = map_of (allocations t) (modelKey name namespace)"

text \<open>The loop \<open>total += alloc.Memory.Value()\<close> over all allocations, in \<open>int64\<close>.\<close>

fun total_loop :: "'q quantity_api \<Rightarrow> int64 \<Rightarrow> (string, 'q ModelAllocation) go_map \<Rightarrow> int64" where
  "total_loop Q acc [] = acc"
| "total_loop Q acc ((k, alloc) # rest) = total_loop Q (acc + Value Q (ma_Memory alloc)) rest"

definition GetTotalAllocatedMemory :: "'q quantity_api \<Rightarrow> 'q Tracker \<Rightarrow> int64" where
  "GetTotalAllocatedMemory Q t = total_loop Q 0 (allocations t)"

fun blocking_loop ::
  "choice \<Rightarrow> string \<Rightarrow> (string, 'q ModelAllocation) go_map \<Rightarrow> 'q ModelAllocation list" where
  "blocking_loop ch pool [] = []"
| "blocking_loop ch pool ((k, a) # rest) =
     (if nodeSelectorKey (ch 0) (ma_NodeSelector a) = pool
      then a # blocking_loop (\<lambda>i. ch (Suc i)) pool rest
      else blocking_loop (\<lambda>i. ch (Suc i)) pool rest)"

definition GetBlockingModels :: "choice \<Rightarrow> selector \<Rightarrow> 'q Tracker \<Rightarrow> 'q ModelAllocation list" where
  "GetBlockingModels ch sel t =
     blocking_loop (\<lambda>i. ch (Suc i)) (nodeSelectorKey (ch 0) sel) (allocations t)"

definition RecordUsage ::
  "string \<Rightarrow> string \<Rightarrow> 'q::ord option \<Rightarrow> 'q Tracker \<Rightarrow> 'q Tracker may_panic" where
  "RecordUsage name namespace observed t =
     (let key = modelKey name namespace in
      case map_of (usageTracking t) key of
        Some usage \<Rightarrow>
          (case observed of
             None \<Rightarrow> Inr t
           | Some m \<Rightarrow>
               (if (case us_observedPeak usage of None \<Rightarrow> True | Some p \<Rightarrow> m > p)
                then Inr (t\<lparr>usageTracking :=
                       AList.update key (usage\<lparr>us_observedPeak := Some m\<rparr>) (usageTracking t)\<rparr>)
                else Inr t))
      | None \<Rightarrow>
          (case observed of
             None \<Rightarrow> Inl NilDereference
           | Some m \<Rightarrow> Inr (t\<lparr>usageTracking :=
               AList.update key \<lparr>us_name = name, us_namespace = namespace, us_observedPeak = Some m\<rparr>
                 (usageTracking t)\<rparr>)))"

section \<open>Utilization\<close>

text \<open>
  The recommendation string is kept as the values the code formats into it: the declared
  quantity, the recommended number of bytes, the observed peak and the percentage.
\<close>

datatype 'q recommendation =
    NoRecommendation
  | ConsiderReducing 'q int 'q int
  | ConsiderReducingTo 'q int

record 'q UtilizationInfo =
  ui_Name :: string
  ui_Namespace :: string
  ui_Declared :: 'q
  ui_ObservedPeak :: "'q option"
  ui_Utilization :: rat
  ui_Recommendation :: "'q recommendation"

type_synonym rounding = "rat \<Rightarrow> rat"

definition float_of :: "rounding \<Rightarrow> int64 \<Rightarrow> rat" where
  "float_of fl v = fl (of_int (sint v))"

definition recommended_bytes :: "rounding \<Rightarrow> rat \<Rightarrow> int" where
  "recommended_bytes fl observedValue = \<lceil>fl (observedValue * fl (11 / 10))\<rceil>"

text \<open>Conversion of a float to an integer type: towards zero.\<close>

definition trunc :: "rat \<Rightarrow> int" where
  "trunc r = (if r < 0 then \<lceil>r\<rceil> else \<lfloor>r\<rfloor>)"

definition GetUtilization ::
  "'q quantity_api \<Rightarrow> rounding \<Rightarrow> string \<Rightarrow> string \<Rightarrow> string \<Rightarrow> 'q Tracker
    \<Rightarrow> 'q UtilizationInfo may_panic" where
  "GetUtilization Q fl name namespace declaredMemory t =
     (case MustParse Q declaredMemory of
        Inl p \<Rightarrow> Inl p
      | Inr declared \<Rightarrow>
          (let info = \<lparr>ui_Name = name, ui_Namespace = namespace, ui_Declared = declared,
                 ui_ObservedPeak = None, ui_Utilization = 0, ui_Recommendation = NoRecommendation\<rparr>
           in Inr (case map_of (usageTracking t) (modelKey name namespace) of
                None \<Rightarrow> info
              | Some usage \<Rightarrow>
                  (case us_observedPeak usage of
                     None \<Rightarrow> info
                   | Some peak \<Rightarrow>
                       (let declaredValue = float_of fl (Value Q declared);
                            observedValue = float_of fl (Value Q peak);
                            u = (if declaredValue > 0 then fl (observedValue / declaredValue) else 0);
                            info1 = info\<lparr>ui_ObservedPeak := Some peak, ui_Utilization := u\<rparr>
                        in if u < fl (9 / 10)
                           then info1\<lparr>ui_Recommendation :=
                             ConsiderReducing declared (recommended_bytes fl observedValue) peak
                               (trunc (fl (fl (1 - u) * 100)))\<rparr>
                           else info1)))))"

definition overprovisioned_info ::
  "'q quantity_api \<Rightarrow> rounding \<Rightarrow> 'q ModelAllocation \<Rightarrow> 'q modelUsage option
    \<Rightarrow> 'q UtilizationInfo option" where
  "overprovisioned_info Q fl a usage =
     (case usage of
        None \<Rightarrow> None
      | Some us \<Rightarrow>
          (case us_observedPeak us of
             None \<Rightarrow> None
           | Some peak \<Rightarrow>
               (let declaredValue = float_of fl (Value Q (ma_Memory a));
                    observedValue = float_of fl (Value Q peak)
                in if declaredValue \<le> 0 then None
                   else let u = fl (observedValue / declaredValue)
                     in if u < fl (9 / 10)
                        then Some \<lparr>ui_Name = ma_Name a, ui_Namespace = ma_Namespace a,
                               ui_Declared = ma_Memory a, ui_ObservedPeak = Some peak,
                               ui_Utilization = u,
                               ui_Recommendation =
                                 ConsiderReducingTo (ma_Memory a) (recommended_bytes fl observedValue)\<rparr>
                        else None)))"

definition GetOverprovisionedModels ::
  "'q quantity_api \<Rightarrow> rounding \<Rightarrow> 'q Tracker \<Rightarrow> 'q UtilizationInfo list" where
  "GetOverprovisionedModels Q fl t =
     List.map_filter (\<lambda>(key, a). overprovisioned_info Q fl a (map_of (usageTracking t) key))
       (allocations t)"

section \<open>The tracker without budgets: allocations and their total\<close>

named_theorems alloc_laws \<open>what each operation does to the allocations\<close>

lemma allocations_addAllocated [simp, alloc_laws]: "allocations (addAllocated p m t) = allocations t"
  by (simp add: addAllocated_def split: option.splits)

lemma allocations_subAllocated [simp, alloc_laws]: "allocations (subAllocated p m t) = allocations t"
  by (simp add: subAllocated_def split: option.splits)

lemma usage_addAllocated [simp]: "usageTracking (addAllocated p m t) = usageTracking t"
  by (simp add: addAllocated_def split: option.splits)

lemma usage_subAllocated [simp]: "usageTracking (subAllocated p m t) = usageTracking t"
  by (simp add: subAllocated_def split: option.splits)

lemma putAllocation_fields [simp]:
  "nodeBudgets (putAllocation n ns m sel t) = nodeBudgets t"
  "usageTracking (putAllocation n ns m sel t) = usageTracking t"
  "allocations (putAllocation n ns m sel t) = AList.update (modelKey n ns)
     \<lparr>ma_Name = n, ma_Namespace = ns, ma_Memory = m, ma_NodeSelector = sel\<rparr> (allocations t)"
  by (simp_all add: putAllocation_def)

lemma allocations_SyncAllocation [alloc_laws]:
  "SyncAllocation Q ch n ns ms sel t = Inr (True, t') \<Longrightarrow>
     map_of (allocations t) (modelKey n ns) = None \<and>
     (\<exists>m. ParseQuantity Q ms = Some m
        \<and> allocations t' = allocations (putAllocation n ns m sel t))"
  by (auto simp: SyncAllocation_def MustParse_def split: option.splits)

lemma SyncAllocation_False:
  "SyncAllocation Q ch n ns ms sel t = Inr (False, t') \<Longrightarrow>
     t' = t \<and> map_of (allocations t) (modelKey n ns) \<noteq> None"
  by (auto simp: SyncAllocation_def split: option.splits sum.splits)

lemma allocations_Allocate [alloc_laws]:
  "Allocate Q ch n ns ms sel t = Inr (True, t') \<Longrightarrow>
     \<exists>m. ParseQuantity Q ms = Some m \<and> allocations t' = allocations (putAllocation n ns m sel t)"
  by (auto simp: Allocate_def MustParse_def canAllocateLocked_def Let_def
      split: option.splits bool.splits sum.splits if_splits)

lemma Allocate_False: "Allocate Q ch n ns ms sel t = Inr (False, t') \<Longrightarrow> t' = t"
  by (auto simp: Allocate_def MustParse_def Let_def
      split: option.splits bool.splits sum.splits if_splits)

lemma allocations_ReleaseModel [simp, alloc_laws]:
  "allocations (ReleaseModel ch n ns t) = AList.delete (modelKey n ns) (allocations t)"
  by (simp add: ReleaseModel_def Let_def delete_absent split: option.splits)

lemma allocations_SetNodeBudget [simp, alloc_laws]:
  "allocations (SetNodeBudget p m t) = allocations t"
  by (simp add: SetNodeBudget_def split: option.splits)

lemma RecordUsage_frame:
  "RecordUsage n ns m t = Inr t' \<Longrightarrow> allocations t' = allocations t \<and> nodeBudgets t' = nodeBudgets t"
  by (auto simp: RecordUsage_def Let_def split: option.splits if_splits)

lemma total_loop_sum:
  "total_loop Q acc m = acc + entry_sum (\<lambda>a. Value Q (ma_Memory a)) m"
  by (induction Q acc m rule: total_loop.induct) (auto simp: algebra_simps)

lemma GetTotalAllocatedMemory_sum:
  "GetTotalAllocatedMemory Q t = entry_sum (\<lambda>a. Value Q (ma_Memory a)) (allocations t)"
  by (simp add: GetTotalAllocatedMemory_def total_loop_sum)

lemma GetTotalAllocatedMemory_release:
  "keys_distinct (allocations t) \<Longrightarrow>
   GetTotalAllocatedMemory Q (ReleaseModel ch n ns t) = GetTotalAllocatedMemory Q t
     - (case GetAllocation n ns t of None \<Rightarrow> 0 | Some a \<Rightarrow> Value Q (ma_Memory a))"
  by (auto simp: GetTotalAllocatedMemory_sum GetAllocation_def sum_laws split: option.splits)

text \<open>
  The tracker provides the ledger contract: the client of a release learns which models still hold
  memory and what became of the total.
\<close>

interpretation tracker: budget_ledger
  "\<lambda>t :: 'q::ab_group_add Tracker. keys_distinct (allocations t)"
  "\<lambda>(name, namespace). modelKey name namespace"
  "\<lambda>t. map_of (allocations t)"
  "\<lambda>a. Value Q (ma_Memory a)"
  "GetTotalAllocatedMemory Q"
  "\<lambda>ch (name, namespace). ReleaseModel ch name namespace"
  for Q :: "'q::ab_group_add quantity_api"
proof (unfold_locales, goal_cases)
  case (1 s c n)
  then show ?case by (cases n) auto
next
  case (2 s c n)
  then show ?case by (cases n) (auto simp: map_laws fun_eq_iff)
next
  case (3 s c n)
  then show ?case by (cases n) (simp add: GetTotalAllocatedMemory_release GetAllocation_def)
qed

section \<open>Pools and their accounts\<close>

text \<open>
  With at most one entry a selector names one pool, whatever entry Go starts the loop at.
\<close>

definition single_entry :: "selector \<Rightarrow> bool" where
  "single_entry sel = (case sel of None \<Rightarrow> True | Some kvs \<Rightarrow> length kvs \<le> 1)"

definition pool_of :: "selector \<Rightarrow> string" where
  "pool_of sel = nodeSelectorKey 0 sel"

lemma pool_of_simps [simp]:
  "pool_of None = ''default''"
  "pool_of (Some []) = ''default''"
  "pool_of (Some ((k, v) # kvs)) = k @ ''='' @ v"
  by (simp_all add: pool_of_def)

lemma single_entry_pool: "single_entry sel \<Longrightarrow> nodeSelectorKey c sel = pool_of sel"
  by (cases "(c, sel)" rule: nodeSelectorKey.cases) (auto simp: single_entry_def pool_of_def)

definition pool_sum :: "string \<Rightarrow> (string, 'q::ab_group_add ModelAllocation) go_map \<Rightarrow> 'q" where
  "pool_sum p m = entry_sum (\<lambda>a. if pool_of (ma_NodeSelector a) = p then ma_Memory a else 0) m"

definition tracker_wf :: "'q Tracker \<Rightarrow> bool" where
  "tracker_wf t \<longleftrightarrow> keys_distinct (nodeBudgets t) \<and> keys_distinct (allocations t)
     \<and> keys_distinct (usageTracking t)
     \<and> list_all (\<lambda>(k, a). single_entry (ma_NodeSelector a)) (allocations t)"

definition accounted :: "'q::ab_group_add Tracker \<Rightarrow> bool" where
  "accounted t \<longleftrightarrow>
     list_all (\<lambda>(p, b). Allocated b = pool_sum p (allocations t)) (nodeBudgets t)"

definition tracker_inv :: "'q::ab_group_add Tracker \<Rightarrow> bool" where
  "tracker_inv t \<longleftrightarrow> tracker_wf t \<and> accounted t"

lemma accounted_lookup:
  "keys_distinct (nodeBudgets t) \<Longrightarrow> accounted t \<longleftrightarrow>
     (\<forall>p b. map_of (nodeBudgets t) p = Some b \<longrightarrow> Allocated b = pool_sum p (allocations t))"
  by (auto simp: accounted_def list_all_iff map_of_eq_Some_iff)

lemma tracker_invD:
  assumes "tracker_inv t"
  shows "tracker_wf t" and "map_of (nodeBudgets t) p = Some b \<Longrightarrow> Allocated b = pool_sum p (allocations t)"
  using assms accounted_lookup [of t] by (auto simp: tracker_inv_def tracker_wf_def)

lemma tracker_inv_New: "tracker_inv NewTracker"
  by (simp add: tracker_inv_def tracker_wf_def accounted_def NewTracker_def)

lemma nodeBudgets_addAllocated:
  "map_of (nodeBudgets (addAllocated p m t)) q =
     (if q = p then map_option (\<lambda>b. b\<lparr>Allocated := Allocated b + m\<rparr>) (map_of (nodeBudgets t) p)
      else map_of (nodeBudgets t) q)"
  by (auto simp: addAllocated_def map_laws split: option.splits)

lemma nodeBudgets_subAllocated:
  "map_of (nodeBudgets (subAllocated p m t)) q =
     (if q = p then map_option (\<lambda>b. b\<lparr>Allocated := Allocated b - m\<rparr>) (map_of (nodeBudgets t) p)
      else map_of (nodeBudgets t) q)"
  by (auto simp: subAllocated_def map_laws split: option.splits)

lemma nodeBudgets_distinct [simp]:
  "keys_distinct (nodeBudgets t) \<Longrightarrow> keys_distinct (nodeBudgets (addAllocated p m t))"
  "keys_distinct (nodeBudgets t) \<Longrightarrow> keys_distinct (nodeBudgets (subAllocated p m t))"
  by (auto simp: addAllocated_def subAllocated_def split: option.splits)

lemmas pool_laws = nodeBudgets_addAllocated nodeBudgets_subAllocated nodeBudgets_distinct

lemma alloc_single_entry:
  "tracker_wf t \<Longrightarrow> map_of (allocations t) k = Some a \<Longrightarrow> single_entry (ma_NodeSelector a)"
  by (auto simp: tracker_wf_def list_all_iff dest: map_of_SomeD)

lemma pool_sum_put_new:
  "map_of (allocations t) (modelKey n ns) = None \<Longrightarrow>
   pool_sum p (allocations (putAllocation n ns m sel t))
     = pool_sum p (allocations t) + (if pool_of sel = p then m else 0)"
  by (simp add: pool_sum_def sum_laws)

lemma pool_sum_put_old:
  "map_of (allocations t) (modelKey n ns) = Some a \<Longrightarrow>
   pool_sum p (allocations (putAllocation n ns m sel t))
     = pool_sum p (allocations t)
       - (if pool_of (ma_NodeSelector a) = p then ma_Memory a else 0)
       + (if pool_of sel = p then m else 0)"
  by (simp add: pool_sum_def sum_laws)

lemma pool_sum_delete:
  "keys_distinct m \<Longrightarrow> map_of m k = Some a \<Longrightarrow>
   pool_sum p (AList.delete k m)
     = pool_sum p m - (if pool_of (ma_NodeSelector a) = p then ma_Memory a else 0)"
  by (simp add: pool_sum_def sum_laws)

end
