(* ===== verification/Budget_Accounting.thy ===== *)
theory Budget_Accounting
  imports Budget
begin

text \<open>
  What the budget tracker promises: the account of every pool is the sum of the models placed in
  it, in every state the operations reach; a granted allocation fits; a release gives back what was
  taken; the tracker refines a ledger that knows only which model holds how much in which pool.
  The last section shows where these promises stop: a budget set late, a model that changes pool, a
  node selector with two entries, and totals beyond \<open>int64\<close>.
\<close>

section \<open>Every operation keeps the accounts\<close>

lemma inv_charge_new:
  assumes inv: "tracker_inv t" and single: "single_entry sel"
    and new: "map_of (allocations t) (modelKey n ns) = None"
  shows "tracker_inv (addAllocated (nodeSelectorKey c sel) m (putAllocation n ns m sel t))"
    (is "tracker_inv ?t'")
proof -
  note acc = tracker_invD(2) [OF inv]
  have wf: "tracker_wf ?t'"
    using tracker_invD(1) [OF inv] single by (auto simp: tracker_wf_def pool_laws intro: list_all_update)
  moreover have "\<forall>p b. map_of (nodeBudgets ?t') p = Some b \<longrightarrow> Allocated b = pool_sum p (allocations ?t')"
    using single_entry_pool [OF single, of c]
    by (auto simp del: putAllocation_fields(3)
        simp: pool_laws acc pool_sum_put_new [OF new] split: if_splits)
  ultimately show ?thesis
    by (simp add: tracker_inv_def accounted_lookup tracker_wf_def)
qed

lemma inv_charge_old:
  assumes inv: "tracker_inv t" and single: "single_entry sel"
    and old: "map_of (allocations t) (modelKey n ns) = Some a"
  shows "tracker_inv (addAllocated (nodeSelectorKey c sel) m (putAllocation n ns m sel
           (subAllocated (nodeSelectorKey d (ma_NodeSelector a)) (ma_Memory a) t)))"
    (is "tracker_inv ?t'")
proof -
  note acc = tracker_invD(2) [OF inv]
  have singlea: "single_entry (ma_NodeSelector a)"
    using alloc_single_entry [OF tracker_invD(1) [OF inv] old] .
  have wf: "tracker_wf ?t'"
    using tracker_invD(1) [OF inv] single by (auto simp: tracker_wf_def pool_laws intro: list_all_update)
  moreover have "\<forall>p b. map_of (nodeBudgets ?t') p = Some b \<longrightarrow> Allocated b = pool_sum p (allocations ?t')"
    using single_entry_pool [OF single, of c] single_entry_pool [OF singlea, of d]
    by (auto simp del: putAllocation_fields(3)
        simp: pool_laws acc old pool_sum_put_old [where a = a] split: if_splits)
  ultimately show ?thesis
    by (simp add: tracker_inv_def accounted_lookup tracker_wf_def)
qed

lemma inv_SyncAllocation:
  assumes "tracker_inv t" and "single_entry sel" and "SyncAllocation Q ch n ns ms sel t = Inr (r, t')"
  shows "tracker_inv t'"
  using assms inv_charge_new [OF assms(1,2)]
  by (auto simp: SyncAllocation_def split: option.splits sum.splits)

lemma inv_Allocate:
  assumes "tracker_inv t" and "single_entry sel" and "Allocate Q ch n ns ms sel t = Inr (r, t')"
  shows "tracker_inv t'"
  using assms inv_charge_new [OF assms(1,2)] inv_charge_old [OF assms(1,2)]
  by (auto simp: Allocate_def Let_def split: option.splits sum.splits bool.splits)

lemma inv_ReleaseModel:
  assumes inv: "tracker_inv t"
  shows "tracker_inv (ReleaseModel ch n ns t)"
proof (cases "map_of (allocations t) (modelKey n ns)")
  case None
  then show ?thesis using inv by (simp add: ReleaseModel_def)
next
  case (Some a)
  have single: "single_entry (ma_NodeSelector a)"
    using alloc_single_entry [OF tracker_invD(1) [OF inv] Some] .
  have wf: "tracker_wf (ReleaseModel ch n ns t)"
    using tracker_invD(1) [OF inv] Some
    by (auto simp: ReleaseModel_def tracker_wf_def pool_laws Let_def intro: list_all_delete)
  moreover have "\<forall>p b. map_of (nodeBudgets (ReleaseModel ch n ns t)) p = Some b
      \<longrightarrow> Allocated b = pool_sum p (allocations (ReleaseModel ch n ns t))"
    using tracker_invD(1) [OF inv] single_entry_pool [OF single, of "ch 0"] Some
    by (auto simp: ReleaseModel_def Let_def pool_laws tracker_invD(2) [OF inv] tracker_wf_def
        pool_sum_delete split: if_splits)
  ultimately show ?thesis
    by (simp add: tracker_inv_def accounted_lookup tracker_wf_def)
qed

lemma inv_SetNodeBudget:
  assumes inv: "tracker_inv t"
    and early: "map_of (nodeBudgets t) p = None \<Longrightarrow> pool_sum p (allocations t) = 0"
  shows "tracker_inv (SetNodeBudget p total_amount t)"
proof -
  have wf: "tracker_wf (SetNodeBudget p total_amount t)"
    using tracker_invD(1) [OF inv] by (auto simp: SetNodeBudget_def tracker_wf_def split: option.splits)
  moreover have "\<forall>q b. map_of (nodeBudgets (SetNodeBudget p total_amount t)) q = Some b
      \<longrightarrow> Allocated b = pool_sum q (allocations (SetNodeBudget p total_amount t))"
    using early by (auto simp: SetNodeBudget_def map_laws tracker_invD(2) [OF inv]
        split: option.splits if_splits)
  ultimately show ?thesis
    by (simp add: tracker_inv_def accounted_lookup tracker_wf_def)
qed

lemma inv_RecordUsage:
  assumes "tracker_inv t" and "RecordUsage n ns m t = Inr t'"
  shows "tracker_inv t'"
proof -
  have "keys_distinct (usageTracking t')"
    using assms by (auto simp: RecordUsage_def Let_def tracker_inv_def tracker_wf_def
        split: option.splits if_splits)
  with assms(1) RecordUsage_frame [OF assms(2)] show ?thesis
    by (simp add: tracker_inv_def tracker_wf_def accounted_def)
qed

text \<open>
  The operations that change a tracker, with whatever arguments, as one function: each is called under
  the mutex, and a call that panics (an unparsable memory text) leaves the tracker as it was.
\<close>

datatype 'q tracker_op =
    OpSync choice string string string selector
  | OpAllocate choice string string string selector
  | OpRelease choice string string
  | OpBudget string 'q
  | OpUsage string string "'q option"

fun tracker_run ::
  "'q::linordered_ab_group_add quantity_api \<Rightarrow> 'q tracker_op \<Rightarrow> 'q Tracker \<Rightarrow> 'q Tracker may_panic" where
  "tracker_run Q (OpSync ch n ns ms sel) t = map_sum id snd (SyncAllocation Q ch n ns ms sel t)"
| "tracker_run Q (OpAllocate ch n ns ms sel) t = map_sum id snd (Allocate Q ch n ns ms sel t)"
| "tracker_run Q (OpRelease ch n ns) t = Inr (ReleaseModel ch n ns t)"
| "tracker_run Q (OpBudget p amount) t = Inr (SetNodeBudget p amount t)"
| "tracker_run Q (OpUsage n ns obs) t = RecordUsage n ns obs t"

text \<open>The trackers that operations lead to from the new one, each operation as \<open>guard\<close> allows.\<close>

inductive tracker_reachable ::
  "'q::linordered_ab_group_add quantity_api \<Rightarrow> ('q tracker_op \<Rightarrow> 'q Tracker \<Rightarrow> bool) \<Rightarrow> 'q Tracker \<Rightarrow> bool"
  for Q guard where
  new: "tracker_reachable Q guard NewTracker"
| step: "tracker_reachable Q guard t \<Longrightarrow> guard op t \<Longrightarrow> tracker_run Q op t = Inr t' \<Longrightarrow>
    tracker_reachable Q guard t'"

text \<open>
  An orderly operation: models are placed through a selector of at most one entry, and a pool gets its
  first budget while the models in it, if any, add up to nothing. Nothing in the code enforces either.
\<close>

fun orderly :: "'q::ab_group_add tracker_op \<Rightarrow> 'q Tracker \<Rightarrow> bool" where
  "orderly (OpSync ch n ns ms sel) t \<longleftrightarrow> single_entry sel"
| "orderly (OpAllocate ch n ns ms sel) t \<longleftrightarrow> single_entry sel"
| "orderly (OpBudget p amount) t \<longleftrightarrow> (map_of (nodeBudgets t) p = None \<longrightarrow> pool_sum p (allocations t) = 0)"
| "orderly _ t \<longleftrightarrow> True"

lemma map_sum_snd_Inr: "map_sum id snd x = Inr t \<longleftrightarrow> (\<exists>r. x = Inr (r, t))"
  by (cases x) auto

lemma tracker_run_inv: "tracker_run Q op t = Inr t' \<Longrightarrow> orderly op t \<Longrightarrow> tracker_inv t \<Longrightarrow> tracker_inv t'"
  by (cases op) (auto simp: map_sum_snd_Inr intro: inv_SyncAllocation inv_Allocate inv_ReleaseModel
      inv_SetNodeBudget inv_RecordUsage)

lemma tracker_reachable_inv: "tracker_reachable Q orderly t \<Longrightarrow> tracker_inv t"
  by (induction rule: tracker_reachable.induct) (auto intro: tracker_inv_New tracker_run_inv)

lemma reachable_alloc:
  "tracker_reachable Q guard t \<Longrightarrow> guard (OpAllocate ch n ns ms sel) t \<Longrightarrow>
   Allocate Q ch n ns ms sel t = Inr (r, t') \<Longrightarrow> tracker_reachable Q guard t'"
  by (rule tracker_reachable.step) (auto simp: map_sum_snd_Inr)

lemma reachable_budget:
  "tracker_reachable Q orderly t \<Longrightarrow> (map_of (nodeBudgets t) p = None \<Longrightarrow> pool_sum p (allocations t) = 0) \<Longrightarrow>
   tracker_reachable Q orderly (SetNodeBudget p amount t)"
  by (erule tracker_reachable.step [where op = "OpBudget p amount"]) auto

text \<open>
  A quantity API over the integers, for the witnesses: a quantity is its number of bytes and its
  text is written in unary, one letter per byte.
\<close>

definition unary_api :: "int quantity_api" where
  "unary_api = \<lparr>ParseQuantity = (\<lambda>s. if s = '''' then None else Some (int (length s))),
                Value = word_of_int\<rparr>"

abbreviation first_choice :: choice where
  "first_choice \<equiv> (\<lambda>_. 0)"

definition demo_tracker :: "int Tracker" where
  "demo_tracker = \<lparr>
     nodeBudgets = [(''pool=a'', \<lparr>Total = 5, Allocated = 3\<rparr>)],
     allocations = [(''ns/m'', \<lparr>ma_Name = ''m'', ma_Namespace = ''ns'', ma_Memory = 3,
                               ma_NodeSelector = Some [(''pool'', ''a'')]\<rparr>)],
     usageTracking = []\<rparr>"

lemmas eval_budget = unary_api_def demo_tracker_def MustParse_def modelKey_def slash_key_def
  NewTracker_def SetNodeBudget_def Allocate_def canAllocateLocked_def CanAllocate_def
  SyncAllocation_def ReleaseModel_def addAllocated_def subAllocated_def putAllocation_def
  GetAvailableMemory_def GetAllocatedMemory_def GetAllocation_def GetTotalAllocatedMemory_def
  single_entry_def Let_def

lemma demo_tracker_steps:
  "SetNodeBudget ''pool=a'' 5 NewTracker
     = \<lparr>nodeBudgets = [(''pool=a'', \<lparr>Total = 5, Allocated = 0\<rparr>)], allocations = [],
        usageTracking = []\<rparr>"
  "Allocate unary_api first_choice ''m'' ''ns'' ''xxx'' (Some [(''pool'', ''a'')])
     \<lparr>nodeBudgets = [(''pool=a'', \<lparr>Total = 5, Allocated = 0\<rparr>)], allocations = [],
        usageTracking = []\<rparr> = Inr (True, demo_tracker)"
  by (simp_all add: eval_budget)

lemma demo_tracker_reachable: "tracker_reachable unary_api orderly demo_tracker"
proof -
  have "tracker_reachable unary_api orderly (SetNodeBudget ''pool=a'' 5 (NewTracker :: int Tracker))"
    by (rule reachable_budget [OF tracker_reachable.new]) (simp add: NewTracker_def pool_sum_def)
  then show ?thesis
    unfolding demo_tracker_steps(1)
    by (rule reachable_alloc [OF _ _ demo_tracker_steps(2)]) (simp add: single_entry_def)
qed

text \<open>Without the guard the accounts are false already after one allocation and one late budget.\<close>

lemma disorder_breaks_accounts:
  "\<exists>t. tracker_reachable unary_api (\<lambda>_ _. True) t \<and> pool_sum ''pool=a'' (allocations t) = 3
     \<and> GetAllocatedMemory first_choice (Some [(''pool'', ''a'')]) t = 0"
proof -
  obtain t where t: "Allocate unary_api first_choice ''m'' ''ns'' ''xxx'' (Some [(''pool'', ''a'')])
      (NewTracker :: int Tracker) = Inr (True, t)" "nodeBudgets t = []" "pool_sum ''pool=a'' (allocations t) = 3"
    by (simp add: eval_budget pool_sum_def)
  have "tracker_reachable unary_api (\<lambda>_ _. True) t"
    by (rule reachable_alloc [OF tracker_reachable.new _ t(1)]) simp
  then have "tracker_reachable unary_api (\<lambda>_ _. True) (SetNodeBudget ''pool=a'' 5 t)"
    by (rule tracker_reachable.step [where op = "OpBudget ''pool=a'' 5"]) simp_all
  with t show ?thesis
    by (intro exI [of _ "SetNodeBudget ''pool=a'' 5 t"]) (simp add: SetNodeBudget_def GetAllocatedMemory_def)
qed

lemma demo_tracker_inv: "tracker_inv demo_tracker"
  using tracker_reachable_inv [OF demo_tracker_reachable] .

section \<open>Properties of reachable trackers\<close>

text \<open>
  C15. In every tracker that orderly operations lead to, in any number and order, the memory reported
  as allocated in a pool that has a budget is the sum of the quantities of the models placed in that
  pool, and what is reported as available is exactly the rest of the pool's total. The operations are
  all those of the tracker; orderly means that models are placed through a selector of at most one
  entry and that a pool gets its first budget while the models in it add up to nothing. \<open>disorder_breaks_accounts\<close>,
  \<open>late_budget_ignores_models\<close> and \<open>two_entry_selector_leaks\<close> show that it is false without either.
\<close>

theorem reachable_accounts:
  assumes "tracker_reachable Q orderly t" and "single_entry sel"
    and "map_of (nodeBudgets t) (pool_of sel) = Some b"
  shows "GetAllocatedMemory ch sel t = pool_sum (pool_of sel) (allocations t)
    \<and> GetAvailableMemory ch sel t = Total b - pool_sum (pool_of sel) (allocations t)"
  using tracker_invD(2) [OF tracker_reachable_inv [OF assms(1)] assms(3)] assms(3)
  by (simp add: GetAllocatedMemory_def GetAvailableMemory_def single_entry_pool [OF assms(2)])

lemma reachable_accounts_witness:
  "GetAllocatedMemory first_choice (Some [(''pool'', ''a'')]) demo_tracker = 3
    \<and> GetAvailableMemory first_choice (Some [(''pool'', ''a'')]) demo_tracker = (5 :: int) - 3"
  using reachable_accounts [OF demo_tracker_reachable, of "Some [(''pool'', ''a'')]"
      "\<lparr>Total = 5, Allocated = 3\<rparr>" first_choice]
  by (simp add: single_entry_def demo_tracker_def pool_sum_def)

text \<open>The old allocation of the model, if any, sits in the pool it asks for again.\<close>

definition stays_in_pool :: "string \<Rightarrow> string \<Rightarrow> selector \<Rightarrow> 'q Tracker \<Rightarrow> bool" where
  "stays_in_pool n ns sel t =
     (case map_of (allocations t) (modelKey n ns) of
        None \<Rightarrow> True
      | Some a \<Rightarrow> pool_of (ma_NodeSelector a) = pool_of sel)"

text \<open>The sum a pool would carry with the model's own allocation replaced by \<open>m\<close>.\<close>

definition pool_demand ::
  "string \<Rightarrow> string \<Rightarrow> selector \<Rightarrow> 'q::ab_group_add \<Rightarrow> 'q Tracker \<Rightarrow> 'q" where
  "pool_demand n ns sel m t = pool_sum (pool_of sel) (allocations (putAllocation n ns m sel t))"

lemma pool_demand_new:
  "map_of (allocations t) (modelKey n ns) = None \<Longrightarrow>
   pool_demand n ns sel m t = pool_sum (pool_of sel) (allocations t) + m"
  unfolding pool_demand_def by (subst pool_sum_put_new) auto

lemma pool_demand_old:
  "map_of (allocations t) (modelKey n ns) = Some a \<Longrightarrow> pool_of (ma_NodeSelector a) = pool_of sel \<Longrightarrow>
   pool_demand n ns sel m t = pool_sum (pool_of sel) (allocations t) - ma_Memory a + m"
  unfolding pool_demand_def by (subst pool_sum_put_old) auto

lemma canAllocateLocked_demand:
  assumes inv: "tracker_inv t" and single: "single_entry sel" and stays: "stays_in_pool n ns sel t"
    and parse: "ParseQuantity Q ms = Some m"
  shows "canAllocateLocked Q ch n ns ms sel t = Inr (case map_of (nodeBudgets t) (pool_of sel) of
           None \<Rightarrow> True | Some b \<Rightarrow> pool_demand n ns sel m t \<le> Total b)"
proof -
  note acc = tracker_invD(2) [OF inv]
  show ?thesis
    using stays
    by (auto simp: canAllocateLocked_def MustParse_def parse single_entry_pool [OF single] acc
        stays_in_pool_def pool_demand_new pool_demand_old algebra_simps split: option.splits)
qed

lemma Allocate_iff_can:
  "(\<exists>t'. Allocate Q ch n ns ms sel t = Inr (r, t')) \<longleftrightarrow> canAllocateLocked Q ch n ns ms sel t = Inr r"
  by (auto simp: Allocate_def Let_def canAllocateLocked_def
      split: sum.splits bool.splits option.splits)

text \<open>
  C17. Admission is exact. In a tracker that orderly operations lead to, for a selector of at most one
  entry, a model that is new or stays in its pool and a memory text that parses, \<open>Allocate\<close> grants the
  request if and only if the pool has no budget or the models of the pool together with the request
  fit its total; a refused request leaves the tracker as it was. After a late budget, with a selector
  of two entries or for a model that changes pool this is not so (the last section of \<open>Budget_Spec\<close>).
\<close>

theorem Allocate_admission:
  assumes "tracker_reachable Q orderly t" and "single_entry sel" and "stays_in_pool n ns sel t"
    and "ParseQuantity Q ms = Some m"
  shows "\<exists>t'. Allocate Q ch n ns ms sel t = Inr
      ((case map_of (nodeBudgets t) (pool_of sel) of
          None \<Rightarrow> True | Some b \<Rightarrow> pool_demand n ns sel m t \<le> Total b), t')
    \<and> ((\<exists>b. map_of (nodeBudgets t) (pool_of sel) = Some b \<and> \<not> pool_demand n ns sel m t \<le> Total b)
        \<longrightarrow> t' = t)"
proof -
  note can = canAllocateLocked_demand [OF tracker_reachable_inv [OF assms(1)] assms(2-4), of ch]
  obtain t' where t': "Allocate Q ch n ns ms sel t = Inr ((case map_of (nodeBudgets t) (pool_of sel) of
          None \<Rightarrow> True | Some b \<Rightarrow> pool_demand n ns sel m t \<le> Total b), t')"
    using can Allocate_iff_can by blast
  with Allocate_False show ?thesis by fastforce
qed

lemma Allocate_admission_witness:
  "\<exists>t'. Allocate unary_api first_choice ''n'' ''ns'' ''xxx'' (Some [(''pool'', ''a'')]) demo_tracker
     = Inr (False, t') \<and> t' = demo_tracker"
  using Allocate_admission [OF demo_tracker_reachable, of "Some [(''pool'', ''a'')]" "''n''" "''ns''"
      "''xxx''" 3 first_choice]
  by (simp add: single_entry_def stays_in_pool_def eval_budget pool_demand_def pool_sum_def)

lemma total_after_Allocate:
  assumes "Allocate Q ch n ns ms sel t = Inr (True, t')"
  shows "map_of (nodeBudgets t') p = None \<longleftrightarrow> map_of (nodeBudgets t) p = None"
    and "map_of (nodeBudgets t) p = Some b \<Longrightarrow>
      \<exists>b'. map_of (nodeBudgets t') p = Some b' \<and> Total b' = Total b"
  using assms
  by (auto simp: Allocate_def Let_def pool_laws split: sum.splits bool.splits option.splits if_splits)

text \<open>
  No granted allocation overcommits its pool: after a grant to a model that is new or stays in
  its pool, the models of that pool fit its total, and every other pool carries the same models
  as before.
\<close>

theorem Allocate_fits:
  assumes "tracker_reachable Q orderly t" and "single_entry sel" and "stays_in_pool n ns sel t"
    and "Allocate Q ch n ns ms sel t = Inr (True, t')"
  shows "(case map_of (nodeBudgets t') (pool_of sel) of
            None \<Rightarrow> True
          | Some b \<Rightarrow> Allocated b = pool_sum (pool_of sel) (allocations t') \<and> Allocated b \<le> Total b)
    \<and> (\<forall>p. p \<noteq> pool_of sel \<longrightarrow> pool_sum p (allocations t') = pool_sum p (allocations t))"
proof -
  note inv = tracker_reachable_inv [OF assms(1)]
  obtain m where m: "ParseQuantity Q ms = Some m"
    and alloc: "allocations t' = allocations (putAllocation n ns m sel t)"
    using allocations_Allocate [OF assms(4)] by blast
  have "canAllocateLocked Q ch n ns ms sel t = Inr True"
    using assms(4) Allocate_iff_can by blast
  with canAllocateLocked_demand [OF inv assms(2,3) m]
  have fits: "map_of (nodeBudgets t) (pool_of sel) = Some b \<Longrightarrow> pool_sum (pool_of sel) (allocations t') \<le> Total b" for b
    by (auto simp: alloc pool_demand_def split: option.splits)
  have own: "case map_of (nodeBudgets t') (pool_of sel) of None \<Rightarrow> True
      | Some b \<Rightarrow> Allocated b = pool_sum (pool_of sel) (allocations t') \<and> Allocated b \<le> Total b"
  proof (cases "map_of (nodeBudgets t) (pool_of sel)")
    case None
    then show ?thesis using total_after_Allocate(1) [OF assms(4), of "pool_of sel"] by simp
  next
    case (Some b)
    then obtain b' where b': "map_of (nodeBudgets t') (pool_of sel) = Some b'" "Total b' = Total b"
      using total_after_Allocate(2) [OF assms(4)] by blast
    with tracker_invD(2) [OF inv_Allocate [OF inv assms(2,4)] b'(1)] fits [OF Some]
    show ?thesis by simp
  qed
  have "pool_sum p (allocations t') = pool_sum p (allocations t)" if "p \<noteq> pool_of sel" for p
  proof (cases "map_of (allocations t) (modelKey n ns)")
    case None
    then show ?thesis unfolding alloc using that by (subst pool_sum_put_new) auto
  next
    case (Some a)
    then show ?thesis unfolding alloc using that assms(3)
      by (subst pool_sum_put_old) (auto simp: stays_in_pool_def)
  qed
  with own show ?thesis by blast
qed

lemma Allocate_fits_witness:
  "\<exists>t'. Allocate unary_api first_choice ''m'' ''ns'' ''xxxxx'' (Some [(''pool'', ''a'')]) demo_tracker
     = Inr (True, t') \<and> pool_sum ''pool=a'' (allocations t') \<le> (5 :: int)"
proof -
  obtain t' where t': "Allocate unary_api first_choice ''m'' ''ns'' ''xxxxx''
      (Some [(''pool'', ''a'')]) demo_tracker = Inr (True, t')"
    and b: "map_of (nodeBudgets t') ''pool=a'' = Some \<lparr>Total = 5, Allocated = 5\<rparr>"
    by (simp add: eval_budget)
  show ?thesis
    using Allocate_fits [OF demo_tracker_reachable _ _ t'] t' b
    by (simp add: single_entry_def stays_in_pool_def eval_budget)
qed

text \<open>
  Release undoes allocate: granting memory to a model that held none and releasing it again
  restores the tracker exactly, whichever entry of the selector Go looks at first.
\<close>

theorem release_undoes_allocate:
  assumes "single_entry sel" and "GetAllocation n ns t = None"
    and "Allocate Q ch n ns ms sel t = Inr (True, t')"
  shows "ReleaseModel ch' n ns t' = t"
proof -
  have new: "map_of (allocations t) (modelKey n ns) = None"
    using assms(2) by (simp add: GetAllocation_def)
  then obtain m where t': "t' = addAllocated (pool_of sel) m (putAllocation n ns m sel t)"
    using assms(3)
    by (auto simp: Allocate_def Let_def single_entry_pool [OF assms(1)]
        split: sum.splits bool.splits if_splits)
  show ?thesis
    unfolding t'
    by (cases "map_of (nodeBudgets t) (pool_of sel)")
      (simp_all add: ReleaseModel_def Let_def subAllocated_def addAllocated_def map_laws
        single_entry_pool [OF assms(1)] update_in_place delete_update_absent [OF new])
qed

lemma release_undoes_allocate_witness:
  "ReleaseModel first_choice ''m'' ''ns'' demo_tracker
     = \<lparr>nodeBudgets = [(''pool=a'', \<lparr>Total = 5, Allocated = 0\<rparr>)], allocations = [],
        usageTracking = []\<rparr>"
  by (rule release_undoes_allocate [OF _ _ demo_tracker_steps(2)])
    (simp_all add: single_entry_def GetAllocation_def)

text \<open>
  The two copies of the admission test agree: what \<open>CanAllocate\<close> answers under the read lock is
  what \<open>canAllocateLocked\<close> decides inside \<open>Allocate\<close>, for a model that is new or not, panics
  included.
\<close>

theorem CanAllocate_agrees:
  assumes "single_entry sel"
  shows "CanAllocate Q ch n ns ms sel t = canAllocateLocked Q ch' n ns ms sel t"
  by (auto simp: CanAllocate_def canAllocateLocked_def Let_def single_entry_pool [OF assms]
      split: sum.splits option.splits)

lemma CanAllocate_agrees_witness:
  "CanAllocate unary_api first_choice ''m'' ''ns'' ''xx'' None demo_tracker
     = canAllocateLocked unary_api (\<lambda>_. 7) ''m'' ''ns'' ''xx'' None demo_tracker"
  by (rule CanAllocate_agrees) (simp add: single_entry_def)

end
