(* ===== verification/Budget_Spec.thy ===== *)
theory Budget_Spec
  imports Budget_Accounting
begin

text \<open>
  The budget tracker against an abstract ledger, the observed peaks, the recommendations, and the
  situations in which the tracker's accounts stop being true.
\<close>

section \<open>The ledger a tracker implements\<close>

text \<open>A ledger knows the limit of each pool and, per model key, the pool and the amount it holds.\<close>

record 'q ledger =
  limits :: "string \<Rightarrow> 'q option"
  placed :: "string \<Rightarrow> (string \<times> 'q) option"

definition ledger_of :: "'q Tracker \<Rightarrow> 'q ledger" where
  "ledger_of t = \<lparr>limits = (\<lambda>p. map_option Total (map_of (nodeBudgets t) p)),
     placed = (\<lambda>k. map_option (\<lambda>a. (pool_of (ma_NodeSelector a), ma_Memory a)) (map_of (allocations t) k))\<rparr>"

definition held_by_others :: "string \<Rightarrow> string \<Rightarrow> 'q::ab_group_add ledger \<Rightarrow> 'q" where
  "held_by_others k p L =
     (\<Sum>k' \<in> {k'. k' \<noteq> k \<and> (\<exists>m. placed L k' = Some (p, m))}. snd (the (placed L k')))"

definition ledger_admits :: "string \<Rightarrow> string \<Rightarrow> 'q::linordered_ab_group_add \<Rightarrow> 'q ledger \<Rightarrow> bool" where
  "ledger_admits k p m L =
     (case limits L p of None \<Rightarrow> True | Some l \<Rightarrow> held_by_others k p L + m \<le> l)"

definition ledger_place :: "string \<Rightarrow> string \<Rightarrow> 'q \<Rightarrow> 'q ledger \<Rightarrow> 'q ledger" where
  "ledger_place k p m L = L\<lparr>placed := (placed L)(k \<mapsto> (p, m))\<rparr>"

definition ledger_drop :: "string \<Rightarrow> 'q ledger \<Rightarrow> 'q ledger" where
  "ledger_drop k L = L\<lparr>placed := (placed L)(k := None)\<rparr>"

lemma entry_sum_dom:
  "keys_distinct m \<Longrightarrow> entry_sum f m = (\<Sum>k \<in> dom (map_of m). f (the (map_of m k)))"
proof (induction m)
  case Nil
  then show ?case by simp
next
  case (Cons e m)
  obtain k v where e: "e = (k, v)" by (cases e)
  with Cons.prems have fresh: "k \<notin> dom (map_of m)" by (simp add: dom_map_of_conv_image_fst)
  then have "(\<Sum>k' \<in> dom (map_of m). f (the (map_of (e # m) k')))
      = (\<Sum>k' \<in> dom (map_of m). f (the (map_of m k')))"
    by (intro sum.cong) (auto simp: e)
  moreover have D: "dom (map_of (e # m)) = insert k (dom (map_of m))" by (auto simp: e)
  ultimately show ?case
    unfolding D using Cons fresh by (subst sum.insert) (simp_all add: e finite_dom_map_of)
qed

lemma pool_sum_others:
  assumes "keys_distinct (allocations t)"
  shows "pool_demand n ns sel m t = held_by_others (modelKey n ns) (pool_of sel) (ledger_of t) + m"
proof -
  let ?k = "modelKey n ns" and ?p = "pool_of sel" and ?al = "allocations t"
  let ?new = "\<lparr>ma_Name = n, ma_Namespace = ns, ma_Memory = m, ma_NodeSelector = sel\<rparr>"
  let ?f = "\<lambda>a. if pool_of (ma_NodeSelector a) = ?p then ma_Memory a else 0"
  let ?g = "\<lambda>k'. ?f (the (map_of ?al k'))"
  have fin: "finite (dom (map_of ?al))" by (rule finite_dom_map_of)
  have split: "dom (map_of (AList.update ?k ?new ?al)) = insert ?k (dom (map_of ?al) - {?k})"
    by (auto simp: map_laws dom_def split: if_splits)
  have "pool_demand n ns sel m t
      = (\<Sum>k' \<in> insert ?k (dom (map_of ?al) - {?k}). ?f (the (map_of (AList.update ?k ?new ?al) k')))"
    unfolding pool_demand_def pool_sum_def putAllocation_fields(3)
    by (subst entry_sum_dom) (simp_all add: assms split)
  also have "\<dots> = ?f ?new + (\<Sum>k' \<in> dom (map_of ?al) - {?k}. ?f (the (map_of (AList.update ?k ?new ?al) k')))"
    using fin by (subst sum.insert) (simp_all add: map_of_update)
  also have "\<dots> = m + (\<Sum>k' \<in> dom (map_of ?al) - {?k}. ?g k')"
    by (intro arg_cong2 [where f = "(+)"] sum.cong) (auto simp: map_of_update)
  also have "(\<Sum>k' \<in> dom (map_of ?al) - {?k}. ?g k')
      = (\<Sum>k' \<in> {k'. k' \<noteq> ?k \<and> (\<exists>m. placed (ledger_of t) k' = Some (?p, m))}. ?g k')"
    using fin by (intro sum.mono_neutral_right) (auto simp: ledger_of_def)
  also have "\<dots> = held_by_others ?k ?p (ledger_of t)"
    unfolding held_by_others_def by (intro sum.cong) (auto simp: ledger_of_def)
  finally show ?thesis by (simp add: add.commute)
qed

lemma limits_unchanged:
  "limits (ledger_of (addAllocated p m t)) = limits (ledger_of t)"
  "limits (ledger_of (subAllocated p m t)) = limits (ledger_of t)"
  "limits (ledger_of (putAllocation n ns m sel t)) = limits (ledger_of t)"
  by (auto simp: ledger_of_def pool_laws fun_eq_iff option.map_comp comp_def split: if_splits)

lemma placed_put:
  "placed (ledger_of (addAllocated p m' (putAllocation n ns m sel t)))
     = (placed (ledger_of t))(modelKey n ns \<mapsto> (pool_of sel, m))"
  by (auto simp: ledger_of_def map_laws fun_eq_iff)

lemma ledger_eqI: "limits L = limits L' \<Longrightarrow> placed L = placed L' \<Longrightarrow> L = (L' :: 'q ledger)"
  by (cases L; cases L') simp

lemma ledger_of_grant:
  assumes "Allocate Q ch n ns ms sel t = Inr (True, t')" and "ParseQuantity Q ms = Some m"
  shows "ledger_of t' = ledger_place (modelKey n ns) (pool_of sel) m (ledger_of t)"
proof -
  have parse: "MustParse Q ms = Inr m" by (simp add: MustParse_def assms(2))
  have "allocations t' = allocations (putAllocation n ns m sel t)"
    using allocations_Allocate [OF assms(1)] assms(2) by auto
  moreover have "limits (ledger_of t') = limits (ledger_of t)"
    using assms(1) by (auto simp: Allocate_def Let_def parse limits_unchanged
        split: sum.splits bool.splits option.splits)
  ultimately show ?thesis
    by (intro ledger_eqI) (auto simp: ledger_place_def ledger_of_def map_laws fun_eq_iff)
qed

definition ledger_limit :: "string \<Rightarrow> 'q \<Rightarrow> 'q ledger \<Rightarrow> 'q ledger" where
  "ledger_limit p m L = L\<lparr>limits := (limits L)(p \<mapsto> m)\<rparr>"

lemma ledger_of_SetNodeBudget: "ledger_of (SetNodeBudget p m t) = ledger_limit p m (ledger_of t)"
  by (intro ledger_eqI)
    (auto simp: ledger_limit_def ledger_of_def SetNodeBudget_def map_laws fun_eq_iff split: option.splits)

lemma ledger_of_sync:
  assumes "ParseQuantity Q ms = Some m"
  shows "\<exists>t'. SyncAllocation Q ch n ns ms sel t = Inr (placed (ledger_of t) (modelKey n ns) = None, t')
    \<and> ledger_of t' = (if placed (ledger_of t) (modelKey n ns) = None
         then ledger_place (modelKey n ns) (nodeSelectorKey 0 sel) m (ledger_of t) else ledger_of t)"
proof (cases "map_of (allocations t) (modelKey n ns)")
  case None
  then have "SyncAllocation Q ch n ns ms sel t
      = Inr (True, addAllocated (nodeSelectorKey (ch 0) sel) m (putAllocation n ns m sel t))"
    by (simp add: SyncAllocation_def MustParse_def assms)
  moreover have "ledger_of (addAllocated (nodeSelectorKey (ch 0) sel) m (putAllocation n ns m sel t))
      = ledger_place (modelKey n ns) (nodeSelectorKey 0 sel) m (ledger_of t)"
    by (intro ledger_eqI) (simp_all add: ledger_place_def limits_unchanged placed_put pool_of_def)
  ultimately show ?thesis using None by (simp add: ledger_of_def)
next
  case (Some a)
  then show ?thesis by (simp add: SyncAllocation_def ledger_of_def)
qed

text \<open>
  C16. Refinement. In a tracker that orderly operations lead to, for a selector of at most one entry,
  a model that is new or stays in its pool and a memory text that parses: seen through the abstraction
  that keeps only pool limits and who holds how much where, \<open>Allocate\<close> is the ledger's own admission (what the other models of the pool hold, plus the
  request, against the limit) followed by placing the model, \<open>SyncAllocation\<close> places a model that holds
  nothing whatever the limit, \<open>ReleaseModel\<close> drops the model and \<open>SetNodeBudget\<close> changes one limit.
  \<open>pool_move_overcommits\<close> shows what happens to a model that changes pool.
\<close>

theorem tracker_refines_ledger:
  assumes "tracker_reachable Q orderly t" and "single_entry sel" and "stays_in_pool n ns sel t"
    and "ParseQuantity Q ms = Some m"
  shows "(\<exists>t'. Allocate Q ch n ns ms sel t
        = Inr (ledger_admits (modelKey n ns) (pool_of sel) m (ledger_of t), t')
      \<and> ledger_of t' = (if ledger_admits (modelKey n ns) (pool_of sel) m (ledger_of t)
                         then ledger_place (modelKey n ns) (pool_of sel) m (ledger_of t)
                         else ledger_of t))
    \<and> (\<exists>t'. SyncAllocation Q ch n ns ms sel t = Inr (placed (ledger_of t) (modelKey n ns) = None, t')
      \<and> ledger_of t' = (if placed (ledger_of t) (modelKey n ns) = None
           then ledger_place (modelKey n ns) (pool_of sel) m (ledger_of t) else ledger_of t))
    \<and> ledger_of (ReleaseModel ch n ns t) = ledger_drop (modelKey n ns) (ledger_of t)
    \<and> ledger_of (SetNodeBudget p limit t) = ledger_limit p limit (ledger_of t)"
proof -
  note inv = tracker_reachable_inv [OF assms(1)]
  have distinct: "keys_distinct (allocations t)"
    using tracker_invD(1) [OF inv] by (simp add: tracker_wf_def)
  have admits: "(case map_of (nodeBudgets t) (pool_of sel) of None \<Rightarrow> True
      | Some b \<Rightarrow> pool_demand n ns sel m t \<le> Total b)
    = ledger_admits (modelKey n ns) (pool_of sel) m (ledger_of t)"
    by (simp add: ledger_admits_def ledger_of_def pool_sum_others [OF distinct, unfolded ledger_of_def]
        split: option.splits)
  have "canAllocateLocked Q ch n ns ms sel t
      = Inr (ledger_admits (modelKey n ns) (pool_of sel) m (ledger_of t))"
    using canAllocateLocked_demand [OF inv assms(2-4), of ch] unfolding admits .
  then obtain t' where t': "Allocate Q ch n ns ms sel t
      = Inr (ledger_admits (modelKey n ns) (pool_of sel) m (ledger_of t), t')"
    unfolding Allocate_iff_can [symmetric] by blast
  have "ledger_of t' = (if ledger_admits (modelKey n ns) (pool_of sel) m (ledger_of t)
      then ledger_place (modelKey n ns) (pool_of sel) m (ledger_of t) else ledger_of t)"
  proof (cases "ledger_admits (modelKey n ns) (pool_of sel) m (ledger_of t)")
    case True
    with t' ledger_of_grant [OF _ assms(4)] show ?thesis by simp
  next
    case False
    with t' Allocate_False show ?thesis by fastforce
  qed
  moreover have "ledger_of (ReleaseModel ch n ns t) = ledger_drop (modelKey n ns) (ledger_of t)"
    by (intro ledger_eqI)
      (auto simp: ReleaseModel_def Let_def ledger_drop_def ledger_of_def map_laws pool_laws
        fun_eq_iff option.map_comp comp_def split: option.splits)
  moreover note ledger_of_sync [OF assms(4), of ch n ns sel t, folded pool_of_def] ledger_of_SetNodeBudget
  ultimately show ?thesis using t' by blast
qed

lemma tracker_refines_ledger_witness:
  "ledger_of (ReleaseModel first_choice ''m'' ''ns'' demo_tracker)
     = ledger_drop ''ns/m'' (ledger_of demo_tracker)"
  using tracker_refines_ledger [OF demo_tracker_reachable, of "Some [(''pool'', ''a'')]" "''m''" "''ns''"
      "''x''" 1 first_choice]
  by (simp add: single_entry_def stays_in_pool_def demo_tracker_def unary_api_def modelKey_def slash_key_def)

section \<open>Observed peaks\<close>

definition observed_peak :: "string \<Rightarrow> string \<Rightarrow> 'q Tracker \<Rightarrow> 'q option" where
  "observed_peak n ns t = Option.bind (map_of (usageTracking t) (modelKey n ns)) us_observedPeak"

text \<open>The reconciler's sequence of observations of one model.\<close>

fun record_all :: "string \<Rightarrow> string \<Rightarrow> 'q::linorder list \<Rightarrow> 'q Tracker \<Rightarrow> 'q Tracker may_panic" where
  "record_all n ns [] t = Inr t"
| "record_all n ns (m # ms) t =
     (case RecordUsage n ns (Some m) t of Inl p \<Rightarrow> Inl p | Inr t' \<Rightarrow> record_all n ns ms t')"

lemma RecordUsage_peak:
  fixes m :: "'q::linorder"
  shows "\<exists>t'. RecordUsage n ns (Some m) t = Inr t'
    \<and> observed_peak n ns t' = Some (case observed_peak n ns t of None \<Rightarrow> m | Some p \<Rightarrow> max p m)
    \<and> (\<forall>n' ns'. modelKey n' ns' \<noteq> modelKey n ns \<longrightarrow> observed_peak n' ns' t' = observed_peak n' ns' t)"
  by (auto simp: RecordUsage_def observed_peak_def Let_def map_laws max_def split: option.splits)

lemma record_all_peak:
  fixes ms :: "'q::linorder list"
  assumes "observed_peak n ns t = Some p"
  shows "\<exists>t'. record_all n ns ms t = Inr t' \<and> observed_peak n ns t' = Some (fold max ms p)"
  using assms
proof (induction ms arbitrary: t p)
  case Nil
  then show ?case by simp
next
  case (Cons m ms)
  obtain t' where "RecordUsage n ns (Some m) t = Inr t'" and "observed_peak n ns t' = Some (max p m)"
    using RecordUsage_peak [of n ns m t] Cons.prems by auto
  with Cons.IH [of t' "max p m"] show ?case by (simp add: max.commute)
qed

text \<open>
  The recorded peak of a model is the maximum of everything observed of it: no sequence of
  observations panics, the peak afterwards is their maximum (with an earlier peak, if there was
  one), in whatever order they came.
\<close>

theorem peak_is_maximum:
  fixes m :: "'q::linorder"
  shows "\<exists>t'. record_all n ns (m # ms) t = Inr t'
    \<and> observed_peak n ns t' = Some (Max (set (m # ms) \<union> set_option (observed_peak n ns t)))"
proof -
  let ?p = "case observed_peak n ns t of None \<Rightarrow> m | Some p \<Rightarrow> max p m"
  obtain t1 where t1: "RecordUsage n ns (Some m) t = Inr t1" "observed_peak n ns t1 = Some ?p"
    using RecordUsage_peak [of n ns m t] by blast
  have "fold max ms ?p = Max (set (m # ms) \<union> set_option (observed_peak n ns t))"
  proof (cases "observed_peak n ns t")
    case None
    then show ?thesis by (simp add: Max.set_eq_fold [symmetric])
  next
    case (Some p)
    have "fold max ms (max p m) = Max (set (max p m # ms))" by (rule Max.set_eq_fold [symmetric])
    also have "\<dots> = Max (set (p # m # ms))"
      by (cases "ms = []") (simp_all add: max.assoc)
    finally show ?thesis using Some by (simp add: insert_commute)
  qed
  with t1 record_all_peak [OF t1(2), of ms] show ?thesis by simp
qed

section \<open>Recommendations\<close>

text \<open>What the code relies on of \<open>float64\<close> rounding: it is monotone, projects, and keeps 0 and 1.\<close>

definition float_rounding :: "rounding \<Rightarrow> bool" where
  "float_rounding fl \<longleftrightarrow> mono fl \<and> (\<forall>x. fl (fl x) = fl x) \<and> fl 0 = 0 \<and> fl 1 = 1"

lemma recommended_bytes_cover:
  assumes "float_rounding fl" and "0 \<le> r" and "fl r = r"
  shows "r \<le> of_int (recommended_bytes fl r)"
proof -
  have "fl 1 \<le> fl (11 / 10)"
    using assms(1) monoD [of fl 1 "11 / 10"] by (simp add: float_rounding_def)
  then have "r * 1 \<le> r * fl (11 / 10)"
    using assms by (intro mult_left_mono) (auto simp: float_rounding_def)
  then have "fl r \<le> fl (r * fl (11 / 10))"
    using assms(1) monoD [of fl r "r * fl (11 / 10)"] by (simp add: float_rounding_def)
  also have "\<dots> \<le> of_int (recommended_bytes fl r)"
    by (simp add: recommended_bytes_def)
  finally show ?thesis using assms(3) by simp
qed

text \<open>
  A recommendation is safe and is given when it should be: for a model with an observed peak and
  a positive declared memory, \<open>GetUtilization\<close> recommends a reduction exactly when the utilization
  is below the threshold, and the recommended size is never below the observed peak.
\<close>

theorem recommendation_covers_peak:
  assumes "float_rounding fl" and "ParseQuantity Q ms = Some declared"
    and "observed_peak n ns t = Some peak" and "0 \<le> sint (Value Q peak)"
    and "0 < float_of fl (Value Q declared)"
  shows "\<exists>info. GetUtilization Q fl n ns ms t = Inr info \<and> ui_ObservedPeak info = Some peak
    \<and> ui_Utilization info = fl (float_of fl (Value Q peak) / float_of fl (Value Q declared))
    \<and> (ui_Recommendation info \<noteq> NoRecommendation \<longleftrightarrow> ui_Utilization info < fl (9 / 10))
    \<and> (\<forall>d bytes p pct. ui_Recommendation info = ConsiderReducing d bytes p pct
         \<longrightarrow> d = declared \<and> p = peak \<and> float_of fl (Value Q peak) \<le> of_int bytes)"
proof -
  obtain us where us: "map_of (usageTracking t) (modelKey n ns) = Some us" "us_observedPeak us = Some peak"
    using assms(3) by (auto simp: observed_peak_def bind_eq_Some_conv)
  have "0 \<le> float_of fl (Value Q peak)"
  proof -
    have "(0 :: rat) \<le> of_int (sint (Value Q peak))"
      using assms(4) by (simp only: of_int_0_le_iff)
    moreover have "mono fl" and "fl 0 = 0" using assms(1) by (simp_all add: float_rounding_def)
    ultimately show ?thesis unfolding float_of_def by (metis monoD)
  qed
  moreover have "fl (float_of fl (Value Q peak)) = float_of fl (Value Q peak)"
    using assms(1) by (simp add: float_of_def float_rounding_def)
  ultimately have "float_of fl (Value Q peak) \<le> of_int (recommended_bytes fl (float_of fl (Value Q peak)))"
    by (rule recommended_bytes_cover [OF assms(1)])
  then show ?thesis
    using assms(5) by (simp add: GetUtilization_def MustParse_def assms(2) us Let_def)
qed

lemma recommendation_covers_peak_witness:
  "\<exists>info. GetUtilization unary_api id ''m'' ''ns'' ''xxxx''
       (\<lparr>nodeBudgets = [], allocations = [], usageTracking =
          [(''ns/m'', \<lparr>us_name = ''m'', us_namespace = ''ns'', us_observedPeak = Some 2\<rparr>)]\<rparr>) = Inr info
     \<and> ui_Utilization info = 1 / 2 \<and> ui_Recommendation info \<noteq> NoRecommendation"
  using recommendation_covers_peak [of id unary_api "''xxxx''" 4 "''m''" "''ns''"
      "\<lparr>nodeBudgets = [], allocations = [], usageTracking =
          [(''ns/m'', \<lparr>us_name = ''m'', us_namespace = ''ns'', us_observedPeak = Some 2\<rparr>)]\<rparr>" 2]
  by (auto simp: float_rounding_def unary_api_def observed_peak_def modelKey_def slash_key_def
      float_of_def mono_def)

section \<open>Where the accounts stop being true\<close>

text \<open>
  A budget set late starts from zero: when \<open>SetNodeBudget\<close> introduces a pool that already holds
  models, the whole total is reported as available, whatever the pool holds.
\<close>

theorem late_budget_ignores_models:
  assumes "single_entry sel" and "map_of (nodeBudgets t) (pool_of sel) = None"
  shows "GetAvailableMemory ch sel (SetNodeBudget (pool_of sel) amount t) = amount
    \<and> GetAllocatedMemory ch sel (SetNodeBudget (pool_of sel) amount t) = 0
    \<and> allocations (SetNodeBudget (pool_of sel) amount t) = allocations t"
  using assms(2)
  by (simp add: GetAvailableMemory_def GetAllocatedMemory_def SetNodeBudget_def map_laws
      single_entry_pool [OF assms(1)])

lemma late_budget_ignores_models_witness:
  "\<exists>t. pool_sum ''default'' (allocations t) = (8 :: int)
     \<and> GetAvailableMemory first_choice None (SetNodeBudget ''default'' 5 t) = 5"
proof -
  let ?t = "\<lparr>nodeBudgets = [], allocations = [(''ns/m'', \<lparr>ma_Name = ''m'', ma_Namespace = ''ns'',
    ma_Memory = 8, ma_NodeSelector = None\<rparr>)], usageTracking = []\<rparr> :: int Tracker"
  have "GetAvailableMemory first_choice None (SetNodeBudget ''default'' 5 ?t) = 5"
    using late_budget_ignores_models [of None ?t first_choice 5] by (simp add: single_entry_def)
  then show ?thesis by (intro exI [of _ ?t]) (simp add: pool_sum_def)
qed

definition moved_tracker :: "int Tracker" where
  "moved_tracker = \<lparr>
     nodeBudgets = [(''pool=a'', \<lparr>Total = 5, Allocated = 0\<rparr>), (''pool=b'', \<lparr>Total = 3, Allocated = 8\<rparr>)],
     allocations = [(''ns/m'', \<lparr>ma_Name = ''m'', ma_Namespace = ''ns'', ma_Memory = 8,
                               ma_NodeSelector = Some [(''pool'', ''b'')]\<rparr>)],
     usageTracking = []\<rparr>"

text \<open>
  A model that changes pool can overcommit the new one: the admission test subtracts the model's
  old allocation from the pool it moves to, although that pool never carried it. From a reachable
  tracker whose pools fit, \<open>Allocate\<close> grants eight bytes in a pool of three.
\<close>

theorem pool_move_overcommits:
  "tracker_reachable unary_api orderly (SetNodeBudget ''pool=b'' 3
      (SetNodeBudget ''pool=a'' 5 (demo_tracker\<lparr>allocations := [], nodeBudgets := []\<rparr>)))
   \<and> (\<exists>t1. Allocate unary_api first_choice ''m'' ''ns'' ''xxxxx'' (Some [(''pool'', ''a'')])
         (SetNodeBudget ''pool=b'' 3 (SetNodeBudget ''pool=a'' 5
            (demo_tracker\<lparr>allocations := [], nodeBudgets := []\<rparr>))) = Inr (True, t1)
      \<and> Allocate unary_api first_choice ''m'' ''ns'' ''xxxxxxxx'' (Some [(''pool'', ''b'')]) t1
          = Inr (True, moved_tracker)
      \<and> pool_sum ''pool=b'' (allocations moved_tracker) = 8)"
proof -
  have empty: "demo_tracker\<lparr>allocations := [], nodeBudgets := []\<rparr> = NewTracker"
    by (simp add: demo_tracker_def NewTracker_def)
  have "tracker_reachable unary_api orderly (SetNodeBudget ''pool=b'' 3 (SetNodeBudget ''pool=a'' 5 (NewTracker :: int Tracker)))"
    by (intro reachable_budget tracker_reachable.new) (simp_all add: NewTracker_def pool_sum_def SetNodeBudget_def)
  then show ?thesis
    unfolding empty by (simp add: eval_budget moved_tracker_def pool_sum_def)
qed

text \<open>
  A selector with two entries leaks: the code keys a pool by whichever entry the \<open>range\<close> loop
  yields first, so an allocation charged to one entry's pool can be released from the other's. The
  model is gone, one pool stays charged and the other goes negative.
\<close>

theorem two_entry_selector_leaks:
  "\<exists>t. Allocate unary_api (\<lambda>_. 0) ''m'' ''ns'' ''xxx'' (Some [(''gpu'', ''a''), (''zone'', ''b'')])
        \<lparr>nodeBudgets = [(''gpu=a'', \<lparr>Total = 5, Allocated = 0\<rparr>), (''zone=b'', \<lparr>Total = 5, Allocated = 0\<rparr>)],
           allocations = [], usageTracking = []\<rparr> = Inr (True, t)
     \<and> ReleaseModel (\<lambda>_. 1) ''m'' ''ns'' t =
        \<lparr>nodeBudgets = [(''gpu=a'', \<lparr>Total = 5, Allocated = 3\<rparr>), (''zone=b'', \<lparr>Total = 5, Allocated = - 3\<rparr>)],
           allocations = [], usageTracking = []\<rparr>"
  by (simp add: eval_budget)

end
