(* ===== verification/Go_Strings.thy ===== *)
theory Go_Strings
  imports Prelude
begin

text \<open>
  What the code uses of Go's \<open>strings\<close> and \<open>path/filepath\<close>, on strings of characters and slash-separated paths.
\<close>

section \<open>Strings\<close>

text \<open>\<open>strings.ReplaceAll\<close> for a non-empty pattern: leftmost occurrences, without overlap.\<close>

function ReplaceAll :: "string \<Rightarrow> string \<Rightarrow> string \<Rightarrow> string" where
  "ReplaceAll s pat new =
     (case s of
        [] \<Rightarrow> []
      | c # cs \<Rightarrow>
          if pat \<noteq> [] \<and> take (length pat) s = pat then new @ ReplaceAll (drop (length pat) s) pat new
          else c # ReplaceAll cs pat new)"
  by auto
termination by (relation "measure (\<lambda>(s, pat, new). length s)") auto

declare ReplaceAll.simps [simp del]

text \<open>\<open>strings.Contains\<close>\<close>

fun Contains :: "string \<Rightarrow> string \<Rightarrow> bool" where
  "Contains [] pat = (pat = [])"
| "Contains (c # s) pat = (take (length pat) (c # s) = pat \<or> Contains s pat)"

text \<open>\<open>strings.HasPrefix\<close>, \<open>strings.TrimPrefix\<close> and \<open>strings.SplitN\<close> for a separator of one character and \<open>n > 0\<close>.\<close>

definition HasPrefix :: "string \<Rightarrow> string \<Rightarrow> bool" where
  "HasPrefix s pre = (take (length pre) s = pre)"

definition TrimPrefix :: "string \<Rightarrow> string \<Rightarrow> string" where
  "TrimPrefix s pre = (if HasPrefix s pre then drop (length pre) s else s)"

fun SplitN :: "char \<Rightarrow> nat \<Rightarrow> string \<Rightarrow> string list" where
  "SplitN sep 0 s = []"
| "SplitN sep (Suc n) s =
     (if n > 0 \<and> sep \<in> set s
      then takeWhile (\<lambda>c. c \<noteq> sep) s # SplitN sep n (tl (dropWhile (\<lambda>c. c \<noteq> sep) s))
      else [s])"

section \<open>Paths, as \<open>path/filepath\<close> computes them\<close>

fun split_on :: "char \<Rightarrow> string \<Rightarrow> string list" where
  "split_on c [] = [[]]"
| "split_on c (x # xs) =
     (if x = c then [] # split_on c xs
      else case split_on c xs of [] \<Rightarrow> [[x]] | w # ws \<Rightarrow> (x # w) # ws)"

fun join_with :: "string \<Rightarrow> string list \<Rightarrow> string" where
  "join_with sep [] = []"
| "join_with sep [w] = w"
| "join_with sep (w # v # ws) = w @ sep @ join_with sep (v # ws)"

text \<open>The parts kept so far are on a stack, the innermost first.\<close>

fun clean_parts :: "bool \<Rightarrow> string list \<Rightarrow> string list \<Rightarrow> string list" where
  "clean_parts rooted stack [] = rev stack"
| "clean_parts rooted stack (p # ps) =
     (if p = '''' \<or> p = ''.'' then clean_parts rooted stack ps
      else if p = ''..'' then
        (case stack of
           [] \<Rightarrow> clean_parts rooted (if rooted then [] else [p]) ps
         | a # as \<Rightarrow> if a = ''..'' then clean_parts rooted (p # stack) ps else clean_parts rooted as ps)
      else clean_parts rooted (p # stack) ps)"

definition Clean :: "string \<Rightarrow> string" where
  "Clean p = (case p of
       [] \<Rightarrow> ''.''
     | c # _ \<Rightarrow>
         (let rooted = (c = CHR ''/''); parts = clean_parts rooted [] (split_on (CHR ''/'') p)
          in if rooted then ''/'' @ join_with ''/'' parts
             else if parts = [] then ''.'' else join_with ''/'' parts))"

definition Join :: "string list \<Rightarrow> string" where
  "Join elems = (let es = filter (\<lambda>e. e \<noteq> '''') elems in if es = [] then '''' else Clean (join_with ''/'' es))"

text \<open>\<open>filepath.Dir\<close>: everything before the last slash, cleaned.\<close>

definition Dir :: "string \<Rightarrow> string" where
  "Dir p = Clean (rev (dropWhile (\<lambda>c. c \<noteq> CHR ''/'') (rev p)))"

text \<open>\<open>filepath.Ext\<close>: the suffix from the last dot of the last element.\<close>

definition Ext :: "string \<Rightarrow> string" where
  "Ext p = (let r = rev p; base = takeWhile (\<lambda>c. c \<noteq> CHR ''/'') r in
     if CHR ''.'' \<in> set base then CHR ''.'' # rev (takeWhile (\<lambda>c. c \<noteq> CHR ''.'') base) else '''')"

text \<open>A path inside a directory.\<close>

definition under :: "string \<Rightarrow> string \<Rightarrow> bool" where
  "under dir p = (p = dir \<or> take (length dir + 1) p = dir @ ''/'')"

section \<open>Paths of plain elements\<close>

text \<open>An element of a path that cleaning keeps: a name, without slashes, other than the two dot names.\<close>

definition plain :: "string \<Rightarrow> bool" where
  "plain w \<longleftrightarrow> w \<noteq> '''' \<and> w \<noteq> ''.'' \<and> w \<noteq> ''..'' \<and> CHR ''/'' \<notin> set w"

definition abs_path :: "string list \<Rightarrow> string" where
  "abs_path ws = ''/'' @ join_with ''/'' ws"

lemma split_on_nonempty [simp]: "split_on c s \<noteq> []"
  by (induction s) (auto split: list.splits)

lemma split_on_no_sep: "c \<notin> set w \<Longrightarrow> split_on c w = [w]"
  by (induction w) auto

lemma split_on_append: "c \<notin> set w \<Longrightarrow> split_on c (w @ c # s) = w # split_on c s"
  by (induction w) auto

lemma join_with_Cons: "ws \<noteq> [] \<Longrightarrow> join_with sep (w # ws) = w @ sep @ join_with sep ws"
  by (cases ws) auto

lemma split_join:
  "ws \<noteq> [] \<Longrightarrow> list_all plain ws \<Longrightarrow> split_on (CHR ''/'') (join_with ''/'' ws) = ws"
proof (induction ws rule: induct_list012)
  case 1
  then show ?case by simp
next
  case (2 w)
  then show ?case by (simp add: split_on_no_sep plain_def)
next
  case (3 w v ws)
  then show ?case by (simp add: split_on_append plain_def)
qed

lemma clean_parts_plain: "list_all plain ws \<Longrightarrow> clean_parts rooted stack ws = rev stack @ ws"
  by (induction ws arbitrary: stack) (auto simp: plain_def)

lemma join_with_append:
  "ws \<noteq> [] \<Longrightarrow> vs \<noteq> [] \<Longrightarrow> join_with sep (ws @ vs) = join_with sep ws @ sep @ join_with sep vs"
  by (induction ws rule: induct_list012) (auto simp: join_with_Cons)

lemma join_with_Nil_iff: "list_all plain ws \<Longrightarrow> join_with ''/'' ws = '''' \<longleftrightarrow> ws = []"
  by (induction ws rule: induct_list012) (auto simp: plain_def)

lemma Clean_abs: "list_all plain ws \<Longrightarrow> ws \<noteq> [] \<Longrightarrow> Clean (abs_path ws) = abs_path ws"
  by (simp add: Clean_def abs_path_def split_join clean_parts_plain)

lemma Join_abs:
  assumes "list_all plain ws" and "list_all plain vs" and "ws \<noteq> []" and "vs \<noteq> []"
  shows "Join [abs_path ws, join_with ''/'' vs] = abs_path (ws @ vs)"
proof -
  have "join_with ''/'' [abs_path ws, join_with ''/'' vs] = abs_path (ws @ vs)"
    using assms by (simp add: abs_path_def join_with_append)
  moreover have "list_all plain (ws @ vs)" using assms(1,2) by simp
  moreover have "filter (\<lambda>e. e \<noteq> '''') [abs_path ws, join_with ''/'' vs] = [abs_path ws, join_with ''/'' vs]"
    using assms by (simp add: abs_path_def join_with_Nil_iff)
  ultimately show ?thesis using assms by (simp add: Join_def Clean_abs)
qed

lemma Join_abs_one:
  "list_all plain ws \<Longrightarrow> plain w \<Longrightarrow> ws \<noteq> [] \<Longrightarrow> Join [abs_path ws, w] = abs_path (ws @ [w])"
  using Join_abs [of ws "[w]"] by simp

lemma Dir_abs:
  assumes "list_all plain ws" and "plain w" and "ws \<noteq> []"
  shows "Dir (abs_path (ws @ [w])) = abs_path ws"
proof -
  have p: "abs_path (ws @ [w]) = (abs_path ws @ ''/'') @ w"
    using assms by (simp add: abs_path_def join_with_append)
  have "dropWhile (\<lambda>c. c \<noteq> CHR ''/'') (rev w @ x # xs) = (if x = CHR ''/'' then x # xs else dropWhile (\<lambda>c. c \<noteq> CHR ''/'') xs)"
    for x xs using assms(2) by (subst dropWhile_append2) (auto simp: plain_def)
  then have "rev (dropWhile (\<lambda>c. c \<noteq> CHR ''/'') (rev (abs_path (ws @ [w])))) = abs_path ws @ ''/''"
    by (simp add: p)
  moreover have "Clean (abs_path ws @ ''/'') = abs_path ws"
  proof -
    have "split_on (CHR ''/'') (s @ ''/'') = split_on (CHR ''/'') s @ [[]]" for s
      using split_on_nonempty by (induction s) (auto split: list.splits simp del: split_on_nonempty)
    moreover have "clean_parts r st (xs @ [[]]) = clean_parts r st xs" for r st xs
      by (induction xs arbitrary: st) (auto split: list.splits)
    ultimately show ?thesis
      using assms by (simp add: Clean_def abs_path_def split_join clean_parts_plain)
  qed
  ultimately show ?thesis by (simp add: Dir_def)
qed

text \<open>Containment of paths is the prefix relation of their elements.\<close>

lemma join_prefix:
  assumes "list_all plain ws" and "list_all plain vs" and "ws \<noteq> []" and "vs \<noteq> []"
  shows "(\<exists>s. join_with ''/'' vs = join_with ''/'' ws @ ''/'' @ s) \<longleftrightarrow> (\<exists>us. us \<noteq> [] \<and> vs = ws @ us)"
  using assms
proof (induction ws arbitrary: vs rule: induct_list012)
  case 1
  then show ?case by simp
next
  case (2 w)
  obtain v us where vs: "vs = v # us" using 2 by (cases vs) auto
  show ?case
  proof (cases us)
    case Nil
    then show ?thesis using 2 vs by (auto simp: plain_def)
  next
    case (Cons u us')
    then have "join_with ''/'' vs = v @ CHR ''/'' # join_with ''/'' us" by (simp add: vs)
    with 2 vs Cons show ?thesis by (auto simp: plain_def append_sep_inject)
  qed
next
  case (3 w w' ws)
  obtain v us where vs: "vs = v # us" using 3 by (cases vs) auto
  show ?case
  proof (cases us)
    case Nil
    have "join_with ''/'' vs \<noteq> join_with ''/'' (w # w' # ws) @ ''/'' @ s" for s
    proof
      assume "join_with ''/'' vs = join_with ''/'' (w # w' # ws) @ ''/'' @ s"
      then have "CHR ''/'' \<in> set v" using Nil vs by simp
      with 3 vs show False by (simp add: plain_def)
    qed
    with Nil vs show ?thesis by auto
  next
    case (Cons u us')
    then have j: "join_with ''/'' vs = v @ CHR ''/'' # join_with ''/'' us" by (simp add: vs)
    have "CHR ''/'' \<notin> set v" "CHR ''/'' \<notin> set w" using 3 vs by (auto simp: plain_def)
    then have "join_with ''/'' vs = join_with ''/'' (w # w' # ws) @ ''/'' @ s
        \<longleftrightarrow> v = w \<and> join_with ''/'' us = join_with ''/'' (w' # ws) @ ''/'' @ s" for s
      unfolding j by (simp add: append_sep_inject)
    then show ?thesis using 3 vs Cons by auto
  qed
qed

lemma under_abs:
  assumes "list_all plain ws" and "list_all plain vs" and "ws \<noteq> []" and "vs \<noteq> []"
  shows "under (abs_path ws) (abs_path vs) \<longleftrightarrow> (\<exists>us. vs = ws @ us)"
proof -
  have "abs_path vs = abs_path ws \<longleftrightarrow> vs = ws"
    using split_join [OF assms(3,1)] split_join [OF assms(4,2)] by (auto simp: abs_path_def)
  moreover have "take (length (abs_path ws) + 1) (abs_path vs) = abs_path ws @ ''/''
      \<longleftrightarrow> (\<exists>s. join_with ''/'' vs = join_with ''/'' ws @ ''/'' @ s)" (is "?l \<longleftrightarrow> ?r")
  proof
    assume ?l
    then have "abs_path vs = (abs_path ws @ ''/'') @ drop (length (abs_path ws) + 1) (abs_path vs)"
      by (metis append_take_drop_id)
    then show ?r by (auto simp: abs_path_def)
  next
    assume ?r
    then show ?l by (auto simp: abs_path_def)
  qed
  ultimately show ?thesis
    using join_prefix [OF assms] by (auto simp: under_def)
qed

end
