(* ===== verification/Api_Types.thy ===== *)
theory Api_Types
  imports Budget
begin

text \<open>
  The custom resources, \<open>api/v1alpha1\<close>: \<open>InferenceModel\<close> and \<open>InferenceBackend\<close> with the fields the
  Go structs have. Optional pointers are options; a string that may be empty stays a string, as the
  code tests it against the empty string. Kubernetes core types are outside the repository: the parts the
  code reads or writes are fields, the rest travels in an \<open>opaque\<close> field unread.
\<close>

type_synonym opaque = string

section \<open>Kubernetes core data\<close>

record EnvVar =
  ev_Name :: string
  ev_Value :: string
  ev_other :: opaque

record Toleration =
  tol_Key :: string
  tol_Operator :: string
  tol_Effect :: string
  tol_other :: opaque

datatype VolumeSource = PersistentVolumeClaim string | OtherVolume opaque

record Volume =
  vol_Name :: string
  vol_Source :: VolumeSource

record VolumeMount =
  vm_Name :: string
  vm_MountPath :: string
  vm_other :: opaque

record ContainerPort =
  cp_Name :: string
  cp_ContainerPort :: int32
  cp_Protocol :: string

record Condition =
  cond_Type :: string
  cond_Status :: string
  cond_Reason :: string
  cond_Message :: string
  cond_LastTransitionTime :: go_time

text \<open>The errors that the code tells apart (\<open>errors.IsNotFound\<close> and the like).\<close>

datatype api_error = NotFound | AlreadyExists | Conflict | OtherApiError string

section \<open>Shared types\<close>

record ImageReference =
  img_Repository :: string
  img_Tag :: string
  img_Digest :: string

record GPUConfig =
  gpu_Exclusive :: bool
  gpu_Shared :: bool
  gpu_ResourceName :: string

fun GetImage :: "ImageReference option \<Rightarrow> string" where
  "GetImage None = ''''"
| "GetImage (Some i) =
     (if img_Digest i \<noteq> '''' then img_Repository i @ ''@'' @ img_Digest i
      else if img_Tag i \<noteq> '''' then img_Repository i @ '':'' @ img_Tag i
      else img_Repository i)"

fun HasImage :: "ImageReference option \<Rightarrow> bool" where
  "HasImage None = False"
| "HasImage (Some i) = (img_Repository i \<noteq> '''')"

section \<open>InferenceModel\<close>

record BackendOverrides =
  ov_Image :: "ImageReference option"
  ov_Port :: "int32 option"
  ov_ReadinessPath :: "string option"
  ov_GPU :: "GPUConfig option"

record HuggingFaceSource =
  hf_Repo :: string
  hf_Files :: "string list"
  hf_ModelFile :: string
  hf_MmprojFile :: string
  hf_ContextSize :: string
  hf_TokenSecret :: string
  hf_TokenSecretKey :: string
  hf_Revision :: string

record PVCSource =
  pvc_Name :: string
  pvc_Path :: string
  pvc_ModelFile :: string
  pvc_MmprojFile :: string

record URLSource =
  url_URL :: string

record ModelSource =
  src_HuggingFace :: "HuggingFaceSource option"
  src_PVC :: "PVCSource option"
  src_URL :: "URLSource option"

record StorageConfig =
  st_PVC :: string
  st_Create :: bool
  st_Size :: string
  st_StorageClass :: string
  st_ModelDir :: string
  st_Shared :: bool

record ModelResources =
  res_Memory :: string
  res_CPU :: string
  res_MemoryLimit :: string

record ScalingConfig =
  sc_Enabled :: "bool option"
  sc_MaxReplicas :: int32
  sc_CooldownPeriod :: string
  sc_ScaleToZeroDelay :: string
  sc_EvictionPolicy :: string

record ServiceConfig =
  svc_Type :: string
  svc_Port :: "int32 option"
  svc_Annotations :: "(string, string) go_map"

record HTTPRouteConfig =
  route_Enabled :: bool
  route_Hostnames :: "string list"
  route_ParentRefs :: "string list"

record SidecarConfig =
  side_Name :: string
  side_Image :: string
  side_Ports :: "ContainerPort list"
  side_Args :: "string list"
  side_Env :: "EnvVar list"
  side_Resources :: "opaque option"

record InferenceModelSpec =
  ModelName :: string
  Backend :: string
  Source :: ModelSource
  Storage :: StorageConfig
  Resources :: ModelResources
  Scaling :: ScalingConfig
  NodeSelector :: selector
  Tolerations :: "Toleration list"
  Affinity :: "opaque option"
  Service :: ServiceConfig
  HTTPRoute :: "HTTPRouteConfig option"
  Sidecar :: "SidecarConfig option"
  Env :: "EnvVar list"
  Args :: "string list"
  Overrides :: "BackendOverrides option" \<comment> \<open>the field \<open>BackendOverrides\<close>\<close>

record FileDownloadStatus =
  fds_Path :: string
  fds_Phase :: string
  fds_BytesDone :: int64
  fds_BytesTotal :: int64

record InferenceModelStatus =
  Phase :: string
  DownloadPhase :: string
  DownloadProgress :: int32
  DownloadMessage :: string
  DownloadBytesTotal :: int64
  DownloadBytesDone :: int64
  DownloadSpeed :: int64
  DownloadETA :: string
  DownloadFiles :: "FileDownloadStatus list"
  DownloadError :: string
  DownloadStartedAt :: "go_time option"
  DownloadCompletedAt :: "go_time option"
  Ready :: bool
  Replicas :: int32
  AvailableReplicas :: int32
  DeclaredMemory :: string
  ObservedPeakMemory :: string
  UtilizationPercent :: int32
  Recommendation :: string
  LastRequest :: "go_time option"
  Conditions :: "Condition list"

record InferenceModel =
  im_Name :: string
  im_Namespace :: string
  im_DeletionTimestamp :: "go_time option"
  im_Finalizers :: "string list"
  im_Annotations :: "(string, string) go_map"
  im_CreationTimestamp :: go_time
  Spec :: InferenceModelSpec
  Status :: InferenceModelStatus

section \<open>InferenceBackend\<close>

record InferenceBackendSpec =
  be_Image :: ImageReference
  be_Port :: int32
  be_Command :: "string list"
  be_Args :: "string list"
  be_ReadinessPath :: string
  be_LivenessPath :: string
  be_Env :: "EnvVar list"
  be_SecurityContext :: "opaque option"
  be_Volumes :: "Volume list"
  be_VolumeMounts :: "VolumeMount list"
  be_InitContainers :: "opaque list"
  be_GPU :: "GPUConfig option"

record InferenceBackend =
  ib_Name :: string
  ib_Namespace :: string
  BackendSpec :: InferenceBackendSpec \<comment> \<open>the field \<open>Spec\<close>\<close>
  ib_Conditions :: "Condition list"

section \<open>Names the packages agree on\<close>

definition DownloadPhasePending :: string where "DownloadPhasePending = ''Pending''"
definition DownloadPhaseDownloading :: string where "DownloadPhaseDownloading = ''Downloading''"
definition DownloadPhaseComplete :: string where "DownloadPhaseComplete = ''Complete''"
definition DownloadPhaseFailed :: string where "DownloadPhaseFailed = ''Failed''"

definition EvictionPolicyDefault :: string where "EvictionPolicyDefault = ''Default''"
definition EvictionPolicyMemoryPressureOnly :: string where
  "EvictionPolicyMemoryPressureOnly = ''MemoryPressureOnly''"

lemmas phase_names = DownloadPhasePending_def DownloadPhaseDownloading_def
  DownloadPhaseComplete_def DownloadPhaseFailed_def

section \<open>A small model, for the witnesses of the other theories\<close>

definition demo_spec :: "string \<Rightarrow> string \<Rightarrow> InferenceModelSpec" where
  "demo_spec name mem = \<lparr>
     ModelName = name, Backend = ''llama'',
     Source = \<lparr>src_HuggingFace = None, src_PVC = None, src_URL = None\<rparr>,
     Storage = \<lparr>st_PVC = '''', st_Create = False, st_Size = '''', st_StorageClass = '''',
                st_ModelDir = '''', st_Shared = False\<rparr>,
     Resources = \<lparr>res_Memory = mem, res_CPU = '''', res_MemoryLimit = ''''\<rparr>,
     Scaling = \<lparr>sc_Enabled = None, sc_MaxReplicas = 0, sc_CooldownPeriod = '''',
                sc_ScaleToZeroDelay = '''', sc_EvictionPolicy = ''''\<rparr>,
     NodeSelector = None, Tolerations = [], Affinity = None,
     Service = \<lparr>svc_Type = '''', svc_Port = None, svc_Annotations = []\<rparr>,
     HTTPRoute = None, Sidecar = None, Env = [], Args = [], Overrides = None\<rparr>"

definition demo_status :: InferenceModelStatus where
  "demo_status = \<lparr>
     Phase = '''', DownloadPhase = '''', DownloadProgress = 0, DownloadMessage = '''',
     DownloadBytesTotal = 0, DownloadBytesDone = 0, DownloadSpeed = 0, DownloadETA = '''',
     DownloadFiles = [], DownloadError = '''', DownloadStartedAt = None, DownloadCompletedAt = None,
     Ready = False, Replicas = 0, AvailableReplicas = 0, DeclaredMemory = '''',
     ObservedPeakMemory = '''', UtilizationPercent = 0, Recommendation = '''', LastRequest = None,
     Conditions = []\<rparr>"

definition demo_model :: "string \<Rightarrow> string \<Rightarrow> InferenceModel" where
  "demo_model name mem = \<lparr>
     im_Name = name, im_Namespace = ''ns'', im_DeletionTimestamp = None, im_Finalizers = [],
     im_Annotations = [], im_CreationTimestamp = 0, Spec = demo_spec name mem, Status = demo_status\<rparr>"

end
