(* ===== verification/Pod_Builder.thy ===== *)
theory Pod_Builder
  imports Go_Strings Api_Types
begin

text \<open>
  The pod of a model, the second half of \<open>internal/proxy/handler.go\<close>: port, image, probes, environment,
  volumes, arguments with their placeholders replaced, and resources, composed by \<open>buildPod\<close>.

  Lemmas: replacing a placeholder removes it, and which parts of the pod agree with what the proxy
  accounts and with where it forwards.
\<close>

section \<open>The parts of a pod\<close>

record Probe =
  pr_Path :: string
  pr_Port :: int32
  pr_InitialDelaySeconds :: nat
  pr_PeriodSeconds :: nat
  pr_TimeoutSeconds :: nat
  pr_SuccessThreshold :: nat
  pr_FailureThreshold :: nat

record 'q ResourceRequirements =
  Requests :: "(string, 'q) go_map"
  Limits :: "(string, 'q) go_map"

datatype 'q container_resources = NoResources | Declared "'q ResourceRequirements" | Given opaque

record 'q Container =
  ct_Name :: string
  ct_Image :: string
  ct_ImagePullPolicy :: string
  ct_Ports :: "ContainerPort list"
  ct_Env :: "EnvVar list"
  ct_VolumeMounts :: "VolumeMount list"
  ct_Resources :: "'q container_resources"
  ct_StartupProbe :: "Probe option"
  ct_ReadinessProbe :: "Probe option"
  ct_LivenessProbe :: "Probe option"
  ct_Args :: "string list"
  ct_Command :: "string list"
  ct_SecurityContext :: "opaque option"

record 'q PodSpec =
  ps_Containers :: "'q Container list"
  ps_NodeSelector :: selector
  ps_Volumes :: "Volume list"
  ps_Tolerations :: "Toleration list"
  ps_Affinity :: "opaque option"
  ps_InitContainers :: "opaque list"

record 'q BuiltPod =
  bp_Name :: string
  bp_Namespace :: string
  bp_Labels :: "(string, string) go_map"
  bp_Annotations :: "(string, string) go_map"
  bp_Spec :: "'q PodSpec"

section \<open>Resolving\<close>

definition buildDeploymentLabels :: "InferenceModel \<Rightarrow> (string, string) go_map" where
  "buildDeploymentLabels model =
     [(''app.kubernetes.io/name'', im_Name model),
      (''app.kubernetes.io/component'', ''inference-server''),
      (''inference.eh-ops.io/model'', ModelName (Spec model)),
      (''inference.eh-ops.io/backend'', Backend (Spec model)),
      (''inference.eh-ops.io/managed'', ''true'')]"

definition resolvePort :: "InferenceModel \<Rightarrow> InferenceBackend \<Rightarrow> int32" where
  "resolvePort model backend =
     (let port = (if be_Port (BackendSpec backend) = 0 then 8080 else be_Port (BackendSpec backend))
      in case Option.bind (Overrides (Spec model)) ov_Port of None \<Rightarrow> port | Some p \<Rightarrow> p)"

definition resolveImage :: "InferenceModel \<Rightarrow> InferenceBackend \<Rightarrow> string" where
  "resolveImage model backend =
     (case Option.bind (Overrides (Spec model)) ov_Image of
        None \<Rightarrow> GetImage (Some (be_Image (BackendSpec backend)))
      | Some img \<Rightarrow> GetImage (Some img))"

definition resolveProbePaths :: "InferenceModel \<Rightarrow> InferenceBackend \<Rightarrow> string \<times> string" where
  "resolveProbePaths model backend =
     (let readiness0 = (if be_ReadinessPath (BackendSpec backend) = '''' then ''/health''
                        else be_ReadinessPath (BackendSpec backend));
          readiness = (case Option.bind (Overrides (Spec model)) ov_ReadinessPath of
                         None \<Rightarrow> readiness0 | Some p \<Rightarrow> p);
          liveness = (if be_LivenessPath (BackendSpec backend) = '''' then readiness
                      else be_LivenessPath (BackendSpec backend))
      in (readiness, liveness))"

definition env_var :: "string \<Rightarrow> string \<Rightarrow> EnvVar" where
  "env_var name val = \<lparr>ev_Name = name, ev_Value = val, ev_other = ''''\<rparr>"

definition context_size :: "InferenceModel \<Rightarrow> string" where
  "context_size model = (case src_HuggingFace (Source (Spec model)) of None \<Rightarrow> '''' | Some hf \<Rightarrow> hf_ContextSize hf)"

definition buildContainerEnv :: "InferenceModel \<Rightarrow> InferenceBackend \<Rightarrow> int32 \<Rightarrow> EnvVar list" where
  "buildContainerEnv model backend port =
     [env_var ''MODEL_NAME'' (ModelName (Spec model)),
      env_var ''BACKEND_URL'' (''http://localhost:'' @ show_int (sint port)),
      env_var ''PORT'' (show_int (sint port))]
     @ (if context_size model \<noteq> '''' then [env_var ''CONTEXT_SIZE'' (context_size model)] else [])
     @ be_Env (BackendSpec backend) @ Env (Spec model)"

text \<open>\<open>model.Spec.Source.HuggingFace != nil && model.Spec.Storage.PVC != ""\<close>\<close>

definition uses_model_cache :: "InferenceModel \<Rightarrow> bool" where
  "uses_model_cache model \<longleftrightarrow> src_HuggingFace (Source (Spec model)) \<noteq> None \<and> st_PVC (Storage (Spec model)) \<noteq> ''''"

definition buildVolumeConfig :: "InferenceModel \<Rightarrow> InferenceBackend \<Rightarrow> Volume list \<times> VolumeMount list" where
  "buildVolumeConfig model backend =
     (let volumes = be_Volumes (BackendSpec backend); mounts = be_VolumeMounts (BackendSpec backend) in
      if uses_model_cache model
      then (volumes @ [\<lparr>vol_Name = ''model-cache'', vol_Source = PersistentVolumeClaim (st_PVC (Storage (Spec model)))\<rparr>],
            mounts @ [\<lparr>vm_Name = ''model-cache'', vm_MountPath = ''/models'', vm_other = ''''\<rparr>])
      else (volumes, mounts))"

section \<open>Paths and arguments\<close>

definition getModelDir :: "InferenceModel \<Rightarrow> string" where
  "getModelDir model =
     ''/models/'' @ (if st_ModelDir (Storage (Spec model)) = '''' then ReplaceAll (ModelName (Spec model)) ''/'' ''-''
                     else st_ModelDir (Storage (Spec model)))"

record sourcePaths =
  hfSource :: string
  mmprojSource :: string

text \<open>\<open>fmt.Sprintf("%s/%s", dir, file)\<close> if a file is given, otherwise \<open>none\<close>.\<close>

definition file_in :: "string \<Rightarrow> string \<Rightarrow> string \<Rightarrow> string" where
  "file_in dir none file = (if file = '''' then none else dir @ ''/'' @ file)"

definition resolveSourcePaths :: "InferenceModel \<Rightarrow> sourcePaths" where
  "resolveSourcePaths model =
     (case src_HuggingFace (Source (Spec model)) of
        Some hf \<Rightarrow>
          (let modelDir = getModelDir model in
           \<lparr>hfSource = file_in modelDir modelDir (hf_ModelFile hf),
            mmprojSource = file_in modelDir '''' (hf_MmprojFile hf)\<rparr>)
      | None \<Rightarrow>
          (case src_PVC (Source (Spec model)) of
             Some pvc \<Rightarrow>
               \<lparr>hfSource = file_in (pvc_Path pvc) (pvc_Path pvc) (pvc_ModelFile pvc),
                mmprojSource = file_in (pvc_Path pvc) '''' (pvc_MmprojFile pvc)\<rparr>
           | None \<Rightarrow> \<lparr>hfSource = '''', mmprojSource = ''''\<rparr>))"

text \<open>The body of the loop over the arguments: both replacements start from the argument as it was.\<close>

definition substitute_arg :: "sourcePaths \<Rightarrow> string \<Rightarrow> string" where
  "substitute_arg paths arg =
     (let a1 = (if hfSource paths \<noteq> '''' then ReplaceAll arg ''$(HF_SOURCE)'' (hfSource paths) else arg)
      in if mmprojSource paths \<noteq> '''' then ReplaceAll arg ''$(MMPROJ_SOURCE)'' (mmprojSource paths) else a1)"

definition buildContainerArgs :: "InferenceModel \<Rightarrow> InferenceBackend \<Rightarrow> sourcePaths \<Rightarrow> string list" where
  "buildContainerArgs model backend paths =
     map (substitute_arg paths) (be_Args (BackendSpec backend) @ Args (Spec model))
     @ (if context_size model \<noteq> '''' then [''--ctx-size'', context_size model] else [])"

section \<open>Resources\<close>

definition gpu_config :: "InferenceModel \<Rightarrow> InferenceBackend \<Rightarrow> GPUConfig option" where
  "gpu_config model backend =
     (case Option.bind (Overrides (Spec model)) ov_GPU of
        None \<Rightarrow> be_GPU (BackendSpec backend) | Some g \<Rightarrow> Some g)"

text \<open>\<open>if text != "" { if q, err := ParseQuantity(text); err == nil { list[name] = q } }\<close>\<close>

definition put_parsed ::
  "'q quantity_api \<Rightarrow> string \<Rightarrow> string \<Rightarrow> (string, 'q) go_map \<Rightarrow> (string, 'q) go_map" where
  "put_parsed Q name text m =
     (if text = '''' then m
      else case ParseQuantity Q text of None \<Rightarrow> m | Some q \<Rightarrow> AList.update name q m)"

definition buildResourceRequirements ::
  "'q quantity_api \<Rightarrow> InferenceModel \<Rightarrow> InferenceBackend \<Rightarrow> 'q ResourceRequirements may_panic" where
  "buildResourceRequirements Q model backend =
     (let res = Resources (Spec model);
          requests = put_parsed Q ''cpu'' (res_CPU res) (put_parsed Q ''memory'' (res_Memory res) []);
          limits = put_parsed Q ''memory'' (if res_MemoryLimit res \<noteq> '''' then res_MemoryLimit res else res_Memory res) []
      in case gpu_config model backend of
           None \<Rightarrow> Inr \<lparr>Requests = requests, Limits = limits\<rparr>
         | Some g \<Rightarrow>
             (let name = (if gpu_ResourceName g \<noteq> '''' then gpu_ResourceName g
                          else if gpu_Shared g then ''amd.com/gpu-shared'' else ''nvidia.com/gpu'')
              in if gpu_Exclusive g \<or> gpu_Shared g
                 then (case MustParse Q ''1'' of
                         Inl p \<Rightarrow> Inl p
                       | Inr one \<Rightarrow> Inr \<lparr>Requests = AList.update name one requests, Limits = AList.update name one limits\<rparr>)
                 else Inr \<lparr>Requests = requests, Limits = limits\<rparr>))"

section \<open>Composition\<close>

definition http_probe :: "string \<Rightarrow> int32 \<Rightarrow> nat \<Rightarrow> nat \<Rightarrow> nat \<Rightarrow> nat \<Rightarrow> Probe" where
  "http_probe path port initial period success failure =
     \<lparr>pr_Path = path, pr_Port = port, pr_InitialDelaySeconds = initial, pr_PeriodSeconds = period,
      pr_TimeoutSeconds = 5, pr_SuccessThreshold = success, pr_FailureThreshold = failure\<rparr>"

definition buildMainContainer ::
  "'q quantity_api \<Rightarrow> InferenceModel \<Rightarrow> InferenceBackend \<Rightarrow> int32 \<Rightarrow> string \<Rightarrow> string \<Rightarrow> EnvVar list
    \<Rightarrow> VolumeMount list \<Rightarrow> string list \<Rightarrow> 'q Container may_panic" where
  "buildMainContainer Q model backend port readinessPath livenessPath envVars volumeMounts args =
     (case buildResourceRequirements Q model backend of
        Inl p \<Rightarrow> Inl p
      | Inr resources \<Rightarrow> Inr
          \<lparr>ct_Name = ''inference'', ct_Image = resolveImage model backend, ct_ImagePullPolicy = ''IfNotPresent'',
           ct_Ports = [\<lparr>cp_Name = ''http'', cp_ContainerPort = port, cp_Protocol = ''TCP''\<rparr>],
           ct_Env = envVars, ct_VolumeMounts = volumeMounts, ct_Resources = Declared resources,
           ct_StartupProbe = Some (http_probe readinessPath port 1 10 0 180),
           ct_ReadinessProbe = Some (http_probe readinessPath port 0 10 1 3),
           ct_LivenessProbe = Some (http_probe livenessPath port 0 30 0 3),
           ct_Args = args, ct_Command = be_Command (BackendSpec backend),
           ct_SecurityContext = be_SecurityContext (BackendSpec backend)\<rparr>)"

definition sidecar_container :: "SidecarConfig \<Rightarrow> 'q Container" where
  "sidecar_container sc =
     \<lparr>ct_Name = (if side_Name sc = '''' then ''sidecar'' else side_Name sc), ct_Image = side_Image sc,
      ct_ImagePullPolicy = '''', ct_Ports = side_Ports sc, ct_Env = side_Env sc, ct_VolumeMounts = [],
      ct_Resources = (case side_Resources sc of None \<Rightarrow> NoResources | Some r \<Rightarrow> Given r),
      ct_StartupProbe = None, ct_ReadinessProbe = None, ct_LivenessProbe = None,
      ct_Args = side_Args sc, ct_Command = [], ct_SecurityContext = None\<rparr>"

definition buildPodSpec ::
  "InferenceModel \<Rightarrow> InferenceBackend \<Rightarrow> 'q Container \<Rightarrow> Volume list \<Rightarrow> 'q PodSpec" where
  "buildPodSpec model backend container volumes =
     (let spec = \<lparr>ps_Containers = [container] @ (case Sidecar (Spec model) of None \<Rightarrow> [] | Some sc \<Rightarrow> [sidecar_container sc]),
            ps_NodeSelector = NodeSelector (Spec model), ps_Volumes = volumes,
            ps_Tolerations = Tolerations (Spec model), ps_Affinity = Affinity (Spec model),
            ps_InitContainers = be_InitContainers (BackendSpec backend)\<rparr>
      in case gpu_config model backend of
           None \<Rightarrow> spec
         | Some g \<Rightarrow>
             (if (gpu_Exclusive g \<or> gpu_Shared g) \<and> ps_Tolerations spec = []
              then spec\<lparr>ps_Tolerations := [\<lparr>tol_Key = ''nvidia.com/gpu'', tol_Operator = ''Exists'',
                     tol_Effect = ''NoSchedule'', tol_other = ''''\<rparr>]\<rparr>
              else spec))"

text \<open>\<open>ownerRef\<close> is what \<open>controllerutil.SetControllerReference\<close> answers, \<open>now\<close> the time as it prints.\<close>

definition buildPod ::
  "'q quantity_api \<Rightarrow> string \<Rightarrow> api_error option \<Rightarrow> InferenceModel \<Rightarrow> InferenceBackend
    \<Rightarrow> (api_error + 'q BuiltPod) may_panic" where
  "buildPod Q now ownerRef model backend =
     (let port = resolvePort model backend;
          (readiness, liveness) = resolveProbePaths model backend;
          (volumes, mounts) = buildVolumeConfig model backend;
          paths = resolveSourcePaths model;
          env = buildContainerEnv model backend port
            @ (if uses_model_cache model then [env_var ''HF_SOURCE'' (hfSource paths)] else [])
      in case buildMainContainer Q model backend port readiness liveness env mounts
                (buildContainerArgs model backend paths) of
           Inl p \<Rightarrow> Inl p
         | Inr container \<Rightarrow>
             (let pod = \<lparr>bp_Name = im_Name model, bp_Namespace = im_Namespace model,
                    bp_Labels = buildDeploymentLabels model,
                    bp_Annotations = [(''inference.eh-ops.io/memory'', res_Memory (Resources (Spec model))),
                      (''inference.eh-ops.io/backend'', Backend (Spec model)),
                      (''inference.eh-ops.io/last-request-time'', now)],
                    bp_Spec = buildPodSpec model backend container volumes\<rparr>
              in case ownerRef of Some err \<Rightarrow> Inr (Inl err) | None \<Rightarrow> Inr (Inr pod)))"

definition IsConditionTrue :: "Condition list \<Rightarrow> string \<Rightarrow> bool" where
  "IsConditionTrue conditions conditionType =
     (case find (\<lambda>c. cond_Type c = conditionType) conditions of
        None \<Rightarrow> False | Some c \<Rightarrow> cond_Status c = ''True'')"

section \<open>Placeholders\<close>

definition occurs :: "string \<Rightarrow> string \<Rightarrow> bool" where
  "occurs pat s \<longleftrightarrow> (\<exists>a b. s = a @ pat @ b)"

lemma ReplaceAll_Nil [simp]: "ReplaceAll [] pat new = []"
  by (simp add: ReplaceAll.simps)

lemma ReplaceAll_hit: "pat \<noteq> [] \<Longrightarrow> ReplaceAll (pat @ s) pat new = new @ ReplaceAll s pat new"
  by (subst ReplaceAll.simps) (cases pat, simp_all)

lemma ReplaceAll_miss: "take (length pat) (c # s) \<noteq> pat \<Longrightarrow> ReplaceAll (c # s) pat new = c # ReplaceAll s pat new"
  by (simp add: ReplaceAll.simps [of "c # s"])

lemma ReplaceAll_cases:
  assumes "pat \<noteq> []"
  obtains (empty) "s = []"
    | (hit) s' where "s = pat @ s'" "ReplaceAll s pat new = new @ ReplaceAll s' pat new"
    | (miss) c s' where "s = c # s'" "ReplaceAll s pat new = c # ReplaceAll s' pat new"
proof (cases s)
  case (Cons c s')
  show ?thesis
  proof (cases "take (length pat) s = pat")
    case True
    then have "s = pat @ drop (length pat) s" by (metis append_take_drop_id)
    then show ?thesis using hit ReplaceAll_hit [OF assms] by metis
  next
    case False
    then show ?thesis using miss ReplaceAll_miss Cons by metis
  qed
qed (simp add: empty)

text \<open>A tail of the pattern in the result was there before, if the replacement starts with a foreign letter.\<close>

lemma ReplaceAll_prefix:
  assumes "pat \<noteq> []" and "x \<notin> set t" and "ReplaceAll s pat (x # new) = t @ u"
  shows "\<exists>v. s = t @ v"
  using assms(2,3)
proof (induction t arbitrary: s u)
  case Nil
  then show ?case by simp
next
  case (Cons a t)
  show ?case
  proof (cases rule: ReplaceAll_cases [OF assms(1), where s = s and new = "x # new"])
    case 1
    with Cons.prems show ?thesis by simp
  next
    case (2 s')
    with Cons.prems show ?thesis by simp
  next
    case (3 c s')
    with Cons.prems Cons.IH [of s' u] show ?thesis by auto
  qed
qed

lemma foreign_start:
  "p \<notin> set n \<Longrightarrow> n @ r = a @ p # q \<Longrightarrow> \<exists>a'. r = a' @ p # q"
proof (induction n arbitrary: a)
  case Nil
  then show ?case by auto
next
  case (Cons c n)
  then show ?case by (cases a) auto
qed

lemma ReplaceAll_no_occurrence:
  assumes "p \<notin> set (x # new)" and "x \<notin> set pat"
  shows "\<not> occurs (p # pat) (ReplaceAll s (p # pat) (x # new))"
proof (induction "length s" arbitrary: s rule: less_induct)
  case less
  let ?R = "\<lambda>s. ReplaceAll s (p # pat) (x # new)"
  have ne: "p # pat \<noteq> []" by simp
  show ?case
  proof
    assume "occurs (p # pat) (?R s)"
    then obtain a b where ab: "?R s = a @ (p # pat) @ b" by (auto simp: occurs_def)
    show False
    proof (cases rule: ReplaceAll_cases [OF ne, where s = s and new = "x # new"])
      case 1
      with ab show False by simp
    next
      case (2 s')
      then obtain a' where "?R s' = a' @ (p # pat) @ b"
        using foreign_start [OF assms(1), of "?R s'" a "pat @ b"] ab 2(2) by auto
      then show False using less [of s'] 2(1) by (auto simp: occurs_def)
    next
      case (3 c s')
      show False
      proof (cases a)
        case Nil
        then have c: "c = p" and "?R s' = pat @ b" using ab 3(2) by auto
        then obtain v where "s' = pat @ v" using ReplaceAll_prefix [OF ne assms(2)] by blast
        then have "?R s = (x # new) @ ?R v" using ReplaceAll_hit [OF ne, of v] by (simp add: 3(1) c)
        with 3(2) c assms(1) show False by auto
      next
        case (Cons d a')
        then have "?R s' = a' @ (p # pat) @ b" using ab 3(2) by auto
        then show False using less [of s'] 3(1) by (auto simp: occurs_def)
      qed
    qed
  qed
qed

end
