(* ===== verification/Registry.thy ===== *)
theory Registry
  imports Interfaces
begin

text \<open>
  The deployment registry, \<open>internal/registry/registry.go\<close>: per model the state of its pod as the
  proxy sees it, the number of requests in flight and the time of the last request. Operations that
  read the clock take its reading \<open>now\<close>.

  Lemmas: keys stay distinct, entries stay filed under their own key, the count of requests in
  flight follows the contract \<open>evictable_counter\<close>, and the eviction list is exactly the idle entries
  in order of their last request.
\<close>

section \<open>State\<close>

datatype DeploymentState = StateNonexistent | StateCreating | StateReady | StateDeleting

fun state_String :: "DeploymentState \<Rightarrow> string" where
  "state_String StateNonexistent = ''Nonexistent''"
| "state_String StateCreating = ''Creating''"
| "state_String StateReady = ''Ready''"
| "state_String StateDeleting = ''Deleting''"

record DeploymentEntry =
  de_Name :: string
  de_Namespace :: string
  State :: DeploymentState
  LastRequestTime :: go_time
  ActiveRequests :: nat
  CreatedAt :: go_time

type_synonym registry = "(string, DeploymentEntry) go_map"

definition NewRegistry :: registry where
  "NewRegistry = []"

definition entryKey :: "string \<Rightarrow> string \<Rightarrow> string" where
  "entryKey namespace name = slash_key namespace name"

section \<open>Operations\<close>

definition Get :: "string \<Rightarrow> string \<Rightarrow> registry \<Rightarrow> DeploymentEntry option" where
  "Get namespace name r = map_of r (entryKey namespace name)"

definition SetState :: "go_time \<Rightarrow> string \<Rightarrow> string \<Rightarrow> DeploymentState \<Rightarrow> registry \<Rightarrow> registry" where
  "SetState now namespace name state r =
     (case map_of r (entryKey namespace name) of
        Some entry \<Rightarrow> AList.update (entryKey namespace name) (entry\<lparr>State := state\<rparr>) r
      | None \<Rightarrow> AList.update (entryKey namespace name)
          \<lparr>de_Name = name, de_Namespace = namespace, State = state, LastRequestTime = now,
           ActiveRequests = 0, CreatedAt = now\<rparr> r)"

definition RecordRequest :: "go_time \<Rightarrow> string \<Rightarrow> string \<Rightarrow> registry \<Rightarrow> registry" where
  "RecordRequest now namespace name r =
     (case map_of r (entryKey namespace name) of
        Some entry \<Rightarrow> AList.update (entryKey namespace name)
          (entry\<lparr>ActiveRequests := Suc (ActiveRequests entry), LastRequestTime := now\<rparr>) r
      | None \<Rightarrow> AList.update (entryKey namespace name)
          \<lparr>de_Name = name, de_Namespace = namespace, State = StateCreating, LastRequestTime = now,
           ActiveRequests = 1, CreatedAt = now\<rparr> r)"

definition FinishRequest :: "string \<Rightarrow> string \<Rightarrow> registry \<Rightarrow> registry" where
  "FinishRequest namespace name r =
     (case map_of r (entryKey namespace name) of
        Some entry \<Rightarrow>
          (if ActiveRequests entry > 0
           then AList.update (entryKey namespace name)
                  (entry\<lparr>ActiveRequests := ActiveRequests entry - 1\<rparr>) r
           else r)
      | None \<Rightarrow> r)"

definition Delete :: "string \<Rightarrow> string \<Rightarrow> registry \<Rightarrow> registry" where
  "Delete namespace name r = AList.delete (entryKey namespace name) r"

definition ListByState :: "DeploymentState \<Rightarrow> registry \<Rightarrow> DeploymentEntry list" where
  "ListByState state r = filter (\<lambda>e. State e = state) (map snd r)"

definition GetIdleEntries :: "go_time \<Rightarrow> duration \<Rightarrow> registry \<Rightarrow> DeploymentEntry list" where
  "GetIdleEntries now idleTimeout r =
     (let cutoff = now - idleTimeout
      in filter (\<lambda>e. ActiveRequests e = 0 \<and> LastRequestTime e < cutoff) (map snd r))"

definition GetIdleEntriesSorted :: "go_time \<Rightarrow> duration \<Rightarrow> registry \<Rightarrow> DeploymentEntry list" where
  "GetIdleEntriesSorted now minIdleTime r =
     (let cutoff = now - minIdleTime;
          entries = filter (\<lambda>e. ActiveRequests e = 0 \<and> LastRequestTime e < cutoff) (map snd r)
      in sort_key LastRequestTime entries)"

section \<open>Well-formed registries\<close>

definition registry_wf :: "registry \<Rightarrow> bool" where
  "registry_wf r \<longleftrightarrow> keys_distinct r
     \<and> list_all (\<lambda>(k, e). k = entryKey (de_Namespace e) (de_Name e)) r"

lemma registry_wf_key:
  "registry_wf r \<Longrightarrow> map_of r k = Some e \<Longrightarrow> entryKey (de_Namespace e) (de_Name e) = k"
  unfolding registry_wf_def by (auto dest: list_all_lookup)

lemma registry_wf_New: "registry_wf NewRegistry"
  by (simp add: registry_wf_def NewRegistry_def)

lemma registry_wf_ops:
  assumes "registry_wf r"
  shows "registry_wf (SetState now ns n st r)" and "registry_wf (RecordRequest now ns n r)"
    and "registry_wf (FinishRequest ns n r)" and "registry_wf (Delete ns n r)"
  using assms registry_wf_key [OF assms, of "entryKey ns n"]
  by (auto simp: registry_wf_def SetState_def RecordRequest_def FinishRequest_def Delete_def
      simp del: map_of_eq_Some_iff intro!: list_all_update list_all_delete
      split: option.splits if_splits)

section \<open>The operations as lookups\<close>

named_theorems reg_laws \<open>lookups after a registry operation\<close>

lemma lookup_SetState [reg_laws]:
  "map_of (SetState now ns n st r) k =
     (if k = entryKey ns n
      then Some (case map_of r k of
             Some e \<Rightarrow> e\<lparr>State := st\<rparr>
           | None \<Rightarrow> \<lparr>de_Name = n, de_Namespace = ns, State = st, LastRequestTime = now,
                      ActiveRequests = 0, CreatedAt = now\<rparr>)
      else map_of r k)"
  by (auto simp: SetState_def map_laws split: option.splits)

lemma lookup_RecordRequest [reg_laws]:
  "map_of (RecordRequest now ns n r) k =
     (if k = entryKey ns n
      then Some (case map_of r k of
             Some e \<Rightarrow> e\<lparr>ActiveRequests := Suc (ActiveRequests e), LastRequestTime := now\<rparr>
           | None \<Rightarrow> \<lparr>de_Name = n, de_Namespace = ns, State = StateCreating, LastRequestTime = now,
                      ActiveRequests = 1, CreatedAt = now\<rparr>)
      else map_of r k)"
  by (auto simp: RecordRequest_def map_laws split: option.splits)

lemma lookup_FinishRequest [reg_laws]:
  "map_of (FinishRequest ns n r) k =
     (if k = entryKey ns n
      then map_option (\<lambda>e. e\<lparr>ActiveRequests := ActiveRequests e - 1\<rparr>) (map_of r k)
      else map_of r k)"
  by (auto simp: FinishRequest_def map_laws split: option.splits)

lemma lookup_Delete [reg_laws]:
  "map_of (Delete ns n r) k = (if k = entryKey ns n then None else map_of r k)"
  by (simp add: Delete_def map_laws)

text \<open>Requests in flight, per key; a missing entry has none.\<close>

definition active :: "registry \<Rightarrow> string \<Rightarrow> nat" where
  "active r k = (case map_of r k of None \<Rightarrow> 0 | Some e \<Rightarrow> ActiveRequests e)"

lemma active_SetState [simp]: "active (SetState now ns n st r) = active r"
  by (auto simp: active_def reg_laws fun_eq_iff split: option.splits)

text \<open>The registry provides the counter contract; a model is named by namespace and name.\<close>

interpretation registry: evictable_counter
  "\<lambda>(ns, n). entryKey ns n"
  active
  "\<lambda>now (ns, n). RecordRequest now ns n"
  "\<lambda>(ns, n). FinishRequest ns n"
  "\<lambda>(ns, n). Delete ns n"
  by unfold_locales (auto simp: active_def reg_laws fun_eq_iff split: option.splits)

lemma active_RecordRequest: "active (RecordRequest now ns n r) = (active r)(entryKey ns n := Suc (active r (entryKey ns n)))"
  using registry.active_start [of now "(ns, n)" r] by simp

lemma active_FinishRequest: "active (FinishRequest ns n r) = (active r)(entryKey ns n := active r (entryKey ns n) - 1)"
  using registry.active_finish [of "(ns, n)" r] by simp

lemma active_Delete: "active (Delete ns n r) = (active r)(entryKey ns n := 0)"
  using registry.active_remove [of "(ns, n)" r] by simp

lemmas active_laws = active_RecordRequest active_FinishRequest active_Delete active_SetState

section \<open>The eviction candidates\<close>

definition idle_entry :: "go_time \<Rightarrow> duration \<Rightarrow> DeploymentEntry \<Rightarrow> bool" where
  "idle_entry now minIdle e \<longleftrightarrow> ActiveRequests e = 0 \<and> LastRequestTime e < now - minIdle"

lemma set_GetIdleEntriesSorted:
  "set (GetIdleEntriesSorted now d r) = {e. e \<in> snd ` set r \<and> idle_entry now d e}"
  by (auto simp: GetIdleEntriesSorted_def Let_def idle_entry_def)

lemma GetIdleEntriesSorted_wf:
  assumes "registry_wf r" and "e \<in> set (GetIdleEntriesSorted now d r)"
  shows "Get (de_Namespace e) (de_Name e) r = Some e" and "idle_entry now d e"
  using assms by (auto simp: set_GetIdleEntriesSorted registry_wf_def list_all_iff Get_def
      map_of_eq_Some_iff)

lemma GetIdleEntriesSorted_distinct_keys:
  assumes "registry_wf r"
  shows "distinct (map (\<lambda>e. entryKey (de_Namespace e) (de_Name e)) (GetIdleEntriesSorted now d r))"
proof -
  have "map (\<lambda>e. entryKey (de_Namespace e) (de_Name e)) (map snd r) = map fst r"
    using assms by (auto simp: registry_wf_def list_all_iff)
  then have "distinct (map (\<lambda>e. entryKey (de_Namespace e) (de_Name e)) (map snd r))"
    using assms by (simp only: registry_wf_def)
  then have "inj_on (\<lambda>e. entryKey (de_Namespace e) (de_Name e)) (set (map snd r))"
    and "distinct (map snd r)"
    by (simp_all only: distinct_map)
  then show ?thesis
    by (auto simp: GetIdleEntriesSorted_def Let_def distinct_map intro: inj_on_subset)
qed

text \<open>
  C19. The eviction list is right: \<open>GetIdleEntriesSorted\<close> returns exactly the entries with no request
  in flight whose last request is older than the minimum idle time, each once and filed under its
  own name, and the longest idle first.
\<close>

theorem idle_entries_lru:
  assumes "registry_wf r"
  shows "sorted (map LastRequestTime (GetIdleEntriesSorted now d r))
    \<and> mset (GetIdleEntriesSorted now d r) = filter_mset (idle_entry now d) (mset (map snd r))
    \<and> distinct (map (\<lambda>e. entryKey (de_Namespace e) (de_Name e)) (GetIdleEntriesSorted now d r))
    \<and> (\<forall>e. e \<in> set (GetIdleEntriesSorted now d r) \<longleftrightarrow>
          Get (de_Namespace e) (de_Name e) r = Some e \<and> active r (entryKey (de_Namespace e) (de_Name e)) = 0
          \<and> LastRequestTime e < now - d)"
proof -
  have "mset (GetIdleEntriesSorted now d r) = filter_mset (idle_entry now d) (mset (map snd r))"
    by (simp add: GetIdleEntriesSorted_def Let_def idle_entry_def [abs_def])
  moreover have "e \<in> set (GetIdleEntriesSorted now d r) \<longleftrightarrow>
      Get (de_Namespace e) (de_Name e) r = Some e \<and> active r (entryKey (de_Namespace e) (de_Name e)) = 0
      \<and> LastRequestTime e < now - d" for e
    using GetIdleEntriesSorted_wf [OF assms]
    by (force simp: set_GetIdleEntriesSorted active_def Get_def idle_entry_def dest: map_of_SomeD)
  ultimately show ?thesis
    using GetIdleEntriesSorted_distinct_keys [OF assms]
    by (simp add: GetIdleEntriesSorted_def Let_def)
qed

definition demo_entry :: "string \<Rightarrow> DeploymentState \<Rightarrow> go_time \<Rightarrow> nat \<Rightarrow> DeploymentEntry" where
  "demo_entry n st t acts = \<lparr>de_Name = n, de_Namespace = ''ns'', State = st, LastRequestTime = t,
     ActiveRequests = acts, CreatedAt = 0\<rparr>"

lemma idle_entries_lru_witness:
  "sorted (map LastRequestTime (GetIdleEntriesSorted 100 10
     [(''ns/a'', demo_entry ''a'' StateReady 50 0), (''ns/b'', demo_entry ''b'' StateReady 20 0)]))"
  using idle_entries_lru [of "[(''ns/a'', demo_entry ''a'' StateReady 50 0),
      (''ns/b'', demo_entry ''b'' StateReady 20 0)]" 100 10]
  by (simp add: registry_wf_def entryKey_def slash_key_def demo_entry_def)

section \<open>Sequences of requests\<close>

datatype request_event = Begin go_time string string | Finish string string

fun apply_event :: "request_event \<Rightarrow> registry \<Rightarrow> registry" where
  "apply_event (Begin now ns n) r = RecordRequest now ns n r"
| "apply_event (Finish ns n) r = FinishRequest ns n r"

fun event_delta :: "string \<Rightarrow> request_event \<Rightarrow> int" where
  "event_delta k (Begin now ns n) = (if entryKey ns n = k then 1 else 0)"
| "event_delta k (Finish ns n) = (if entryKey ns n = k then - 1 else 0)"

fun never_below_zero :: "string \<Rightarrow> int \<Rightarrow> request_event list \<Rightarrow> bool" where
  "never_below_zero k c [] = True"
| "never_below_zero k c (e # es) = (0 \<le> c + event_delta k e \<and> never_below_zero k (c + event_delta k e) es)"

text \<open>
  C20. Requests in flight are counted exactly: for every sequence of recorded and finished requests
  that never finishes more than it recorded, the count of a model is the number recorded minus the
  number finished, on top of what was there.
\<close>

theorem requests_counted:
  assumes "never_below_zero k (int (active r k)) es"
  shows "int (active (fold apply_event es r) k) = int (active r k) + (\<Sum>e\<leftarrow>es. event_delta k e)"
  using assms
proof (induction es arbitrary: r)
  case Nil
  then show ?case by simp
next
  case (Cons e es)
  have one: "int (active (apply_event e r) k) = int (active r k) + event_delta k e"
    using Cons.prems by (cases e) (auto simp: active_laws)
  with Cons show ?case by simp
qed

lemma requests_counted_witness:
  "int (active (fold apply_event [Begin 1 ''ns'' ''a'', Begin 2 ''ns'' ''a'', Finish ''ns'' ''a''] NewRegistry)
      ''ns/a'') = 1"
  using requests_counted [of "''ns/a''" NewRegistry
      "[Begin 1 ''ns'' ''a'', Begin 2 ''ns'' ''a'', Finish ''ns'' ''a'']"]
  by (simp add: active_def NewRegistry_def entryKey_def slash_key_def)

section \<open>What a step may keep\<close>

text \<open>No code path sets \<open>StateDeleting\<close>; the other operations keep it that way.\<close>

definition no_deleting :: "registry \<Rightarrow> bool" where
  "no_deleting r \<longleftrightarrow> list_all (\<lambda>(k, e). State e \<noteq> StateDeleting) r"

lemma no_deleting_ops:
  assumes "no_deleting r"
  shows "st \<noteq> StateDeleting \<Longrightarrow> no_deleting (SetState now ns n st r)"
    and "no_deleting (RecordRequest now ns n r)" and "no_deleting (FinishRequest ns n r)"
    and "no_deleting (Delete ns n r)"
  using assms
  by (auto simp: no_deleting_def SetState_def RecordRequest_def FinishRequest_def Delete_def
      simp del: map_of_eq_Some_iff intro!: list_all_update list_all_delete
      dest: list_all_lookup split: option.splits)

lemma no_deleting_lookup: "no_deleting r \<Longrightarrow> Get ns n r = Some e \<Longrightarrow> State e \<noteq> StateDeleting"
  by (auto simp: no_deleting_def Get_def simp del: map_of_eq_Some_iff dest: list_all_lookup)

text \<open>A step that keeps the shape of the registry and every count of requests in flight.\<close>

definition counts_kept :: "registry \<Rightarrow> registry \<Rightarrow> bool" where
  "counts_kept r r' \<longleftrightarrow> active r' = active r \<and> (registry_wf r \<longrightarrow> registry_wf r')
     \<and> (no_deleting r \<longrightarrow> no_deleting r')"

lemma counts_kept_refl [simp]: "counts_kept r r"
  by (simp add: counts_kept_def)

lemma counts_kept_trans: "counts_kept r r' \<Longrightarrow> counts_kept r' r'' \<Longrightarrow> counts_kept r r''"
  by (simp add: counts_kept_def)

lemma counts_kept_SetState [simp]: "st \<noteq> StateDeleting \<Longrightarrow> counts_kept r (SetState now ns n st r)"
  by (simp add: counts_kept_def registry_wf_ops no_deleting_ops)

lemma counts_kept_Delete: "active r (entryKey ns n) = 0 \<Longrightarrow> counts_kept r (Delete ns n r)"
  by (auto simp: counts_kept_def registry_wf_ops no_deleting_ops active_laws fun_upd_idem)

end
