(* ===== verification/Request_Body.thy ===== *)
theory Request_Body
  imports Prelude
begin

text \<open>
  What the proxy does to the body of an OpenAI request before it forwards it, the first part of
  \<open>openaiPassthroughHandler\<close> in \<open>internal/proxy/handler.go\<close>, and how it copies a streamed answer back.

  A body is the JSON value of its text. Decoding into the struct \<open>inferenceRequest\<close> follows
  \<open>encoding/json\<close>: field names match without regard to (ASCII) case, a later field wins, \<open>null\<close> leaves
  the field alone, a value of another type is an error. Decoding into a \<open>map[string]interface{}\<close> keeps the last
  value of each key and makes every number a \<open>float64\<close>, whose printing is a parameter; decoding \<open>null\<close> leaves the map nil, and
  writing to a nil map panics. An object is the list of its fields, in whatever order they are printed.
\<close>

section \<open>JSON values\<close>

datatype json =
    JNull
  | JBool bool
  | JNumber string
  | JString string
  | JArray "json list"
  | JObject "(string \<times> json) list"

fun lower_char :: "char \<Rightarrow> char" where
  "lower_char c = (if 65 \<le> (of_char c :: nat) \<and> (of_char c :: nat) \<le> 90 then char_of ((of_char c :: nat) + 32) else c)"

definition same_field :: "string \<Rightarrow> string \<Rightarrow> bool" where
  "same_field k f = (map lower_char k = f)"

record inferenceRequest =
  Model :: string
  Stream :: bool

fun decode_fields :: "(string \<times> json) list \<Rightarrow> inferenceRequest \<Rightarrow> inferenceRequest option" where
  "decode_fields [] req = Some req"
| "decode_fields ((k, v) # fs) req =
     (if same_field k ''model'' then
        (case v of JString m \<Rightarrow> decode_fields fs (req\<lparr>Model := m\<rparr>)
                 | JNull \<Rightarrow> decode_fields fs req | _ \<Rightarrow> None)
      else if same_field k ''stream'' then
        (case v of JBool b \<Rightarrow> decode_fields fs (req\<lparr>Stream := b\<rparr>)
                 | JNull \<Rightarrow> decode_fields fs req | _ \<Rightarrow> None)
      else decode_fields fs req)"

fun decode_request :: "json \<Rightarrow> inferenceRequest option" where
  "decode_request (JObject fs) = decode_fields fs \<lparr>Model = '''', Stream = False\<rparr>"
| "decode_request JNull = Some \<lparr>Model = '''', Stream = False\<rparr>"
| "decode_request _ = None"

text \<open>
  A number decoded into an \<open>interface{}\<close> is a \<open>float64\<close>, and is printed as one again: \<open>num\<close> gives the text it comes back as, \<open>None\<close>
  where it is out of range, which makes the whole decoding fail. Objects inside become maps, which keep the last value of each key.
\<close>

type_synonym json_numbers = "string \<Rightarrow> string option"

definition last_values :: "(string \<times> json) list \<Rightarrow> (string, json) go_map" where
  "last_values fs = fold (\<lambda>(k, v). AList.update k v) fs []"

fun to_interface :: "json_numbers \<Rightarrow> json \<Rightarrow> json option"
  and to_interfaces :: "json_numbers \<Rightarrow> json list \<Rightarrow> json list option"
  and to_fields :: "json_numbers \<Rightarrow> (string \<times> json) list \<Rightarrow> (string \<times> json) list option" where
  "to_interface num JNull = Some JNull"
| "to_interface num (JBool b) = Some (JBool b)"
| "to_interface num (JNumber x) = map_option JNumber (num x)"
| "to_interface num (JString x) = Some (JString x)"
| "to_interface num (JArray js) = map_option JArray (to_interfaces num js)"
| "to_interface num (JObject fs) = map_option (\<lambda>gs. JObject (last_values gs)) (to_fields num fs)"
| "to_interfaces num [] = Some []"
| "to_interfaces num (j # js) =
     (case to_interface num j of None \<Rightarrow> None | Some j' \<Rightarrow> map_option (\<lambda>js'. j' # js') (to_interfaces num js))"
| "to_fields num [] = Some []"
| "to_fields num ((k, v) # fs) =
     (case to_interface num v of None \<Rightarrow> None | Some v' \<Rightarrow> map_option (\<lambda>gs. (k, v') # gs) (to_fields num fs))"

text \<open>Decoding into a map: \<open>None\<close> an error, \<open>Some None\<close> the nil map.\<close>

fun decode_map :: "json_numbers \<Rightarrow> json \<Rightarrow> (string, json) go_map option option" where
  "decode_map num (JObject fs) = map_option (\<lambda>gs. Some (last_values gs)) (to_fields num fs)"
| "decode_map num JNull = Some None"
| "decode_map num _ = None"

section \<open>Rewriting the body\<close>

text \<open>The default model, when the request names none.\<close>

definition apply_default_model ::
  "json_numbers \<Rightarrow> string \<Rightarrow> inferenceRequest \<Rightarrow> json \<Rightarrow> (inferenceRequest \<times> json) may_panic" where
  "apply_default_model num dflt req body =
     (if Model req = '''' \<and> dflt \<noteq> '''' then
        (let req' = req\<lparr>Model := dflt\<rparr> in
         case decode_map num body of
           None \<Rightarrow> Inr (req', body)
         | Some None \<Rightarrow> Inl NilMapWrite
         | Some (Some m) \<Rightarrow> Inr (req', JObject (AList.update ''model'' (JString dflt) m)))
      else Inr (req, body))"

definition messages_of :: "(string, json) go_map \<Rightarrow> json list" where
  "messages_of m = (case map_of m ''messages'' of Some (JArray ms) \<Rightarrow> ms | _ \<Rightarrow> [])"

fun is_system_message :: "json \<Rightarrow> bool" where
  "is_system_message (JObject fs) =
     (map_of (rev fs) ''role'' = Some (JString ''system''))"
| "is_system_message _ = False"

definition noThinkMsg :: json where
  "noThinkMsg = JObject [(''role'', JString ''system''),
     (''content'', JString ''Do not show your thinking or reasoning process. Answer directly.'')]"

definition chat_template_kwargs :: json where
  "chat_template_kwargs = JObject [(''enable_thinking'', JBool False)]"

definition disable_thinking :: "json_numbers \<Rightarrow> json \<Rightarrow> json may_panic" where
  "disable_thinking num body =
     (case decode_map num body of
        None \<Rightarrow> Inr body
      | Some None \<Rightarrow> Inl NilMapWrite
      | Some (Some m) \<Rightarrow>
          (let m1 = AList.update ''chat_template_kwargs'' chat_template_kwargs m;
               messages = messages_of m1;
               hasSystem = list_ex is_system_message messages
           in Inr (JObject (if hasSystem then m1
                else AList.update ''messages'' (JArray (noThinkMsg # messages)) m1))))"

definition rewrite_body :: "json_numbers \<Rightarrow> string \<Rightarrow> json \<Rightarrow> (inferenceRequest \<times> json) option may_panic" where
  "rewrite_body num dflt body =
     (case decode_request body of
        None \<Rightarrow> Inr None
      | Some req \<Rightarrow>
          (case apply_default_model num dflt req body of
             Inl p \<Rightarrow> Inl p
           | Inr (req', body') \<Rightarrow>
               (case disable_thinking num body' of
                  Inl p \<Rightarrow> Inl p
                | Inr body'' \<Rightarrow> Inr (Some (req', body'')))))"

lemma map_of_fold_update:
  "map_of (fold (\<lambda>(k, v). AList.update k v) fs m) k
     = (case map_of (rev fs) k of Some v \<Rightarrow> Some v | None \<Rightarrow> map_of m k)"
  by (induction fs arbitrary: m) (auto simp: map_laws map_add_def split: option.splits)

lemma keys_distinct_fold:
  "keys_distinct m \<Longrightarrow> keys_distinct (fold (\<lambda>(k, v). AList.update k v) fs m)"
  by (induction fs arbitrary: m) auto

lemma map_of_rev_distinct: "keys_distinct m \<Longrightarrow> map_of (rev m) = map_of m"
proof (rule map_of_inject_set [THEN iffD2])
  assume "keys_distinct m"
  then show "keys_distinct (rev m)" by (simp add: rev_map [symmetric])
qed simp_all

lemma last_values_map: "keys_distinct (last_values fs)" "map_of (last_values fs) = map_of (rev fs)"
  by (auto simp: last_values_def map_of_fold_update keys_distinct_fold fun_eq_iff split: option.splits)

lemma update_fresh: "k \<notin> fst ` set m \<Longrightarrow> AList.update k v m = m @ [(k, v)]"
  by (induction m) auto

lemma last_values_distinct: "keys_distinct fs \<Longrightarrow> last_values fs = fs"
proof -
  have "keys_distinct (m @ fs) \<Longrightarrow> fold (\<lambda>(k, v). AList.update k v) fs m = m @ fs" for m :: "(string \<times> json) list"
    by (induction fs arbitrary: m) (auto simp: update_fresh)
  from this [of "[]"] show "keys_distinct fs \<Longrightarrow> last_values fs = fs" by (simp add: last_values_def)
qed

section \<open>Converting twice\<close>

text \<open>
  What the code relies on of the printing of a \<open>float64\<close>: its text is read back as the same number (the shortest text that does so is
  printed), so that a body that was converted stays as it is when it is converted again.
\<close>

definition number_round_trip :: "json_numbers \<Rightarrow> bool" where
  "number_round_trip num \<longleftrightarrow> (\<forall>x y. num x = Some y \<longrightarrow> num y = Some y)"

text \<open>A value as it comes out of a conversion: numbers as they are printed, each key once.\<close>

fun converted :: "json_numbers \<Rightarrow> json \<Rightarrow> bool"
  and converted_list :: "json_numbers \<Rightarrow> json list \<Rightarrow> bool"
  and converted_fields :: "json_numbers \<Rightarrow> (string \<times> json) list \<Rightarrow> bool" where
  "converted num (JNumber x) \<longleftrightarrow> num x = Some x"
| "converted num (JArray js) \<longleftrightarrow> converted_list num js"
| "converted num (JObject fs) \<longleftrightarrow> keys_distinct fs \<and> converted_fields num fs"
| "converted num _ \<longleftrightarrow> True"
| "converted_list num [] \<longleftrightarrow> True"
| "converted_list num (j # js) \<longleftrightarrow> converted num j \<and> converted_list num js"
| "converted_fields num [] \<longleftrightarrow> True"
| "converted_fields num ((k, v) # fs) \<longleftrightarrow> converted num v \<and> converted_fields num fs"

lemma converted_fields_all: "converted_fields num fs \<longleftrightarrow> (\<forall>(k, v) \<in> set fs. converted num v)"
  by (induction fs) auto

lemma converted_fields_update:
  "converted_fields num fs \<Longrightarrow> converted num v \<Longrightarrow> converted_fields num (AList.update k v fs)"
  by (induction fs) auto

lemma converted_last_values: "converted_fields num fs \<Longrightarrow> converted num (JObject (last_values fs))"
proof -
  have "converted_fields num m \<Longrightarrow> converted_fields num fs \<Longrightarrow> converted_fields num (fold (\<lambda>(k, v). AList.update k v) fs m)" for m
    by (induction fs arbitrary: m) (auto simp: converted_fields_update)
  from this [of "[]"] show "converted_fields num fs \<Longrightarrow> converted num (JObject (last_values fs))"
    by (simp add: last_values_map(1)) (simp add: last_values_def)
qed

lemma conversion_converts:
  "number_round_trip num \<Longrightarrow> to_interface num j = Some j' \<Longrightarrow> converted num j'"
  "number_round_trip num \<Longrightarrow> to_interfaces num js = Some js' \<Longrightarrow> converted_list num js'"
  "number_round_trip num \<Longrightarrow> to_fields num fs = Some gs \<Longrightarrow> converted_fields num gs"
  by (induction num j and num js and num fs arbitrary: j' and js' and gs rule: to_interface_to_interfaces_to_fields.induct)
    (auto simp: number_round_trip_def split: option.splits intro: converted_last_values simp del: converted.simps(3))

text \<open>What is converted already is not changed.\<close>

lemma conversion_keeps:
  "converted num j \<Longrightarrow> to_interface num j = Some j"
  "converted_list num js \<Longrightarrow> to_interfaces num js = Some js"
  "converted_fields num fs \<Longrightarrow> to_fields num fs = Some fs"
  by (induction num j and num js and num fs rule: to_interface_to_interfaces_to_fields.induct)
    (auto simp: last_values_distinct)

lemma to_fields_keys: "to_fields num fs = Some gs \<Longrightarrow> map fst gs = map fst fs"
  by (induction fs arbitrary: gs) (auto split: option.splits)

text \<open>The fields of a converted object are the converted fields.\<close>

lemma map_of_rev_fields:
  "to_fields num fs = Some gs \<Longrightarrow> map_of (rev gs) k = Option.bind (map_of (rev fs) k) (to_interface num)"
proof (induction fs arbitrary: gs)
  case Nil
  then show ?case by simp
next
  case (Cons f fs)
  obtain k' v where f: "f = (k', v)" by (cases f)
  with Cons.prems obtain v' gs' where step: "to_interface num v = Some v'" "to_fields num fs = Some gs'" "gs = (k', v') # gs'"
    by (auto split: option.splits)
  have "map_of (rev gs') k = None \<longleftrightarrow> map_of (rev fs) k = None"
    using to_fields_keys [OF step(2)] by (simp add: map_of_eq_None_iff) (metis list.set_map)
  with Cons.IH [OF step(2)] f step show ?case by (auto simp: map_add_def split: option.splits)
qed

section \<open>What is forwarded\<close>

text \<open>The value of a field as the client sent it, with its numbers as \<open>float64\<close>.\<close>

abbreviation field_sent :: "json_numbers \<Rightarrow> (string \<times> json) list \<Rightarrow> string \<Rightarrow> json option" where
  "field_sent num fs k \<equiv> Option.bind (map_of (rev fs) k) (to_interface num)"

definition messages_sent :: "json_numbers \<Rightarrow> (string \<times> json) list \<Rightarrow> json list" where
  "messages_sent num fs = (case field_sent num fs ''messages'' of Some (JArray ms) \<Rightarrow> ms | _ \<Rightarrow> [])"

lemma disable_thinking_object:
  assumes "disable_thinking num (JObject fs) = Inr body" and "to_fields num fs = Some gs"
  shows "\<exists>m. body = JObject m
    \<and> map_of m ''chat_template_kwargs'' = Some chat_template_kwargs
    \<and> list_ex is_system_message (messages_of m)
    \<and> (\<exists>pre. messages_of m = pre @ messages_sent num fs \<and> set pre \<subseteq> {noThinkMsg})
    \<and> (\<forall>k. k \<notin> {''chat_template_kwargs'', ''messages''} \<longrightarrow> map_of m k = field_sent num fs k)"
proof -
  let ?m1 = "AList.update ''chat_template_kwargs'' chat_template_kwargs (last_values gs)"
  have field: "map_of (last_values gs) k = field_sent num fs k" for k
    using map_of_rev_fields [OF assms(2)] by (simp add: last_values_map)
  have msgs: "messages_of ?m1 = messages_sent num fs"
    by (simp add: messages_of_def messages_sent_def map_laws field)
  have body: "body = JObject (if list_ex is_system_message (messages_sent num fs) then ?m1
      else AList.update ''messages'' (JArray (noThinkMsg # messages_sent num fs)) ?m1)"
    using assms msgs by (auto simp: disable_thinking_def Let_def)
  show ?thesis
  proof (cases "list_ex is_system_message (messages_sent num fs)")
    case True
    with body msgs show ?thesis by (intro exI [of _ ?m1]) (auto simp: map_laws field)
  next
    case False
    have "messages_of (AList.update ''messages'' (JArray (noThinkMsg # messages_sent num fs)) ?m1)
        = [noThinkMsg] @ messages_sent num fs"
      by (simp add: messages_of_def map_laws)
    with False body show ?thesis by (auto simp: map_laws noThinkMsg_def field)
  qed
qed

text \<open>The request names no model and there is a default.\<close>

definition defaulted :: "string \<Rightarrow> inferenceRequest \<Rightarrow> bool" where
  "defaulted dflt req \<longleftrightarrow> Model req = '''' \<and> dflt \<noteq> ''''"

text \<open>The default model: where the body is decoded, it is then an object that a second decoding keeps.\<close>

lemma apply_default_model_object:
  assumes "apply_default_model num dflt req (JObject fs) = Inr (req', body)" and "number_round_trip num"
    and "to_fields num fs = Some gs"
  shows "\<exists>fs' gs'. body = JObject fs' \<and> to_fields num fs' = Some gs'
    \<and> (\<forall>k. k \<noteq> ''model'' \<longrightarrow> field_sent num fs' k = field_sent num fs k)
    \<and> req' = (if defaulted dflt req then req\<lparr>Model := dflt\<rparr> else req)
    \<and> field_sent num fs' ''model'' = (if defaulted dflt req then Some (JString dflt) else field_sent num fs ''model'')"
proof (cases "defaulted dflt req")
  case True
  let ?fs' = "AList.update ''model'' (JString dflt) (last_values gs)"
  have "converted num (JObject (last_values gs))"
    using conversion_converts(3) [OF assms(2,3)] by (rule converted_last_values)
  then have keep: "to_fields num ?fs' = Some ?fs'"
    by (intro conversion_keeps(3) converted_fields_update) simp_all
  have "field_sent num ?fs' k = field_sent num fs k" if "k \<noteq> ''model''" for k
  proof -
    have "field_sent num ?fs' k = map_of (rev ?fs') k" by (rule map_of_rev_fields [OF keep, symmetric])
    also have "\<dots> = map_of (rev gs) k" using that by (simp add: map_of_rev_distinct last_values_map map_laws)
    also have "\<dots> = field_sent num fs k" by (rule map_of_rev_fields [OF assms(3)])
    finally show ?thesis .
  qed
  moreover have "field_sent num ?fs' ''model'' = Some (JString dflt)"
    using map_of_rev_fields [OF keep, of "''model''"] by (simp add: map_of_rev_distinct last_values_map map_laws)
  ultimately show ?thesis using True assms keep
    by (intro exI [of _ ?fs'] exI [of _ ?fs']) (auto simp: apply_default_model_def defaulted_def Let_def)
next
  case False
  with assms show ?thesis by (auto simp: apply_default_model_def defaulted_def)
qed

text \<open>
  C28. The rewritten body asks for no thinking and loses no field: when the numbers of a request object are in range, the body that is
  forwarded has \<open>chat_template_kwargs\<close> that turn thinking off, its messages contain a system message and end with all of the client's
  messages in order, the model is the default where the request names none and there is one, and every field other than those has the
  value the client sent, each number in it (and
  in the messages) as the \<open>float64\<close> that it was decoded to and each object in it with the last value of each key. When a number is out
  of the range of \<open>float64\<close>, the body is forwarded as it came, with the thinking on and without the defaulted model.
\<close>

theorem rewritten_body_complete:
  assumes "rewrite_body num dflt (JObject fs) = Inr (Some (req, body))" and "number_round_trip num"
  shows "case to_fields num fs of
      None \<Rightarrow> body = JObject fs
    | Some gs \<Rightarrow> \<exists>m. body = JObject m
        \<and> map_of m ''chat_template_kwargs'' = Some chat_template_kwargs
        \<and> list_ex is_system_message (messages_of m)
        \<and> (\<exists>pre. messages_of m = pre @ messages_sent num fs \<and> set pre \<subseteq> {noThinkMsg})
        \<and> (\<forall>k. k \<notin> {''chat_template_kwargs'', ''messages'', ''model''} \<longrightarrow> map_of m k = field_sent num fs k)
        \<and> (\<exists>req0. decode_request (JObject fs) = Some req0
            \<and> req = (if defaulted dflt req0 then req0\<lparr>Model := dflt\<rparr> else req0)
            \<and> map_of m ''model'' = (if defaulted dflt req0 then Some (JString dflt) else field_sent num fs ''model''))"
proof -
  obtain req0 b where decoded: "decode_request (JObject fs) = Some req0"
    and step: "apply_default_model num dflt req0 (JObject fs) = Inr (req, b)"
    and think: "disable_thinking num b = Inr body"
    using assms(1) by (auto simp: rewrite_body_def split: option.splits sum.splits)
  show ?thesis
  proof (cases "to_fields num fs")
    case None
    with step have "b = JObject fs" by (auto simp: apply_default_model_def Let_def split: if_splits)
    with None think show ?thesis by (simp add: disable_thinking_def)
  next
    case (Some gs)
    obtain fs' gs' where b: "b = JObject fs'" "to_fields num fs' = Some gs'"
      and other: "\<forall>k. k \<noteq> ''model'' \<longrightarrow> field_sent num fs' k = field_sent num fs k"
      and model: "req = (if defaulted dflt req0 then req0\<lparr>Model := dflt\<rparr> else req0)"
        "field_sent num fs' ''model'' = (if defaulted dflt req0 then Some (JString dflt) else field_sent num fs ''model'')"
      using apply_default_model_object [OF step assms(2) Some] by blast
    from other have "messages_sent num fs' = messages_sent num fs" by (simp add: messages_sent_def)
    with disable_thinking_object [OF think [unfolded b(1)] b(2)] obtain m where
      m: "body = JObject m" "map_of m ''chat_template_kwargs'' = Some chat_template_kwargs"
        "list_ex is_system_message (messages_of m)"
        "\<exists>pre. messages_of m = pre @ messages_sent num fs \<and> set pre \<subseteq> {noThinkMsg}"
      and kept: "\<forall>k. k \<notin> {''chat_template_kwargs'', ''messages''} \<longrightarrow> map_of m k = field_sent num fs' k"
      by auto
    have "\<forall>k. k \<notin> {''chat_template_kwargs'', ''messages'', ''model''} \<longrightarrow> map_of m k = field_sent num fs k"
      using kept other by simp
    moreover have "map_of m ''model'' = field_sent num fs' ''model''" using kept by simp
    ultimately show ?thesis unfolding Some option.case using m decoded model by (intro exI [of _ m]) auto
  qed
qed

text \<open>Numbers of which two are changed: one between two \<open>float64\<close> values, and one out of their range.\<close>

definition demo_numbers :: json_numbers where
  "demo_numbers x = (if x = ''9007199254740993'' then Some ''9007199254740992'' else if x = ''1e400'' then None else Some x)"

lemma demo_numbers_round_trip: "number_round_trip demo_numbers"
  by (auto simp: number_round_trip_def demo_numbers_def split: if_splits)

lemmas eval_rewrite = rewrite_body_def same_field_def apply_default_model_def disable_thinking_def last_values_def
  demo_numbers_def Let_def

lemma rewritten_body_complete_witness:
  "\<exists>req m. rewrite_body demo_numbers ''llama'' (JObject [(''messages'', JArray []), (''seed'', JNumber ''9007199254740993'')])
     = Inr (Some (req, JObject m)) \<and> map_of m ''seed'' = Some (JNumber ''9007199254740992'')"
proof -
  let ?fs = "[(''messages'', JArray []), (''seed'', JNumber ''9007199254740993'')]"
  obtain req body where r: "rewrite_body demo_numbers ''llama'' (JObject ?fs) = Inr (Some (req, body))"
    by (simp add: eval_rewrite)
  have fields: "to_fields demo_numbers ?fs = Some [(''messages'', JArray []), (''seed'', JNumber ''9007199254740992'')]"
    by (simp add: demo_numbers_def)
  have other: "''seed'' \<notin> {''chat_template_kwargs'', ''messages'', ''model''}" by simp
  have "\<exists>m. body = JObject m \<and> (\<forall>k. k \<notin> {''chat_template_kwargs'', ''messages'', ''model''} \<longrightarrow>
      map_of m k = field_sent demo_numbers ?fs k)"
    using rewritten_body_complete [OF r demo_numbers_round_trip, unfolded fields option.case]
    by (elim exE conjE) (intro exI conjI, assumption+)
  then obtain m where "body = JObject m" and "map_of m ''seed'' = field_sent demo_numbers ?fs ''seed''"
    using other by (elim exE conjE) iprover
  moreover have "field_sent demo_numbers ?fs ''seed'' = Some (JNumber ''9007199254740992'')" by code_simp
  ultimately show ?thesis using r by (intro exI [of _ req] exI [of _ m]) simp
qed

text \<open>
  The seed of a request may change on the way, and one number out of range keeps the thinking on and the default model out of the body,
  although the request is routed to that model.
\<close>

theorem numbers_change:
  "rewrite_body demo_numbers '''' (JObject [(''model'', JString ''m''), (''seed'', JNumber ''9007199254740993'')])
     = Inr (Some (\<lparr>Model = ''m'', Stream = False\<rparr>,
         JObject [(''model'', JString ''m''), (''seed'', JNumber ''9007199254740992''),
           (''chat_template_kwargs'', chat_template_kwargs), (''messages'', JArray [noThinkMsg])]))"
  "rewrite_body demo_numbers ''llama'' (JObject [(''x'', JNumber ''1e400'')])
     = Inr (Some (\<lparr>Model = ''llama'', Stream = False\<rparr>, JObject [(''x'', JNumber ''1e400'')]))"
  by code_simp+

section \<open>Copying a streamed answer\<close>

text \<open>
  The loop of \<open>handleStreamingResponse\<close>: \<open>ReadString\<close> up to a newline, write the line; at the end of the
  input (or a read error) stop, with what was read of an unfinished line dropped.
\<close>

fun stream_loop :: "string \<Rightarrow> string \<Rightarrow> string" where
  "stream_loop line [] = []"
| "stream_loop line (c # cs) =
     (if c = CHR 0x0A then (line @ [c]) @ stream_loop [] cs else stream_loop (line @ [c]) cs)"

definition handleStreamingResponse :: "string \<Rightarrow> string" where
  "handleStreamingResponse body = stream_loop [] body"

lemma stream_loop_prefix:
  "\<exists>rest. line @ body = stream_loop line body @ rest
     \<and> (CHR 0x0A \<notin> set line \<longrightarrow> CHR 0x0A \<notin> set rest)
     \<and> (stream_loop line body = [] \<or> last (stream_loop line body) = CHR 0x0A)"
proof (induction line body rule: stream_loop.induct)
  case (1 line)
  then show ?case by simp
next
  case (2 line c cs)
  show ?case
  proof (cases "c = CHR 0x0A")
    case True
    with 2(1) show ?thesis by (auto simp: last_append)
  next
    case False
    with 2(2) show ?thesis by auto
  qed
qed

text \<open>
  A streamed answer is forwarded up to its last newline: what the client receives is the longest
  prefix of the backend's body that ends with a newline, and the rest, a final line without one, is
  lost.
\<close>

theorem stream_drops_unfinished_line:
  "\<exists>rest. body = handleStreamingResponse body @ rest \<and> CHR 0x0A \<notin> set rest
     \<and> (handleStreamingResponse body = [] \<or> last (handleStreamingResponse body) = CHR 0x0A)
     \<and> (handleStreamingResponse body = body \<longleftrightarrow> body = [] \<or> last body = CHR 0x0A)"
proof -
  obtain rest where r: "body = handleStreamingResponse body @ rest" "CHR 0x0A \<notin> set rest"
      "handleStreamingResponse body = [] \<or> last (handleStreamingResponse body) = CHR 0x0A"
    using stream_loop_prefix [of "[]" body] by (auto simp: handleStreamingResponse_def)
  have "last rest = CHR 0x0A" if "rest \<noteq> []" "body = [] \<or> last body = CHR 0x0A"
    using that r(1) by (metis append_is_Nil_conv last_appendR)
  with r have "rest = [] \<longleftrightarrow> body = [] \<or> last body = CHR 0x0A"
    by (metis append_Nil2 last_in_set)
  moreover have "handleStreamingResponse body = body \<longleftrightarrow> rest = []"
    using r(1) by (metis append_self_conv)
  ultimately show ?thesis using r by blast
qed

end
