(* ===== verification/Http_Messages.thy ===== *)
theory Http_Messages
  imports Request_Body
begin

text \<open>
  HTTP messages as the proxy handles them (\<open>internal/proxy/handler.go\<close>): headers with the operations of \<open>net/http\<close> and of
  gin that it calls, the request of the client and what reading a form does to it, the request to the backend, and the copying
  of an answer.
\<close>

section \<open>Headers\<close>

text \<open>The values of each key, in order; a key that is a token is written \<open>Like-This\<close>, any other stays as it is.\<close>

type_synonym http_header = "(string, string list) go_map"

definition token_char :: "char \<Rightarrow> bool" where
  "token_char c \<longleftrightarrow> (let n = (of_char c :: nat) in 48 \<le> n \<and> n \<le> 57 \<or> 65 \<le> n \<and> n \<le> 90 \<or> 94 \<le> n \<and> n \<le> 122
     \<or> n \<in> {33, 35, 36, 37, 38, 39, 42, 43, 45, 46, 124, 126})"

definition upper_char :: "char \<Rightarrow> char" where
  "upper_char c = (if 97 \<le> (of_char c :: nat) \<and> (of_char c :: nat) \<le> 122 then char_of ((of_char c :: nat) - 32) else c)"

fun canonical_words :: "bool \<Rightarrow> string \<Rightarrow> string" where
  "canonical_words upper [] = []"
| "canonical_words upper (c # cs) = (if upper then upper_char c else lower_char c) # canonical_words (c = CHR ''-'') cs"

definition CanonicalMIMEHeaderKey :: "string \<Rightarrow> string" where
  "CanonicalMIMEHeaderKey k = (if list_all token_char k then canonical_words True k else k)"

definition header_values :: "http_header \<Rightarrow> string \<Rightarrow> string list" where
  "header_values h k = (case map_of h k of None \<Rightarrow> [] | Some vs \<Rightarrow> vs)"

definition header_Add :: "string \<Rightarrow> string \<Rightarrow> http_header \<Rightarrow> http_header" where
  "header_Add k v h = (let key = CanonicalMIMEHeaderKey k in AList.update key (header_values h key @ [v]) h)"

definition header_Set :: "string \<Rightarrow> string \<Rightarrow> http_header \<Rightarrow> http_header" where
  "header_Set k v h = AList.update (CanonicalMIMEHeaderKey k) [v] h"

definition header_Del :: "string \<Rightarrow> http_header \<Rightarrow> http_header" where
  "header_Del k h = AList.delete (CanonicalMIMEHeaderKey k) h"

text \<open>gin's \<open>Context.Header\<close>, which removes the key when the value is empty.\<close>

definition gin_Header :: "string \<Rightarrow> string \<Rightarrow> http_header \<Rightarrow> http_header" where
  "gin_Header k v h = (if v = '''' then header_Del k h else header_Set k v h)"

text \<open>The loops over the headers of a message, in the order in which the map is ranged over.\<close>

definition range_header :: "(string \<Rightarrow> string \<Rightarrow> http_header \<Rightarrow> http_header) \<Rightarrow> http_header \<Rightarrow> http_header \<Rightarrow> http_header" where
  "range_header f hs h = fold (\<lambda>(k, vs). fold (f k) vs) hs h"

definition copy_request_headers :: "http_header \<Rightarrow> http_header" where
  "copy_request_headers hs = range_header header_Add hs []"

definition copy_answer_headers :: "http_header \<Rightarrow> http_header" where
  "copy_answer_headers hs = range_header gin_Header hs []"

section \<open>The request of the client\<close>

record client_request =
  cr_Method :: string
  cr_Header :: http_header
  cr_ContentLength :: int \<comment> \<open>\<open>-1\<close> where it is not known\<close>
  cr_Body :: string \<comment> \<open>what can still be read\<close>
  cr_Form :: "string \<Rightarrow> string" \<comment> \<open>the first value of each field of the URL and of the form in the body\<close>
  cr_Unread :: nat \<comment> \<open>how many bytes of the body the parser of forms leaves\<close>

text \<open>\<open>FormValue\<close> parses the form, for which it reads the body.\<close>

definition FormValue :: "string \<Rightarrow> client_request \<Rightarrow> string \<times> client_request" where
  "FormValue key r = (cr_Form r key, r\<lparr>cr_Body := drop (length (cr_Body r) - cr_Unread r) (cr_Body r)\<rparr>)"

section \<open>The request to the backend\<close>

datatype payload = JsonText json | RawText string

record backend_request =
  bq_Method :: string
  bq_URL :: string
  bq_Header :: http_header
  bq_Body :: payload
  bq_ContentLength :: "int option" \<comment> \<open>\<open>None\<close> where the library takes it from the body\<close>

record reply =
  an_Status :: nat
  an_Header :: http_header
  an_Body :: string \<comment> \<open>what was read of it\<close>
  an_Complete :: bool \<comment> \<open>up to its end, without an error\<close>

text \<open>What became of a request sent to a backend.\<close>

datatype call_result = RequestError | ClientGone | CallFailed | Answered reply

text \<open>A request that declares a length must have a body of that length, or the transport gives up.\<close>

definition length_mismatch :: "backend_request \<Rightarrow> bool" where
  "length_mismatch q = (case (bq_ContentLength q, bq_Body q) of
     (Some n, RawText b) \<Rightarrow> n > 0 \<and> int (length b) \<noteq> n | _ \<Rightarrow> False)"

definition http_Do :: "(backend_request \<Rightarrow> call_result) \<Rightarrow> backend_request \<Rightarrow> call_result" where
  "http_Do call q = (case call q of
     Answered a \<Rightarrow> if length_mismatch q then CallFailed else Answered a | r \<Rightarrow> r)"

section \<open>What the loops copy\<close>

lemma header_values_simps [simp]:
  "header_values [] k = []"
  "header_values ((k', vs) # h) k = (if k = k' then vs else header_values h k)"
  "header_values (AList.update k' vs h) k = (if k = k' then vs else header_values h k)"
  "header_values (AList.delete k' h) k = (if k = k' then [] else header_values h k)"
  by (simp_all add: header_values_def map_laws)

lemma header_values_absent: "k \<notin> fst ` set h \<Longrightarrow> header_values h k = []"
  by (induction h) auto

text \<open>A header as the library delivers it: each key once, and written as the library writes it.\<close>

definition canonical :: "http_header \<Rightarrow> bool" where
  "canonical hs \<longleftrightarrow> keys_distinct hs \<and> (\<forall>k \<in> fst ` set hs. CanonicalMIMEHeaderKey k = k)"

lemma canonical_simps [simp]:
  "canonical []"
  "canonical ((k, vs) # hs) \<longleftrightarrow> CanonicalMIMEHeaderKey k = k \<and> k \<notin> fst ` set hs \<and> canonical hs"
  by (auto simp: canonical_def)

lemma range_header_simps [simp]:
  "range_header f [] h = h"
  "range_header f ((k, vs) # hs) h = range_header f hs (fold (f k) vs h)"
  by (simp_all add: range_header_def)

lemma values_Adds:
  "CanonicalMIMEHeaderKey k = k \<Longrightarrow> header_values (fold (header_Add k) vs h) k' = header_values h k' @ (if k' = k then vs else [])"
  by (induction vs arbitrary: h) (simp_all add: header_Add_def Let_def)

lemma range_Adds:
  "canonical hs \<Longrightarrow> header_values (range_header header_Add hs h) k = header_values h k @ header_values hs k"
  by (induction hs arbitrary: h) (auto simp: values_Adds header_values_absent)

text \<open>The request to the backend has every value of every header of the client's, in order.\<close>

lemma request_headers_kept: "canonical hs \<Longrightarrow> header_values (copy_request_headers hs) = header_values hs"
  by (simp add: copy_request_headers_def range_Adds fun_eq_iff)

definition last_value :: "string list \<Rightarrow> string list" where
  "last_value vs = (if vs = [] \<or> last vs = '''' then [] else [last vs])"

lemma last_value_simps [simp]:
  "last_value [] = []" "last_value (v # vs) = (if vs = [] then (if v = '''' then [] else [v]) else last_value vs)"
  by (simp_all add: last_value_def)

lemma values_gins:
  "CanonicalMIMEHeaderKey k = k \<Longrightarrow> header_values (fold (gin_Header k) vs h) k'
     = (if k' = k \<and> vs \<noteq> [] then last_value vs else header_values h k')"
  by (induction vs arbitrary: h) (auto simp: gin_Header_def header_Del_def header_Set_def)

lemma range_gins:
  "canonical hs \<Longrightarrow> header_values (range_header gin_Header hs h) k
     = (if header_values hs k = [] then header_values h k else last_value (header_values hs k))"
  by (induction hs arbitrary: h) (auto simp: values_gins header_values_absent split: if_splits)

text \<open>Of the headers of an answer only the last value of each key reaches the client, and none if it is empty.\<close>

lemma answer_headers_last: "canonical hs \<Longrightarrow> header_values (copy_answer_headers hs) k = last_value (header_values hs k)"
  by (simp add: copy_answer_headers_def range_gins)

end
