(* ===== verification/Cluster.thy ===== *)
theory Cluster
  imports Pod_Builder Registry Budget Http_Messages
begin

text \<open>
  The surroundings of the proxy and the controller, and the memory they share.

  The Kubernetes API, the clock and the start of Go's \<open>range\<close> loops are the environment: functions
  of the moment at which the code asks (a number that the callers advance, so that no two requests
  share an answer) with nothing assumed of their answers. The shared memory is the budget tracker, the
  deployment registry and the idle tracker; the requests that change the cluster are logged in order.
\<close>

section \<open>The Kubernetes API as the code sees it\<close>

record Pod =
  pod_Name :: string
  pod_Namespace :: string
  pod_Annotations :: "(string, string) go_map"
  pod_Phase :: string
  pod_PodIP :: string
  pod_Conditions :: "(string \<times> string) list" \<comment> \<open>type and status\<close>

definition pod_is_ready :: "Pod \<Rightarrow> bool" where
  "pod_is_ready p = list_ex (\<lambda>(ty, st). ty = ''Ready'' \<and> st = ''True'') (pod_Conditions p)"

text \<open>What one turn of a waiting loop sees: its timeout, the end of the request, or a tick with the pod.\<close>

datatype poll_event = TimeoutFires | ContextDone | Tick "api_error + Pod"

datatype model_poll = ModelTimeout | ModelContextDone | ModelTick "api_error + InferenceModel"

record 'q cluster =
  quantities :: "'q quantity_api"
  clock :: "nat \<Rightarrow> go_time"
  format_rfc3339 :: "go_time \<Rightarrow> string" \<comment> \<open>\<open>UTC().Format(time.RFC3339)\<close>\<close>
  range_start :: "nat \<Rightarrow> choice"
  pod_get :: "nat \<Rightarrow> string \<Rightarrow> string \<Rightarrow> api_error + Pod"
  pod_delete :: "nat \<Rightarrow> string \<Rightarrow> string \<Rightarrow> api_error option"
  pod_create :: "nat \<Rightarrow> string \<Rightarrow> string \<Rightarrow> api_error option"
  backend_get :: "nat \<Rightarrow> string \<Rightarrow> string \<Rightarrow> api_error + InferenceBackend"
  model_list :: "nat \<Rightarrow> string \<Rightarrow> api_error + InferenceModel list"
  owner_ref :: "nat \<Rightarrow> api_error option" \<comment> \<open>\<open>controllerutil.SetControllerReference\<close>\<close>
  polls :: "nat \<Rightarrow> poll_event list"
  model_polls :: "nat \<Rightarrow> model_poll list"
  backend_call :: "nat \<Rightarrow> backend_request \<Rightarrow> call_result"
  json_number :: "string \<Rightarrow> string option" \<comment> \<open>a number printed as the \<open>float64\<close> it is decoded to\<close>

section \<open>Shared memory\<close>

datatype 'q effect =
    PodDeleted string string \<comment> \<open>namespace and name, one per request sent\<close>
  | PodCreated "'q BuiltPod"
  | AdmissionMetric string string bool \<comment> \<open>namespace, name, accepted\<close>
  | RequestMetric string string bool duration \<comment> \<open>namespace, name, success, duration\<close>
  | BackendAsked backend_request \<comment> \<open>one per request sent\<close>

type_synonym idle_times = "(string, go_time) go_map"

record 'q server =
  Tracker :: "'q Tracker"
  Reg :: "registry option" \<comment> \<open>\<open>None\<close> where the pointer \<open>Registry\<close> is nil\<close>
  IdleTracker :: idle_times
  effects :: "'q effect list"

definition log_effect :: "'q effect \<Rightarrow> 'q server \<Rightarrow> 'q server" where
  "log_effect e s = s\<lparr>effects := effects s @ [e]\<rparr>"

text \<open>A step of the registry where the code calls it on a pointer that may be nil.\<close>

definition on_registry :: "(registry \<Rightarrow> registry) \<Rightarrow> 'q server \<Rightarrow> 'q server" where
  "on_registry f s = s\<lparr>Reg := map_option f (Reg s)\<rparr>"

lemma on_registry_simps [simp]:
  "Tracker (on_registry f s) = Tracker s" "Reg (on_registry f s) = map_option f (Reg s)"
  "IdleTracker (on_registry f s) = IdleTracker s" "effects (on_registry f s) = effects s"
  by (simp_all add: on_registry_def)

lemma log_effect_simps [simp]:
  "Tracker (log_effect e s) = Tracker s" "Reg (log_effect e s) = Reg s"
  "IdleTracker (log_effect e s) = IdleTracker s" "effects (log_effect e s) = effects s @ [e]"
  by (simp_all add: log_effect_def)

section \<open>The idle tracker of the proxy\<close>

definition NewIdleTracker :: idle_times where "NewIdleTracker = []"

definition IdleTracker_RecordRequest :: "go_time \<Rightarrow> string \<Rightarrow> string \<Rightarrow> idle_times \<Rightarrow> idle_times" where
  "IdleTracker_RecordRequest now namespace name t = AList.update (slash_key namespace name) now t"

definition GetIdleDuration :: "go_time \<Rightarrow> string \<Rightarrow> string \<Rightarrow> idle_times \<Rightarrow> duration" where
  "GetIdleDuration now namespace name t =
     (case map_of t (slash_key namespace name) of Some last_time \<Rightarrow> now - last_time | None \<Rightarrow> 0)"

definition GetIdleSince :: "string \<Rightarrow> string \<Rightarrow> idle_times \<Rightarrow> go_time option" where
  "GetIdleSince namespace name t = map_of t (slash_key namespace name)"

section \<open>Results of a handler\<close>

text \<open>
  A handler returns, panics (gin's recovery then answers; the state is what the panic left behind)
  or is still waiting when the events it was given run out.
\<close>

datatype ('a, 's) outcome = Returns 'a 's | Panics panic 's | Waits 's

fun outcome_state :: "('a, 's) outcome \<Rightarrow> 's" where
  "outcome_state (Returns a s) = s"
| "outcome_state (Panics p s) = s"
| "outcome_state (Waits s) = s"

text \<open>Continue after a call that returned; a panic or a wait is the caller's as well.\<close>

fun and_then :: "('a, 's) outcome \<Rightarrow> ('a \<Rightarrow> 's \<Rightarrow> ('b, 's) outcome) \<Rightarrow> ('b, 's) outcome" where
  "and_then (Returns a s) f = f a s"
| "and_then (Panics p s) f = Panics p s"
| "and_then (Waits s) f = Waits s"

text \<open>A tracker call that may panic, at state \<open>s\<close>.\<close>

definition attempt :: "'a may_panic \<Rightarrow> 's \<Rightarrow> ('a, 's) outcome" where
  "attempt m s = (case m of Inl p \<Rightarrow> Panics p s | Inr a \<Rightarrow> Returns a s)"

lemma attempt_simps [simp]:
  "attempt (Inl p) s = Panics p s" "attempt (Inr a) s = Returns a s"
  by (simp_all add: attempt_def)

lemma outcome_attempt [simp]: "outcome_state (attempt m s) = s"
  by (simp add: attempt_def split: sum.split)

lemma attempt_Returns: "attempt m s = Returns a s1 \<longleftrightarrow> m = Inr a \<and> s1 = s"
  by (auto simp: attempt_def split: sum.splits)

lemma and_then_Returns_id [simp]: "and_then m Returns = m"
  by (cases m) auto

lemma and_then_Returns:
  "and_then m f = Returns b s' \<longleftrightarrow> (\<exists>a s. m = Returns a s \<and> f a s = Returns b s')"
  by (cases m) auto

lemma outcome_state_and_then:
  "outcome_state (and_then m f) = (case m of Returns a s \<Rightarrow> outcome_state (f a s) | _ \<Rightarrow> outcome_state m)"
  by (cases m) auto

end
