(* ===== verification/Proxy_Admission.thy ===== *)
theory Proxy_Admission
  imports Cluster
begin

text \<open>
  Admission control of the proxy, \<open>internal/proxy/handler.go\<close>: the memory checks, the two eviction
  loops, the answer when memory is insufficient, the creation of a pod and the waiting loops.
  \<open>MaxMemoryBytes\<close> and the sums it is compared with are \<open>int64\<close>, as in the code.
\<close>

record config =
  MaxMemoryBytes :: int64
  EvictionMinIdle :: duration
  ServerNamespace :: string
  DefaultModel :: string

section \<open>Capacity checks\<close>

abbreviation model_memory :: "InferenceModel \<Rightarrow> string" where
  "model_memory model \<equiv> res_Memory (Resources (Spec model))"

abbreviation model_selector :: "InferenceModel \<Rightarrow> selector" where
  "model_selector model \<equiv> NodeSelector (Spec model)"

definition exceeds_limit :: "config \<Rightarrow> int64 \<Rightarrow> int64 \<Rightarrow> bool" where
  "exceeds_limit cfg allocated requested \<longleftrightarrow> sint (allocated + requested) > sint (MaxMemoryBytes cfg)"

definition canScaleUp ::
  "config \<Rightarrow> 'q::linordered_ab_group_add cluster \<Rightarrow> nat \<Rightarrow> InferenceModel \<Rightarrow> 'q server \<Rightarrow> bool may_panic" where
  "canScaleUp cfg E i model s =
     (let Q = quantities E in
      case CanAllocate Q (range_start E i) (im_Name model) (im_Namespace model) (model_memory model)
             (model_selector model) (Tracker s) of
        Inl p \<Rightarrow> Inl p
      | Inr False \<Rightarrow> Inr False
      | Inr True \<Rightarrow>
          (if sint (MaxMemoryBytes cfg) > 0
           then (case MustParse Q (model_memory model) of
                   Inl p \<Rightarrow> Inl p
                 | Inr requested \<Rightarrow>
                     Inr (\<not> exceeds_limit cfg (GetTotalAllocatedMemory Q (Tracker s)) (Value Q requested)))
           else Inr True))"

section \<open>Eviction\<close>

text \<open>
  The deletion of one candidate's pod, the same in both loops: get the pod, delete it if it is there;
  the candidate is skipped when the deletion fails otherwise than by not finding the pod.
\<close>

definition delete_candidate ::
  "'q cluster \<Rightarrow> nat \<Rightarrow> string \<Rightarrow> string \<Rightarrow> 'q server \<Rightarrow> bool \<times> 'q server" where
  "delete_candidate E i ns n s =
     (case pod_get E i ns n of
        Inl _ \<Rightarrow> (True, s)
      | Inr _ \<Rightarrow>
          (let s1 = log_effect (PodDeleted ns n) s in
           case pod_delete E i ns n of
             None \<Rightarrow> (True, s1)
           | Some NotFound \<Rightarrow> (True, s1)
           | Some _ \<Rightarrow> (False, s1)))"

text \<open>\<open>Tracker.ReleaseModel\<close> and \<open>Registry.Delete\<close> of the candidate.\<close>

definition drop_candidate ::
  "'q::ab_group_add cluster \<Rightarrow> nat \<Rightarrow> string \<Rightarrow> string \<Rightarrow> 'q server \<Rightarrow> 'q server" where
  "drop_candidate E i ns n s =
     on_registry (Delete ns n) (s\<lparr>Tracker := ReleaseModel (range_start E i) n ns (Tracker s)\<rparr>)"

definition same_model :: "InferenceModel \<Rightarrow> DeploymentEntry \<Rightarrow> bool" where
  "same_model model e \<longleftrightarrow> de_Name e = im_Name model \<and> de_Namespace e = im_Namespace model"

text \<open>The loop of \<open>tryEvictIdleModels\<close>; each candidate takes two moments.\<close>

fun evict_loop ::
  "'q::linordered_ab_group_add cluster \<Rightarrow> nat \<Rightarrow> InferenceModel \<Rightarrow> DeploymentEntry list \<Rightarrow> 'q server
    \<Rightarrow> (bool, 'q server) outcome" where
  "evict_loop E i model [] s = Returns False s"
| "evict_loop E i model (e # es) s =
     (if same_model model e then evict_loop E (i + 2) model es s
      else case GetAllocation (de_Name e) (de_Namespace e) (Tracker s) of
        None \<Rightarrow> evict_loop E (i + 2) model es s
      | Some alloc \<Rightarrow>
          (case delete_candidate E i (de_Namespace e) (de_Name e) s of
             (False, s1) \<Rightarrow> evict_loop E (i + 2) model es s1
           | (True, s1) \<Rightarrow>
               (let s2 = drop_candidate E i (de_Namespace e) (de_Name e) s1 in
                case CanAllocate (quantities E) (range_start E (i + 1)) (im_Name model) (im_Namespace model)
                       (model_memory model) (model_selector model) (Tracker s2) of
                  Inl p \<Rightarrow> Panics p s2
                | Inr True \<Rightarrow> Returns True s2
                | Inr False \<Rightarrow> evict_loop E (i + 2) model es s2)))"

definition tryEvictIdleModels ::
  "config \<Rightarrow> 'q::linordered_ab_group_add cluster \<Rightarrow> nat \<Rightarrow> InferenceModel \<Rightarrow> 'q server
    \<Rightarrow> (bool, 'q server) outcome" where
  "tryEvictIdleModels cfg E i model s =
     (case Reg s of
        None \<Rightarrow> Returns False s
      | Some r \<Rightarrow>
          (if sint (MaxMemoryBytes cfg) \<le> 0 then Returns False s
           else
             (let idleModels = GetIdleEntriesSorted (clock E i) (EvictionMinIdle cfg) r in
              if idleModels = [] then Returns False s
              else case MustParse (quantities E) (model_memory model) of
                Inl p \<Rightarrow> Panics p s
              | Inr _ \<Rightarrow> evict_loop E (i + 1) model idleModels s)))"

text \<open>The loop of \<open>tryEvictIdleModelsForGlobalLimit\<close>, with the bytes freed so far.\<close>

fun evict_global_loop ::
  "'q::linordered_ab_group_add cluster \<Rightarrow> nat \<Rightarrow> InferenceModel \<Rightarrow> int64 \<Rightarrow> int64 \<Rightarrow> DeploymentEntry list
    \<Rightarrow> 'q server \<Rightarrow> bool \<times> 'q server" where
  "evict_global_loop E i model needed freed [] s = (sint freed \<ge> sint needed, s)"
| "evict_global_loop E i model needed freed (e # es) s =
     (if same_model model e then evict_global_loop E (i + 1) model needed freed es s
      else case GetAllocation (de_Name e) (de_Namespace e) (Tracker s) of
        None \<Rightarrow> evict_global_loop E (i + 1) model needed freed es s
      | Some alloc \<Rightarrow>
          (case delete_candidate E i (de_Namespace e) (de_Name e) s of
             (False, s1) \<Rightarrow> evict_global_loop E (i + 1) model needed freed es s1
           | (True, s1) \<Rightarrow>
               (let freed' = freed + Value (quantities E) (ma_Memory alloc);
                    s2 = drop_candidate E i (de_Namespace e) (de_Name e) s1
                in if sint freed' \<ge> sint needed then (True, s2)
                   else evict_global_loop E (i + 1) model needed freed' es s2)))"

definition tryEvictIdleModelsForGlobalLimit ::
  "config \<Rightarrow> 'q::linordered_ab_group_add cluster \<Rightarrow> nat \<Rightarrow> InferenceModel \<Rightarrow> int64 \<Rightarrow> 'q server
    \<Rightarrow> bool \<times> 'q server" where
  "tryEvictIdleModelsForGlobalLimit cfg E i model requestedMemoryBytes s =
     (case Reg s of
        None \<Rightarrow> (False, s)
      | Some r \<Rightarrow>
          (let idleModels = GetIdleEntriesSorted (clock E i) (EvictionMinIdle cfg) r in
           if idleModels = [] then (False, s)
           else evict_global_loop E (i + 1) model
                  (requestedMemoryBytes
                     - (MaxMemoryBytes cfg - GetTotalAllocatedMemory (quantities E) (Tracker s)))
                  0 idleModels s))"

section \<open>Waiting for a pod\<close>

datatype proxy_error =
    InsufficientBudget
  | InsufficientGlobalMemory
  | BackendError api_error
  | OwnerReferenceError api_error
  | CreateError api_error
  | AllocateFailed
  | WaitTimeout
  | ContextError
  | GetPodError api_error

fun waitForPodReady_loop ::
  "'q::ab_group_add cluster \<Rightarrow> nat \<Rightarrow> InferenceModel \<Rightarrow> poll_event list \<Rightarrow> 'q server
    \<Rightarrow> (proxy_error option, 'q server) outcome" where
  "waitForPodReady_loop E i model [] s = Waits s"
| "waitForPodReady_loop E i model (TimeoutFires # evs) s =
     (if Reg s = None then Panics NilDereference s
      else Returns (Some WaitTimeout)
        (on_registry (SetState (clock E i) (im_Namespace model) (im_Name model) StateNonexistent) s))"
| "waitForPodReady_loop E i model (ContextDone # evs) s = Returns (Some ContextError) s"
| "waitForPodReady_loop E i model (Tick (Inl err) # evs) s = waitForPodReady_loop E i model evs s"
| "waitForPodReady_loop E i model (Tick (Inr pod) # evs) s =
     (if pod_is_ready pod
      then if Reg s = None then Panics NilDereference s
           else
             (let s1 = on_registry (SetState (clock E i) (im_Namespace model) (im_Name model) StateReady) s in
              case SyncAllocation (quantities E) (range_start E i) (im_Name model) (im_Namespace model)
                     (model_memory model) (model_selector model) (Tracker s1) of
                Inl p \<Rightarrow> Panics p s1
              | Inr (_, t) \<Rightarrow> Returns None (s1\<lparr>Tracker := t\<rparr>))
      else waitForPodReady_loop E i model evs s)"

definition waitForPodReady ::
  "'q::ab_group_add cluster \<Rightarrow> nat \<Rightarrow> InferenceModel \<Rightarrow> 'q server
    \<Rightarrow> (proxy_error option, 'q server) outcome" where
  "waitForPodReady E i model s = waitForPodReady_loop E i model (polls E i) s"

fun waitForPodDeleted_loop ::
  "InferenceModel \<Rightarrow> poll_event list \<Rightarrow> 'q server \<Rightarrow> (proxy_error option, 'q server) outcome" where
  "waitForPodDeleted_loop model [] s = Waits s"
| "waitForPodDeleted_loop model (TimeoutFires # evs) s = Returns (Some WaitTimeout) s"
| "waitForPodDeleted_loop model (ContextDone # evs) s = Returns (Some ContextError) s"
| "waitForPodDeleted_loop model (Tick (Inl err) # evs) s =
     (if err = NotFound
      then if Reg s = None then Panics NilDereference s
           else Returns None (on_registry (Delete (im_Namespace model) (im_Name model)) s)
      else waitForPodDeleted_loop model evs s)"
| "waitForPodDeleted_loop model (Tick (Inr pod) # evs) s = waitForPodDeleted_loop model evs s"

definition waitForPodDeleted ::
  "'q cluster \<Rightarrow> nat \<Rightarrow> InferenceModel \<Rightarrow> 'q server \<Rightarrow> (proxy_error option, 'q server) outcome" where
  "waitForPodDeleted E i model s = waitForPodDeleted_loop model (polls E i) s"

end
