(* ===== verification/Eviction.thy ===== *)
theory Eviction
  imports Proxy_Admission "HOL-Library.Sublist"
begin

text \<open>
  What the two eviction loops of \<open>internal/proxy/handler.go\<close> may do, as one step relation, and that both
  loops stay within it. The lemmas about the relation are proved once by rule induction: which pods are
  deleted, which models leave the tracker and the registry, what becomes of the total.
\<close>

section \<open>Totals in bytes\<close>

definition total_bytes :: "'q quantity_api \<Rightarrow> 'q Tracker \<Rightarrow> int" where
  "total_bytes Q t = entry_sum (\<lambda>a. sint (Value Q (ma_Memory a))) (allocations t)"

definition no_negative :: "'q quantity_api \<Rightarrow> 'q Tracker \<Rightarrow> bool" where
  "no_negative Q t \<longleftrightarrow> list_all (\<lambda>(k, a). 0 \<le> sint (Value Q (ma_Memory a))) (allocations t)"

lemma GetTotal_word: "GetTotalAllocatedMemory Q t = word_of_int (total_bytes Q t)"
proof -
  have "entry_sum (\<lambda>a. Value Q (ma_Memory a)) m
      = (word_of_int (entry_sum (\<lambda>a. sint (Value Q (ma_Memory a))) m) :: int64)" for m :: "(string \<times> _) list"
    by (induction m) auto
  then show ?thesis by (simp add: GetTotalAllocatedMemory_sum total_bytes_def)
qed

lemma entry_sum_nonneg:
  "(\<And>k v. (k, v) \<in> set m \<Longrightarrow> (0::int) \<le> f v) \<Longrightarrow> 0 \<le> entry_sum f m"
  by (auto simp: entry_sum_def intro!: sum_list_nonneg)

lemma total_bytes_nonneg: "no_negative Q t \<Longrightarrow> 0 \<le> total_bytes Q t"
  by (auto simp: no_negative_def total_bytes_def list_all_iff intro!: entry_sum_nonneg)

lemma total_bytes_lookup:
  "no_negative Q t \<Longrightarrow> map_of (allocations t) k = Some a \<Longrightarrow> 0 \<le> sint (Value Q (ma_Memory a))"
  by (auto simp: no_negative_def list_all_iff dest: map_of_SomeD)

lemma total_bytes_release:
  "keys_distinct (allocations t) \<Longrightarrow>
   total_bytes Q (ReleaseModel ch n ns t) = total_bytes Q t
     - (case GetAllocation n ns t of None \<Rightarrow> 0 | Some a \<Rightarrow> sint (Value Q (ma_Memory a)))"
  by (auto simp: total_bytes_def GetAllocation_def sum_laws split: option.splits)

lemma no_negative_release: "no_negative Q t \<Longrightarrow> no_negative Q (ReleaseModel ch n ns t)"
  by (simp add: no_negative_def list_all_delete)

section \<open>Evicting\<close>

abbreviation evicted_name :: "DeploymentEntry \<Rightarrow> string \<times> string" where
  "evicted_name e \<equiv> (de_Name e, de_Namespace e)"

inductive evicts ::
  "'q::ab_group_add cluster \<Rightarrow> InferenceModel \<Rightarrow> DeploymentEntry list \<Rightarrow> 'q server
    \<Rightarrow> DeploymentEntry list \<Rightarrow> 'q server \<Rightarrow> bool" for E model where
  stop: "evicts E model es s [] s"
| skip: "evicts E model es s ev s' \<Longrightarrow> evicts E model (e # es) s ev s'"
| failed: "\<not> same_model model e \<Longrightarrow> delete_candidate E i (de_Namespace e) (de_Name e) s = (False, s1)
    \<Longrightarrow> evicts E model es s1 ev s' \<Longrightarrow> evicts E model (e # es) s ev s'"
| evict: "\<not> same_model model e \<Longrightarrow> GetAllocation (de_Name e) (de_Namespace e) (Tracker s) = Some a
    \<Longrightarrow> delete_candidate E i (de_Namespace e) (de_Name e) s = (True, s1)
    \<Longrightarrow> evicts E model es (drop_candidate E i (de_Namespace e) (de_Name e) s1) ev s'
    \<Longrightarrow> evicts E model (e # es) s (e # ev) s'"

lemma delete_candidate_frame:
  "delete_candidate E i ns n s = (b, s1) \<Longrightarrow>
   Tracker s1 = Tracker s \<and> Reg s1 = Reg s \<and> IdleTracker s1 = IdleTracker s
   \<and> (effects s1 = effects s \<or> effects s1 = effects s @ [PodDeleted ns n])
   \<and> (b \<longrightarrow> (\<exists>err. pod_get E i ns n = Inl err) \<or> effects s1 = effects s @ [PodDeleted ns n])"
  by (auto simp: delete_candidate_def Let_def split: sum.splits option.splits api_error.splits)

lemma drop_candidate_simps [simp]:
  "Tracker (drop_candidate E i ns n s) = ReleaseModel (range_start E i) n ns (Tracker s)"
  "Reg (drop_candidate E i ns n s) = map_option (Delete ns n) (Reg s)"
  "IdleTracker (drop_candidate E i ns n s) = IdleTracker s"
  "effects (drop_candidate E i ns n s) = effects s"
  by (simp_all add: drop_candidate_def)

lemma evicts_chosen:
  "evicts E model es s ev s' \<Longrightarrow> subseq ev es \<and> list_all (\<lambda>e. \<not> same_model model e) ev"
  by (induction rule: evicts.induct) auto

lemma evicts_tracker:
  "evicts E model es s ev s' \<Longrightarrow> \<exists>chs. map snd chs = map evicted_name ev
     \<and> Tracker s' = fold (\<lambda>(ch, name, ns). ReleaseModel ch name ns) chs (Tracker s)"
proof (induction rule: evicts.induct)
  case (stop es s)
  then show ?case by simp
next
  case (skip es s ev s' e)
  then show ?case by simp
next
  case (failed e i s s1 es ev s')
  then show ?case by (simp add: delete_candidate_frame [OF failed(2)])
next
  case (evict e s a i s1 es ev s')
  from evict.IH obtain chs where "map snd chs = map evicted_name ev"
    and "Tracker s' = fold (\<lambda>(ch, name, ns). ReleaseModel ch name ns) chs
      (ReleaseModel (range_start E i) (de_Name e) (de_Namespace e) (Tracker s))"
    by (auto simp: delete_candidate_frame [OF evict(3)])
  then show ?case
    by (intro exI [of _ "(range_start E i, evicted_name e) # chs"]) simp
qed

lemma evicts_registry:
  "evicts E model es s ev s' \<Longrightarrow>
     Reg s' = map_option (fold (\<lambda>(name, ns). Delete ns name) (map evicted_name ev)) (Reg s)
     \<and> IdleTracker s' = IdleTracker s"
proof (induction rule: evicts.induct)
  case (failed e i s s1 es ev s')
  then show ?case by (simp add: delete_candidate_frame [OF failed(2)])
next
  case (evict e s a i s1 es ev s')
  then show ?case by (cases "Reg s") (simp_all add: delete_candidate_frame [OF evict(3)])
qed (auto simp: option.map_ident)

lemma evicts_effects:
  "evicts E model es s ev s' \<Longrightarrow> \<exists>ds. effects s' = effects s @ ds
     \<and> set ds \<subseteq> {PodDeleted (de_Namespace e) (de_Name e) | e. e \<in> set es \<and> \<not> same_model model e}
     \<and> (\<forall>e\<in>set ev. PodDeleted (de_Namespace e) (de_Name e) \<in> set ds
          \<or> (\<exists>j err. pod_get E j (de_Namespace e) (de_Name e) = Inl err))"
proof (induction rule: evicts.induct)
  case (stop es s)
  then show ?case by simp
next
  case (skip es s ev s' e)
  then show ?case by auto
next
  case (failed e i s s1 es ev s')
  then obtain ds where ds: "effects s' = effects s1 @ ds"
    and sub: "set ds \<subseteq> {PodDeleted (de_Namespace e) (de_Name e) | e. e \<in> set es \<and> \<not> same_model model e}"
    and ev: "\<forall>e\<in>set ev. PodDeleted (de_Namespace e) (de_Name e) \<in> set ds
          \<or> (\<exists>j err. pod_get E j (de_Namespace e) (de_Name e) = Inl err)" by blast
  from delete_candidate_frame [OF failed(2)] obtain d where
    "effects s1 = effects s @ d" and "d = [] \<or> d = [PodDeleted (de_Namespace e) (de_Name e)]" by auto
  with ds sub ev failed(1) show ?case by (intro exI [of _ "d @ ds"]) auto
next
  case (evict e s a i s1 es ev s')
  then obtain ds where ds: "effects s' = effects s1 @ ds"
    and sub: "set ds \<subseteq> {PodDeleted (de_Namespace e) (de_Name e) | e. e \<in> set es \<and> \<not> same_model model e}"
    and ev: "\<forall>e\<in>set ev. PodDeleted (de_Namespace e) (de_Name e) \<in> set ds
          \<or> (\<exists>j err. pod_get E j (de_Namespace e) (de_Name e) = Inl err)" by auto
  from delete_candidate_frame [OF evict(3)] obtain d where
    "effects s1 = effects s @ d" and "d = [] \<or> d = [PodDeleted (de_Namespace e) (de_Name e)]"
    and "(\<exists>err. pod_get E i (de_Namespace e) (de_Name e) = Inl err) \<or> d = [PodDeleted (de_Namespace e) (de_Name e)]"
    by auto
  with ds sub ev evict(1) show ?case by (intro exI [of _ "d @ ds"]) auto
qed

lemma evicts_total:
  "evicts E model es s ev s' \<Longrightarrow> keys_distinct (allocations (Tracker s)) \<Longrightarrow> no_negative Q (Tracker s)
   \<Longrightarrow> keys_distinct (allocations (Tracker s')) \<and> no_negative Q (Tracker s')
     \<and> total_bytes Q (Tracker s') \<le> total_bytes Q (Tracker s)"
proof (induction rule: evicts.induct)
  case (failed e i s s1 es ev s')
  then show ?case by (simp add: delete_candidate_frame [OF failed(2)])
next
  case (evict e s a i s1 es ev s')
  have tr: "Tracker s1 = Tracker s" by (simp add: delete_candidate_frame [OF evict(3)])
  have "0 \<le> sint (Value Q (ma_Memory a))"
    using total_bytes_lookup [OF evict.prems(2)] evict(2) by (simp add: GetAllocation_def)
  then show ?case
    using evict.IH evict.prems evict(2)
    by (simp add: tr no_negative_release total_bytes_release)
qed auto

section \<open>The loops evict\<close>

lemma evict_loop_evicts:
  "\<exists>ev. evicts E model es s ev (outcome_state (evict_loop E i model es s))"
proof (induction E i model es s rule: evict_loop.induct)
  case (1 E i model s)
  show ?case by (auto intro: evicts.stop)
next
  case (2 E i model e es s)
  show ?case
  proof (cases "same_model model e")
    case True
    with 2(1) show ?thesis by (auto intro: evicts.skip)
  next
    case not_same: False
    show ?thesis
    proof (cases "GetAllocation (de_Name e) (de_Namespace e) (Tracker s)")
      case None
      with 2(2) not_same show ?thesis by (auto intro: evicts.skip)
    next
      case (Some a)
      obtain b s1 where del: "delete_candidate E i (de_Namespace e) (de_Name e) s = (b, s1)" by fastforce
      show ?thesis
      proof (cases b)
        case False
        with del have del': "delete_candidate E i (de_Namespace e) (de_Name e) s = (False, s1)" by simp
        obtain ev where "evicts E model es s1 ev (outcome_state (evict_loop E (i + 2) model es s1))"
          using 2(4) [OF not_same Some del' [symmetric]] by auto
        moreover have "evict_loop E i model (e # es) s = evict_loop E (i + 2) model es s1"
          using not_same Some del' by simp
        ultimately show ?thesis using evicts.failed [OF not_same del'] by metis
      next
        case True
        let ?s2 = "drop_candidate E i (de_Namespace e) (de_Name e) s1"
        let ?can = "CanAllocate (quantities E) (range_start E (i + 1)) (im_Name model) (im_Namespace model)
                       (model_memory model) (model_selector model) (Tracker ?s2)"
        have del': "delete_candidate E i (de_Namespace e) (de_Name e) s = (True, s1)" using del True by simp
        have "outcome_state (evict_loop E i model (e # es) s) = ?s2
            \<or> (?can = Inr False \<and> outcome_state (evict_loop E i model (e # es) s)
                = outcome_state (evict_loop E (i + 2) model es ?s2))"
          using not_same Some del' by (auto simp: Let_def split: sum.split bool.split)
        then show ?thesis
        proof
          assume "outcome_state (evict_loop E i model (e # es) s) = ?s2"
          then show ?thesis using evicts.evict [OF not_same Some del' evicts.stop] by metis
        next
          assume *: "?can = Inr False \<and> outcome_state (evict_loop E i model (e # es) s)
                = outcome_state (evict_loop E (i + 2) model es ?s2)"
          obtain ev where "evicts E model es ?s2 ev (outcome_state (evict_loop E (i + 2) model es ?s2))"
            using 2(3) [OF not_same Some del' [symmetric] refl refl _ refl] * by auto
          then show ?thesis using evicts.evict [OF not_same Some del'] * by metis
        qed
      qed
    qed
  qed
qed

lemma evict_global_loop_evicts:
  "keys_distinct (allocations (Tracker s)) \<Longrightarrow> evict_global_loop E i model needed freed es s = (ok, s') \<Longrightarrow>
   \<exists>ev. evicts E model es s ev s' \<and> (ok \<longleftrightarrow> sint needed \<le> sint (freed
      + (GetTotalAllocatedMemory (quantities E) (Tracker s) - GetTotalAllocatedMemory (quantities E) (Tracker s'))))"
proof (induction E i model needed freed es s rule: evict_global_loop.induct)
  case (1 E i model needed freed s)
  then show ?case by (auto intro!: exI [of _ "[]"] evicts.stop)
next
  case (2 E i model needed freed e es s)
  show ?case
  proof (cases "same_model model e")
    case True
    with 2(1) 2(5,6) show ?thesis by (auto intro: evicts.skip)
  next
    case not_same: False
    show ?thesis
    proof (cases "GetAllocation (de_Name e) (de_Namespace e) (Tracker s)")
      case None
      with 2(2) 2(5,6) not_same show ?thesis by (auto intro: evicts.skip)
    next
      case (Some a)
      obtain b s1 where del: "delete_candidate E i (de_Namespace e) (de_Name e) s = (b, s1)" by fastforce
      have tr: "Tracker s1 = Tracker s" by (simp add: delete_candidate_frame [OF del])
      show ?thesis
      proof (cases b)
        case False
        with del have del': "delete_candidate E i (de_Namespace e) (de_Name e) s = (False, s1)" by simp
        have "evict_global_loop E (i + 1) model needed freed es s1 = (ok, s')"
          using 2(6) not_same Some del' by simp
        from 2(4) [OF not_same Some del' [symmetric] refl _ this] 2(5)
        obtain ev where "evicts E model es s1 ev s'" and ok: "ok \<longleftrightarrow> sint needed \<le> sint (freed
            + (GetTotalAllocatedMemory (quantities E) (Tracker s) - GetTotalAllocatedMemory (quantities E) (Tracker s')))"
          unfolding tr by blast
        then have "evicts E model (e # es) s ev s'" by (intro evicts.failed [OF not_same del'])
        with ok show ?thesis by blast
      next
        case True
        let ?s2 = "drop_candidate E i (de_Namespace e) (de_Name e) s1"
        let ?Q = "quantities E"
        let ?freed = "freed + Value ?Q (ma_Memory a)"
        have del': "delete_candidate E i (de_Namespace e) (de_Name e) s = (True, s1)" using del True by simp
        have tot: "Value ?Q (ma_Memory a) = GetTotalAllocatedMemory ?Q (Tracker s)
            - GetTotalAllocatedMemory ?Q (Tracker ?s2)"
          using 2(5) Some by (simp add: tr GetTotalAllocatedMemory_release)
        show ?thesis
        proof (cases "sint ?freed \<ge> sint needed")
          case True
          then have "ok" and s': "s' = ?s2"
            using 2(6) not_same Some del' by (auto simp: Let_def)
          with True [unfolded tot] show ?thesis
            using evicts.evict [OF not_same Some del' evicts.stop] unfolding s' by blast
        next
          case less: False
          then have rest: "evict_global_loop E (i + 1) model needed ?freed es ?s2 = (ok, s')"
            using 2(6) not_same Some del' by (auto simp: Let_def)
          have "keys_distinct (allocations (Tracker ?s2))" using 2(5) by (simp add: tr)
          from 2(3) [OF not_same Some del' [symmetric] refl refl refl less this rest]
          obtain ev where "evicts E model es ?s2 ev s'" and "ok \<longleftrightarrow> sint needed \<le> sint (?freed
              + (GetTotalAllocatedMemory ?Q (Tracker ?s2) - GetTotalAllocatedMemory ?Q (Tracker s')))"
            by blast
          moreover have "?freed + (GetTotalAllocatedMemory ?Q (Tracker ?s2) - GetTotalAllocatedMemory ?Q (Tracker s'))
              = freed + (GetTotalAllocatedMemory ?Q (Tracker s) - GetTotalAllocatedMemory ?Q (Tracker s'))"
            unfolding tot by simp
          ultimately show ?thesis
            using evicts.evict [OF not_same Some del'] by metis
        qed
      qed
    qed
  qed
qed

end
