(* ===== verification/Proxy_Handler.thy ===== *)
theory Proxy_Handler
  imports Proxy_Admission
begin

text \<open>
  The request handlers of the proxy, \<open>internal/proxy/handler.go\<close> and the model lookup of
  \<open>server.go\<close>: from the request to the pod and back. A response keeps its status and the error code of
  its JSON body; the 429 answer keeps its details. Each handler receives the moment at which it starts.
\<close>

section \<open>Responses\<close>

record 'q BlockingModel =
  bl_Model :: string
  bl_Memory :: 'q
  bl_IdleFor :: duration

datatype 'q response =
    ErrorResponse nat string \<comment> \<open>status and code\<close>
  | InsufficientMemory string string 'q "'q BlockingModel list" \<comment> \<open>429: model, requested, available, blocking\<close>
  | BackendResponse nat http_header string
  | ErrorAfterHeaders nat http_header string \<comment> \<open>an error answered with the headers of the backend\<close>
  | StreamedResponse http_header string
  | NothingWritten

fun response_status :: "'q response \<Rightarrow> nat" where
  "response_status (ErrorResponse status code) = status"
| "response_status (InsufficientMemory m r a b) = 429"
| "response_status (BackendResponse status header body) = status"
| "response_status (ErrorAfterHeaders status header code) = status"
| "response_status (StreamedResponse header body) = 200"
| "response_status NothingWritten = 200"

section \<open>Insufficient memory\<close>

definition handleInsufficientMemory ::
  "config \<Rightarrow> 'q::linordered_ab_group_add cluster \<Rightarrow> nat \<Rightarrow> InferenceModel \<Rightarrow> 'q server
    \<Rightarrow> (bool \<times> 'q response, 'q server) outcome" where
  "handleInsufficientMemory cfg E i model s =
     and_then (tryEvictIdleModels cfg E (i + 1) model s) (\<lambda>evicted s1.
       if evicted then Returns (True, NothingWritten) s1
       else
         and_then (attempt (MustParse (quantities E) (model_memory model)) s1) (\<lambda>requested s1.
           let available = GetAvailableMemory (range_start E i) (model_selector model) (Tracker s1);
               blockingModels = GetBlockingModels (\<lambda>j. range_start E i (Suc j)) (model_selector model) (Tracker s1);
               blocking = map (\<lambda>b. \<lparr>bl_Model = ma_Name b, bl_Memory = ma_Memory b,
                   bl_IdleFor = GetIdleDuration (clock E i) (ma_Namespace b) (ma_Name b) (IdleTracker s1)\<rparr>)
                 blockingModels
           in Returns (False, InsufficientMemory (ModelName (Spec model)) (model_memory model) available blocking)
                (log_effect (AdmissionMetric (im_Namespace model) (im_Name model) False) s1)))"

section \<open>Creating the pod\<close>

text \<open>The global limit, with one round of eviction and the recheck.\<close>

definition checkGlobalLimit ::
  "config \<Rightarrow> 'q::linordered_ab_group_add cluster \<Rightarrow> nat \<Rightarrow> InferenceModel \<Rightarrow> 'q server
    \<Rightarrow> (proxy_error option, 'q server) outcome" where
  "checkGlobalLimit cfg E i model s =
     (let Q = quantities E in
      if sint (MaxMemoryBytes cfg) > 0 then
        and_then (attempt (MustParse Q (model_memory model)) s) (\<lambda>requested s.
          if exceeds_limit cfg (GetTotalAllocatedMemory Q (Tracker s)) (Value Q requested) then
            (case tryEvictIdleModelsForGlobalLimit cfg E i model (Value Q requested) s of
               (True, s1) \<Rightarrow>
                 (if exceeds_limit cfg (GetTotalAllocatedMemory Q (Tracker s1)) (Value Q requested)
                  then Returns (Some InsufficientGlobalMemory) s1
                  else Returns None s1)
             | (False, s1) \<Rightarrow> Returns (Some InsufficientGlobalMemory) s1)
          else Returns None s)
      else Returns None s)"

definition set_model_state ::
  "'q cluster \<Rightarrow> nat \<Rightarrow> InferenceModel \<Rightarrow> DeploymentState \<Rightarrow> 'q server \<Rightarrow> 'q server" where
  "set_model_state E i model st s =
     on_registry (SetState (clock E i) (im_Namespace model) (im_Name model) st) s"

text \<open>Create the built pod, allocate its memory and wait for it.\<close>

definition submitPod ::
  "'q::linordered_ab_group_add cluster \<Rightarrow> nat \<Rightarrow> InferenceModel \<Rightarrow> 'q BuiltPod \<Rightarrow> 'q server
    \<Rightarrow> (proxy_error option, 'q server) outcome" where
  "submitPod E i model pod s1 =
     (let ns = im_Namespace model; n = im_Name model;
          s2 = log_effect (PodCreated pod) s1;
          created = pod_create E i ns n in
      if created \<noteq> None \<and> created \<noteq> Some AlreadyExists
      then Returns (Some (CreateError (the created))) (set_model_state E (i + 1) model StateNonexistent s2)
      else
        and_then (attempt (Allocate (quantities E) (range_start E i) n ns (model_memory model)
                     (model_selector model) (Tracker s2)) s2) (\<lambda>(ok, t) s2.
          if ok
          then waitForPodReady E (i + 2) model (s2\<lparr>Tracker := t\<rparr>)
          else Returns (Some AllocateFailed)
                 (set_model_state E (i + 1) model StateNonexistent (log_effect (PodDeleted ns n) s2))))"

text \<open>From the backend lookup to the wait, the part of \<open>ensureDeployment\<close> after its checks.\<close>

definition createPod ::
  "'q::linordered_ab_group_add cluster \<Rightarrow> nat \<Rightarrow> InferenceModel \<Rightarrow> 'q server
    \<Rightarrow> (proxy_error option, 'q server) outcome" where
  "createPod E i model s =
     (let ns = im_Namespace model; n = im_Name model in
      case backend_get E i ns (Backend (Spec model)) of
        Inl err \<Rightarrow> Returns (Some (BackendError err)) s
      | Inr backend \<Rightarrow>
          (let s1 = set_model_state E i model StateCreating s in
           and_then (attempt (buildPod (quantities E) (format_rfc3339 E (clock E i)) (owner_ref E i) model backend) s1)
             (\<lambda>built s1.
             case built of
               Inl err \<Rightarrow> Returns (Some (OwnerReferenceError err)) (set_model_state E (i + 1) model StateNonexistent s1)
             | Inr pod \<Rightarrow>
                 (case owner_ref E (i + 1) of
                    Some err \<Rightarrow> Returns (Some (OwnerReferenceError err)) (set_model_state E (i + 1) model StateNonexistent s1)
                  | None \<Rightarrow> submitPod E i model pod s1))))"

definition ensureDeployment ::
  "config \<Rightarrow> 'q::linordered_ab_group_add cluster \<Rightarrow> nat \<Rightarrow> InferenceModel \<Rightarrow> 'q server
    \<Rightarrow> (proxy_error option, 'q server) outcome" where
  "ensureDeployment cfg E i model s =
     (case Reg s of
        None \<Rightarrow> Panics NilDereference s
      | Some r \<Rightarrow>
          (if (case Get (im_Namespace model) (im_Name model) r of
                 Some entry \<Rightarrow> State entry = StateReady | None \<Rightarrow> False)
           then Returns None s
           else
             and_then (attempt (CanAllocate (quantities E) (range_start E i) (im_Name model) (im_Namespace model)
                          (model_memory model) (model_selector model) (Tracker s)) s) (\<lambda>can s.
               if \<not> can then Returns (Some InsufficientBudget) s
               else
                 and_then (checkGlobalLimit cfg E (i + 4) model s) (\<lambda>err s.
                   case err of
                     Some e \<Rightarrow> Returns (Some e) s
                   | None \<Rightarrow> createPod E (i + 1) model s))))"

section \<open>Scaling up without a registry\<close>

definition triggerScaleUp ::
  "config \<Rightarrow> 'q::linordered_ab_group_add cluster \<Rightarrow> nat \<Rightarrow> InferenceModel \<Rightarrow> 'q server
    \<Rightarrow> (proxy_error option, 'q server) outcome" where
  "triggerScaleUp cfg E i model s =
     and_then (attempt (Allocate (quantities E) (range_start E i) (im_Name model) (im_Namespace model)
                  (model_memory model) (model_selector model) (Tracker s)) s) (\<lambda>(ok, t) s.
       if \<not> ok then Returns (Some AllocateFailed) s
       else
         (let s1 = log_effect (AdmissionMetric (im_Namespace model) (im_Name model) True) (s\<lparr>Tracker := t\<rparr>) in
          case pod_get E i (im_Namespace model) (im_Name model) of
            Inl err \<Rightarrow>
              (if err = NotFound then ensureDeployment cfg E (i + 1) model s1
               else Returns (Some (GetPodError err)) s1)
          | Inr pod \<Rightarrow> Returns None s1))"

fun waitForModelReady_loop ::
  "model_poll list \<Rightarrow> 'q server \<Rightarrow> (proxy_error option, 'q server) outcome" where
  "waitForModelReady_loop [] s = Waits s"
| "waitForModelReady_loop (ModelTimeout # evs) s = Returns (Some WaitTimeout) s"
| "waitForModelReady_loop (ModelContextDone # evs) s = Returns (Some ContextError) s"
| "waitForModelReady_loop (ModelTick (Inl err) # evs) s = waitForModelReady_loop evs s"
| "waitForModelReady_loop (ModelTick (Inr m) # evs) s =
     (if Ready (Status m) then Returns None s else waitForModelReady_loop evs s)"

definition waitForModelReady ::
  "'q cluster \<Rightarrow> nat \<Rightarrow> 'q server \<Rightarrow> (proxy_error option, 'q server) outcome" where
  "waitForModelReady E i s = waitForModelReady_loop (model_polls E i) s"

text \<open>
  A stage of a handler either answers the request (\<open>Some\<close> response) or lets it go on (\<open>None\<close>).
\<close>

definition scale_up_and_wait ::
  "config \<Rightarrow> 'q::linordered_ab_group_add cluster \<Rightarrow> nat \<Rightarrow> InferenceModel \<Rightarrow> 'q server
    \<Rightarrow> ('q response option, 'q server) outcome" where
  "scale_up_and_wait cfg E i model s =
     and_then (triggerScaleUp cfg E (i + 1) model s) (\<lambda>err s.
       if err \<noteq> None then Returns (Some (ErrorResponse 500 ''scale_up_failed'')) s
       else
         and_then (waitForModelReady E i s) (\<lambda>err s.
           if err \<noteq> None then Returns (Some (ErrorResponse 503 ''model_not_ready'')) s
           else Returns None s))"

definition legacy_admission ::
  "config \<Rightarrow> 'q::linordered_ab_group_add cluster \<Rightarrow> nat \<Rightarrow> InferenceModel \<Rightarrow> 'q server
    \<Rightarrow> ('q response option, 'q server) outcome" where
  "legacy_admission cfg E i model s =
     (if Ready (Status model) then Returns None s
      else
        and_then (attempt (canScaleUp cfg E i model s) s) (\<lambda>can s.
          if \<not> can then
            and_then (handleInsufficientMemory cfg E (i + 1) model s) (\<lambda>(evicted, resp) s.
              if evicted then
                and_then (scale_up_and_wait cfg E (i + 2) model s) (\<lambda>r s.
                  case r of Some resp' \<Rightarrow> Returns (Some resp') s | None \<Rightarrow> Returns (Some NothingWritten) s)
              else Returns (Some resp) s)
          else scale_up_and_wait cfg E (i + 1) model s))"

section \<open>Admission with a registry\<close>

definition finish_request :: "InferenceModel \<Rightarrow> 'q server \<Rightarrow> 'q server" where
  "finish_request model s = on_registry (FinishRequest (im_Namespace model) (im_Name model)) s"

text \<open>The end of a stage that may fail: on an error the request is finished and answered with 503.\<close>

definition or_unavailable ::
  "InferenceModel \<Rightarrow> string \<Rightarrow> (proxy_error option, 'q server) outcome
    \<Rightarrow> ('q response option, 'q server) outcome" where
  "or_unavailable model code m =
     and_then m (\<lambda>err s.
       if err \<noteq> None then Returns (Some (ErrorResponse 503 code)) (finish_request model s)
       else Returns None s)"

text \<open>
  The switch on the registry's state, shared by the two handlers but for the branch of a ready pod:
  \<open>sync\<close> says whether the allocation is synced there (the JSON handler) or not (the multipart one).
\<close>

definition registry_admission ::
  "bool \<Rightarrow> config \<Rightarrow> 'q::linordered_ab_group_add cluster \<Rightarrow> nat \<Rightarrow> InferenceModel \<Rightarrow> registry \<Rightarrow> 'q server
    \<Rightarrow> ('q response option, 'q server) outcome" where
  "registry_admission sync cfg E i model r s =
     (let ns = im_Namespace model; n = im_Name model;
          r1 = RecordRequest (clock E i) ns n r;
          s1 = s\<lparr>Reg := Some r1\<rparr>
      in case (case Get ns n r1 of None \<Rightarrow> StateNonexistent | Some entry \<Rightarrow> State entry) of
           StateNonexistent \<Rightarrow> or_unavailable model ''pod_failed'' (ensureDeployment cfg E (i + 1) model s1)
         | StateCreating \<Rightarrow> or_unavailable model ''deployment_timeout'' (waitForPodReady E (i + 1) model s1)
         | StateReady \<Rightarrow>
             (if sync then
                and_then (attempt (SyncAllocation (quantities E) (range_start E i) n ns (model_memory model)
                             (model_selector model) (Tracker s1)) s1)
                  (\<lambda>(created, t) s1. Returns None (s1\<lparr>Tracker := t\<rparr>))
              else Returns None s1)
         | StateDeleting \<Rightarrow>
             and_then (waitForPodDeleted E i model s1) (\<lambda>_ s2.
               or_unavailable model ''pod_failed'' (ensureDeployment cfg E (i + 1) model s2)))"

section \<open>Forwarding\<close>

definition service_port :: "InferenceModel \<Rightarrow> int32" where
  "service_port model = (case svc_Port (Service (Spec model)) of None \<Rightarrow> 8080 | Some p \<Rightarrow> p)"

definition getBackendURL :: "InferenceModel \<Rightarrow> string" where
  "getBackendURL model = ''http://'' @ im_Name model @ ''.'' @ im_Namespace model @ ''.svc:''
     @ show_int (sint (service_port model))"

definition getBackendPodIP :: "'q cluster \<Rightarrow> nat \<Rightarrow> InferenceModel \<Rightarrow> string option" where
  "getBackendPodIP E i model =
     (case pod_get E i (im_Namespace model) (im_Name model) of
        Inl err \<Rightarrow> None
      | Inr pod \<Rightarrow> if pod_PodIP pod = '''' then None else Some (pod_PodIP pod))"

definition backend_base :: "'q cluster \<Rightarrow> nat \<Rightarrow> InferenceModel \<Rightarrow> string" where
  "backend_base E i model =
     (case getBackendPodIP E i model of
        None \<Rightarrow> getBackendURL model
      | Some ip \<Rightarrow> ''http://'' @ ip @ '':'' @ show_int (sint (service_port model)))"

text \<open>The metrics of a request, when it ends.\<close>

definition recordRequestMetrics ::
  "'q cluster \<Rightarrow> nat \<Rightarrow> InferenceModel \<Rightarrow> go_time \<Rightarrow> bool \<Rightarrow> 'q server \<Rightarrow> 'q server" where
  "recordRequestMetrics E i model startTime ok =
     log_effect (RequestMetric (im_Namespace model) (im_Name model) ok (clock E i - startTime))"

text \<open>The answer: its status, its headers one by one, then its body; or an error after the headers were copied.\<close>

definition handleNonStreamingResponse :: "reply \<Rightarrow> 'q response" where
  "handleNonStreamingResponse rp =
     (let header = copy_answer_headers (an_Header rp) in
      if an_Complete rp then BackendResponse (an_Status rp) header (an_Body rp)
      else ErrorAfterHeaders 500 header ''internal_error'')"

text \<open>A streamed answer has its own headers; the status is not set.\<close>

definition streamed_headers :: http_header where
  "streamed_headers = gin_Header ''Transfer-Encoding'' ''chunked'' (gin_Header ''Connection'' ''keep-alive''
     (gin_Header ''Cache-Control'' ''no-cache'' (gin_Header ''Content-Type'' ''text/event-stream'' [])))"

text \<open>The exchange with the backend, the same in the two forwards; \<open>deliver\<close> copies the answer.\<close>

definition exchange ::
  "'q cluster \<Rightarrow> nat \<Rightarrow> InferenceModel \<Rightarrow> go_time \<Rightarrow> backend_request \<Rightarrow> (reply \<Rightarrow> 'q response) \<Rightarrow> 'q server
    \<Rightarrow> 'q response \<times> 'q server" where
  "exchange E i model startTime req deliver s =
     (let asked = log_effect (BackendAsked req) s in
      case http_Do (backend_call E i) req of
        RequestError \<Rightarrow> (ErrorResponse 500 ''internal_error'', recordRequestMetrics E i model startTime False s)
      | ClientGone \<Rightarrow> (NothingWritten, recordRequestMetrics E i model startTime False asked)
      | CallFailed \<Rightarrow> (ErrorResponse 502 ''backend_unavailable'', recordRequestMetrics E i model startTime False asked)
      | Answered rp \<Rightarrow>
          (deliver rp,
           recordRequestMetrics E i model startTime True
             (asked\<lparr>IdleTracker :=
                IdleTracker_RecordRequest (clock E i) (im_Namespace model) (im_Name model) (IdleTracker asked)\<rparr>)))"

text \<open>The request that \<open>forwardToBackend\<close> sends.\<close>

definition json_request ::
  "'q cluster \<Rightarrow> nat \<Rightarrow> InferenceModel \<Rightarrow> string \<Rightarrow> http_header \<Rightarrow> json \<Rightarrow> backend_request" where
  "json_request E i model backendPath header body =
     \<lparr>bq_Method = ''POST'', bq_URL = backend_base E i model @ backendPath, bq_Header = copy_request_headers header,
      bq_Body = JsonText body, bq_ContentLength = None\<rparr>"

definition forwardToBackend ::
  "'q cluster \<Rightarrow> nat \<Rightarrow> InferenceModel \<Rightarrow> string \<Rightarrow> http_header \<Rightarrow> json \<Rightarrow> bool \<Rightarrow> go_time \<Rightarrow> 'q server
    \<Rightarrow> 'q response \<times> 'q server" where
  "forwardToBackend E i model backendPath header body stream startTime =
     exchange E i model startTime (json_request E i model backendPath header body)
       (\<lambda>rp. if stream then StreamedResponse streamed_headers (handleStreamingResponse (an_Body rp))
             else handleNonStreamingResponse rp)"

text \<open>The request that \<open>forwardRawRequest\<close> sends: the client's, with what is left of its body.\<close>

definition raw_request ::
  "'q cluster \<Rightarrow> nat \<Rightarrow> InferenceModel \<Rightarrow> string \<Rightarrow> client_request \<Rightarrow> backend_request" where
  "raw_request E i model backendPath r =
     \<lparr>bq_Method = cr_Method r, bq_URL = backend_base E i model @ backendPath, bq_Header = copy_request_headers (cr_Header r),
      bq_Body = RawText (cr_Body r), bq_ContentLength = Some (cr_ContentLength r)\<rparr>"

definition forwardRawRequest ::
  "'q cluster \<Rightarrow> nat \<Rightarrow> InferenceModel \<Rightarrow> string \<Rightarrow> client_request \<Rightarrow> go_time \<Rightarrow> 'q server \<Rightarrow> 'q response \<times> 'q server" where
  "forwardRawRequest E i model backendPath r startTime =
     exchange E i model startTime (raw_request E i model backendPath r) handleNonStreamingResponse"

section \<open>The handlers\<close>

definition lookupInferenceModelByName ::
  "config \<Rightarrow> 'q cluster \<Rightarrow> nat \<Rightarrow> string \<Rightarrow> api_error + InferenceModel option" where
  "lookupInferenceModelByName cfg E i name =
     (case model_list E i (ServerNamespace cfg) of
        Inl err \<Rightarrow> Inl err
      | Inr ms \<Rightarrow> Inr (find (\<lambda>m. ModelName (Spec m) = name) ms))"

definition still_downloading :: "InferenceModel \<Rightarrow> bool" where
  "still_downloading model \<longleftrightarrow>
     DownloadPhase (Status model) \<noteq> '''' \<and> DownloadPhase (Status model) \<noteq> DownloadPhaseComplete"

text \<open>Admission: on the registry if there is one, else the fallback.\<close>

definition admission ::
  "bool \<Rightarrow> config \<Rightarrow> 'q::linordered_ab_group_add cluster \<Rightarrow> nat \<Rightarrow> InferenceModel \<Rightarrow> 'q server
    \<Rightarrow> ('q response option, 'q server) outcome" where
  "admission sync cfg E i model s =
     (case Reg s of
        Some r \<Rightarrow> registry_admission sync cfg E i model r s
      | None \<Rightarrow> legacy_admission cfg E i model s)"

text \<open>Admission, then forwarding; the deferred \<open>FinishRequest\<close> runs after the forward.\<close>

definition admit_and_forward ::
  "bool \<Rightarrow> config \<Rightarrow> 'q::linordered_ab_group_add cluster \<Rightarrow> nat \<Rightarrow> InferenceModel
    \<Rightarrow> ('q server \<Rightarrow> 'q response \<times> 'q server) \<Rightarrow> 'q server \<Rightarrow> ('q response, 'q server) outcome" where
  "admit_and_forward sync cfg E i model forward s =
     and_then (admission sync cfg E i model s) (\<lambda>answer s.
       case answer of
         Some resp \<Rightarrow> Returns resp s
       | None \<Rightarrow> (let (resp, s1) = forward s in Returns resp (finish_request model s1)))"

definition openaiPassthroughHandler ::
  "config \<Rightarrow> 'q::linordered_ab_group_add cluster \<Rightarrow> nat \<Rightarrow> string \<Rightarrow> http_header \<Rightarrow> json option option \<Rightarrow> 'q server
    \<Rightarrow> ('q response, 'q server) outcome" where
  "openaiPassthroughHandler cfg E i backendPath header body s =
     (case body of
        None \<Rightarrow> Returns (ErrorResponse 400 ''invalid_request'') s \<comment> \<open>the body could not be read\<close>
      | Some None \<Rightarrow> Returns (ErrorResponse 400 ''invalid_request'') s \<comment> \<open>it is no JSON text\<close>
      | Some (Some j) \<Rightarrow>
          and_then (attempt (rewrite_body (json_number E) (DefaultModel cfg) j) s) (\<lambda>decoded s.
            case decoded of
              None \<Rightarrow> Returns (ErrorResponse 400 ''invalid_request'') s
            | Some (req, j') \<Rightarrow>
                (case lookupInferenceModelByName cfg E i (Model req) of
                   Inl err \<Rightarrow> Returns (ErrorResponse 500 ''internal_error'') s
                 | Inr None \<Rightarrow> Returns (ErrorResponse 404 ''model_not_found'') s
                 | Inr (Some model) \<Rightarrow>
                     (if still_downloading model
                      then Returns (ErrorResponse 503 ''model_downloading'') s
                      else admit_and_forward True cfg E (i + 2) model
                             (forwardToBackend E (i + 1) model backendPath header j' (Stream req) (clock E i)) s))))"

definition multipartPassthroughHandler ::
  "config \<Rightarrow> 'q::linordered_ab_group_add cluster \<Rightarrow> nat \<Rightarrow> string \<Rightarrow> client_request \<Rightarrow> 'q server
    \<Rightarrow> ('q response, 'q server) outcome" where
  "multipartPassthroughHandler cfg E i backendPath r s =
     (case FormValue ''model'' r of (modelName, r1) \<Rightarrow>
        if modelName = '''' then Returns (ErrorResponse 400 ''invalid_request'') s
        else
          (case lookupInferenceModelByName cfg E i modelName of
             Inl err \<Rightarrow> Returns (ErrorResponse 500 ''internal_error'') s
           | Inr None \<Rightarrow> Returns (ErrorResponse 404 ''model_not_found'') s
           | Inr (Some model) \<Rightarrow>
               admit_and_forward False cfg E (i + 2) model
                 (forwardRawRequest E (i + 1) model backendPath r1 (clock E i)) s))"

end
