(* ===== verification/Proxy_Limits.thy ===== *)
theory Proxy_Limits
  imports Eviction Proxy_Handler Budget_Accounting
begin

text \<open>
  The global memory limit of the proxy: what one round of eviction frees, that it frees enough when it
  says so, and that the creation of a pod keeps the total within \<open>MaxMemoryBytes\<close> as long as the sums
  stay within \<open>int64\<close>; and where the code does not keep to it.
\<close>

section \<open>A round of eviction on the ledger\<close>

abbreviation entry_key :: "DeploymentEntry \<Rightarrow> string" where
  "entry_key e \<equiv> entryKey (de_Namespace e) (de_Name e)"

definition bytes_of :: "'q quantity_api \<Rightarrow> 'q Tracker \<Rightarrow> DeploymentEntry \<Rightarrow> int64" where
  "bytes_of Q t e = (case GetAllocation (de_Name e) (de_Namespace e) t of None \<Rightarrow> 0 | Some a \<Rightarrow> Value Q (ma_Memory a))"

lemma fold_release_names:
  assumes "map snd chs = map evicted_name ev" and "keys_distinct (allocations t)"
    and "distinct (map entry_key ev)"
  defines "t' \<equiv> fold (\<lambda>(ch, name, ns). ReleaseModel ch name ns) chs t"
  shows "map_of (allocations t') = (\<lambda>k. if k \<in> entry_key ` set ev then None else map_of (allocations t) k)"
    and "GetTotalAllocatedMemory Q t' = GetTotalAllocatedMemory Q t - (\<Sum>e\<leftarrow>ev. bytes_of Q t e)"
proof -
  have keys: "map (\<lambda>(c, n). case n of (name, ns) \<Rightarrow> modelKey name ns) chs = map entry_key ev"
    using arg_cong [OF assms(1), of "map (\<lambda>(name, ns). modelKey name ns)"]
    by (simp add: comp_def split_def modelKey_def entryKey_def)
  then have key_set: "(\<lambda>(c, n). case n of (name, ns) \<Rightarrow> modelKey name ns) ` set chs = entry_key ` set ev"
    by (metis list.set_map)
  have sums: "map (\<lambda>(c, n). case map_of (allocations t) (case n of (name, ns) \<Rightarrow> modelKey name ns) of
        None \<Rightarrow> 0 | Some a \<Rightarrow> Value Q (ma_Memory a)) chs = map (bytes_of Q t) ev"
    using arg_cong [OF assms(1), of "map (\<lambda>(name, ns). case map_of (allocations t) (modelKey name ns) of
        None \<Rightarrow> 0 | Some a \<Rightarrow> Value Q (ma_Memory a))"]
    by (simp add: comp_def split_def bytes_of_def [abs_def] GetAllocation_def)
  show "map_of (allocations t') = (\<lambda>k. if k \<in> entry_key ` set ev then None else map_of (allocations t) k)"
    using tracker.fold_release [of t chs] assms(2) unfolding t'_def key_set by (simp add: split_def)
  show "GetTotalAllocatedMemory Q t' = GetTotalAllocatedMemory Q t - (\<Sum>e\<leftarrow>ev. bytes_of Q t e)"
    using tracker.fold_release_total [of t chs Q] assms(2,3) unfolding t'_def keys sums
    by (simp add: split_def)
qed

lemma fold_delete_idle:
  assumes "\<And>e. e \<in> set ev \<Longrightarrow> active r (entry_key e) = 0"
  shows "active (fold (\<lambda>(name, ns). Delete ns name) (map evicted_name ev) r) = active r"
proof -
  have "fold (\<lambda>(name, ns). Delete ns name) (map evicted_name ev) r
      = fold (\<lambda>(ns, n). Delete ns n) (map (\<lambda>e. (de_Namespace e, de_Name e)) ev) r"
    by (simp add: fold_map comp_def)
  moreover have "active (fold (\<lambda>(ns, n). Delete ns n) (map (\<lambda>e. (de_Namespace e, de_Name e)) ev) r) = active r"
    by (rule registry.remove_all_idle) (auto simp: assms)
  ultimately show ?thesis by simp
qed

lemma evicts_idle:
  assumes wf: "registry_wf r" and "Reg s = Some r" and kd: "keys_distinct (allocations (Tracker s))"
    and ev: "evicts E model (GetIdleEntriesSorted now d r) s ev s'"
  shows "subseq ev (GetIdleEntriesSorted now d r)
    \<and> (\<forall>e\<in>set ev. \<not> same_model model e \<and> active r (entry_key e) = 0)
    \<and> map_of (allocations (Tracker s'))
        = (\<lambda>k. if k \<in> entry_key ` set ev then None else map_of (allocations (Tracker s)) k)
    \<and> GetTotalAllocatedMemory Q (Tracker s')
        = GetTotalAllocatedMemory Q (Tracker s) - (\<Sum>e\<leftarrow>ev. bytes_of Q (Tracker s) e)
    \<and> (\<exists>r'. Reg s' = Some r' \<and> active r' = active r)"
proof -
  have sub: "subseq ev (GetIdleEntriesSorted now d r)" and ns: "list_all (\<lambda>e. \<not> same_model model e) ev"
    using evicts_chosen [OF ev] by auto
  have idle: "active r (entry_key e) = 0" if "e \<in> set ev" for e
  proof -
    have "e \<in> set (GetIdleEntriesSorted now d r)" using that sub by (metis subseq_order.order_trans subseq_singleton_left)
    then show ?thesis
      using GetIdleEntriesSorted_wf [OF wf] by (simp add: active_def Get_def idle_entry_def)
  qed
  have "distinct (map entry_key ev)"
    using subseqs_distinctD [of "map entry_key ev" "map entry_key (GetIdleEntriesSorted now d r)"]
      subseq_map [OF sub, of entry_key] GetIdleEntriesSorted_distinct_keys [OF wf]
    by simp
  moreover obtain chs where "map snd chs = map evicted_name ev"
    and "Tracker s' = fold (\<lambda>(ch, name, ns). ReleaseModel ch name ns) chs (Tracker s)"
    using evicts_tracker [OF ev] by blast
  ultimately show ?thesis
    using fold_release_names [OF _ kd] sub ns idle evicts_registry [OF ev] fold_delete_idle [OF idle] assms(2)
    by (simp add: list_all_iff)
qed

section \<open>The surroundings used by the witnesses\<close>

definition pod_missing :: "nat \<Rightarrow> string \<Rightarrow> string \<Rightarrow> api_error + Pod" where
  "pod_missing i ns n = Inl NotFound"

definition demo_pod :: "string \<Rightarrow> Pod" where
  "demo_pod n = \<lparr>pod_Name = n, pod_Namespace = ''ns'', pod_Annotations = [], pod_Phase = ''Running'',
     pod_PodIP = ''10.0.0.7'', pod_Conditions = [(''Ready'', ''True'')]\<rparr>"

definition demo_backend :: InferenceBackend where
  "demo_backend = \<lparr>ib_Name = ''llama'', ib_Namespace = ''ns'',
     BackendSpec = \<lparr>be_Image = \<lparr>img_Repository = ''llama'', img_Tag = '''', img_Digest = ''''\<rparr>, be_Port = 0,
       be_Command = [], be_Args = [], be_ReadinessPath = '''', be_LivenessPath = '''', be_Env = [],
       be_SecurityContext = None, be_Volumes = [], be_VolumeMounts = [], be_InitContainers = [], be_GPU = None\<rparr>,
     ib_Conditions = []\<rparr>"

definition demo_cluster :: "(nat \<Rightarrow> string \<Rightarrow> string \<Rightarrow> api_error + Pod) \<Rightarrow> poll_event list \<Rightarrow> int cluster" where
  "demo_cluster pods events = \<lparr>quantities = unary_api, clock = (\<lambda>i. 100), format_rfc3339 = (\<lambda>t. ''''),
     range_start = (\<lambda>i. first_choice),
     pod_get = pods, pod_delete = (\<lambda>i ns n. None), pod_create = (\<lambda>i ns n. None),
     backend_get = (\<lambda>i ns n. Inr demo_backend), model_list = (\<lambda>i ns. Inr []), owner_ref = (\<lambda>i. None),
     polls = (\<lambda>i. events), model_polls = (\<lambda>i. []), backend_call = (\<lambda>i url. CallFailed), json_number = Some\<rparr>"

definition demo_config :: "int64 \<Rightarrow> config" where
  "demo_config m = \<lparr>MaxMemoryBytes = m, EvictionMinIdle = 10, ServerNamespace = ''ns'', DefaultModel = ''''\<rparr>"

text \<open>One model of four bytes, idle since the moment 20, in a process with no per-pool budgets.\<close>

definition idle_server :: "int server" where
  "idle_server = \<lparr>
     Tracker = \<lparr>nodeBudgets = [],
       allocations = [(''ns/a'', \<lparr>ma_Name = ''a'', ma_Namespace = ''ns'', ma_Memory = 4, ma_NodeSelector = None\<rparr>)],
       usageTracking = []\<rparr>,
     Reg = Some [(''ns/a'', demo_entry ''a'' StateReady 20 0)], IdleTracker = [], effects = []\<rparr>"

text \<open>Without a GPU and with its owner set the pod of a model is always built.\<close>

definition built_pod :: "'q quantity_api \<Rightarrow> string \<Rightarrow> InferenceModel \<Rightarrow> InferenceBackend \<Rightarrow> 'q BuiltPod" where
  "built_pod Q now model backend = projr (projr (buildPod Q now None model backend))"

lemma eval_buildPod:
  "gpu_config model backend = None \<Longrightarrow> buildPod Q now None model backend = Inr (Inr (built_pod Q now model backend))"
  by (simp add: built_pod_def buildPod_def buildMainContainer_def buildResourceRequirements_def Let_def split: prod.split)

lemmas eval_proxy = eval_buildPod gpu_config_def eval_budget demo_cluster_def demo_config_def demo_backend_def demo_pod_def
  pod_missing_def demo_entry_def demo_model_def demo_spec_def entryKey_def
  GetIdleEntriesSorted_def GetAllocation_def delete_candidate_def drop_candidate_def same_model_def
  tryEvictIdleModelsForGlobalLimit_def tryEvictIdleModels_def GetTotalAllocatedMemory_def
  exceeds_limit_def checkGlobalLimit_def on_registry_def log_effect_def set_model_state_def
  Get_def SetState_def RecordRequest_def Delete_def ReleaseModel_def pod_is_ready_def
  waitForPodReady_def createPod_def submitPod_def ensureDeployment_def CanAllocate_def canAllocateLocked_def
  Allocate_def SyncAllocation_def putAllocation_def addAllocated_def subAllocated_def

section \<open>Properties\<close>

text \<open>
  C2. A round of eviction is sound: \<open>tryEvictIdleModelsForGlobalLimit\<close> removes only models with no
  request in flight, in the order in which \<open>GetIdleEntriesSorted\<close> lists them and never the requested one;
  exactly these lose their allocation, the total falls by exactly their bytes, and no count of requests in
  flight changes.
\<close>

theorem global_eviction_sound:
  assumes "registry_wf r" and "Reg s = Some r" and "keys_distinct (allocations (Tracker s))"
    and "tryEvictIdleModelsForGlobalLimit cfg E i model req s = (ok, s')"
  shows "\<exists>ev. subseq ev (GetIdleEntriesSorted (clock E i) (EvictionMinIdle cfg) r)
    \<and> (\<forall>e\<in>set ev. \<not> same_model model e \<and> active r (entry_key e) = 0)
    \<and> map_of (allocations (Tracker s'))
        = (\<lambda>k. if k \<in> entry_key ` set ev then None else map_of (allocations (Tracker s)) k)
    \<and> GetTotalAllocatedMemory (quantities E) (Tracker s')
        = GetTotalAllocatedMemory (quantities E) (Tracker s) - (\<Sum>e\<leftarrow>ev. bytes_of (quantities E) (Tracker s) e)
    \<and> (\<exists>r'. Reg s' = Some r' \<and> active r' = active r)"
proof -
  have "\<exists>ev. evicts E model (GetIdleEntriesSorted (clock E i) (EvictionMinIdle cfg) r) s ev s'"
    using assms(2,4) evict_global_loop_evicts [OF assms(3)]
    by (auto simp: tryEvictIdleModelsForGlobalLimit_def Let_def intro: evicts.stop split: if_splits)
  then show ?thesis using evicts_idle [OF assms(1-3)] by blast
qed

lemma global_eviction_sound_witness:
  "\<exists>s'. tryEvictIdleModelsForGlobalLimit (demo_config 5) (demo_cluster pod_missing []) 0 (demo_model ''b'' ''xx'') 2
      idle_server = (True, s') \<and> (\<exists>r'. Reg s' = Some r' \<and> active r' = active (the (Reg idle_server)))"
proof -
  obtain s' where *: "tryEvictIdleModelsForGlobalLimit (demo_config 5) (demo_cluster pod_missing []) 0
      (demo_model ''b'' ''xx'') 2 idle_server = (True, s')"
    by (simp add: eval_proxy idle_server_def)
  have "registry_wf (the (Reg idle_server))" and "Reg idle_server = Some (the (Reg idle_server))"
    and "keys_distinct (allocations (Tracker idle_server))"
    by (simp_all add: idle_server_def registry_wf_def demo_entry_def entryKey_def slash_key_def)
  from global_eviction_sound [OF this *] * show ?thesis by blast
qed
text \<open>The sums of the check stay within \<open>int64\<close>.\<close>

definition fits_int64 :: "'q quantity_api \<Rightarrow> int64 \<Rightarrow> 'q Tracker \<Rightarrow> bool" where
  "fits_int64 Q req t \<longleftrightarrow> no_negative Q t \<and> 0 \<le> sint req \<and> total_bytes Q t + sint req < 2 ^ 63"

lemma fits_total:
  assumes "fits_int64 Q req t"
  shows "sint (GetTotalAllocatedMemory Q t) = total_bytes Q t"
    and "sint (GetTotalAllocatedMemory Q t + req) = total_bytes Q t + sint req"
proof -
  have "0 \<le> total_bytes Q t" and "0 \<le> sint req" and "total_bytes Q t + sint req < 2 ^ 63"
    using assms by (auto simp: fits_int64_def intro: total_bytes_nonneg)
  moreover have "GetTotalAllocatedMemory Q t + req = word_of_int (total_bytes Q t + sint req)"
    by (simp add: GetTotal_word)
  ultimately show "sint (GetTotalAllocatedMemory Q t) = total_bytes Q t"
    and "sint (GetTotalAllocatedMemory Q t + req) = total_bytes Q t + sint req"
    by (simp_all only: GetTotal_word sint_small)
qed

lemma fits_exceeds:
  "fits_int64 Q req t \<Longrightarrow>
   exceeds_limit cfg (GetTotalAllocatedMemory Q t) req \<longleftrightarrow> total_bytes Q t + sint req > sint (MaxMemoryBytes cfg)"
  by (simp add: exceeds_limit_def fits_total)

lemma fits_evicts:
  assumes "evicts E model es s ev s'" and "keys_distinct (allocations (Tracker s))" and "fits_int64 Q req (Tracker s)"
  shows "fits_int64 Q req (Tracker s')" and "total_bytes Q (Tracker s') \<le> total_bytes Q (Tracker s)"
    and "keys_distinct (allocations (Tracker s'))"
  using evicts_total [OF assms(1,2), of Q] assms(3) by (auto simp: fits_int64_def)

lemma global_eviction_evicts:
  assumes "keys_distinct (allocations (Tracker s))"
    and "tryEvictIdleModelsForGlobalLimit cfg E i model req s = (ok, s')"
  shows "\<exists>ev es. evicts E model es s ev s'"
  using assms(2) evict_global_loop_evicts [OF assms(1)]
  by (auto simp: tryEvictIdleModelsForGlobalLimit_def Let_def intro: evicts.stop split: option.splits if_splits)
    blast+

text \<open>
  C18. Eviction makes room: when the limit would be exceeded and the eviction reports success, the recheck
  that follows never fails, as long as the sums stay within \<open>int64\<close>; so the answer "still insufficient
  memory after eviction" is only given after arithmetic overflow or a negative quantity.
\<close>

theorem eviction_makes_room:
  assumes "keys_distinct (allocations (Tracker s))" and "fits_int64 (quantities E) req (Tracker s)"
    and "0 < sint (MaxMemoryBytes cfg)"
    and "exceeds_limit cfg (GetTotalAllocatedMemory (quantities E) (Tracker s)) req"
    and "tryEvictIdleModelsForGlobalLimit cfg E i model req s = (True, s')"
  shows "\<not> exceeds_limit cfg (GetTotalAllocatedMemory (quantities E) (Tracker s')) req"
proof -
  let ?Q = "quantities E" let ?max = "MaxMemoryBytes cfg"
  let ?need = "req - (?max - GetTotalAllocatedMemory ?Q (Tracker s))"
  obtain r where "Reg s = Some r" and
    loop: "evict_global_loop E (i + 1) model ?need 0 (GetIdleEntriesSorted (clock E i) (EvictionMinIdle cfg) r) s
      = (True, s')"
    using assms(5) by (auto simp: tryEvictIdleModelsForGlobalLimit_def Let_def split: option.splits if_splits)
  obtain ev es where ev: "evicts E model es s ev s'"
    and enough: "sint ?need \<le> sint (0 + (GetTotalAllocatedMemory ?Q (Tracker s) - GetTotalAllocatedMemory ?Q (Tracker s')))"
    using evict_global_loop_evicts [OF assms(1) loop] by blast
  have fits': "fits_int64 ?Q req (Tracker s')"
    and less: "total_bytes ?Q (Tracker s') \<le> total_bytes ?Q (Tracker s)"
    using fits_evicts [OF ev assms(1,2)] by auto
  have pos: "0 \<le> total_bytes ?Q (Tracker s')" "0 \<le> sint req" "total_bytes ?Q (Tracker s) + sint req < 2 ^ 63"
    using fits' assms(2) by (auto simp: fits_int64_def intro: total_bytes_nonneg)
  have over: "total_bytes ?Q (Tracker s) + sint req > sint ?max"
    using assms(2,4) by (simp add: fits_exceeds)
  have "?need = word_of_int (total_bytes ?Q (Tracker s) + sint req - sint ?max)"
    by (simp add: GetTotal_word)
  then have "sint ?need = total_bytes ?Q (Tracker s) + sint req - sint ?max"
    using over pos assms(3) by (simp only: sint_small)
  moreover have "0 + (GetTotalAllocatedMemory ?Q (Tracker s) - GetTotalAllocatedMemory ?Q (Tracker s'))
      = word_of_int (total_bytes ?Q (Tracker s) - total_bytes ?Q (Tracker s'))"
    by (simp add: GetTotal_word)
  then have "sint (0 + (GetTotalAllocatedMemory ?Q (Tracker s) - GetTotalAllocatedMemory ?Q (Tracker s')))
      = total_bytes ?Q (Tracker s) - total_bytes ?Q (Tracker s')"
    using less pos by (simp only: sint_small)
  ultimately have "total_bytes ?Q (Tracker s) + sint req - sint ?max
      \<le> total_bytes ?Q (Tracker s) - total_bytes ?Q (Tracker s')"
    using enough by simp
  then show ?thesis by (simp add: fits_exceeds [OF fits'])
qed

lemma eviction_makes_room_witness:
  "\<exists>s'. tryEvictIdleModelsForGlobalLimit (demo_config 5) (demo_cluster pod_missing []) 0 (demo_model ''b'' ''xx'') 2
      idle_server = (True, s')
    \<and> \<not> exceeds_limit (demo_config 5) (GetTotalAllocatedMemory unary_api (Tracker s')) 2"
proof -
  obtain s' where *: "tryEvictIdleModelsForGlobalLimit (demo_config 5) (demo_cluster pod_missing []) 0
      (demo_model ''b'' ''xx'') 2 idle_server = (True, s')"
    by (simp add: eval_proxy idle_server_def)
  have "keys_distinct (allocations (Tracker idle_server))"
    and "fits_int64 (quantities (demo_cluster pod_missing [])) 2 (Tracker idle_server)"
    and "0 < sint (MaxMemoryBytes (demo_config 5))"
    and "exceeds_limit (demo_config 5)
      (GetTotalAllocatedMemory (quantities (demo_cluster pod_missing [])) (Tracker idle_server)) 2"
    by (simp_all add: idle_server_def eval_proxy fits_int64_def no_negative_def total_bytes_def)
  from eviction_makes_room [OF this *] * show ?thesis by (simp add: demo_cluster_def)
qed

section \<open>The creation of a pod and the limit\<close>

lemma Allocate_entry:
  assumes "Allocate Q ch n ns mem sel t = Inr (ok, t')"
  shows "if ok then \<exists>q. MustParse Q mem = Inr q \<and> allocations t'
      = AList.update (modelKey n ns) \<lparr>ma_Name = n, ma_Namespace = ns, ma_Memory = q, ma_NodeSelector = sel\<rparr> (allocations t)
    else t' = t"
  using assms
  by (auto simp: Allocate_def Let_def putAllocation_def alloc_laws split: sum.splits bool.splits option.splits)

lemma total_bytes_Allocate:
  assumes "Allocate Q ch n ns mem sel t = Inr (True, t')" and "MustParse Q mem = Inr q"
    and "no_negative Q t"
  shows "total_bytes Q t' \<le> total_bytes Q t + sint (Value Q q)"
    and "map_of (allocations t') (modelKey n ns) \<noteq> None"
proof -
  from Allocate_entry [OF assms(1)] assms(2) have al: "allocations t'
      = AList.update (modelKey n ns) \<lparr>ma_Name = n, ma_Namespace = ns, ma_Memory = q, ma_NodeSelector = sel\<rparr> (allocations t)"
    by auto
  show "total_bytes Q t' \<le> total_bytes Q t + sint (Value Q q)"
    using total_bytes_lookup [OF assms(3), of "modelKey n ns"]
    by (cases "map_of (allocations t) (modelKey n ns)") (auto simp: total_bytes_def al sum_laws)
  show "map_of (allocations t') (modelKey n ns) \<noteq> None" by (simp add: al map_laws)
qed

lemma wait_keeps_tracker:
  "map_of (allocations (Tracker s)) (modelKey (im_Name model) (im_Namespace model)) \<noteq> None \<Longrightarrow>
   Tracker (outcome_state (waitForPodReady_loop E i model evs s)) = Tracker s"
  by (induction E i model evs s rule: waitForPodReady_loop.induct)
    (auto simp: SyncAllocation_def Let_def split: sum.splits)

lemma wait_effects: "effects (outcome_state (waitForPodReady_loop E i model evs s)) = effects s"
  by (induction E i model evs s rule: waitForPodReady_loop.induct) (auto simp: Let_def split: sum.split)

lemma set_model_state_simps [simp]:
  "Tracker (set_model_state E i model st s) = Tracker s"
  "Reg (set_model_state E i model st s) = map_option (SetState (clock E i) (im_Namespace model) (im_Name model) st) (Reg s)"
  "effects (set_model_state E i model st s) = effects s"
  by (simp_all add: set_model_state_def)

text \<open>Either the pod is not waited for and the tracker is as before, or the model was allocated first.\<close>

definition alloc_of ::
  "'q::linordered_ab_group_add cluster \<Rightarrow> nat \<Rightarrow> InferenceModel \<Rightarrow> 'q Tracker \<Rightarrow> (bool \<times> 'q Tracker) may_panic" where
  "alloc_of E i model t = Allocate (quantities E) (range_start E i) (im_Name model) (im_Namespace model)
     (model_memory model) (model_selector model) t"

lemma rel_counts_refl [simp]: "rel_option counts_kept ro ro"
  by (simp add: option.rel_refl)

lemma rel_counts_SetState [simp]:
  "st \<noteq> StateDeleting \<Longrightarrow> rel_option counts_kept ro (map_option (SetState now ns n st) ro)"
  by (cases ro) simp_all

lemma rel_counts_trans:
  "rel_option counts_kept a b \<Longrightarrow> rel_option counts_kept b c \<Longrightarrow> rel_option counts_kept a c"
  by (cases a; cases b; cases c) (auto intro: counts_kept_trans)

lemma rel_counts_SetState2 [simp]:
  "st \<noteq> StateDeleting \<Longrightarrow> st' \<noteq> StateDeleting \<Longrightarrow> rel_option counts_kept ro
     (map_option (SetState now ns n st) (map_option (SetState now' ns' n' st') ro))"
  by (rule rel_counts_trans [OF rel_counts_SetState rel_counts_SetState])

lemma submitPod_cases:
  obtains (unchanged) s2 where "outcome_state (submitPod E i model pod s) = s2" "Tracker s2 = Tracker s"
      "\<And>r. submitPod E i model pod s \<noteq> Returns None r"
      "rel_option counts_kept (Reg s) (Reg s2)"
  | (waited) t s2 where "alloc_of E i model (Tracker s) = Inr (True, t)"
      "s2 = (log_effect (PodCreated pod) s)\<lparr>Tracker := t\<rparr>"
      "submitPod E i model pod s = waitForPodReady_loop E (i + 2) model (polls E (i + 2)) s2"
proof -
  let ?created = "pod_create E i (im_Namespace model) (im_Name model)"
  show ?thesis
  proof (cases "?created \<noteq> None \<and> ?created \<noteq> Some AlreadyExists")
    case True
    then show ?thesis by (intro unchanged [OF refl]) (auto simp: submitPod_def Let_def)
  next
    case created: False
    show ?thesis
    proof (cases "alloc_of E i model (Tracker s)")
      case (Inl p)
      with created show ?thesis
        by (intro unchanged [OF refl]) (auto simp: submitPod_def alloc_of_def Let_def)
    next
      case (Inr bt)
      obtain ok t where bt: "bt = (ok, t)" by (cases bt)
      show ?thesis
      proof (cases ok)
        case True
        with created Inr bt have "submitPod E i model pod s = waitForPodReady_loop E (i + 2) model (polls E (i + 2))
            ((log_effect (PodCreated pod) s)\<lparr>Tracker := t\<rparr>)"
          by (auto simp: submitPod_def alloc_of_def waitForPodReady_def Let_def)
        moreover have "alloc_of E i model (Tracker s) = Inr (True, t)" using Inr bt True by simp
        ultimately show ?thesis by (intro waited [OF _ refl])
      next
        case False
        with created Inr bt show ?thesis
          by (intro unchanged [OF refl]) (auto simp: submitPod_def alloc_of_def Let_def)
      qed
    qed
  qed
qed

lemma createPod_cases:
  obtains (unchanged) s2 where "outcome_state (createPod E i model s) = s2" "Tracker s2 = Tracker s"
      "\<And>r. createPod E i model s \<noteq> Returns None r"
      "rel_option counts_kept (Reg s) (Reg s2)"
  | (waited) t s2 backend pod where "alloc_of E i model (Tracker s) = Inr (True, t)" "Tracker s2 = t"
      "rel_option counts_kept (Reg s) (Reg s2)"
      "createPod E i model s = waitForPodReady_loop E (i + 2) model (polls E (i + 2)) s2"
      "buildPod (quantities E) (format_rfc3339 E (clock E i)) (owner_ref E i) model backend = Inr (Inr pod)"
      "effects s2 = effects s @ [PodCreated pod]"
      "backend_get E i (im_Namespace model) (Backend (Spec model)) = Inr backend"
proof (cases "backend_get E i (im_Namespace model) (Backend (Spec model))")
  case (Inl err)
  then show ?thesis by (intro unchanged [OF refl]) (simp_all add: createPod_def Let_def)
next
  case backend: (Inr backend)
  let ?built = "buildPod (quantities E) (format_rfc3339 E (clock E i)) (owner_ref E i) model backend"
  show ?thesis
  proof (cases "\<exists>pod. ?built = Inr (Inr pod) \<and> owner_ref E (i + 1) = None")
    case False
    with backend show ?thesis
      by (intro unchanged [OF refl]) (auto simp: createPod_def attempt_def Let_def split: option.split sum.split)
  next
    case True
    then obtain pod where built: "?built = Inr (Inr pod)" and owner: "owner_ref E (i + 1) = None" by blast
    let ?s1 = "set_model_state E i model StateCreating s"
    have submit: "createPod E i model s = submitPod E i model pod ?s1"
      using backend built owner by (simp add: createPod_def)
    show ?thesis
    proof (cases rule: submitPod_cases [of E i model pod ?s1])
      case (unchanged s2)
      then show ?thesis
        using rel_counts_trans [of "Reg s" "Reg ?s1" "Reg s2"]
        by (intro that(1) [of s2]) (simp_all add: submit)
    next
      case (waited t s2)
      then show ?thesis by (intro that(2) [of t s2 backend pod]) (simp_all add: submit built backend)
    qed
  qed
qed

lemma checkGlobalLimit_outcome:
  assumes "keys_distinct (allocations (Tracker s))"
  shows "\<exists>ev es. evicts E model es s ev (outcome_state (checkGlobalLimit cfg E i model s))"
    and "checkGlobalLimit cfg E i model s = Returns None s' \<Longrightarrow> MustParse (quantities E) (model_memory model) = Inr q
      \<Longrightarrow> 0 < sint (MaxMemoryBytes cfg)
      \<Longrightarrow> \<not> exceeds_limit cfg (GetTotalAllocatedMemory (quantities E) (Tracker s')) (Value (quantities E) q)"
proof -
  define ok where "ok q' = fst (tryEvictIdleModelsForGlobalLimit cfg E i model (Value (quantities E) q') s)" for q'
  define t where "t q' = snd (tryEvictIdleModelsForGlobalLimit cfg E i model (Value (quantities E) q') s)" for q'
  have round: "tryEvictIdleModelsForGlobalLimit cfg E i model (Value (quantities E) q') s = (ok q', t q')" for q'
    by (simp add: ok_def t_def)
  have "\<exists>ev es. evicts E model es s ev (t q')" for q'
    using global_eviction_evicts [OF assms round] .
  then show "\<exists>ev es. evicts E model es s ev (outcome_state (checkGlobalLimit cfg E i model s))"
    using evicts.stop [of E model "[]" s]
    by (auto simp: checkGlobalLimit_def Let_def attempt_def round split: sum.splits bool.splits)
next
  assume "checkGlobalLimit cfg E i model s = Returns None s'"
    and "MustParse (quantities E) (model_memory model) = Inr q" and "0 < sint (MaxMemoryBytes cfg)"
  then show "\<not> exceeds_limit cfg (GetTotalAllocatedMemory (quantities E) (Tracker s')) (Value (quantities E) q)"
    by (auto simp: checkGlobalLimit_def Let_def split: if_splits prod.splits bool.splits)
qed

text \<open>
  C1. The creation of a pod respects the global limit: however \<open>ensureDeployment\<close> ends (created, refused,
  failed, timed out, panicked or still waiting), the memory held by all models stays within
  \<open>MaxMemoryBytes\<close> if it was before, as long as the sums of the check stay within \<open>int64\<close>.
\<close>

theorem creation_within_limit:
  assumes "keys_distinct (allocations (Tracker s))" and "MustParse (quantities E) (model_memory model) = Inr q"
    and "fits_int64 (quantities E) (Value (quantities E) q) (Tracker s)" and "0 < sint (MaxMemoryBytes cfg)"
    and "total_bytes (quantities E) (Tracker s) \<le> sint (MaxMemoryBytes cfg)"
  shows "total_bytes (quantities E) (Tracker (outcome_state (ensureDeployment cfg E i model s)))
    \<le> sint (MaxMemoryBytes cfg)"
proof -
  let ?Q = "quantities E" let ?lim = "sint (MaxMemoryBytes cfg)"
  let ?check = "checkGlobalLimit cfg E (i + 4) model s"
  obtain ev es where ev: "evicts E model es s ev (outcome_state ?check)"
    using checkGlobalLimit_outcome(1) [OF assms(1)] by blast
  note after = fits_evicts [OF ev assms(1,3)]
  have create: "total_bytes ?Q (Tracker (outcome_state (createPod E (i + 1) model s1))) \<le> ?lim"
    if check: "?check = Returns None s1" for s1
  proof -
    have fits: "fits_int64 ?Q (Value ?Q q) (Tracker s1)" and less: "total_bytes ?Q (Tracker s1) \<le> ?lim"
      using after assms(5) check by auto
    have room: "total_bytes ?Q (Tracker s1) + sint (Value ?Q q) \<le> ?lim"
      using checkGlobalLimit_outcome(2) [OF assms(1) check assms(2,4)] fits_exceeds [OF fits] by (simp add: not_less)
    show ?thesis
    proof (cases rule: createPod_cases [of E "i + 1" model s1])
      case (unchanged s2)
      with less show ?thesis by simp
    next
      case (waited t s2 backend pod)
      have "total_bytes ?Q t \<le> total_bytes ?Q (Tracker s1) + sint (Value ?Q q)"
        and held: "map_of (allocations (Tracker s2)) (modelKey (im_Name model) (im_Namespace model)) \<noteq> None"
        using total_bytes_Allocate [OF waited(1) [unfolded alloc_of_def] assms(2)] fits waited(2)
        by (auto simp: fits_int64_def)
      with room show ?thesis
        unfolding waited(4) wait_keeps_tracker [OF held] waited(2) by simp
    qed
  qed
  have "total_bytes ?Q (Tracker (outcome_state ?check)) \<le> ?lim" using after assms(5) by simp
  then have "total_bytes ?Q (Tracker (outcome_state (and_then ?check
      (\<lambda>err s. case err of Some e \<Rightarrow> Returns (Some e) s | None \<Rightarrow> createPod E (i + 1) model s)))) \<le> ?lim"
    using create by (cases ?check) (auto split: option.split)
  with assms(5) show ?thesis
    by (auto simp: ensureDeployment_def attempt_def split: option.split sum.split)
qed

lemma creation_within_limit_witness:
  "total_bytes unary_api (Tracker (outcome_state (ensureDeployment (demo_config 5)
      (demo_cluster pod_missing [Tick (Inr (demo_pod ''b''))]) 0 (demo_model ''b'' ''xx'') idle_server))) \<le> 5
   \<and> outcome_state (ensureDeployment (demo_config 5)
      (demo_cluster pod_missing [Tick (Inr (demo_pod ''b''))]) 0 (demo_model ''b'' ''xx'') idle_server) \<noteq> idle_server"
proof -
  let ?E = "demo_cluster pod_missing [Tick (Inr (demo_pod ''b''))]"
  have "keys_distinct (allocations (Tracker idle_server))"
    and "MustParse (quantities ?E) (model_memory (demo_model ''b'' ''xx'')) = Inr 2"
    and "fits_int64 (quantities ?E) (Value (quantities ?E) 2) (Tracker idle_server)"
    and "0 < sint (MaxMemoryBytes (demo_config 5))"
    and "total_bytes (quantities ?E) (Tracker idle_server) \<le> sint (MaxMemoryBytes (demo_config 5))"
    by (simp_all add: idle_server_def eval_proxy fits_int64_def no_negative_def total_bytes_def)
  from creation_within_limit [OF this, of 0] have "total_bytes unary_api (Tracker (outcome_state
      (ensureDeployment (demo_config 5) ?E 0 (demo_model ''b'' ''xx'') idle_server))) \<le> 5"
    by (simp add: demo_cluster_def demo_config_def)
  moreover have "outcome_state (ensureDeployment (demo_config 5) ?E 0 (demo_model ''b'' ''xx'') idle_server) \<noteq> idle_server"
    by (simp add: eval_proxy idle_server_def)
  ultimately show ?thesis ..
qed

section \<open>Where the limit is not kept\<close>

definition huge_api :: "int quantity_api" where
  "huge_api = \<lparr>ParseQuantity = (\<lambda>s. Some (2 ^ 63 - 1)), Value = word_of_int\<rparr>"

text \<open>
  The sum of the check wraps: with four bytes held and a request of nearly \<open>2^63\<close> bytes, the
  addition \<open>totalAllocated + requestedMemory.Value()\<close> is negative, the check passes and the pod is created
  far above the limit of ten bytes.
\<close>

theorem limit_check_wraps:
  "\<exists>s'. ensureDeployment (demo_config 10)
      (demo_cluster pod_missing [Tick (Inr (demo_pod ''b''))]\<lparr>quantities := huge_api\<rparr>) 0 (demo_model ''b'' ''8Ei'')
      idle_server = Returns None s' \<and> total_bytes huge_api (Tracker s') > 10 \<and> total_bytes huge_api (Tracker idle_server) \<le> 10"
  by (simp add: eval_proxy idle_server_def huge_api_def total_bytes_def)

text \<open>
  An API error while the eviction looks up a pod counts as its absence: the running pod is not
  deleted, yet its memory is released and its registry entry removed, so the next pod is created on top of it.
\<close>

theorem eviction_trusts_failed_lookup:
  "\<exists>s'. tryEvictIdleModelsForGlobalLimit (demo_config 5)
      (demo_cluster (\<lambda>i ns n. Inl (OtherApiError ''timeout'')) []) 0 (demo_model ''b'' ''xx'') 2 idle_server = (True, s')
    \<and> effects s' = [] \<and> GetAllocation ''a'' ''ns'' (Tracker s') = None \<and> Reg s' = Some []"
  by (simp add: eval_proxy idle_server_def)

end
