(* ===== verification/Single_Flight.thy ===== *)
theory Single_Flight
  imports Proxy_Limits
begin

text \<open>
  Concurrent requests, \<open>ensureDeployment\<close> in \<open>internal/proxy/handler.go\<close>: the map of mutexes that is to
  let one goroutine per model create the pod, as a step relation over interleaved goroutines, and the
  check of the global limit, which no lock of several models covers.
\<close>

section \<open>One key of \<open>deploymentMutex\<close>\<close>

text \<open>
  Goroutines and mutexes are numbers. \<open>stored\<close> is the mutex under the key, \<open>fresh\<close> the next one that
  \<open>&sync.Mutex{}\<close> allocates, \<open>holder\<close> who has locked a mutex.
\<close>

datatype phase = Outside | Loaded nat | Critical nat | Unlocked

record flight =
  stored :: "nat option"
  fresh :: nat
  holder :: "nat \<Rightarrow> nat option"
  phase_of :: "nat \<Rightarrow> phase"

datatype flight_event = LoadOrStore nat | Lock nat | Unlock nat | DeleteKey nat

fun flight_step :: "flight_event \<Rightarrow> flight \<Rightarrow> flight option" where
  "flight_step (LoadOrStore g) f =
     (if phase_of f g \<noteq> Outside then None
      else case stored f of
        Some m \<Rightarrow> Some (f\<lparr>phase_of := (phase_of f)(g := Loaded m)\<rparr>)
      | None \<Rightarrow> Some (f\<lparr>stored := Some (fresh f), fresh := Suc (fresh f),
                        phase_of := (phase_of f)(g := Loaded (fresh f))\<rparr>))"
| "flight_step (Lock g) f =
     (case phase_of f g of
        Loaded m \<Rightarrow>
          (if holder f m = None
           then Some (f\<lparr>holder := (holder f)(m := Some g), phase_of := (phase_of f)(g := Critical m)\<rparr>)
           else None)
      | _ \<Rightarrow> None)"
| "flight_step (Unlock g) f =
     (case phase_of f g of
        Critical m \<Rightarrow> Some (f\<lparr>holder := (holder f)(m := None), phase_of := (phase_of f)(g := Unlocked)\<rparr>)
      | _ \<Rightarrow> None)"
| "flight_step (DeleteKey g) f =
     (if phase_of f g = Unlocked
      then Some (f\<lparr>stored := None, phase_of := (phase_of f)(g := Outside)\<rparr>)
      else None)"

definition no_flight :: flight where
  "no_flight = \<lparr>stored = None, fresh = 0, holder = (\<lambda>m. None), phase_of = (\<lambda>g. Outside)\<rparr>"

inductive flies :: "flight_event list \<Rightarrow> flight \<Rightarrow> bool" where
  flies_init: "flies [] no_flight"
| flies_step: "flies es f \<Longrightarrow> flight_step e f = Some f' \<Longrightarrow> flies (es @ [e]) f'"

text \<open>\<open>k\<close> goroutines are between \<open>Lock\<close> and \<open>Unlock\<close>, and nothing is under the key.\<close>

definition crowded :: "nat \<Rightarrow> flight \<Rightarrow> bool" where
  "crowded k f \<longleftrightarrow> stored f = None \<and> (\<forall>m \<ge> fresh f. holder f m = None)
     \<and> (\<forall>g < k. \<exists>m. phase_of f g = Critical m) \<and> (\<forall>g \<ge> k. phase_of f g = Outside)"

fun flights :: "flight_event list \<Rightarrow> flight \<Rightarrow> flight option" where
  "flights [] f = Some f"
| "flights (e # es) f = Option.bind (flight_step e f) (flights es)"

lemma flies_flights: "flies es f \<Longrightarrow> flights es' f = Some f' \<Longrightarrow> flies (es @ es') f'"
proof (induction es' arbitrary: es f)
  case Nil
  then show ?case by simp
next
  case (Cons e es')
  then obtain f1 where "flight_step e f = Some f1" "flights es' f1 = Some f'" by (auto simp: bind_eq_Some_conv)
  with Cons.IH [OF flies_step [OF Cons.prems(1)]] show ?case by simp
qed

text \<open>One more: a creator ends while the next one already holds its mutex, and deletes the key under it.\<close>

definition one_more :: "nat \<Rightarrow> flight_event list" where
  "one_more k = [LoadOrStore (Suc k), Lock (Suc k), LoadOrStore k, Unlock (Suc k), Lock k, DeleteKey (Suc k)]"

lemma crowd_grows:
  assumes "crowded k f"
  shows "\<exists>f'. flights (one_more k) f = Some f' \<and> crowded (Suc k) f'"
  using assms by (auto simp: one_more_def crowded_def less_Suc_eq)

text \<open>
  C23. The mutex of a model bounds nothing: for every number there is an interleaving of \<open>ensureDeployment\<close>'s calls on
  \<open>deploymentMutex\<close> after which that many goroutines are between \<open>Lock\<close> and \<open>Unlock\<close> for the same model at once. The deferred cleanup
  deletes the key although another goroutine may hold the mutex or wait for it, so that the next one stores and locks a new mutex;
  the creations of one model that the comment calls single-flight run side by side.
\<close>

theorem single_flight_unbounded:
  "\<exists>es f. flies es f \<and> {..<k} \<subseteq> {g. \<exists>m. phase_of f g = Critical m}"
proof -
  have "\<exists>es f. flies es f \<and> crowded k f"
  proof (induction k)
    case 0
    have "crowded 0 no_flight" by (simp add: crowded_def no_flight_def)
    then show ?case using flies_init by blast
  next
    case (Suc k)
    then obtain es f where "flies es f" "crowded k f" by blast
    with crowd_grows obtain f' where "flights (one_more k) f = Some f'" "crowded (Suc k) f'" by blast
    with flies_flights \<open>flies es f\<close> show ?case by blast
  qed
  then show ?thesis unfolding crowded_def by (auto simp: subset_iff)
qed

section \<open>Two models at once\<close>

text \<open>
  The global limit is not kept by concurrent requests: the mutex is per model and the check and the
  allocation are separate steps, so two models that each fit pass their checks one after the other, then
  both are created; the memory held is above the limit of five bytes.
\<close>

theorem concurrent_creations_overcommit:
  "\<exists>s1 s2. let E = demo_cluster pod_missing [Tick (Inr (demo_pod ''x''))]; cfg = demo_config 5;
      s = idle_server\<lparr>Tracker := NewTracker\<rparr>; a = demo_model ''a'' ''xxx''; b = demo_model ''b'' ''xxx''
    in checkGlobalLimit cfg E 0 a s = Returns None s \<and> checkGlobalLimit cfg E 1 b s = Returns None s
      \<and> createPod E 2 a s = Returns None s1 \<and> createPod E 3 b s1 = Returns None s2
      \<and> total_bytes unary_api (Tracker s2) = 6"
  by (simp add: eval_proxy idle_server_def total_bytes_def)

end
