(* ===== verification/Proxy_Requests.thy ===== *)
theory Proxy_Requests
  imports Proxy_Limits
begin

text \<open>
  One request through the proxy: the count of requests in flight over the whole handler, what a handler
  answers when memory is short, with and without a registry, and when the waiting loops return.
\<close>

section \<open>The invariant of the server's memory\<close>

definition server_wf :: "'q server \<Rightarrow> bool" where
  "server_wf s \<longleftrightarrow> keys_distinct (allocations (Tracker s))
     \<and> (\<forall>r. Reg s = Some r \<longrightarrow> registry_wf r \<and> no_deleting r)"

definition in_flight :: "'q server \<Rightarrow> string \<Rightarrow> nat" where
  "in_flight s k = (case Reg s of None \<Rightarrow> 0 | Some r \<Rightarrow> active r k)"

text \<open>A step that keeps the invariant and every count.\<close>

definition kept :: "'q server \<Rightarrow> 'q server \<Rightarrow> bool" where
  "kept s s' \<longleftrightarrow> (server_wf s \<longrightarrow> server_wf s' \<and> in_flight s' = in_flight s \<and> (Reg s' = None \<longleftrightarrow> Reg s = None))"

lemma kept_refl [simp]: "kept s s"
  by (simp add: kept_def)

lemma kept_trans: "kept s s' \<Longrightarrow> kept s' s'' \<Longrightarrow> kept s s''"
  by (auto simp: kept_def)

lemma kept_rel_option:
  assumes "rel_option counts_kept (Reg s) (Reg s')"
    and "keys_distinct (allocations (Tracker s)) \<Longrightarrow> keys_distinct (allocations (Tracker s'))"
  shows "kept s s'"
  using assms
  by (cases "Reg s"; cases "Reg s'") (auto simp: kept_def server_wf_def in_flight_def counts_kept_def fun_eq_iff)

lemma distinct_Allocate:
  "Allocate Q ch n ns mem sel t = Inr (ok, t') \<Longrightarrow> keys_distinct (allocations t) \<Longrightarrow> keys_distinct (allocations t')"
  using Allocate_entry [of Q ch n ns mem sel t ok t'] by (auto split: if_splits)

lemma distinct_SyncAllocation:
  assumes "SyncAllocation Q ch n ns mem sel t = Inr (b, t')" and "keys_distinct (allocations t)"
  shows "keys_distinct (allocations t')"
proof (cases "map_of (allocations t) (modelKey n ns)")
  case None
  with assms show ?thesis
    by (auto simp: SyncAllocation_def putAllocation_def simp del: map_of_eq_None_iff split: sum.splits)
next
  case (Some a)
  with assms show ?thesis by (simp add: SyncAllocation_def del: map_of_eq_Some_iff)
qed

lemma wait_tracker:
  "Tracker (outcome_state (waitForPodReady_loop E i model evs s)) = Tracker s
   \<or> (\<exists>b. SyncAllocation (quantities E) (range_start E i) (im_Name model) (im_Namespace model)
        (model_memory model) (model_selector model) (Tracker s)
          = Inr (b, Tracker (outcome_state (waitForPodReady_loop E i model evs s))))"
  by (induction E i model evs s rule: waitForPodReady_loop.induct) (auto simp: Let_def split: sum.split)

lemma kept_wait: "kept s (outcome_state (waitForPodReady_loop E i model evs s))"
proof (rule kept_rel_option)
  show "rel_option counts_kept (Reg s) (Reg (outcome_state (waitForPodReady_loop E i model evs s)))"
    by (induction E i model evs s rule: waitForPodReady_loop.induct) (auto simp: Let_def split: sum.split)
  show "keys_distinct (allocations (Tracker (outcome_state (waitForPodReady_loop E i model evs s))))"
    if "keys_distinct (allocations (Tracker s))"
    using wait_tracker [of E i model evs s] that distinct_SyncAllocation by metis
qed

lemma kept_create: "kept s (outcome_state (createPod E i model s))"
proof (cases rule: createPod_cases [of E i model s])
  case (unchanged s2)
  then show ?thesis by (intro kept_rel_option) simp_all
next
  case (waited t s2 backend pod)
  have "kept s s2"
    using waited(1-3) distinct_Allocate [of "quantities E"]
    by (intro kept_rel_option) (auto simp: alloc_of_def)
  then show ?thesis using kept_trans [OF _ kept_wait] by (simp only: waited(4))
qed

lemma fold_delete_shape:
  "registry_wf r \<Longrightarrow> registry_wf (fold (\<lambda>(name, ns). Delete ns name) ens r)"
  "no_deleting r \<Longrightarrow> no_deleting (fold (\<lambda>(name, ns). Delete ns name) ens r)"
  by (induction ens arbitrary: r) (auto simp: registry_wf_ops no_deleting_ops)

lemma kept_evicts:
  assumes "Reg s = Some r" and ev: "evicts E model (GetIdleEntriesSorted now d r) s ev s'"
  shows "kept s s'"
  unfolding kept_def
proof
  assume wf: "server_wf s"
  then have "keys_distinct (allocations (Tracker s))" and "registry_wf r" and "no_deleting r"
    using assms(1) by (auto simp: server_wf_def)
  moreover obtain chs where tr: "Tracker s' = fold (\<lambda>(ch, name, ns). ReleaseModel ch name ns) chs (Tracker s)"
    using evicts_tracker [OF ev] by blast
  have "keys_distinct (allocations (Tracker s'))"
    using tracker.fold_release [of "Tracker s" chs] calculation(1) unfolding tr by (simp add: split_def)
  ultimately show "server_wf s' \<and> in_flight s' = in_flight s \<and> (Reg s' = None \<longleftrightarrow> Reg s = None)"
    using evicts_idle [OF _ assms(1) _ ev] evicts_registry [OF ev] assms(1)
    by (auto simp: server_wf_def in_flight_def fold_delete_shape fun_eq_iff)
qed

lemma kept_global_eviction:
  "tryEvictIdleModelsForGlobalLimit cfg E i model req s = (ok, s') \<Longrightarrow> kept s s'"
proof (cases "keys_distinct (allocations (Tracker s))")
  case True
  assume *: "tryEvictIdleModelsForGlobalLimit cfg E i model req s = (ok, s')"
  show ?thesis
  proof (cases "Reg s")
    case None
    with * show ?thesis by (simp add: tryEvictIdleModelsForGlobalLimit_def)
  next
    case (Some r)
    have "s' = s \<or> (\<exists>ev. evicts E model (GetIdleEntriesSorted (clock E i) (EvictionMinIdle cfg) r) s ev s')"
      using * Some evict_global_loop_evicts [OF True]
      by (auto simp: tryEvictIdleModelsForGlobalLimit_def Let_def split: if_splits)
    then show ?thesis using kept_evicts [OF Some] by auto
  qed
next
  case False
  then show ?thesis by (simp add: kept_def server_wf_def)
qed

lemma kept_check: "kept s (outcome_state (checkGlobalLimit cfg E i model s))"
proof -
  have "kept s (snd (tryEvictIdleModelsForGlobalLimit cfg E i model req s))" for req
    using kept_global_eviction by (metis prod.collapse)
  then show ?thesis
    by (auto simp: checkGlobalLimit_def Let_def attempt_def split: sum.split prod.split bool.split)
      (metis snd_conv)+
qed

lemma kept_and_then:
  assumes "kept s (outcome_state m)" and "\<And>a s1. m = Returns a s1 \<Longrightarrow> kept s1 (outcome_state (f a s1))"
  shows "kept s (outcome_state (and_then m f))"
  using assms by (cases m) (auto intro: kept_trans)

lemma kept_ensure: "kept s (outcome_state (ensureDeployment cfg E i model s))"
  by (auto simp: ensureDeployment_def kept_create kept_check intro!: kept_and_then split: option.split)

section \<open>The bracket of a request\<close>

text \<open>The server just after \<open>RecordRequest\<close>, and what \<open>FinishRequest\<close> makes of it.\<close>

definition recorded :: "'q cluster \<Rightarrow> nat \<Rightarrow> InferenceModel \<Rightarrow> 'q server \<Rightarrow> 'q server" where
  "recorded E i model s = on_registry (RecordRequest (clock E i) (im_Namespace model) (im_Name model)) s"

lemma recorded_wf: "server_wf s \<Longrightarrow> server_wf (recorded E i model s)"
  by (auto simp: server_wf_def recorded_def registry_wf_ops no_deleting_ops)

lemma finish_wf: "server_wf s \<Longrightarrow> server_wf (finish_request model s)"
  by (auto simp: server_wf_def finish_request_def registry_wf_ops no_deleting_ops)

lemma bracket_closed:
  assumes "server_wf s" and "kept (recorded E i model s) s'"
  shows "server_wf (finish_request model s') \<and> in_flight (finish_request model s') = in_flight s"
proof (cases "Reg s")
  case None
  then show ?thesis
    using assms recorded_wf [OF assms(1), of E i model]
    by (auto simp: kept_def recorded_def finish_request_def in_flight_def server_wf_def fun_eq_iff)
next
  case (Some r)
  let ?n = "(im_Namespace model, im_Name model)"
  have k: "server_wf s'" "in_flight s' = in_flight (recorded E i model s)" "Reg s' \<noteq> None"
    using assms(2) recorded_wf [OF assms(1), of E i model] Some
    by (auto simp: kept_def recorded_def)
  then obtain r' where r': "Reg s' = Some r'" by blast
  have "active r' = active (RecordRequest (clock E i) (im_Namespace model) (im_Name model) r)"
    using k(2) Some r' by (simp add: in_flight_def recorded_def fun_eq_iff)
  then have "active (FinishRequest (im_Namespace model) (im_Name model) r') = active r"
    using registry.bracket [of r' "clock E i" ?n r] by simp
  then show ?thesis
    using finish_wf [OF k(1), of model] Some r' by (simp add: in_flight_def finish_request_def fun_eq_iff)
qed

lemma or_unavailable_cases:
  assumes "or_unavailable model code m = Returns a s'"
  shows "(a = None \<and> m = Returns None s')
    \<or> (\<exists>err s1. a = Some (ErrorResponse 503 code) \<and> m = Returns (Some err) s1 \<and> s' = finish_request model s1)"
  using assms by (auto simp: or_unavailable_def and_then_Returns split: if_splits)

lemma recorded_Some:
  "Reg s = Some r \<Longrightarrow> recorded E i model s
     = s\<lparr>Reg := Some (RecordRequest (clock E i) (im_Namespace model) (im_Name model) r)\<rparr>"
  by (simp add: recorded_def on_registry_def)

text \<open>
  What the admission may end in: the request goes on with everything kept since it was recorded, or it
  is answered with 503 and finished.
\<close>

lemma registry_admission_cases:
  assumes "registry_admission sync cfg E i model r s = Returns a s'" and "Reg s = Some r" and wf: "server_wf s"
  shows "(a = None \<and> kept (recorded E i model s) s')
    \<or> (\<exists>code s1. a = Some (ErrorResponse 503 code) \<and> kept (recorded E i model s) s1 \<and> s' = finish_request model s1)"
proof -
  let ?s1 = "recorded E i model s"
  let ?r1 = "RecordRequest (clock E i) (im_Namespace model) (im_Name model) r"
  have s1: "s\<lparr>Reg := Some ?r1\<rparr> = ?s1" using assms(2) by (simp add: recorded_Some)
  have ok: "(a = None \<and> kept ?s1 s') \<or> (\<exists>code s1. a = Some (ErrorResponse 503 code) \<and> kept ?s1 s1 \<and> s' = finish_request model s1)"
    if "or_unavailable model code m = Returns a s'" and "kept ?s1 (outcome_state m)" for code m
    using or_unavailable_cases [OF that(1)] that(2) by auto
  have "no_deleting ?r1" using wf assms(2) by (simp add: server_wf_def no_deleting_ops)
  then have nd: "State e \<noteq> StateDeleting" if "Get (im_Namespace model) (im_Name model) ?r1 = Some e" for e
    using that by (rule no_deleting_lookup)
  have sync: "kept ?s1 (?s1\<lparr>Tracker := t\<rparr>)"
    if "SyncAllocation Q ch n ns mem sel (Tracker ?s1) = Inr (b, t)" for Q ch n ns mem sel b t
    using distinct_SyncAllocation [OF that] by (intro kept_rel_option) simp_all
  show ?thesis
    using assms(1) unfolding registry_admission_def Let_def s1
    by (auto dest: ok [OF _ kept_ensure] ok [OF _ kept_wait [folded waitForPodReady_def]] nd
        simp: and_then_Returns attempt_Returns waitForPodReady_def sync
        split: option.splits DeploymentState.splits if_splits)
qed

text \<open>A forward only touches the idle tracker and the metrics.\<close>

definition quiet_forward :: "('q server \<Rightarrow> 'q response \<times> 'q server) \<Rightarrow> bool" where
  "quiet_forward forward \<longleftrightarrow> (\<forall>s resp s'. forward s = (resp, s') \<longrightarrow>
     Reg s' = Reg s \<and> Tracker s' = Tracker s \<and> (\<forall>m r a b. resp \<noteq> InsufficientMemory m r a b))"

lemma quiet_exchange: "(\<And>rp m r a b. deliver rp \<noteq> InsufficientMemory m r a b) \<Longrightarrow> quiet_forward (exchange E i model t0 q deliver)"
  by (auto simp: quiet_forward_def exchange_def recordRequestMetrics_def Let_def split: call_result.splits)

lemma quiet_forwards:
  "quiet_forward (forwardToBackend E i model path hdr j stream t0)" "quiet_forward (forwardRawRequest E i model path r t0)"
  by (simp_all add: forwardToBackend_def forwardRawRequest_def handleNonStreamingResponse_def Let_def quiet_exchange)

lemma quiet_kept: "quiet_forward forward \<Longrightarrow> forward s = (resp, s') \<Longrightarrow> kept s s'"
  by (rule kept_rel_option) (auto simp: quiet_forward_def)

lemma admit_and_forward_bracket:
  assumes "admit_and_forward sync cfg E i model forward s = Returns resp s'" and "Reg s = Some r"
    and wf: "server_wf s" and quiet: "quiet_forward forward"
  shows "server_wf s' \<and> in_flight s' = in_flight s"
proof -
  obtain a s1 where adm: "registry_admission sync cfg E i model r s = Returns a s1"
    and rest: "(case a of Some resp \<Rightarrow> Returns resp s1
       | None \<Rightarrow> (let (resp, s2) = forward s1 in Returns resp (finish_request model s2))) = Returns resp s'"
    using assms(1,2) by (auto simp: admit_and_forward_def admission_def and_then_Returns)
  show ?thesis
  proof (cases a)
    case None
    then obtain s2 where "forward s1 = (resp, s2)" and s': "s' = finish_request model s2"
      using rest by (auto split: prod.splits)
    then have "kept s1 s2" using quiet_kept [OF quiet] by blast
    moreover have "kept (recorded E i model s) s1"
      using registry_admission_cases [OF adm assms(2) wf] None by auto
    ultimately show ?thesis
      using bracket_closed [OF wf, of E i model s2] kept_trans unfolding s' by blast
  next
    case (Some resp')
    then obtain s2 where "kept (recorded E i model s) s2" and "s' = finish_request model s2"
      using registry_admission_cases [OF adm assms(2) wf] rest by auto
    then show ?thesis using bracket_closed [OF wf, of E i model s2] by simp
  qed
qed

lemma openai_admits:
  assumes "openaiPassthroughHandler cfg E i path hdr body s = out" and "out \<noteq> Returns (ErrorResponse 400 ''invalid_request'') s"
    and "out \<noteq> Returns (ErrorResponse 500 ''internal_error'') s" and "out \<noteq> Returns (ErrorResponse 404 ''model_not_found'') s"
    and "out \<noteq> Returns (ErrorResponse 503 ''model_downloading'') s" and "\<And>p. out \<noteq> Panics p s"
  shows "\<exists>model j stream. out = admit_and_forward True cfg E (i + 2) model (forwardToBackend E (i + 1) model path hdr j stream (clock E i)) s"
  using assms
  by (auto simp: openaiPassthroughHandler_def attempt_def split: option.splits sum.splits prod.splits if_splits)

lemma multipart_admits:
  assumes "multipartPassthroughHandler cfg E i path rq s = out" and "out \<noteq> Returns (ErrorResponse 400 ''invalid_request'') s"
    and "out \<noteq> Returns (ErrorResponse 500 ''internal_error'') s" and "out \<noteq> Returns (ErrorResponse 404 ''model_not_found'') s"
  shows "\<exists>model. out = admit_and_forward False cfg E (i + 2) model
    (forwardRawRequest E (i + 1) model path (snd (FormValue ''model'' rq)) (clock E i)) s"
  using assms by (auto simp: multipartPassthroughHandler_def FormValue_def split: option.splits sum.splits if_splits)

text \<open>
  C3. Every request that is answered is finished: from a well-formed server with a registry, whatever the
  answer of either handler (forwarded, refused, timed out, cancelled, failed backend), no count of requests
  in flight differs afterwards from what it was before, evictions included, and the server stays well-formed.
\<close>

theorem requests_are_bracketed:
  assumes "server_wf s" and "Reg s = Some r"
    and "openaiPassthroughHandler cfg E i path hdr body s = Returns resp s'
      \<or> multipartPassthroughHandler cfg E i path rq s = Returns resp s'"
  shows "server_wf s' \<and> in_flight s' = in_flight s"
proof (cases "s' = s")
  case True
  with assms(1) show ?thesis by simp
next
  case False
  have "\<exists>sync model forward. admit_and_forward sync cfg E (i + 2) model forward s = Returns resp s' \<and> quiet_forward forward"
    using assms(3)
  proof
    assume "openaiPassthroughHandler cfg E i path hdr body s = Returns resp s'"
    from openai_admits [OF this] False show ?thesis by simp (metis quiet_forwards(1))
  next
    assume "multipartPassthroughHandler cfg E i path rq s = Returns resp s'"
    from multipart_admits [OF this] False show ?thesis by simp (metis quiet_forwards(2))
  qed
  then show ?thesis using admit_and_forward_bracket [OF _ assms(2,1)] by blast
qed

definition demo_listing :: "InferenceModel \<Rightarrow> 'q cluster \<Rightarrow> 'q cluster" where
  "demo_listing model E = E\<lparr>model_list := (\<lambda>i ns. Inr [model])\<rparr>"

text \<open>A form that names the model, of ten bytes, of which its parser leaves none.\<close>

definition demo_form :: "string \<Rightarrow> client_request" where
  "demo_form name = \<lparr>cr_Method = ''POST'', cr_Header = [(''Content-Type'', [''multipart/form-data; boundary=x''])],
     cr_ContentLength = 10, cr_Body = ''0123456789'', cr_Form = (\<lambda>k. if k = ''model'' then name else ''''), cr_Unread = 0\<rparr>"

lemmas eval_handler = eval_proxy demo_listing_def multipartPassthroughHandler_def lookupInferenceModelByName_def
  admit_and_forward_def admission_def registry_admission_def or_unavailable_def finish_request_def FinishRequest_def
  demo_form_def FormValue_def
  forwardRawRequest_def exchange_def http_Do_def raw_request_def length_mismatch_def recordRequestMetrics_def
  backend_base_def getBackendPodIP_def getBackendURL_def

lemma idle_server_wf: "server_wf idle_server"
  by (simp add: server_wf_def idle_server_def registry_wf_def no_deleting_def demo_entry_def entryKey_def slash_key_def)

lemma requests_are_bracketed_witness:
  "\<exists>s'. multipartPassthroughHandler (demo_config 9) (demo_listing (demo_model ''a'' ''xxxx'') (demo_cluster pod_missing []))
      0 ''/v1'' (demo_form ''a'') idle_server = Returns (ErrorResponse 502 ''backend_unavailable'') s'
    \<and> s' \<noteq> idle_server \<and> in_flight s' = in_flight idle_server"
proof -
  obtain s' where *: "multipartPassthroughHandler (demo_config 9)
      (demo_listing (demo_model ''a'' ''xxxx'') (demo_cluster pod_missing [])) 0 ''/v1'' (demo_form ''a'') idle_server
        = Returns (ErrorResponse 502 ''backend_unavailable'') s'" and "s' \<noteq> idle_server"
    by (simp add: eval_handler idle_server_def)
  moreover have "Reg idle_server = Some (the (Reg idle_server))" by (simp add: idle_server_def)
  ultimately show ?thesis
    using requests_are_bracketed [OF idle_server_wf, of _ "demo_config 9"] by blast
qed

end
