(* ===== verification/Proxy_Answers.thy ===== *)
theory Proxy_Answers
  imports Proxy_Requests
begin

text \<open>
  What the proxy answers: with a registry a shortage of memory is never reported as such, without one no
  pod is ever created, the first request of a model waits for a pod that nobody creates; and the waiting
  loops end as the first event that ends them says.
\<close>

section \<open>With a registry\<close>

lemma registry_admission_answers:
  "registry_admission sync cfg E i model r s = Returns (Some resp) s' \<Longrightarrow> \<exists>code. resp = ErrorResponse 503 code"
  by (auto simp: registry_admission_def Let_def and_then_Returns attempt_Returns
      dest!: or_unavailable_cases split: DeploymentState.splits option.splits if_splits)

lemma admit_and_forward_no_429:
  assumes "admit_and_forward sync cfg E i model forward s = Returns resp s'" and "Reg s = Some r" and "quiet_forward forward"
  shows "resp \<noteq> InsufficientMemory m req a b"
  using assms registry_admission_answers
  by (fastforce simp: admit_and_forward_def admission_def and_then_Returns quiet_forward_def split: option.splits prod.splits)

text \<open>
  With a registry the handlers never give the insufficient-memory answer that the README documents
  (status 429 with the blocking models): a request that does not fit is answered with 503.
\<close>

theorem no_memory_answer_with_registry:
  assumes "Reg s = Some r"
    and "openaiPassthroughHandler cfg E i path hdr body s = Returns resp s'
      \<or> multipartPassthroughHandler cfg E i path rq s = Returns resp s'"
  shows "resp \<noteq> InsufficientMemory m req a b"
  using assms(2)
proof
  assume *: "openaiPassthroughHandler cfg E i path hdr body s = Returns resp s'"
  show ?thesis
  proof
    assume "resp = InsufficientMemory m req a b"
    with openai_admits [OF *] admit_and_forward_no_429 [OF _ assms(1) quiet_forwards(1)] show False
      by simp metis
  qed
next
  assume *: "multipartPassthroughHandler cfg E i path rq s = Returns resp s'"
  show ?thesis
  proof
    assume "resp = InsufficientMemory m req a b"
    with multipart_admits [OF *] admit_and_forward_no_429 [OF _ assms(1) quiet_forwards(2)] show False
      by simp metis
  qed
qed

lemma no_memory_answer_with_registry_witness:
  "\<exists>resp s'. multipartPassthroughHandler (demo_config 5) (demo_listing (demo_model ''b'' (replicate 9 CHR ''x''))
      (demo_cluster pod_missing [])) 0 ''/v1'' (demo_form ''b'')
      (idle_server\<lparr>Reg := Some [(''ns/b'', demo_entry ''b'' StateNonexistent 20 0)]\<rparr>) = Returns resp s'
    \<and> resp = ErrorResponse 503 ''pod_failed'' \<and> resp \<noteq> InsufficientMemory ''b'' '''' 0 []"
proof -
  let ?s = "idle_server\<lparr>Reg := Some [(''ns/b'', demo_entry ''b'' StateNonexistent 20 0)]\<rparr>"
  obtain s' where *: "multipartPassthroughHandler (demo_config 5) (demo_listing (demo_model ''b'' (replicate 9 CHR ''x''))
      (demo_cluster pod_missing [])) 0 ''/v1'' (demo_form ''b'') ?s = Returns (ErrorResponse 503 ''pod_failed'') s'"
    by (simp add: eval_handler idle_server_def numeral_eq_Suc)
  have "Reg ?s = Some [(''ns/b'', demo_entry ''b'' StateNonexistent 20 0)]" by simp
  from no_memory_answer_with_registry [OF this, of "demo_config 5", OF disjI2, OF *] *
  show ?thesis by blast
qed

text \<open>
  A memory text that is no quantity leaks a request: the API does not check the text, so the parse
  panics after the request was recorded; the panic skips every \<open>FinishRequest\<close>, and the count of the model
  stays one too high for ever (it is then never idle, so neither evicted nor scaled to zero).
\<close>

theorem unparsable_memory_leaks:
  assumes "Reg s = Some r" and "Get (im_Namespace model) (im_Name model) r = Some e" and "State e = StateNonexistent"
    and "ParseQuantity (quantities E) (model_memory model) = None"
  shows "\<exists>s'. admit_and_forward sync cfg E i model forward s = Panics (MustParsePanic (model_memory model)) s'
    \<and> in_flight s' (entryKey (im_Namespace model) (im_Name model))
        = Suc (in_flight s (entryKey (im_Namespace model) (im_Name model)))"
proof -
  let ?r1 = "RecordRequest (clock E i) (im_Namespace model) (im_Name model) r"
  have get: "Get (im_Namespace model) (im_Name model) ?r1
      = Some (e\<lparr>ActiveRequests := Suc (ActiveRequests e), LastRequestTime := clock E i\<rparr>)"
    using assms(2) by (simp add: Get_def reg_laws)
  have "ensureDeployment cfg E (i + 1) model (s\<lparr>Reg := Some ?r1\<rparr>)
      = Panics (MustParsePanic (model_memory model)) (s\<lparr>Reg := Some ?r1\<rparr>)"
    using assms(3,4) get by (simp add: ensureDeployment_def CanAllocate_def MustParse_def)
  then have "admit_and_forward sync cfg E i model forward s
      = Panics (MustParsePanic (model_memory model)) (s\<lparr>Reg := Some ?r1\<rparr>)"
    using assms(1,3) get by (simp add: admit_and_forward_def admission_def registry_admission_def or_unavailable_def)
  then show ?thesis using assms(1) by (simp add: in_flight_def active_laws)
qed

lemma unparsable_memory_leaks_witness:
  "\<exists>s'. admit_and_forward False (demo_config 5) (demo_cluster pod_missing []) 0 (demo_model ''b'' '''')
      (forwardRawRequest (demo_cluster pod_missing []) 0 (demo_model ''b'' '''') ''/v1'' (demo_form ''b'') 0)
      (idle_server\<lparr>Reg := Some [(''ns/b'', demo_entry ''b'' StateNonexistent 20 0)]\<rparr>) = Panics (MustParsePanic '''') s'
    \<and> in_flight s' ''ns/b'' = 1"
  using unparsable_memory_leaks [of "idle_server\<lparr>Reg := Some [(''ns/b'', demo_entry ''b'' StateNonexistent 20 0)]\<rparr>"
      "[(''ns/b'', demo_entry ''b'' StateNonexistent 20 0)]" "demo_model ''b'' ''''"
      "demo_entry ''b'' StateNonexistent 20 0" "demo_cluster pod_missing []" False "demo_config 5" 0]
  by (simp add: Get_def demo_model_def demo_spec_def demo_entry_def entryKey_def slash_key_def demo_cluster_def
      unary_api_def in_flight_def active_def)

lemma wait_times_out:
  "Reg s \<noteq> None \<Longrightarrow> \<exists>s'. waitForPodReady_loop E i model (replicate n (Tick (Inl NotFound)) @ TimeoutFires # evs) s
     = Returns (Some WaitTimeout) s' \<and> Reg s' \<noteq> None"
  by (induction n) auto

lemma first_admission_waits:
  "Get (im_Namespace model) (im_Name model) r = None \<Longrightarrow> registry_admission sync cfg E i model r s
     = or_unavailable model ''deployment_timeout''
         (waitForPodReady E (i + 1) model (s\<lparr>Reg := Some (RecordRequest (clock E i) (im_Namespace model) (im_Name model) r)\<rparr>))"
  by (simp add: registry_admission_def Get_def reg_laws Let_def)

text \<open>
  The first request of a model creates nothing: for a model without a registry entry
  \<open>RecordRequest\<close> files the state \<open>Creating\<close>, so the handler waits for a pod that nobody creates. It
  asks the cluster for no change, whatever the polls show, and when they show no pod until the timeout the
  client gets a 503.
\<close>

theorem first_request_creates_nothing:
  assumes "Get (im_Namespace model) (im_Name model) r = None"
  shows "effects (outcome_state (registry_admission sync cfg E i model r s)) = effects s
    \<and> (polls E (i + 1) = replicate n (Tick (Inl NotFound)) @ [TimeoutFires] \<longrightarrow>
      (\<exists>s'. registry_admission sync cfg E i model r s = Returns (Some (ErrorResponse 503 ''deployment_timeout'')) s'))"
proof -
  let ?s1 = "s\<lparr>Reg := Some (RecordRequest (clock E i) (im_Namespace model) (im_Name model) r)\<rparr>"
  let ?w = "waitForPodReady E (i + 1) model ?s1"
  have "effects (outcome_state (or_unavailable model code ?w)) = effects (outcome_state ?w)" for code
    by (cases ?w) (auto simp: or_unavailable_def finish_request_def)
  then have "effects (outcome_state (registry_admission sync cfg E i model r s)) = effects s"
    unfolding first_admission_waits [OF assms] by (simp add: waitForPodReady_def wait_effects)
  moreover have "\<exists>s'. registry_admission sync cfg E i model r s = Returns (Some (ErrorResponse 503 ''deployment_timeout'')) s'"
    if "polls E (i + 1) = replicate n (Tick (Inl NotFound)) @ [TimeoutFires]"
    using that wait_times_out [of ?s1 E "i + 1" model n "[]"]
    unfolding first_admission_waits [OF assms] by (auto simp: waitForPodReady_def or_unavailable_def)
  ultimately show ?thesis by blast
qed

lemma first_request_creates_nothing_witness:
  "\<exists>s'. registry_admission True (demo_config 5) (demo_cluster pod_missing [Tick (Inl NotFound), TimeoutFires]) 0
      (demo_model ''b'' ''xx'') [] idle_server = Returns (Some (ErrorResponse 503 ''deployment_timeout'')) s'"
  using first_request_creates_nothing [of "demo_model ''b'' ''xx''" "[]" True "demo_config 5"
      "demo_cluster pod_missing [Tick (Inl NotFound), TimeoutFires]" 0 idle_server 1]
  by (simp add: Get_def demo_cluster_def)

section \<open>Without a registry\<close>

definition only_metrics :: "'q server \<Rightarrow> 'q server \<Rightarrow> bool" where
  "only_metrics s s' \<longleftrightarrow> Reg s' = None
     \<and> (\<exists>log. effects s' = effects s @ log \<and> list_all (\<lambda>e. \<exists>ns n ok. e = AdmissionMetric ns n ok) log)"

lemma only_metrics_refl [simp]: "Reg s = None \<Longrightarrow> only_metrics s s"
  by (simp add: only_metrics_def)

lemma only_metrics_trans: "only_metrics s s' \<Longrightarrow> only_metrics s' s'' \<Longrightarrow> only_metrics s s''"
  by (force simp: only_metrics_def)

lemma only_metrics_Reg: "only_metrics s s' \<Longrightarrow> Reg s' = None"
  by (simp add: only_metrics_def)

lemma only_metrics_log: "Reg s = None \<Longrightarrow> only_metrics s (log_effect (AdmissionMetric ns n ok) s)"
  by (simp add: only_metrics_def)

lemma only_metrics_and_then:
  assumes "only_metrics s (outcome_state m)"
    and "\<And>a s1. m = Returns a s1 \<Longrightarrow> only_metrics s s1 \<Longrightarrow> Reg s1 = None \<Longrightarrow> only_metrics s1 (outcome_state (f a s1))"
  shows "only_metrics s (outcome_state (and_then m f))"
  using assms by (cases m) (auto intro: only_metrics_trans simp: only_metrics_Reg)

lemma legacy_eviction: "Reg s = None \<Longrightarrow> tryEvictIdleModels cfg E i model s = Returns False s"
  by (simp add: tryEvictIdleModels_def)

lemma legacy_insufficient: "Reg s = None \<Longrightarrow> only_metrics s (outcome_state (handleInsufficientMemory cfg E i model s))"
  by (auto simp: handleInsufficientMemory_def legacy_eviction Let_def only_metrics_log attempt_def split: sum.split)

lemma legacy_wait: "outcome_state (waitForModelReady_loop evs s) = s"
  by (induction evs s rule: waitForModelReady_loop.induct) auto

lemma legacy_scale_up: "Reg s = None \<Longrightarrow> only_metrics s (outcome_state (triggerScaleUp cfg E i model s))"
  by (auto simp: triggerScaleUp_def Let_def attempt_def ensureDeployment_def only_metrics_def split: sum.split prod.split)

lemma legacy_scale_up_and_wait: "Reg s = None \<Longrightarrow> only_metrics s (outcome_state (scale_up_and_wait cfg E i model s))"
  unfolding scale_up_and_wait_def
  by (auto simp: legacy_scale_up legacy_wait waitForModelReady_def intro!: only_metrics_and_then)

text \<open>
  Without a registry the fallback never creates or deletes a pod, whatever the cluster answers: it
  finds nothing to evict, and the scale-up of a model whose pod is missing panics in \<open>ensureDeployment\<close>
  (nil registry) after its memory was allocated.
\<close>

theorem legacy_creates_nothing:
  assumes "Reg s = None"
  shows "(\<exists>log. effects (outcome_state (legacy_admission cfg E i model s)) = effects s @ log
        \<and> list_all (\<lambda>e. \<exists>ns n ok. e = AdmissionMetric ns n ok) log)
    \<and> (pod_get E j (im_Namespace model) (im_Name model) = Inl NotFound \<longrightarrow>
        alloc_of E j model (Tracker s) = Inr (True, t) \<longrightarrow>
        (\<exists>s'. triggerScaleUp cfg E j model s = Panics NilDereference s' \<and> Tracker s' = t))"
proof -
  have "only_metrics s (outcome_state (legacy_admission cfg E i model s))"
    using assms unfolding legacy_admission_def
    by (auto simp: legacy_scale_up_and_wait legacy_insufficient intro!: only_metrics_and_then
        split: option.split)
  then show ?thesis
    using assms by (auto simp: only_metrics_def triggerScaleUp_def alloc_of_def ensureDeployment_def)
qed

lemma legacy_creates_nothing_witness:
  "\<exists>s'. triggerScaleUp (demo_config 9) (demo_cluster pod_missing []) 0 (demo_model ''b'' ''xx'')
      (idle_server\<lparr>Reg := None\<rparr>) = Panics NilDereference s' \<and> total_bytes unary_api (Tracker s') = 6"
proof -
  let ?E = "demo_cluster pod_missing []" and ?m = "demo_model ''b'' ''xx''" and ?s = "idle_server\<lparr>Reg := None\<rparr>"
  obtain t where t: "alloc_of ?E 0 ?m (Tracker ?s) = Inr (True, t)" and "total_bytes unary_api t = 6"
    by (simp add: alloc_of_def eval_proxy idle_server_def total_bytes_def)
  moreover have "pod_get ?E 0 (im_Namespace ?m) (im_Name ?m) = Inl NotFound"
    by (simp add: demo_cluster_def pod_missing_def)
  ultimately show ?thesis
    using legacy_creates_nothing [of ?s "demo_config 9" ?E 0 ?m 0 t] by auto
qed

section \<open>The waiting loops end\<close>

text \<open>The events that end a wait: for a ready pod, for the deletion of a pod, for a model that is ready.\<close>

fun ends_pod_wait :: "poll_event \<Rightarrow> bool" where
  "ends_pod_wait (Tick (Inr pod)) = pod_is_ready pod"
| "ends_pod_wait (Tick (Inl err)) = False"
| "ends_pod_wait _ = True"

fun ends_deletion_wait :: "poll_event \<Rightarrow> bool" where
  "ends_deletion_wait (Tick (Inl err)) = (err = NotFound)"
| "ends_deletion_wait (Tick (Inr pod)) = False"
| "ends_deletion_wait _ = True"

fun ends_model_wait :: "model_poll \<Rightarrow> bool" where
  "ends_model_wait (ModelTick (Inr m)) = Ready (Status m)"
| "ends_model_wait (ModelTick (Inl err)) = False"
| "ends_model_wait _ = True"

text \<open>What a wait returns for the event that ends it.\<close>

fun wait_answer :: "poll_event \<Rightarrow> proxy_error option" where
  "wait_answer TimeoutFires = Some WaitTimeout"
| "wait_answer ContextDone = Some ContextError"
| "wait_answer (Tick r) = None"

fun model_wait_answer :: "model_poll \<Rightarrow> proxy_error option" where
  "model_wait_answer ModelTimeout = Some WaitTimeout"
| "model_wait_answer ModelContextDone = Some ContextError"
| "model_wait_answer (ModelTick r) = None"

text \<open>
  C27. Every wait ends with the first event that ends it, and as that event says. \<open>waitForPodReady\<close> answers a timeout with the error of
  the timeout, the end of the request with that of the request and a ready pod with success, whatever the polls before showed, and
  otherwise waits on with nothing changed; it panics only without a registry (not at the end of a request), or at a ready pod whose
  model has an unparsable memory text. \<open>waitForPodDeleted\<close> does the same with a pod that is gone, and panics only there and without a
  registry. \<open>waitForModelReady\<close>, which is called where there is no registry, never panics and changes nothing.
\<close>

theorem waits_end:
  "(case find ends_pod_wait evs of
      None \<Rightarrow> waitForPodReady_loop E i model evs s = Waits s
    | Some e \<Rightarrow> (\<exists>s'. waitForPodReady_loop E i model evs s = Returns (wait_answer e) s')
        \<or> (\<exists>p s'. waitForPodReady_loop E i model evs s = Panics p s' \<and> e \<noteq> ContextDone
            \<and> (Reg s = None \<or> e \<noteq> TimeoutFires \<and> ParseQuantity (quantities E) (model_memory model) = None)))
   \<and> (case find ends_deletion_wait evs of
      None \<Rightarrow> waitForPodDeleted_loop model evs s = Waits s
    | Some e \<Rightarrow> (\<exists>s'. waitForPodDeleted_loop model evs s = Returns (wait_answer e) s')
        \<or> waitForPodDeleted_loop model evs s = Panics NilDereference s \<and> e = Tick (Inl NotFound) \<and> Reg s = None)
   \<and> (case find ends_model_wait mevs of
      None \<Rightarrow> waitForModelReady_loop mevs s = Waits s
    | Some e \<Rightarrow> waitForModelReady_loop mevs s = Returns (model_wait_answer e) s)"
    (is "?ready \<and> ?deleted \<and> ?model")
proof (intro conjI)
  show ?ready
    by (induction E i model evs s rule: waitForPodReady_loop.induct)
      (auto simp: SyncAllocation_def MustParse_def Let_def split: sum.split option.split)
  show ?deleted
    by (induction model evs s rule: waitForPodDeleted_loop.induct) (auto split: option.split option.splits)
  show ?model
    by (induction mevs s rule: waitForModelReady_loop.induct) (auto split: option.splits)
qed

lemma waits_end_witness:
  "\<exists>s'. waitForPodReady_loop (demo_cluster pod_missing []) 0 (demo_model ''b'' ''xx'')
      [Tick (Inl NotFound), TimeoutFires] idle_server = Returns (Some WaitTimeout) s'"
  using waits_end [where evs = "[Tick (Inl NotFound), TimeoutFires]" and E = "demo_cluster pod_missing []" and i = 0
      and model = "demo_model ''b'' ''xx''" and s = idle_server]
  by (simp add: idle_server_def demo_cluster_def unary_api_def demo_model_def demo_spec_def)

text \<open>
  A creation that times out keeps its memory: the pod and the allocation stay while the registry says
  \<open>Nonexistent\<close>.
\<close>

theorem timeout_keeps_memory:
  "\<exists>s'. ensureDeployment (demo_config 9) (demo_cluster pod_missing [TimeoutFires]) 0 (demo_model ''b'' ''xx'') idle_server
      = Returns (Some WaitTimeout) s'
    \<and> (\<exists>pod. effects s' = [PodCreated pod]) \<and> GetAllocation ''b'' ''ns'' (Tracker s') \<noteq> None
    \<and> map_option State (Get ''ns'' ''b'' (the (Reg s'))) = Some StateNonexistent"
  by (simp add: eval_proxy idle_server_def)

end
