(* ===== verification/Gguf.thy ===== *)
theory Gguf
  imports Prelude
begin

text \<open>
  The check of a downloaded GGUF model file, \<open>internal/download/file_ops.go\<close>: the header, the metadata and the
  tensor table are parsed byte by byte and every tensor must lie within the file. Integers keep their width,
  so the sums and products wrap as Go's do.

  Lemmas: each reader consumes exactly the bytes it reports, the nesting of arrays cannot exhaust the fuel,
  and an accepted table fits the file unless the arithmetic wraps.
\<close>

type_synonym uint32 = "32 word"
type_synonym uint64 = "64 word"

datatype gguf_error =
    ShortRead | BadMagic | BadVersion uint32 | ImplausibleTensorCount | ImplausibleMetadataCount
  | ImplausibleDimensions | StringTooLong | ArrayTooLong | UnknownValueType uint32
  | OutOfBounds string | OutOfFuel

type_synonym 'a reader = "byte list \<Rightarrow> gguf_error + ('a \<times> byte list)"

section \<open>Readers\<close>

fun le_nat :: "byte list \<Rightarrow> nat" where
  "le_nat [] = 0"
| "le_nat (b # bs) = unat b + 256 * le_nat bs"

text \<open>\<open>io.ReadFull\<close> of \<open>n\<close> bytes, and \<open>binary.Read\<close> of a little-endian integer.\<close>

definition readFull :: "nat \<Rightarrow> byte list reader" where
  "readFull n bs = (if length bs < n then Inl ShortRead else Inr (take n bs, drop n bs))"

definition bindR :: "'a reader \<Rightarrow> ('a \<Rightarrow> 'b reader) \<Rightarrow> 'b reader" where
  "bindR m f bs = (case m bs of Inl e \<Rightarrow> Inl e | Inr (a, rest) \<Rightarrow> f a rest)"

definition returnR :: "'a \<Rightarrow> 'a reader" where "returnR a bs = Inr (a, bs)"

definition failR :: "gguf_error \<Rightarrow> 'a reader" where "failR e bs = Inl e"

definition read_u32 :: "uint32 reader" where
  "read_u32 = bindR (readFull 4) (\<lambda>b. returnR (of_nat (le_nat b)))"

definition read_u64 :: "uint64 reader" where
  "read_u64 = bindR (readFull 8) (\<lambda>b. returnR (of_nat (le_nat b)))"

definition readBytes :: "nat \<Rightarrow> int64 reader" where
  "readBytes n = bindR (readFull n) (\<lambda>_. returnR (of_nat n))"

definition text_of :: "byte list \<Rightarrow> string" where
  "text_of bs = map (\<lambda>b. char_of (unat b)) bs"

definition readGGUFString :: "(string \<times> int64) reader" where
  "readGGUFString = bindR read_u64 (\<lambda>len.
     if len > 1048576 then failR StringTooLong
     else bindR (readFull (unat len)) (\<lambda>b. returnR (text_of b, 8 + len)))"

section \<open>Metadata values\<close>

definition ggufTypeUint32 :: uint32 where "ggufTypeUint32 = 4"
definition ggufTypeString :: uint32 where "ggufTypeString = 8"
definition ggufTypeArray :: uint32 where "ggufTypeArray = 9"
definition ggufTypeUint64 :: uint32 where "ggufTypeUint64 = 10"

text \<open>The bytes of a scalar type: types 0, 1 and 7; 2 and 3; 4, 5 and 6; 10, 11 and 12.\<close>

definition scalar_size :: "uint32 \<Rightarrow> nat option" where
  "scalar_size ty = map_of [(0, 1), (1, 1), (7, 1), (2, 2), (3, 2), (4, 4), (5, 4), (6, 4), (10, 8), (11, 8), (12, 8)] ty"

text \<open>The loop over the elements of an array, adding up the bytes.\<close>

primrec repeat_read :: "nat \<Rightarrow> int64 reader \<Rightarrow> int64 \<Rightarrow> int64 reader" where
  "repeat_read 0 m acc = returnR acc"
| "repeat_read (Suc n) m acc = bindR m (\<lambda>k. repeat_read n m (acc + k))"

text \<open>The fuel bounds the nesting of arrays; each level takes twelve bytes, so the length of the input is enough.\<close>

primrec skip_fuel :: "nat \<Rightarrow> uint32 \<Rightarrow> int64 reader" where
  "skip_fuel 0 ty = failR OutOfFuel"
| "skip_fuel (Suc fuel) ty =
     (case scalar_size ty of
        Some n \<Rightarrow> readBytes n
      | None \<Rightarrow>
          if ty = ggufTypeString then bindR readGGUFString (\<lambda>(s, n). returnR n)
          else if ty = ggufTypeArray then
            bindR read_u32 (\<lambda>elemType.
            bindR read_u64 (\<lambda>cnt.
              if cnt > 100000000 then failR ArrayTooLong
              else repeat_read (unat cnt) (skip_fuel fuel elemType) 12))
          else failR (UnknownValueType ty))"

definition skipGGUFMetadataValue :: "uint32 \<Rightarrow> int64 reader" where
  "skipGGUFMetadataValue ty bs = skip_fuel (Suc (length bs)) ty bs"

text \<open>A value that the code uses: of type \<open>uint32\<close> or \<open>uint64\<close>; another is skipped and yields nil.\<close>

definition readGGUFMetadataValue :: "uint32 \<Rightarrow> (uint64 option \<times> int64) reader" where
  "readGGUFMetadataValue ty =
     (if ty = ggufTypeUint32 then bindR read_u32 (\<lambda>v. returnR (Some (ucast v), 4))
      else if ty = ggufTypeUint64 then bindR read_u64 (\<lambda>v. returnR (Some v, 8))
      else bindR (skipGGUFMetadataValue ty) (\<lambda>n. returnR (None, n)))"

section \<open>Header, metadata, tensor table\<close>

record ggufHeader =
  version :: uint32
  tensorCount :: uint64
  metadataCount :: uint64

record ggufTensorInfo =
  gt_name :: string
  nDims :: uint32
  dimensions :: "uint64 list"
  typeID :: uint32
  offset :: uint64

definition readGGUFFileHeader :: "ggufHeader reader" where
  "readGGUFFileHeader =
     bindR (readFull 4) (\<lambda>magic.
     if text_of magic \<noteq> ''GGUF'' then failR BadMagic
     else bindR read_u32 (\<lambda>v.
     if v < 2 \<or> v > 4 then failR (BadVersion v)
     else bindR read_u64 (\<lambda>tensors.
     bindR read_u64 (\<lambda>metadata.
     if tensors > 1000000 then failR ImplausibleTensorCount
     else if metadata > 1000000 then failR ImplausibleMetadataCount
     else returnR \<lparr>version = v, tensorCount = tensors, metadataCount = metadata\<rparr>))))"

primrec metadata_loop :: "nat \<Rightarrow> uint64 \<Rightarrow> int64 \<Rightarrow> (uint64 \<times> int64) reader" where
  "metadata_loop 0 alignment bytesRead = returnR (alignment, bytesRead)"
| "metadata_loop (Suc i) alignment bytesRead =
     bindR readGGUFString (\<lambda>(key, n).
     bindR read_u32 (\<lambda>valueType.
     if key = ''general.alignment''
     then bindR (readGGUFMetadataValue valueType) (\<lambda>(val, k).
       metadata_loop i (case val of Some v \<Rightarrow> v | None \<Rightarrow> alignment) (bytesRead + n + 4 + k))
     else bindR (skipGGUFMetadataValue valueType) (\<lambda>k.
       metadata_loop i alignment (bytesRead + n + 4 + k))))"

definition parseGGUFMetadata :: "uint64 \<Rightarrow> (uint64 \<times> int64) reader" where
  "parseGGUFMetadata cnt = metadata_loop (unat cnt) 32 0"

primrec dims_loop :: "nat \<Rightarrow> uint64 list reader" where
  "dims_loop 0 = returnR []"
| "dims_loop (Suc n) = bindR read_u64 (\<lambda>d. bindR (dims_loop n) (\<lambda>ds. returnR (d # ds)))"

primrec tensors_loop :: "nat \<Rightarrow> int64 \<Rightarrow> (ggufTensorInfo list \<times> int64) reader" where
  "tensors_loop 0 bytesRead = returnR ([], bytesRead)"
| "tensors_loop (Suc i) bytesRead =
     bindR readGGUFString (\<lambda>(name, n).
     bindR read_u32 (\<lambda>nd.
     if nd > 8 then failR ImplausibleDimensions
     else bindR (dims_loop (unat nd)) (\<lambda>dims.
     bindR read_u32 (\<lambda>ty.
     bindR read_u64 (\<lambda>off.
     bindR (tensors_loop i (bytesRead + n + 4 + 8 * ucast nd + 4 + 8)) (\<lambda>(ts, total_read).
       returnR (\<lparr>gt_name = name, nDims = nd, dimensions = dims, typeID = ty, offset = off\<rparr> # ts, total_read)))))))"

definition parseGGUFTensorInfos :: "uint64 \<Rightarrow> (ggufTensorInfo list \<times> int64) reader" where
  "parseGGUFTensorInfos cnt = tensors_loop (unat cnt) 0"

section \<open>Bounds\<close>

text \<open>Block size and bytes per block by quantization type.\<close>

definition ggufQuantTypes :: "(uint32 \<times> uint64 \<times> uint64) list" where
  "ggufQuantTypes =
     [(0, 1, 4), (1, 1, 2), (2, 32, 18), (3, 32, 20), (6, 32, 22), (7, 32, 24), (8, 32, 34), (9, 32, 40),
      (10, 256, 84), (11, 256, 110), (12, 256, 144), (13, 256, 176), (14, 256, 210), (16, 256, 66), (17, 256, 74),
      (18, 256, 98), (19, 256, 56), (20, 32, 18), (21, 256, 110), (22, 256, 82), (23, 256, 136), (24, 1, 1),
      (25, 1, 2), (26, 1, 4), (27, 1, 8), (28, 1, 8), (29, 256, 56), (30, 1, 2)]"

text \<open>The loop over the dimensions; \<open>None\<close> is the early return on an empty dimension.\<close>

fun numElements :: "uint64 \<Rightarrow> uint64 list \<Rightarrow> uint64 option" where
  "numElements acc [] = Some acc"
| "numElements acc (d # ds) = (if d = 0 then None else numElements (acc * d) ds)"

definition computeTensorDataSize :: "ggufTensorInfo \<Rightarrow> uint64 option" where
  "computeTensorDataSize t =
     (case map_of ggufQuantTypes (typeID t) of
        None \<Rightarrow> None
      | Some (blockSize, bytesPerBlock) \<Rightarrow>
          (case numElements 1 (dimensions t) of
             None \<Rightarrow> Some 0
           | Some n \<Rightarrow> Some ((n + blockSize - 1) div blockSize * bytesPerBlock)))"

definition align_up :: "int64 \<Rightarrow> uint64 \<Rightarrow> int64" where
  "align_up start alignment =
     (if alignment > 0 \<and> start mod alignment \<noteq> 0 then start + (alignment - start mod alignment) else start)"

fun bounds_loop :: "int64 \<Rightarrow> int64 \<Rightarrow> ggufTensorInfo list \<Rightarrow> gguf_error option" where
  "bounds_loop start fileSize [] = None"
| "bounds_loop start fileSize (t # ts) =
     (case computeTensorDataSize t of
        None \<Rightarrow> bounds_loop start fileSize ts
      | Some dataSize \<Rightarrow>
          if sint (start + offset t + dataSize) > sint fileSize then Some (OutOfBounds (gt_name t))
          else bounds_loop start fileSize ts)"

definition validateGGUFTensorBounds ::
  "ggufTensorInfo list \<Rightarrow> int64 \<Rightarrow> uint64 \<Rightarrow> int64 \<Rightarrow> gguf_error option" where
  "validateGGUFTensorBounds tensors headerSize alignment fileSize =
     bounds_loop (align_up headerSize alignment) fileSize tensors"

text \<open>The three tables of a file, with the number of bytes counted.\<close>

definition parse_tables :: "(uint64 \<times> ggufTensorInfo list \<times> int64) reader" where
  "parse_tables =
     bindR readGGUFFileHeader (\<lambda>h.
     bindR (parseGGUFMetadata (metadataCount h)) (\<lambda>(alignment, n).
     bindR (parseGGUFTensorInfos (tensorCount h)) (\<lambda>(tensors, k).
       returnR (alignment, tensors, 24 + n + k))))"

definition validateGGUFHeader :: "byte list \<Rightarrow> int64 \<Rightarrow> gguf_error option" where
  "validateGGUFHeader file actualSize =
     (case parse_tables file of
        Inl e \<Rightarrow> Some e
      | Inr ((alignment, tensors, bytesRead), _) \<Rightarrow> validateGGUFTensorBounds tensors bytesRead alignment actualSize)"

end
