(* ===== verification/Disk.thy ===== *)
theory Disk
  imports Gguf Go_Strings
begin

text \<open>
  The file system under the downloader and \<open>internal/download/file_ops.go\<close>: atomic writes, the ready and
  download markers, the manifest, the verification of a model directory and the removal of the Hugging Face cache.

  A disk maps clean absolute paths to their bytes. Every call to the operating system may fail: the record
  \<open>storage\<close> says at which moments, which suffix a temporary file gets and how many bytes a failed write
  leaves behind. JSON text and the SHA-256 digest are fields of the same record.
\<close>

section \<open>Disk and system calls\<close>

record disk =
  contents :: "(string, byte list) go_map"
  directories :: "string list"

datatype os_error = NotExist | IoError

datatype os_op = MkdirAll | CreateTemp | WriteData | SyncFile | CloseFile | Chmod | Rename | Remove
  | RemoveAll | ReadFile | Stat | OpenFile | CreateFile

record FileManifest =
  man_Files :: "(string, int64) go_map"
  man_Checksums :: "(string, string) go_map"

record storage =
  fault :: "nat \<Rightarrow> os_op \<Rightarrow> string \<Rightarrow> bool"
  temp_suffix :: "nat \<Rightarrow> string"
  short_write :: "nat \<Rightarrow> nat"
  survives :: "nat \<Rightarrow> string \<Rightarrow> bool" \<comment> \<open>what a failed \<open>RemoveAll\<close> leaves\<close>
  dir_size :: "string \<Rightarrow> int64"
  json_encode :: "FileManifest \<Rightarrow> byte list"
  json_decode :: "byte list \<Rightarrow> FileManifest option"
  sha256_hex :: "byte list \<Rightarrow> string"
  pid_text :: "byte list" \<comment> \<open>\<open>os.Getpid()\<close> in decimal\<close>
  parse_pid :: "byte list \<Rightarrow> int option" \<comment> \<open>\<open>fmt.Sscanf("%d")\<close>\<close>

definition put_file :: "string \<Rightarrow> byte list \<Rightarrow> disk \<Rightarrow> disk" where
  "put_file p bs d = d\<lparr>contents := AList.update p bs (contents d)\<rparr>"

definition drop_file :: "string \<Rightarrow> disk \<Rightarrow> disk" where
  "drop_file p d = d\<lparr>contents := AList.delete p (contents d)\<rparr>"

definition file_at :: "disk \<Rightarrow> string \<Rightarrow> byte list option" where
  "file_at d p = map_of (contents d) p"

definition os_Stat :: "storage \<Rightarrow> nat \<Rightarrow> string \<Rightarrow> disk \<Rightarrow> os_error + int64" where
  "os_Stat E i p d =
     (if fault E i Stat p then Inl IoError
      else case file_at d p of
        Some bs \<Rightarrow> Inr (of_nat (length bs))
      | None \<Rightarrow> if p \<in> set (directories d) then Inr (dir_size E p) else Inl NotExist)"

definition os_ReadFile :: "storage \<Rightarrow> nat \<Rightarrow> string \<Rightarrow> disk \<Rightarrow> os_error + byte list" where
  "os_ReadFile E i p d =
     (if fault E i ReadFile p then Inl IoError
      else case file_at d p of Some bs \<Rightarrow> Inr bs | None \<Rightarrow> Inl NotExist)"

definition os_Remove :: "storage \<Rightarrow> nat \<Rightarrow> string \<Rightarrow> disk \<Rightarrow> os_error option \<times> disk" where
  "os_Remove E i p d =
     (if fault E i Remove p then (Some IoError, d)
      else case file_at d p of Some _ \<Rightarrow> (None, drop_file p d) | None \<Rightarrow> (Some NotExist, d))"

definition os_RemoveAll :: "storage \<Rightarrow> nat \<Rightarrow> string \<Rightarrow> disk \<Rightarrow> os_error option \<times> disk" where
  "os_RemoveAll E i p d =
     (let keep = (\<lambda>q. \<not> under p q \<or> fault E i RemoveAll p \<and> survives E i q)
      in (if fault E i RemoveAll p then Some IoError else None,
          \<lparr>contents = filter (\<lambda>(q, bs). keep q) (contents d), directories = filter keep (directories d)\<rparr>))"

definition os_MkdirAll :: "storage \<Rightarrow> nat \<Rightarrow> string \<Rightarrow> disk \<Rightarrow> os_error option \<times> disk" where
  "os_MkdirAll E i p d =
     (if fault E i MkdirAll p then (Some IoError, d) else (None, d\<lparr>directories := p # directories d\<rparr>))"

section \<open>Atomic writes\<close>

definition EnsureDir :: "storage \<Rightarrow> nat \<Rightarrow> string \<Rightarrow> disk \<Rightarrow> os_error option \<times> disk" where
  "EnsureDir E i p d =
     (let dir = Dir p in if dir = '''' \<or> dir = ''.'' then (None, d) else os_MkdirAll E i dir d)"

definition temp_path :: "storage \<Rightarrow> nat \<Rightarrow> string \<Rightarrow> string" where
  "temp_path E i p = Join [Dir p, ''.tmp-download-'' @ temp_suffix E i]"

text \<open>The deferred cleanup: unless the rename succeeded, the temporary file is removed, and an error of that ignored.\<close>

definition abandon :: "storage \<Rightarrow> nat \<Rightarrow> string \<Rightarrow> disk \<Rightarrow> disk" where
  "abandon E i tmp d = snd (os_Remove E i tmp d)"

text \<open>
  All the disks that another process, or a crash, can see while the write runs, in order, with the error
  returned; the last is the disk left behind. A failed write may have written a part of the data.
\<close>

definition AtomicWrite_trace ::
  "storage \<Rightarrow> nat \<Rightarrow> string \<Rightarrow> byte list \<Rightarrow> disk \<Rightarrow> os_error option \<times> disk list" where
  "AtomicWrite_trace E i p data d0 =
     (case EnsureDir E i p d0 of
        (Some e, d1) \<Rightarrow> (Some e, [d0, d1])
      | (None, d1) \<Rightarrow>
          (let tmp = temp_path E i p in
           if fault E i CreateTemp tmp then (Some IoError, [d0, d1])
           else let d2 = put_file tmp [] d1 in
           if fault E i WriteData tmp
           then let d3 = put_file tmp (take (short_write E i) data) d2
                in (Some IoError, [d0, d1, d2, d3, abandon E i tmp d3])
           else let d3 = put_file tmp data d2; failed = (Some IoError, [d0, d1, d2, d3, abandon E i tmp d3]) in
           if fault E i SyncFile tmp then failed
           else if fault E i CloseFile tmp then failed
           else if fault E i Chmod tmp then failed
           else if fault E i Rename tmp then failed
           else (None, [d0, d1, d2, d3, put_file p data (drop_file tmp d3)])))"

definition AtomicWrite :: "storage \<Rightarrow> nat \<Rightarrow> string \<Rightarrow> byte list \<Rightarrow> disk \<Rightarrow> os_error option \<times> disk" where
  "AtomicWrite E i p data d = map_prod id last (AtomicWrite_trace E i p data d)"

section \<open>Markers and manifest\<close>

definition ReadyMarkerFile :: string where "ReadyMarkerFile = ''.ready''"
definition ManifestFile :: string where "ManifestFile = ''.manifest''"

definition WriteReadyMarker :: "storage \<Rightarrow> nat \<Rightarrow> string \<Rightarrow> disk \<Rightarrow> os_error option \<times> disk" where
  "WriteReadyMarker E i dir d = AtomicWrite E i (Join [dir, ReadyMarkerFile]) [] d"

definition CheckReadyMarker :: "storage \<Rightarrow> nat \<Rightarrow> string \<Rightarrow> disk \<Rightarrow> bool" where
  "CheckReadyMarker E i dir d = (case os_Stat E i (Join [dir, ReadyMarkerFile]) d of Inl _ \<Rightarrow> False | Inr _ \<Rightarrow> True)"

definition ignore_missing :: "os_error option \<times> disk \<Rightarrow> os_error option \<times> disk" where
  "ignore_missing r = (case r of (Some NotExist, d) \<Rightarrow> (None, d) | r \<Rightarrow> r)"

definition RemoveReadyMarker :: "storage \<Rightarrow> nat \<Rightarrow> string \<Rightarrow> disk \<Rightarrow> os_error option \<times> disk" where
  "RemoveReadyMarker E i dir d = ignore_missing (os_Remove E i (Join [dir, ReadyMarkerFile]) d)"

definition CreateDownloadMarker :: "storage \<Rightarrow> nat \<Rightarrow> string \<Rightarrow> disk \<Rightarrow> os_error option \<times> disk" where
  "CreateDownloadMarker E i dir d = AtomicWrite E i (Join [dir, ''.downloading'']) (pid_text E) d"

datatype marker_error = MarkerUnreadable os_error | MarkerInvalid

definition CheckDownloadMarker :: "storage \<Rightarrow> nat \<Rightarrow> string \<Rightarrow> disk \<Rightarrow> marker_error + int" where
  "CheckDownloadMarker E i dir d =
     (case os_ReadFile E i (Join [dir, ''.downloading'']) d of
        Inl NotExist \<Rightarrow> Inr 0
      | Inl e \<Rightarrow> Inl (MarkerUnreadable e)
      | Inr bs \<Rightarrow> (case parse_pid E bs of None \<Rightarrow> Inl MarkerInvalid | Some pid \<Rightarrow> Inr pid))"

definition RemoveDownloadMarker :: "storage \<Rightarrow> nat \<Rightarrow> string \<Rightarrow> disk \<Rightarrow> os_error option \<times> disk" where
  "RemoveDownloadMarker E i dir d = ignore_missing (os_Remove E i (Join [dir, ''.downloading'']) d)"

definition WriteManifest :: "storage \<Rightarrow> nat \<Rightarrow> string \<Rightarrow> FileManifest \<Rightarrow> disk \<Rightarrow> os_error option \<times> disk" where
  "WriteManifest E i dir m d = AtomicWrite E i (Join [dir, ManifestFile]) (json_encode E m) d"

datatype manifest_error = ManifestUnreadable os_error | ManifestInvalid

definition ReadManifest :: "storage \<Rightarrow> nat \<Rightarrow> string \<Rightarrow> disk \<Rightarrow> manifest_error + FileManifest" where
  "ReadManifest E i dir d =
     (case os_ReadFile E i (Join [dir, ManifestFile]) d of
        Inl e \<Rightarrow> Inl (ManifestUnreadable e)
      | Inr bs \<Rightarrow> (case json_decode E bs of None \<Rightarrow> Inl ManifestInvalid | Some m \<Rightarrow> Inr m))"

section \<open>Verification\<close>

datatype issue = StatFailed string os_error | SizeMismatch string int64 int64 | GgufUnreadable string
  | GgufInvalid string gguf_error | ChecksumFailed string

datatype verify_error = NoManifest manifest_error | Issues "issue list"

text \<open>The loop body for one file of the manifest.\<close>

definition check_file :: "storage \<Rightarrow> nat \<Rightarrow> string \<Rightarrow> disk \<Rightarrow> string \<Rightarrow> int64 \<Rightarrow> issue list" where
  "check_file E i dir d filePath expectedSize =
     (let fullPath = Join [dir, filePath] in
      case os_Stat E i fullPath d of
        Inl e \<Rightarrow> [StatFailed filePath e]
      | Inr actual \<Rightarrow>
          if actual \<noteq> expectedSize then [SizeMismatch filePath expectedSize actual]
          else if Ext filePath = ''.gguf''
          then (if fault E i OpenFile fullPath then [GgufUnreadable filePath]
                else case file_at d fullPath of
                  None \<Rightarrow> [GgufUnreadable filePath]
                | Some bs \<Rightarrow> (case validateGGUFHeader bs expectedSize of
                    None \<Rightarrow> [] | Some e \<Rightarrow> [GgufInvalid filePath e]))
          else [])"

definition VerifyFiles :: "storage \<Rightarrow> nat \<Rightarrow> string \<Rightarrow> disk \<Rightarrow> verify_error option" where
  "VerifyFiles E i dir d =
     (case ReadManifest E i dir d of
        Inl e \<Rightarrow> Some (NoManifest e)
      | Inr m \<Rightarrow>
          (let issues = concat (map (\<lambda>(f, sz). check_file E i dir d f sz) (man_Files m))
           in if issues \<noteq> [] then Some (Issues issues) else None))"

definition ComputeSHA256 :: "storage \<Rightarrow> nat \<Rightarrow> string \<Rightarrow> disk \<Rightarrow> os_error + string" where
  "ComputeSHA256 E i p d =
     (if fault E i OpenFile p then Inl IoError
      else case file_at d p of
        None \<Rightarrow> Inl NotExist
      | Some bs \<Rightarrow> if fault E i ReadFile p then Inl IoError else Inr (sha256_hex E bs))"

definition VerifyChecksum :: "storage \<Rightarrow> nat \<Rightarrow> string \<Rightarrow> string \<Rightarrow> disk \<Rightarrow> bool" where
  "VerifyChecksum E i p expectedHash d = (ComputeSHA256 E i p d = Inr expectedHash)"

definition VerifyFilesDeep :: "storage \<Rightarrow> nat \<Rightarrow> string \<Rightarrow> disk \<Rightarrow> verify_error option" where
  "VerifyFilesDeep E i dir d =
     (case ReadManifest E i dir d of
        Inl e \<Rightarrow> Some (NoManifest e)
      | Inr m \<Rightarrow>
          (if man_Checksums m = [] then None
           else let issues = concat (map (\<lambda>(f, h).
                    if VerifyChecksum E i (Join [dir, f]) h d then [] else [ChecksumFailed f]) (man_Checksums m))
                in if issues \<noteq> [] then Some (Issues issues) else None))"

record VerificationResult =
  MarkerExists :: bool
  Verified :: bool
  VerifyError :: "verify_error option"

definition CheckAndVerifyReadyMarkerDetailed ::
  "storage \<Rightarrow> nat \<Rightarrow> string \<Rightarrow> disk \<Rightarrow> VerificationResult \<times> disk" where
  "CheckAndVerifyReadyMarkerDetailed E i dir d =
     (if \<not> CheckReadyMarker E i dir d
      then (\<lparr>MarkerExists = False, Verified = False, VerifyError = None\<rparr>, d)
      else case VerifyFiles E i dir d of
        Some e \<Rightarrow>
          (let d1 = snd (RemoveReadyMarker E i dir d); d2 = snd (os_RemoveAll E i dir d1)
           in (\<lparr>MarkerExists = True, Verified = False, VerifyError = Some e\<rparr>, d2))
      | None \<Rightarrow> (\<lparr>MarkerExists = True, Verified = True, VerifyError = None\<rparr>, d))"

definition CheckAndVerifyReadyMarker :: "storage \<Rightarrow> nat \<Rightarrow> string \<Rightarrow> disk \<Rightarrow> bool \<times> disk" where
  "CheckAndVerifyReadyMarker E i dir d =
     map_prod Verified id (CheckAndVerifyReadyMarkerDetailed E i dir d)"

section \<open>The Hugging Face cache\<close>

definition cache_name :: "string \<Rightarrow> string" where
  "cache_name repoID = ''models--'' @ ReplaceAll repoID ''/'' ''--''"

text \<open>Remove a path that exists; whether it was there, or the error.\<close>

definition remove_existing :: "storage \<Rightarrow> nat \<Rightarrow> string \<Rightarrow> disk \<Rightarrow> os_error option \<times> disk" where
  "remove_existing E i p d =
     (case os_Stat E i p d of Inl _ \<Rightarrow> (None, d) | Inr _ \<Rightarrow> os_RemoveAll E i p d)"

definition CleanHuggingFaceCache :: "storage \<Rightarrow> nat \<Rightarrow> string \<Rightarrow> string \<Rightarrow> disk \<Rightarrow> os_error option \<times> disk" where
  "CleanHuggingFaceCache E i hfHome repoID d =
     (case remove_existing E i (Join [hfHome, cache_name repoID]) d of
        (Some e, d1) \<Rightarrow> (Some e, d1)
      | (None, d1) \<Rightarrow> remove_existing E (i + 1) (Join [hfHome, ''hub'', cache_name repoID]) d1)"


end
