(* ===== verification/Cache.thy ===== *)
theory Cache
  imports Disk Api_Types
begin

text \<open>
  The cleanup of the model cache, \<open>internal/download/cache.go\<close>. The cache directory holds one directory per model; of
  each the manager looks at the modification times and the sizes of what is in it. \<open>None\<close> stands for a cache directory
  that does not exist. The Kubernetes list, the clock and the failures of system calls are functions of the moment.
\<close>

section \<open>The cache directory\<close>

record cache_file =
  cf_isDir :: bool
  cf_size :: int64
  cf_mtime :: go_time

record cache_dir =
  cd_mtime :: go_time
  cd_files :: "(string, cache_file) go_map" \<comment> \<open>everything below, by relative path\<close>

datatype cache_entry = PlainFile | ModelDir cache_dir

type_synonym cache_fs = "(string, cache_entry) go_map option"

definition entry_at :: "cache_fs \<Rightarrow> string \<Rightarrow> cache_entry option" where
  "entry_at fs name = (case fs of None \<Rightarrow> None | Some es \<Rightarrow> map_of es name)"

record cache_world =
  cc_fault :: "nat \<Rightarrow> os_op \<Rightarrow> string \<Rightarrow> bool"
  cc_readdir_fault :: "nat \<Rightarrow> bool"
  cc_walk_fault :: "nat \<Rightarrow> string \<Rightarrow> bool"
  cc_chtimes_fault :: "nat \<Rightarrow> bool"
  cc_survivor :: "nat \<Rightarrow> cache_dir \<Rightarrow> cache_entry option" \<comment> \<open>what a failed \<open>RemoveAll\<close> leaves of a directory\<close>
  cc_clock :: "nat \<Rightarrow> go_time"
  cc_list :: "nat \<Rightarrow> string \<Rightarrow> InferenceModel list option" \<comment> \<open>\<open>List\<close> in a namespace\<close>

text \<open>\<open>time.Time{}\<close>, the first of January of the year 1, in nanoseconds of Unix time.\<close>

definition zero_time :: go_time where "zero_time = - 62135596800000000000"

section \<open>The manager\<close>

record CacheManager =
  cm_namespace :: string
  cm_cacheDir :: string
  cm_ttl :: duration
  cm_interval :: duration
  cm_lastCleanup :: go_time

datatype CacheManagerOption = WithCacheManagerDir string | WithTTL duration | WithCleanupInterval duration | WithNamespace string

fun apply_cache_option :: "CacheManagerOption \<Rightarrow> CacheManager \<Rightarrow> CacheManager" where
  "apply_cache_option (WithCacheManagerDir d) m = m\<lparr>cm_cacheDir := d\<rparr>"
| "apply_cache_option (WithTTL t) m = m\<lparr>cm_ttl := t\<rparr>"
| "apply_cache_option (WithCleanupInterval t) m = m\<lparr>cm_interval := t\<rparr>"
| "apply_cache_option (WithNamespace n) m = m\<lparr>cm_namespace := n\<rparr>"

definition DefaultTTL :: duration where "DefaultTTL = 24 * 3600 * 1000000000"
definition DefaultCleanupInterval :: duration where "DefaultCleanupInterval = 3600 * 1000000000"

definition NewCacheManager :: "CacheManagerOption list \<Rightarrow> CacheManager" where
  "NewCacheManager opts = fold apply_cache_option opts
     \<lparr>cm_namespace = '''', cm_cacheDir = '''', cm_ttl = DefaultTTL, cm_interval = DefaultCleanupInterval, cm_lastCleanup = zero_time\<rparr>"

definition getLastAccessTime :: "cache_world \<Rightarrow> nat \<Rightarrow> string \<Rightarrow> cache_dir \<Rightarrow> go_time" where
  "getLastAccessTime W i modelPath dir =
     (case (if cc_fault W i Stat (Join [modelPath, ''.last-used'']) then None else map_of (cd_files dir) ''.last-used'') of
        Some marker \<Rightarrow> cf_mtime marker
      | None \<Rightarrow> if cc_fault W i Stat modelPath then zero_time else cd_mtime dir)"

section \<open>Cleanup\<close>

text \<open>Whether the loop of a cleanup goes for a directory: not active, with a known last access longer ago than the TTL.\<close>

definition removable :: "cache_world \<Rightarrow> nat \<Rightarrow> CacheManager \<Rightarrow> string set \<Rightarrow> string \<Rightarrow> cache_dir \<Rightarrow> bool" where
  "removable W i m active modelName dir =
     (modelName \<notin> active
      \<and> (let lastAccess = getLastAccessTime W i (Join [cm_cacheDir m, modelName]) dir
         in lastAccess \<noteq> zero_time \<and> cc_clock W i - lastAccess > cm_ttl m))"

text \<open>\<open>RemoveAll\<close>: an error is logged and the loop goes on.\<close>

definition remove_model :: "cache_world \<Rightarrow> nat \<Rightarrow> CacheManager \<Rightarrow> string \<Rightarrow> cache_dir
    \<Rightarrow> (string, cache_entry) go_map \<Rightarrow> (string, cache_entry) go_map" where
  "remove_model W i m modelName dir es =
     (if cc_fault W i RemoveAll (Join [cm_cacheDir m, modelName])
      then (case cc_survivor W i dir of None \<Rightarrow> AList.delete modelName es | Some e \<Rightarrow> AList.update modelName e es)
      else AList.delete modelName es)"

fun cleanup_loop ::
  "cache_world \<Rightarrow> nat \<Rightarrow> CacheManager \<Rightarrow> string set \<Rightarrow> (string \<times> cache_entry) list
    \<Rightarrow> (string, cache_entry) go_map \<Rightarrow> (string, cache_entry) go_map" where
  "cleanup_loop W i m active [] es = es"
| "cleanup_loop W i m active ((name, PlainFile) # rest) es = cleanup_loop W (i + 1) m active rest es"
| "cleanup_loop W i m active ((name, ModelDir dir) # rest) es =
     cleanup_loop W (i + 1) m active rest (if removable W i m active name dir then remove_model W i m name dir es else es)"

datatype cache_error = ListModelsFailed | ReadDirFailed

text \<open>Reading the directory and checking each entry, for the given active models.\<close>

definition scan_cache ::
  "cache_world \<Rightarrow> nat \<Rightarrow> CacheManager \<Rightarrow> string set \<Rightarrow> cache_fs \<Rightarrow> cache_error option \<times> cache_fs" where
  "scan_cache W i m active fs =
     (if cc_readdir_fault W i then (Some ReadDirFailed, fs)
      else case fs of None \<Rightarrow> (None, None) | Some es \<Rightarrow> (None, Some (cleanup_loop W (i + 1) m active es es)))"

definition CleanupWithActive ::
  "cache_world \<Rightarrow> nat \<Rightarrow> string set \<Rightarrow> CacheManager \<Rightarrow> cache_fs \<Rightarrow> cache_error option \<times> CacheManager \<times> cache_fs" where
  "CleanupWithActive W i active m fs =
     (let m1 = m\<lparr>cm_lastCleanup := cc_clock W i\<rparr> in
      case scan_cache W (i + 1) m1 active fs of (e, fs1) \<Rightarrow> (e, m1, fs1))"

definition cleanup ::
  "cache_world \<Rightarrow> nat \<Rightarrow> CacheManager \<Rightarrow> cache_fs \<Rightarrow> cache_error option \<times> CacheManager \<times> cache_fs" where
  "cleanup W i m fs =
     (let m1 = m\<lparr>cm_lastCleanup := cc_clock W i\<rparr> in
      case cc_list W i (cm_namespace m1) of
        None \<Rightarrow> (Some ListModelsFailed, m1, fs)
      | Some models \<Rightarrow> (case scan_cache W (i + 1) m1 (im_Name ` set models) fs of (e, fs1) \<Rightarrow> (e, m1, fs1)))"

definition CleanupOnce ::
  "cache_world \<Rightarrow> nat \<Rightarrow> CacheManager \<Rightarrow> cache_fs \<Rightarrow> cache_error option \<times> CacheManager \<times> cache_fs" where
  "CleanupOnce W i m fs = cleanup W i m fs"

definition GetLastCleanup :: "CacheManager \<Rightarrow> go_time" where "GetLastCleanup m = cm_lastCleanup m"

text \<open>The background loop over what the select sees: a tick at a moment, or (\<open>None\<close>) the end of the context.\<close>

fun cache_Run :: "cache_world \<Rightarrow> nat option list \<Rightarrow> CacheManager \<Rightarrow> cache_fs \<Rightarrow> CacheManager \<times> cache_fs" where
  "cache_Run W [] m fs = (m, fs)"
| "cache_Run W (None # events) m fs = (m, fs)"
| "cache_Run W (Some i # events) m fs = (case cleanup W i m fs of (e, m1, fs1) \<Rightarrow> cache_Run W events m1 fs1)"

section \<open>Touching a model\<close>

text \<open>
  The name of a model is one path component. Creating the directory fails where a plain file is in the way; creating the
  marker updates the time of the directory. Whether it succeeded, with the cache.
\<close>

definition make_dir :: "go_time \<Rightarrow> string \<Rightarrow> cache_fs \<Rightarrow> (string, cache_entry) go_map" where
  "make_dir now name fs =
     (let es = (case fs of None \<Rightarrow> [] | Some es \<Rightarrow> es)
      in if name \<in> fst ` set es then es else AList.update name (ModelDir \<lparr>cd_mtime = now, cd_files = []\<rparr>) es)"

definition put_marker :: "go_time \<Rightarrow> cache_dir \<Rightarrow> cache_dir" where
  "put_marker t dir = dir\<lparr>cd_files := AList.update ''.last-used''
     (case map_of (cd_files dir) ''.last-used'' of
        None \<Rightarrow> \<lparr>cf_isDir = False, cf_size = 0, cf_mtime = t\<rparr> | Some f \<Rightarrow> f\<lparr>cf_mtime := t\<rparr>) (cd_files dir)\<rparr>"

definition TouchModel :: "cache_world \<Rightarrow> nat \<Rightarrow> string \<Rightarrow> CacheManager \<Rightarrow> cache_fs \<Rightarrow> bool \<times> cache_fs" where
  "TouchModel W i modelName m fs =
     (let dirPath = Join [cm_cacheDir m, modelName]; marker = Join [dirPath, ''.last-used''] in
      if cc_fault W i MkdirAll dirPath \<or> entry_at fs modelName = Some PlainFile then (False, fs)
      else
        (let es = make_dir (cc_clock W i) modelName fs; now = cc_clock W (i + 1) in
         if cc_fault W (i + 1) OpenFile marker then (False, Some es)
         else case map_of es modelName of
           Some (ModelDir dir) \<Rightarrow>
             (let created = (map_of (cd_files dir) ''.last-used'' = None);
                  dir1 = (if created then (put_marker now dir)\<lparr>cd_mtime := now\<rparr> else dir) in
              if cc_chtimes_fault W (i + 1) then (False, Some (AList.update modelName (ModelDir dir1) es))
              else (True, Some (AList.update modelName (ModelDir (put_marker now dir1)) es)))
         | _ \<Rightarrow> (False, Some es)))"

section \<open>Statistics\<close>

record CacheStats =
  cs_TotalSize :: int64
  cs_ModelCount :: nat
  cs_OldestAccess :: go_time
  cs_NewestAccess :: go_time

definition calculateDirSize :: "cache_world \<Rightarrow> nat \<Rightarrow> string \<Rightarrow> cache_dir \<Rightarrow> int64 option" where
  "calculateDirSize W i path dir =
     (if cc_walk_fault W i path then None
      else Some (fold (\<lambda>(n, f) sz. if cf_isDir f then sz else sz + cf_size f) (cd_files dir) 0))"

definition track_access :: "go_time \<Rightarrow> CacheStats \<Rightarrow> CacheStats" where
  "track_access t s =
     (if t = zero_time then s
      else s\<lparr>cs_OldestAccess := if cs_OldestAccess s = zero_time \<or> t < cs_OldestAccess s then t else cs_OldestAccess s,
             cs_NewestAccess := if cs_NewestAccess s = zero_time \<or> t > cs_NewestAccess s then t else cs_NewestAccess s\<rparr>)"

fun stats_loop :: "cache_world \<Rightarrow> nat \<Rightarrow> CacheManager \<Rightarrow> (string \<times> cache_entry) list \<Rightarrow> CacheStats \<Rightarrow> CacheStats" where
  "stats_loop W i m [] s = s"
| "stats_loop W i m ((name, PlainFile) # rest) s = stats_loop W (i + 1) m rest s"
| "stats_loop W i m ((name, ModelDir dir) # rest) s =
     (let path = Join [cm_cacheDir m, name]; lastAccess = getLastAccessTime W i path dir in
      case calculateDirSize W i path dir of
        None \<Rightarrow> stats_loop W (i + 1) m rest s
      | Some sz \<Rightarrow> stats_loop W (i + 1) m rest (track_access lastAccess
            (s\<lparr>cs_TotalSize := cs_TotalSize s + sz, cs_ModelCount := Suc (cs_ModelCount s)\<rparr>)))"

definition GetCacheStats :: "cache_world \<Rightarrow> nat \<Rightarrow> CacheManager \<Rightarrow> cache_fs \<Rightarrow> CacheStats option" where
  "GetCacheStats W i m fs =
     (let none = \<lparr>cs_TotalSize = 0, cs_ModelCount = 0, cs_OldestAccess = zero_time, cs_NewestAccess = zero_time\<rparr> in
      if cc_readdir_fault W i then None
      else case fs of None \<Rightarrow> Some none | Some es \<Rightarrow> Some (stats_loop W (i + 1) m es none))"

end
