(* ===== verification/Glob.thy ===== *)
theory Glob
  imports Go_Strings
begin

text \<open>
  \<open>filepath.Match\<close> of Go, which selects and excludes the files of a repository: patterns with \<open>*\<close>, \<open>?\<close>, classes
  and escapes, matched chunk by chunk, each star taking as little as it can.
\<close>

section \<open>Patterns\<close>

datatype glob = AnyRun | AnyOne | OneOf bool "(char \<times> char) list" | Exactly char

text \<open>One character of a class, which may be escaped; \<open>None\<close> for a malformed pattern.\<close>

definition class_char :: "string \<Rightarrow> (char \<times> string) option" where
  "class_char s =
     (case s of
        [] \<Rightarrow> None
      | c # cs \<Rightarrow>
          if c = CHR ''-'' \<or> c = CHR '']'' then None
          else if c = CHR 0x5C then (case cs of e # r # rest \<Rightarrow> Some (e, r # rest) | _ \<Rightarrow> None)
          else if cs = [] then None else Some (c, cs))"

lemma class_char_shorter: "class_char s = Some (c, r) \<Longrightarrow> length r < length s"
  by (auto simp: class_char_def split: list.splits if_splits)

function class_ranges :: "bool \<Rightarrow> string \<Rightarrow> ((char \<times> char) list \<times> string) option" where
  "class_ranges started s =
     (if started \<and> s \<noteq> [] \<and> hd s = CHR '']'' then Some ([], tl s)
      else case class_char s of
        None \<Rightarrow> None
      | Some (lo, rest) \<Rightarrow>
          (case (if rest \<noteq> [] \<and> hd rest = CHR ''-'' then class_char (tl rest) else Some (lo, rest)) of
             None \<Rightarrow> None
           | Some (hi, rest') \<Rightarrow> map_option (\<lambda>(rs, r). ((lo, hi) # rs, r)) (class_ranges True rest')))"
  by auto
termination
  by (relation "measure (\<lambda>(b, s). length s)")
    (auto dest!: class_char_shorter split: if_splits)

declare class_ranges.simps [simp del]

lemma class_ranges_shorter: "class_ranges b s = Some (rs, r) \<Longrightarrow> length r \<le> length s"
proof (induction b s arbitrary: rs r rule: class_ranges.induct)
  case (1 started s)
  show ?case
  proof (cases "started \<and> s \<noteq> [] \<and> hd s = CHR '']''")
    case True
    with "1.prems" have "r = tl s" by (simp add: class_ranges.simps [of True s])
    then show ?thesis by simp
  next
    case False
    with "1.prems" obtain lo rest hi rest' rs' where
      a: "class_char s = Some (lo, rest)"
      "(if rest \<noteq> [] \<and> hd rest = CHR ''-'' then class_char (tl rest) else Some (lo, rest)) = Some (hi, rest')"
      "class_ranges True rest' = Some (rs', r)"
      unfolding class_ranges.simps [of started s]
      by (auto split: option.splits prod.splits)
    then have "length r \<le> length rest'" using "1.IH" False by blast
    moreover have "length rest' \<le> length s"
      using a(1,2) class_char_shorter [of s lo rest] class_char_shorter [of "tl rest" hi rest']
      by (auto split: if_splits)
    ultimately show ?thesis by simp
  qed
qed

function parse_glob :: "string \<Rightarrow> glob list option" where
  "parse_glob [] = Some []"
| "parse_glob (c # cs) =
     (if c = CHR ''*'' then map_option ((#) AnyRun) (parse_glob cs)
      else if c = CHR ''?'' then map_option ((#) AnyOne) (parse_glob cs)
      else if c = CHR 0x5C then
        (case cs of [] \<Rightarrow> None | e # rest \<Rightarrow> map_option ((#) (Exactly e)) (parse_glob rest))
      else if c = CHR ''['' then
        (let (neg, s) = (case cs of x # xs \<Rightarrow> if x = CHR ''^'' then (True, xs) else (False, cs) | [] \<Rightarrow> (False, cs)) in
         case class_ranges False s of
           None \<Rightarrow> None
         | Some (rs, rest) \<Rightarrow> map_option ((#) (OneOf neg rs)) (parse_glob rest))
      else map_option ((#) (Exactly c)) (parse_glob cs))"
  by pat_completeness auto
termination
  by (relation "measure length") (auto dest!: class_ranges_shorter split: list.splits if_splits)

section \<open>Matching\<close>

definition one_matches :: "glob \<Rightarrow> char \<Rightarrow> bool" where
  "one_matches g c =
     (case g of
        AnyRun \<Rightarrow> False
      | AnyOne \<Rightarrow> c \<noteq> CHR ''/''
      | OneOf neg rs \<Rightarrow> list_ex (\<lambda>(lo, hi). of_char lo \<le> (of_char c :: nat) \<and> of_char c \<le> (of_char hi :: nat)) rs \<noteq> neg
      | Exactly x \<Rightarrow> c = x)"

fun match_chunk :: "glob list \<Rightarrow> string \<Rightarrow> string option" where
  "match_chunk [] s = Some s"
| "match_chunk (g # gs) [] = None"
| "match_chunk (g # gs) (c # s) = (if one_matches g c then match_chunk gs s else None)"

text \<open>The rest after a chunk, tried further and further to the right up to a slash; the last chunk must end the name.\<close>

fun star_chunk :: "glob list \<Rightarrow> bool \<Rightarrow> string \<Rightarrow> string option" where
  "star_chunk chunk is_last s =
     (case match_chunk chunk s of
        Some t \<Rightarrow>
          if t = [] \<or> \<not> is_last then Some t
          else (case s of [] \<Rightarrow> None | c # s' \<Rightarrow> if c = CHR ''/'' then None else star_chunk chunk is_last s')
      | None \<Rightarrow> (case s of [] \<Rightarrow> None | c # s' \<Rightarrow> if c = CHR ''/'' then None else star_chunk chunk is_last s'))"

text \<open>Split at the runs of stars: a pattern is a list of chunks, each with whether a star precedes it.\<close>

fun chunks_of :: "bool \<Rightarrow> glob list \<Rightarrow> glob list \<Rightarrow> (bool \<times> glob list) list" where
  "chunks_of star chunk [] = (if star \<or> chunk \<noteq> [] then [(star, chunk)] else [])"
| "chunks_of star chunk (g # gs) =
     (if g = AnyRun
      then (if chunk = [] then chunks_of True [] gs else (star, chunk) # chunks_of True [] gs)
      else chunks_of star (chunk @ [g]) gs)"

fun match_chunks :: "(bool \<times> glob list) list \<Rightarrow> string \<Rightarrow> bool" where
  "match_chunks [] s = (s = [])"
| "match_chunks ((star, chunk) # cs) s =
     (if star \<and> chunk = [] then CHR ''/'' \<notin> set s
      else if star then (case star_chunk chunk (cs = []) s of None \<Rightarrow> False | Some t \<Rightarrow> match_chunks cs t)
      else (case match_chunk chunk s of None \<Rightarrow> False
            | Some t \<Rightarrow> (t = [] \<or> cs \<noteq> []) \<and> match_chunks cs t))"

text \<open>\<open>None\<close> is \<open>ErrBadPattern\<close>.\<close>

definition Match :: "string \<Rightarrow> string \<Rightarrow> bool option" where
  "Match pattern name = map_option (\<lambda>gs. match_chunks (chunks_of False [] gs) name) (parse_glob pattern)"

lemma parse_glob_literal:
  "list_all (\<lambda>c. c \<notin> set [CHR ''*'', CHR ''?'', CHR ''['', CHR 0x5C]) s \<Longrightarrow> parse_glob s = Some (map Exactly s)"
  by (induction s) auto

lemma chunks_of_literal: "chunks_of star chunk (map Exactly s) = (if star \<or> chunk \<noteq> [] \<or> s \<noteq> [] then [(star, chunk @ map Exactly s)] else [])"
  by (induction s arbitrary: chunk) auto

lemma match_chunk_literal: "match_chunk (map Exactly s) t = (if take (length s) t = s then Some (drop (length s) t) else None)"
  by (induction s arbitrary: t; case_tac t) (auto simp: one_matches_def)

text \<open>A pattern without special characters matches only itself.\<close>

lemma Match_literal:
  assumes "list_all (\<lambda>c. c \<notin> set [CHR ''*'', CHR ''?'', CHR ''['', CHR 0x5C]) s"
  shows "Match s t = Some (s = t)"
proof -
  have "(take (length s) t = s \<and> drop (length s) t = []) \<longleftrightarrow> s = t"
    by (metis append_take_drop_id append_Nil2 drop_all order_refl take_all)
  then show ?thesis
    by (cases "s = []") (auto simp: Match_def parse_glob_literal [OF assms] chunks_of_literal match_chunk_literal)
qed

lemma Match_examples:
  "Match ''*.gguf'' ''model.gguf'' = Some True" "Match ''*.gguf'' ''sub/model.gguf'' = Some False"
  "Match ''a?[0-9]*'' ''ab7xyz'' = Some True" "Match ''[^a]'' ''a'' = Some False" "Match ''[a'' ''a'' = None"
  by code_simp+

end
