(* ===== verification/Hub_Client.thy ===== *)
theory Hub_Client
  imports Disk Glob
begin

text \<open>
  The Hugging Face client, \<open>internal/huggingface/client.go\<close>: which token it sends, the listing and the metadata of a
  repository and the resumable download of one file. The network and the third-party repository library are
  functions of the moment and of the request, with nothing assumed of their answers.
\<close>

section \<open>Requests and answers\<close>

datatype byte_range = WholeBody | From int64 | Between int64 int64

record http_request =
  rq_Method :: string
  rq_URL :: string
  rq_Token :: string \<comment> \<open>of the header \<open>Authorization\<close>; empty where it is not set\<close>
  rq_Range :: byte_range

record http_reply =
  rp_Status :: nat
  rp_ContentLength :: string
  rp_AcceptRanges :: string
  rp_Body :: "byte list"
  rp_Clean :: bool \<comment> \<open>the body ends as announced; otherwise reading it ends in an error\<close>

record LFSInfo =
  lfs_SHA256 :: string
  lfs_Size :: int64

record FileInfo =
  fi_Name :: string
  fi_Size :: int64
  fi_SHA256 :: string

record network =
  http :: "nat \<Rightarrow> http_request \<Rightarrow> http_reply option" \<comment> \<open>\<open>None\<close>: no request could be made or no answer came\<close>
  hub_files :: "nat \<Rightarrow> string \<Rightarrow> string \<Rightarrow> string list option" \<comment> \<open>\<open>IterFileNames\<close>, by token and repository\<close>
  decode_siblings :: "byte list \<Rightarrow> (string \<times> LFSInfo option) list option"
  getenv :: "string \<Rightarrow> string"

section \<open>The client\<close>

record Config =
  cfg_Token :: string
  cfg_TokenEnvVar :: string
  cfg_CacheDir :: string

definition DefaultTokenEnvVar :: string where "DefaultTokenEnvVar = ''HF_TOKEN''"

definition NewClient :: "Config \<Rightarrow> Config" where
  "NewClient c = (if cfg_TokenEnvVar c = '''' then c\<lparr>cfg_TokenEnvVar := DefaultTokenEnvVar\<rparr> else c)"

definition getToken :: "network \<Rightarrow> Config \<Rightarrow> string" where
  "getToken N c = (if cfg_Token c \<noteq> '''' then cfg_Token c else getenv N (cfg_TokenEnvVar c))"

definition SetToken :: "string \<Rightarrow> Config \<Rightarrow> Config" where
  "SetToken token c = c\<lparr>cfg_Token := token\<rparr>"

definition NewAuthenticatedRequest :: "network \<Rightarrow> Config \<Rightarrow> string \<Rightarrow> string \<Rightarrow> http_request" where
  "NewAuthenticatedRequest N c meth url =
     \<lparr>rq_Method = meth, rq_URL = url, rq_Token = getToken N c, rq_Range = WholeBody\<rparr>"

definition ListFiles :: "network \<Rightarrow> Config \<Rightarrow> nat \<Rightarrow> string \<Rightarrow> FileInfo list option" where
  "ListFiles N c i repoID =
     map_option (map (\<lambda>n. \<lparr>fi_Name = n, fi_Size = 0, fi_SHA256 = ''''\<rparr>)) (hub_files N i (getToken N c) repoID)"

definition FileExists :: "network \<Rightarrow> Config \<Rightarrow> nat \<Rightarrow> string \<Rightarrow> string \<Rightarrow> bool option" where
  "FileExists N c i repoID filePath = map_option (list_ex (\<lambda>f. fi_Name f = filePath)) (ListFiles N c i repoID)"

definition GetFileMetadata :: "network \<Rightarrow> Config \<Rightarrow> nat \<Rightarrow> string \<Rightarrow> FileInfo list option" where
  "GetFileMetadata N c i repoID =
     (case http N i (NewAuthenticatedRequest N c ''GET'' (''https://huggingface.co/api/models/'' @ repoID)) of
        None \<Rightarrow> None
      | Some resp \<Rightarrow>
          if rp_Status resp \<noteq> 200 then None
          else case decode_siblings N (rp_Body resp) of
            None \<Rightarrow> None
          | Some ss \<Rightarrow> Some (map (\<lambda>(n, l). case l of
                 None \<Rightarrow> \<lparr>fi_Name = n, fi_Size = 0, fi_SHA256 = ''''\<rparr>
               | Some x \<Rightarrow> \<lparr>fi_Name = n, fi_Size = lfs_Size x, fi_SHA256 = lfs_SHA256 x\<rparr>) ss))"

definition ResolveDownloadURL :: "string \<Rightarrow> string \<Rightarrow> string" where
  "ResolveDownloadURL repoID filePath = ''https://huggingface.co/'' @ repoID @ ''/resolve/main/'' @ filePath"

section \<open>Downloading into an open file\<close>

text \<open>
  \<open>io.Copy\<close> of a body to the end of the file at \<open>p\<close>: the number of bytes written and whether it ended without an error.
\<close>

definition append_file :: "string \<Rightarrow> byte list \<Rightarrow> disk \<Rightarrow> disk" where
  "append_file p bs d = put_file p ((case file_at d p of None \<Rightarrow> [] | Some old \<Rightarrow> old) @ bs) d"

definition io_Copy :: "storage \<Rightarrow> nat \<Rightarrow> string \<Rightarrow> http_reply \<Rightarrow> disk \<Rightarrow> nat \<times> bool \<times> disk" where
  "io_Copy E i p resp d =
     (let bs = (if fault E i WriteData p then take (short_write E i) (rp_Body resp) else rp_Body resp)
      in (length bs, rp_Clean resp \<and> \<not> fault E i WriteData p, append_file p bs d))"

text \<open>\<open>None\<close> is an error.\<close>

definition ResumeDownloadFile ::
  "storage \<Rightarrow> network \<Rightarrow> Config \<Rightarrow> nat \<Rightarrow> string \<Rightarrow> string \<Rightarrow> int64 \<Rightarrow> string \<Rightarrow> disk \<Rightarrow> int64 option \<times> disk" where
  "ResumeDownloadFile E N c i repoID filePath off p d =
     (case http N i ((NewAuthenticatedRequest N c ''GET'' (ResolveDownloadURL repoID filePath))
              \<lparr>rq_Range := if sint off > 0 then From off else WholeBody\<rparr>) of
        None \<Rightarrow> (None, d)
      | Some resp \<Rightarrow>
          if rp_Status resp = 416 then (Some 0, d)
          else if rp_Status resp \<noteq> 200 \<and> rp_Status resp \<noteq> 206 then (None, d)
          else (case io_Copy E i p resp d of
            (written, ok, d1) \<Rightarrow> (if ok then Some (of_nat written) else None, d1)))"

definition tryResumeDownload ::
  "storage \<Rightarrow> network \<Rightarrow> Config \<Rightarrow> nat \<Rightarrow> string \<Rightarrow> string \<Rightarrow> string \<Rightarrow> disk \<Rightarrow> int64 option \<times> disk" where
  "tryResumeDownload E N c i repoID filePath localPath d =
     (case os_Stat E i localPath d of
        Inl _ \<Rightarrow> (None, d)
      | Inr localSize \<Rightarrow>
          if localSize = 0 then (None, d)
          else if fault E i OpenFile localPath \<or> file_at d localPath = None then (None, d)
          else (case ResumeDownloadFile E N c i repoID filePath localSize localPath d of
            (None, d1) \<Rightarrow> (None, d1)
          | (Some written, d1) \<Rightarrow> if fault E i SyncFile localPath then (None, d1) else (Some (localSize + written), d1)))"

section \<open>When a resumed file is the file\<close>

text \<open>A server that serves \<open>remote\<close> at the URL and honours ranges.\<close>

definition serves :: "network \<Rightarrow> nat \<Rightarrow> string \<Rightarrow> byte list \<Rightarrow> bool" where
  "serves N i url remote \<longleftrightarrow> (\<forall>token off resp.
     http N i \<lparr>rq_Method = ''GET'', rq_URL = url, rq_Token = token, rq_Range = From off\<rparr> = Some resp \<longrightarrow>
       (rp_Status resp = 206 \<longrightarrow> rp_Clean resp \<longrightarrow> rp_Body resp = drop (unat off) remote)
       \<and> (rp_Status resp = 416 \<longrightarrow> length remote \<le> unat off)
       \<and> rp_Status resp \<noteq> 200)"

lemma sint_nat: "n < 2 ^ 63 \<Longrightarrow> sint (of_nat n :: int64) = int n"
proof -
  assume "n < 2 ^ 63"
  then have "int n < 2 ^ 63" by (metis of_nat_less_iff of_nat_numeral of_nat_power)
  then have "sint (word_of_int (int n) :: int64) = int n"
    by (intro sint_small) (simp_all add: order_trans [of _ 0])
  then show ?thesis by simp
qed

text \<open>What a resumption that reports success asked for and did.\<close>

lemma tryResume_answer:
  assumes "tryResumeDownload E N c i repoID filePath localPath d = (Some n, d')"
    and "file_at d localPath = Some old" and "length old < 2 ^ 63"
  obtains resp where
    "http N i \<lparr>rq_Method = ''GET'', rq_URL = ResolveDownloadURL repoID filePath, rq_Token = getToken N c,
       rq_Range = From (of_nat (length old))\<rparr> = Some resp"
    "rp_Status resp = 416 \<and> n = of_nat (length old) \<and> d' = d
      \<or> (rp_Status resp = 200 \<or> rp_Status resp = 206) \<and> (rp_Clean resp
        \<and> n = of_nat (length old) + of_nat (length (rp_Body resp)) \<and> d' = append_file localPath (rp_Body resp) d)"
proof -
  let ?k = "of_nat (length old) :: int64"
  let ?req = "\<lparr>rq_Method = ''GET'', rq_URL = ResolveDownloadURL repoID filePath, rq_Token = getToken N c, rq_Range = From ?k\<rparr>"
  from assms(1,2) have ne: "?k \<noteq> 0" and st: "os_Stat E i localPath d = Inr ?k"
    by (auto simp: tryResumeDownload_def os_Stat_def split: if_splits sum.splits)
  then have pos: "sint ?k > 0" using sint_nat [OF assms(3)] by (cases old) simp_all
  obtain r d1 where R: "ResumeDownloadFile E N c i repoID filePath ?k localPath d = (r, d1)" by fastforce
  from assms(1) have "\<not> (fault E i OpenFile localPath \<or> file_at d localPath = None)"
    by (simp add: tryResumeDownload_def st ne split: if_split_asm)
  with assms(1) obtain w where w: "r = Some w" "n = ?k + w" "d' = d1"
    by (cases r) (simp_all add: tryResumeDownload_def st ne R split: if_split_asm)
  obtain resp where h: "http N i ?req = Some resp"
    using R w pos by (auto simp: ResumeDownloadFile_def NewAuthenticatedRequest_def split: option.splits)
  show thesis
  proof (rule that [OF h])
    show "rp_Status resp = 416 \<and> n = of_nat (length old) \<and> d' = d
      \<or> (rp_Status resp = 200 \<or> rp_Status resp = 206) \<and> (rp_Clean resp
        \<and> n = of_nat (length old) + of_nat (length (rp_Body resp)) \<and> d' = append_file localPath (rp_Body resp) d)"
      using R w pos
      by (simp add: ResumeDownloadFile_def NewAuthenticatedRequest_def h io_Copy_def Let_def split: if_split_asm)
  qed
qed

text \<open>
  Resuming completes the file: if the server honours ranges and what is on disk is a beginning of the remote file, then
  a resumption that reports success leaves exactly the remote file on disk and returns its size.
\<close>

theorem resume_completes:
  assumes "tryResumeDownload E N c i repoID filePath localPath d = (Some n, d')"
    and "serves N i (ResolveDownloadURL repoID filePath) remote"
    and "file_at d localPath = Some have_bytes" and "have_bytes = take (length have_bytes) remote"
    and "length remote < 2 ^ 63"
  shows "file_at d' localPath = Some remote \<and> n = of_nat (length remote)"
proof -
  let ?k = "of_nat (length have_bytes) :: int64"
  have len: "length have_bytes \<le> length remote"
    using assms(4) by (metis length_take min.cobounded1)
  then have k: "unat ?k = length have_bytes" using assms(5) by (intro unat_of_nat_small) simp
  have small: "length have_bytes < 2 ^ 63" using len assms(5) by linarith
  obtain resp where
    h: "http N i \<lparr>rq_Method = ''GET'', rq_URL = ResolveDownloadURL repoID filePath, rq_Token = getToken N c, rq_Range = From ?k\<rparr> = Some resp"
    and cases: "rp_Status resp = 416 \<and> n = ?k \<and> d' = d
      \<or> (rp_Status resp = 200 \<or> rp_Status resp = 206) \<and> (rp_Clean resp
        \<and> n = ?k + of_nat (length (rp_Body resp)) \<and> d' = append_file localPath (rp_Body resp) d)"
    by (rule tryResume_answer [OF assms(1,3) small])
  have s: "(rp_Status resp = 206 \<longrightarrow> rp_Clean resp \<longrightarrow> rp_Body resp = drop (unat ?k) remote)
       \<and> (rp_Status resp = 416 \<longrightarrow> length remote \<le> unat ?k) \<and> rp_Status resp \<noteq> 200"
    using assms(2) h unfolding serves_def by blast
  from cases show ?thesis
  proof
    assume c: "rp_Status resp = 416 \<and> n = ?k \<and> d' = d"
    with s k have "length remote \<le> length have_bytes" by simp
    with assms(4) have "have_bytes = remote" by (metis take_all)
    with assms(3) c show ?thesis by simp
  next
    assume c: "(rp_Status resp = 200 \<or> rp_Status resp = 206) \<and> (rp_Clean resp
        \<and> n = ?k + of_nat (length (rp_Body resp)) \<and> d' = append_file localPath (rp_Body resp) d)"
    with s k have body: "rp_Body resp = drop (length have_bytes) remote" by auto
    with assms(4) have whole: "have_bytes @ rp_Body resp = remote" by (metis append_take_drop_id)
    then have "length remote = length have_bytes + length (rp_Body resp)" by auto
    with c whole assms(3) show ?thesis
      by (simp add: append_file_def file_at_def put_file_def map_laws)
  qed
qed

end
