(* ===== verification/Chunked.thy ===== *)
theory Chunked
  imports Hub_Client Complex_Main
begin

text \<open>
  The multipart download, \<open>internal/download/chunked.go\<close>: the plan of the chunks, the download of one chunk with its
  retries, the assembly of the parts. The workers write different part files; the order in which they take the chunks
  is a parameter, and what a worker does for a chunk is one step.
\<close>

section \<open>The plan\<close>

record chunkRange =
  ch_Index :: nat
  ch_Start :: int64
  ch_End :: int64 \<comment> \<open>inclusive\<close>

definition MultipartThreshold :: int64 where "MultipartThreshold = 268435456"
definition DefaultChunkSize :: int64 where "DefaultChunkSize = 1073741824"

definition chunk_size :: "int64 \<Rightarrow> int64" where
  "chunk_size s = (if sint s \<le> 0 then DefaultChunkSize else s)"

definition chunk_count :: "int64 \<Rightarrow> int64 \<Rightarrow> nat" where
  "chunk_count chunkSize fileSize =
     (let c = sint (fileSize + chunkSize - 1) div sint chunkSize in if c \<le> 0 then 1 else nat c)"

definition chunk_at :: "int64 \<Rightarrow> int64 \<Rightarrow> nat \<Rightarrow> chunkRange" where
  "chunk_at chunkSize fileSize i =
     (let start = of_nat i * chunkSize; e = start + chunkSize - 1
      in \<lparr>ch_Index = i, ch_Start = start, ch_End = if sint e \<ge> sint fileSize then fileSize - 1 else e\<rparr>)"

definition computeChunks :: "int64 \<Rightarrow> int64 \<Rightarrow> chunkRange list" where
  "computeChunks size_cfg fileSize =
     (let chunkSize = chunk_size size_cfg
      in map (chunk_at chunkSize fileSize) [0..<chunk_count chunkSize fileSize])"

text \<open>\<open>%02d\<close>\<close>

definition partPath :: "string \<Rightarrow> nat \<Rightarrow> string" where
  "partPath localPath index = localPath @ ''.part-'' @ (if index < 10 then ''0'' else '''') @ show_nat index"

section \<open>One chunk\<close>

definition os_Create :: "storage \<Rightarrow> nat \<Rightarrow> string \<Rightarrow> disk \<Rightarrow> disk option" where
  "os_Create E i p d = (if fault E i CreateFile p then None else Some (put_file p [] d))"

text \<open>Whether the chunk was downloaded without an error, with the disk.\<close>

definition downloadChunk ::
  "storage \<Rightarrow> network \<Rightarrow> Config \<Rightarrow> nat \<Rightarrow> string \<Rightarrow> string \<Rightarrow> string \<Rightarrow> chunkRange \<Rightarrow> disk \<Rightarrow> bool \<times> disk" where
  "downloadChunk E N c i repoID filePath localPath chunk d =
     (let pp = partPath localPath (ch_Index chunk); expectedSize = ch_End chunk - ch_Start chunk + 1 in
      if os_Stat E i pp d = Inr expectedSize then (True, d)
      else case http N i ((NewAuthenticatedRequest N c ''GET'' (ResolveDownloadURL repoID filePath))
              \<lparr>rq_Range := Between (ch_Start chunk) (ch_End chunk)\<rparr>) of
        None \<Rightarrow> (False, d)
      | Some resp \<Rightarrow>
          if rp_Status resp \<noteq> 206 \<and> rp_Status resp \<noteq> 200 then (False, d)
          else case os_Create E i pp d of
            None \<Rightarrow> (False, d)
          | Some d1 \<Rightarrow>
              (case io_Copy E i pp resp d1 of (written, ok, d2) \<Rightarrow> (ok \<and> \<not> fault E i SyncFile pp, d2)))"

record backoffConfig =
  bo_Initial :: duration
  bo_Max :: duration
  bo_Multiplier :: rat
  bo_Jitter :: int
  bo_MaxRetries :: nat

definition defaultBackoff :: backoffConfig where
  "defaultBackoff = \<lparr>bo_Initial = 400000000, bo_Max = 10000000000, bo_Multiplier = 8 / 5, bo_Jitter = 120000000, bo_MaxRetries = 4\<rparr>"

text \<open>
  The delay after a wait of \<open>delay\<close>: scaled (a float, truncated), with a random part below the jitter, capped.
\<close>

definition next_delay :: "(rat \<Rightarrow> rat) \<Rightarrow> backoffConfig \<Rightarrow> int \<Rightarrow> duration \<Rightarrow> duration" where
  "next_delay fl b jitter delay =
     (let scaled = \<lfloor>fl (fl (of_int delay) * bo_Multiplier b)\<rfloor>; d = (if bo_Jitter b > 0 then scaled + jitter else scaled)
      in if d > bo_Max b then bo_Max b else d)"

text \<open>
  The retry loop: \<open>gone k\<close> says that the context is done after attempt \<open>k\<close>, \<open>woken k\<close> that the wait before attempt
  \<open>k\<close> was cut short. The result is whether the chunk is there, the delays waited for and the disk; \<open>left\<close> attempts remain.
\<close>

fun retry_loop ::
  "(rat \<Rightarrow> rat) \<Rightarrow> backoffConfig \<Rightarrow> (nat \<Rightarrow> int) \<Rightarrow> (nat \<Rightarrow> bool) \<Rightarrow> (nat \<Rightarrow> bool) \<Rightarrow> (nat \<Rightarrow> disk \<Rightarrow> bool \<times> disk)
    \<Rightarrow> nat \<Rightarrow> nat \<Rightarrow> duration \<Rightarrow> disk \<Rightarrow> bool \<times> duration list \<times> disk" where
  "retry_loop fl b jitter gone woken get 0 k delay d = (False, [], d)"
| "retry_loop fl b jitter gone woken get (Suc left) k delay d =
     (if k > 0 \<and> woken k then (False, [delay], d)
      else
        (case get k d of
           (True, d1) \<Rightarrow> (True, if k > 0 then [delay] else [], d1)
         | (False, d1) \<Rightarrow>
             if gone k then (False, if k > 0 then [delay] else [], d1)
             else (case retry_loop fl b jitter gone woken get left (Suc k)
                         (if k > 0 then next_delay fl b (jitter k) delay else delay) d1 of
               (ok, delays, d2) \<Rightarrow> (ok, (if k > 0 then delay # delays else delays), d2))))"

definition downloadChunkWithRetry ::
  "storage \<Rightarrow> network \<Rightarrow> Config \<Rightarrow> (rat \<Rightarrow> rat) \<Rightarrow> backoffConfig \<Rightarrow> (nat \<Rightarrow> int) \<Rightarrow> (nat \<Rightarrow> bool) \<Rightarrow> (nat \<Rightarrow> bool) \<Rightarrow> nat
    \<Rightarrow> string \<Rightarrow> string \<Rightarrow> string \<Rightarrow> chunkRange \<Rightarrow> disk \<Rightarrow> bool \<times> duration list \<times> disk" where
  "downloadChunkWithRetry E N c fl b jitter gone woken i repoID filePath localPath chunk d =
     retry_loop fl b jitter gone woken (\<lambda>k. downloadChunk E N c (i + k) repoID filePath localPath chunk)
       (Suc (bo_MaxRetries b)) 0 (bo_Initial b) d"

section \<open>Assembly\<close>

text \<open>Append the parts one after the other to the file being assembled.\<close>

fun append_parts :: "storage \<Rightarrow> nat \<Rightarrow> string \<Rightarrow> string \<Rightarrow> chunkRange list \<Rightarrow> disk \<Rightarrow> bool \<times> disk" where
  "append_parts E i localPath tmp [] d = (True, d)"
| "append_parts E i localPath tmp (c # cs) d =
     (let pp = partPath localPath (ch_Index c) in
      if fault E i OpenFile pp then (False, d)
      else case file_at d pp of
        None \<Rightarrow> (False, d)
      | Some bs \<Rightarrow>
          if fault E i WriteData tmp \<or> fault E i ReadFile pp
          then (False, append_file tmp (take (short_write E i) bs) d)
          else append_parts E (i + 1) localPath tmp cs (append_file tmp bs d))"

definition rename :: "string \<Rightarrow> string \<Rightarrow> disk \<Rightarrow> disk" where
  "rename old new d = (case file_at d old of None \<Rightarrow> d | Some bs \<Rightarrow> put_file new bs (drop_file old d))"

definition assembleChunks :: "storage \<Rightarrow> nat \<Rightarrow> string \<Rightarrow> chunkRange list \<Rightarrow> disk \<Rightarrow> bool \<times> disk" where
  "assembleChunks E i localPath chunks d =
     (let tmp = localPath @ ''.part'' in
      case os_Create E i tmp d of
        None \<Rightarrow> (False, d)
      | Some d1 \<Rightarrow>
          (case append_parts E (i + 1) localPath tmp chunks d1 of
             (False, d2) \<Rightarrow> (False, d2)
           | (True, d2) \<Rightarrow>
               if fault E i SyncFile tmp \<or> fault E i CloseFile tmp \<or> fault E i Rename tmp then (False, d2)
               else (True, rename tmp localPath d2)))"

definition cleanupParts :: "storage \<Rightarrow> nat \<Rightarrow> string \<Rightarrow> chunkRange list \<Rightarrow> disk \<Rightarrow> disk" where
  "cleanupParts E i localPath chunks d =
     snd (os_Remove E i (localPath @ ''.part'')
       (fold (\<lambda>c d. snd (os_Remove E i (partPath localPath (ch_Index c)) d)) chunks d))"

section \<open>The download\<close>

text \<open>\<open>strconv.ParseInt(s, 10, 64)\<close>\<close>

definition digits_value :: "string \<Rightarrow> int option" where
  "digits_value s =
     (if s \<noteq> '''' \<and> list_all (\<lambda>c. of_char c \<in> {48..57 :: nat}) s
      then Some (foldl (\<lambda>a c. 10 * a + (int (of_char c) - 48)) 0 s) else None)"

definition ParseInt64 :: "string \<Rightarrow> int64 option" where
  "ParseInt64 s =
     (case (case s of
          [] \<Rightarrow> None
        | c # cs \<Rightarrow> if c = CHR ''-'' then map_option uminus (digits_value cs)
                    else if c = CHR ''+'' then digits_value cs else digits_value s) of
        None \<Rightarrow> None
      | Some v \<Rightarrow> if - (2 ^ 63) \<le> v \<and> v < 2 ^ 63 then Some (word_of_int v) else None)"

text \<open>\<open>None\<close> is an error, otherwise the size and whether ranges are supported.\<close>

definition headRequest :: "network \<Rightarrow> Config \<Rightarrow> nat \<Rightarrow> string \<Rightarrow> string \<Rightarrow> (int64 \<times> bool) option" where
  "headRequest N c i repoID filePath =
     (case http N i (NewAuthenticatedRequest N c ''HEAD'' (ResolveDownloadURL repoID filePath)) of
        None \<Rightarrow> None
      | Some resp \<Rightarrow>
          if rp_Status resp \<noteq> 200 then None
          else if rp_ContentLength resp = '''' then Some (0, False)
          else map_option (\<lambda>n. (n, Contains (rp_AcceptRanges resp) ''bytes'')) (ParseInt64 (rp_ContentLength resp)))"

record chunk_world =
  cw_fl :: "rat \<Rightarrow> rat"
  cw_jitter :: "nat \<Rightarrow> nat \<Rightarrow> int" \<comment> \<open>per chunk and attempt\<close>
  cw_gone :: "nat \<Rightarrow> nat \<Rightarrow> bool"
  cw_woken :: "nat \<Rightarrow> nat \<Rightarrow> bool"
  cw_order :: "chunkRange list \<Rightarrow> chunkRange list" \<comment> \<open>the order in which the workers finish\<close>

text \<open>The chunks in the order the workers finish them, up to the first that fails.\<close>

fun chunks_loop ::
  "(chunkRange \<Rightarrow> disk \<Rightarrow> bool \<times> disk) \<Rightarrow> chunkRange list \<Rightarrow> disk \<Rightarrow> bool \<times> disk" where
  "chunks_loop get [] d = (True, d)"
| "chunks_loop get (c # cs) d =
     (case get c d of (False, d1) \<Rightarrow> (False, d1) | (True, d1) \<Rightarrow> chunks_loop get cs d1)"

text \<open>What a worker does for one chunk.\<close>

definition fetch_chunk ::
  "storage \<Rightarrow> network \<Rightarrow> Config \<Rightarrow> chunk_world \<Rightarrow> nat \<Rightarrow> string \<Rightarrow> string \<Rightarrow> string \<Rightarrow> chunkRange \<Rightarrow> disk \<Rightarrow> bool \<times> disk" where
  "fetch_chunk E N c W i repoID filePath localPath ch d =
     (let k = ch_Index ch in
      case downloadChunkWithRetry E N c (cw_fl W) defaultBackoff (cw_jitter W k) (cw_gone W k) (cw_woken W k)
             (i + 10 * k) repoID filePath localPath ch d of (ok, delays, d') \<Rightarrow> (ok, d'))"

datatype chunked_error = RangeNotSupported | ChunkedFailed

definition chunkedDownload ::
  "storage \<Rightarrow> network \<Rightarrow> Config \<Rightarrow> chunk_world \<Rightarrow> nat \<Rightarrow> string \<Rightarrow> string \<Rightarrow> string \<Rightarrow> disk
    \<Rightarrow> (chunked_error + int64) \<times> disk" where
  "chunkedDownload E N c W i repoID filePath localPath d =
     (case headRequest N c i repoID filePath of
        None \<Rightarrow> (Inl ChunkedFailed, d)
      | Some (fileSize, supportsRange) \<Rightarrow>
          if \<not> supportsRange \<or> sint fileSize < sint MultipartThreshold then (Inl RangeNotSupported, d)
          else
            (let chunks = computeChunks DefaultChunkSize fileSize in
             case chunks_loop (fetch_chunk E N c W i repoID filePath localPath) (cw_order W chunks) d of
               (False, d1) \<Rightarrow> (Inl ChunkedFailed, d1)
             | (True, d1) \<Rightarrow>
                 (case assembleChunks E i localPath chunks d1 of
                    (False, d2) \<Rightarrow> (Inl ChunkedFailed, d2)
                  | (True, d2) \<Rightarrow> (Inr fileSize, cleanupParts E i localPath chunks d2))))"

section \<open>Progress\<close>

text \<open>
  The progress reader: each read reports \<open>n\<close> bytes at a time and possibly an error; bytes are passed on when the
  interval is over or the read ends in an error. The bytes reported, and those still pending at the end.
\<close>

fun progress_reads :: "duration \<Rightarrow> int64 \<Rightarrow> go_time \<Rightarrow> (int64 \<times> go_time \<times> bool) list \<Rightarrow> int64 list \<times> int64" where
  "progress_reads interval pending lastFlush [] = ([], pending)"
| "progress_reads interval pending lastFlush ((n, now, err) # rs) =
     (if sint n > 0
      then if now - lastFlush \<ge> interval \<or> err
           then (case progress_reads interval 0 now rs of (reps, p) \<Rightarrow> ((pending + n) # reps, p))
           else progress_reads interval (pending + n) lastFlush rs
      else progress_reads interval pending lastFlush rs)"

end
