(* ===== verification/Download_Manager.thy ===== *)
theory Download_Manager
  imports Chunked "HOL-Library.List_Lexorder"
begin

text \<open>
  The download manager: \<open>internal/download/spec.go\<close>, \<open>status.go\<close>, \<open>manager.go\<close> and the resolver of \<open>resolver.go\<close>.

  A status is shared by the manager's map, the goroutine that downloads and whoever asked for it, so statuses live
  in a list and the map holds their positions. Progress that is only displayed while a file is being fetched and
  logging are left out.
\<close>

type_synonym float_rounding = "rat \<Rightarrow> rat"

section \<open>What to download\<close>

record DownloadSpec =
  sp_Repo :: string
  sp_Branch :: string
  sp_Files :: "string list"
  sp_Patterns :: "string list"
  sp_Exclude :: "string list"
  sp_DestDir :: string

datatype DownloadOption = WithBranch string | WithFiles "string list" | WithPatterns "string list"
  | WithExclude "string list" | WithDestDir string

fun apply_spec_option :: "DownloadOption \<Rightarrow> DownloadSpec \<Rightarrow> DownloadSpec" where
  "apply_spec_option (WithBranch b) s = s\<lparr>sp_Branch := b\<rparr>"
| "apply_spec_option (WithFiles fs) s = s\<lparr>sp_Files := fs\<rparr>"
| "apply_spec_option (WithPatterns ps) s = s\<lparr>sp_Patterns := ps\<rparr>"
| "apply_spec_option (WithExclude xs) s = s\<lparr>sp_Exclude := xs\<rparr>"
| "apply_spec_option (WithDestDir d) s = s\<lparr>sp_DestDir := d\<rparr>"

definition NewDownloadSpec :: "string \<Rightarrow> DownloadOption list \<Rightarrow> DownloadSpec" where
  "NewDownloadSpec repo opts = fold apply_spec_option opts
     \<lparr>sp_Repo = repo, sp_Branch = ''main'', sp_Files = [], sp_Patterns = [], sp_Exclude = [], sp_DestDir = ''''\<rparr>"

section \<open>Status\<close>

datatype DownloadPhase = PhasePending | PhaseDownloading | PhaseComplete | PhaseFailed

record FileStatus =
  fst_Path :: string
  fst_Phase :: DownloadPhase
  fst_BytesDone :: int64
  fst_BytesTotal :: int64

record DownloadStatus =
  ds_ModelName :: string
  ds_Phase :: DownloadPhase
  ds_Progress :: rat
  ds_BytesTotal :: int64
  ds_BytesDone :: int64
  ds_Files :: "FileStatus list"
  ds_StartedAt :: go_time
  ds_CompletedAt :: "go_time option"
  ds_Error :: string
  ds_Cancel :: "bool option" \<comment> \<open>\<open>cancelFunc\<close>: not set yet, or whether it was called\<close>

definition SetProgress :: "float_rounding \<Rightarrow> int64 \<Rightarrow> int64 \<Rightarrow> DownloadStatus \<Rightarrow> DownloadStatus" where
  "SetProgress fl bytesDone bytesTotal s =
     (let s1 = s\<lparr>ds_BytesDone := bytesDone, ds_BytesTotal := bytesTotal\<rparr> in
      if sint bytesTotal > 0
      then s1\<lparr>ds_Progress := fl (fl (fl (of_int (sint bytesDone)) / fl (of_int (sint bytesTotal))) * 100)\<rparr>
      else s1)"

definition SetPhase :: "DownloadPhase \<Rightarrow> DownloadStatus \<Rightarrow> DownloadStatus" where
  "SetPhase p s = s\<lparr>ds_Phase := p\<rparr>"

definition SetError :: "go_time \<Rightarrow> string \<Rightarrow> DownloadStatus \<Rightarrow> DownloadStatus" where
  "SetError now err s = s\<lparr>ds_Error := err, ds_Phase := PhaseFailed, ds_CompletedAt := Some now\<rparr>"

definition SetComplete :: "go_time \<Rightarrow> DownloadStatus \<Rightarrow> DownloadStatus" where
  "SetComplete now s = s\<lparr>ds_Phase := PhaseComplete, ds_Progress := 100, ds_CompletedAt := Some now\<rparr>"

definition SetCancelFunc :: "DownloadStatus \<Rightarrow> DownloadStatus" where
  "SetCancelFunc s = s\<lparr>ds_Cancel := Some False\<rparr>"

definition Cancel_status :: "DownloadStatus \<Rightarrow> DownloadStatus" where
  "Cancel_status s = s\<lparr>ds_Cancel := map_option (\<lambda>_. True) (ds_Cancel s)\<rparr>"

fun update_file :: "string \<Rightarrow> int64 \<Rightarrow> int64 \<Rightarrow> DownloadPhase \<Rightarrow> FileStatus list \<Rightarrow> FileStatus list" where
  "update_file path bd bt ph [] = [\<lparr>fst_Path = path, fst_Phase = ph, fst_BytesDone = bd, fst_BytesTotal = bt\<rparr>]"
| "update_file path bd bt ph (f # fs) =
     (if fst_Path f = path then f\<lparr>fst_BytesDone := bd, fst_BytesTotal := bt, fst_Phase := ph\<rparr> # fs
      else f # update_file path bd bt ph fs)"

definition UpdateFileProgress :: "string \<Rightarrow> int64 \<Rightarrow> int64 \<Rightarrow> DownloadPhase \<Rightarrow> DownloadStatus \<Rightarrow> DownloadStatus" where
  "UpdateFileProgress path bd bt ph s = s\<lparr>ds_Files := update_file path bd bt ph (ds_Files s)\<rparr>"

definition IsComplete :: "DownloadStatus \<Rightarrow> bool" where
  "IsComplete s = (ds_Phase s = PhaseComplete \<or> ds_Phase s = PhaseFailed)"

text \<open>What a progress report holds (\<open>progress.go\<close>), of the tracker or made of a status.\<close>

record FileProgressSnapshot =
  fs_Path :: string
  fs_Total :: int64
  fs_Completed :: int64
  fs_Percentage :: rat
  fs_Phase :: "DownloadPhase option"

record ProgressSnapshot =
  sn_BytesTotal :: int64
  sn_BytesCompleted :: int64
  sn_Percentage :: rat
  sn_Speed :: int64
  sn_ETA :: duration
  sn_Files :: "FileProgressSnapshot list"
  sn_Elapsed :: duration

definition Duration :: "go_time \<Rightarrow> DownloadStatus \<Rightarrow> duration" where
  "Duration now s = (case ds_CompletedAt s of Some t \<Rightarrow> t - ds_StartedAt s | None \<Rightarrow> now - ds_StartedAt s)"

section \<open>The manager and its map\<close>

record Manager =
  mg_hfClient :: "Config option"
  mg_cacheDir :: string
  mg_maxConcurrent :: int
  mg_downloads :: "(string, nat) go_map"
  mg_statuses :: "DownloadStatus list"

datatype ManagerOption = WithMaxConcurrent int | WithCacheDir string | WithHFToken string | WithHFClient Config
  | OtherOption \<comment> \<open>the buffer size, the Kubernetes client and the Xet downloader\<close>

fun apply_option :: "ManagerOption \<Rightarrow> Manager \<Rightarrow> Manager" where
  "apply_option (WithMaxConcurrent n) m = (if n > 0 then m\<lparr>mg_maxConcurrent := n\<rparr> else m)"
| "apply_option (WithCacheDir dir) m = m\<lparr>mg_cacheDir := dir\<rparr>"
| "apply_option (WithHFToken token) m = m\<lparr>mg_hfClient := map_option (SetToken token) (mg_hfClient m)\<rparr>"
| "apply_option (WithHFClient c) m = m\<lparr>mg_hfClient := Some c\<rparr>"
| "apply_option OtherOption m = m"

definition NewManager :: "network \<Rightarrow> ManagerOption list \<Rightarrow> Manager" where
  "NewManager N opts =
     (let m = fold apply_option opts \<lparr>mg_hfClient = None, mg_cacheDir = getenv N ''HF_HOME'', mg_maxConcurrent = 3,
                mg_downloads = [], mg_statuses = []\<rparr>
      in case mg_hfClient m of
           Some _ \<Rightarrow> m
         | None \<Rightarrow> m\<lparr>mg_hfClient := Some (NewClient \<lparr>cfg_Token = '''', cfg_TokenEnvVar = '''', cfg_CacheDir = mg_cacheDir m\<rparr>)\<rparr>)"

definition GetStatus :: "string \<Rightarrow> Manager \<Rightarrow> nat option" where
  "GetStatus modelName m = map_of (mg_downloads m) modelName"

definition status_at :: "Manager \<Rightarrow> nat \<Rightarrow> DownloadStatus" where
  "status_at m k = mg_statuses m ! k"

text \<open>
  \<open>LoadOrStore\<close>: a new status is filed only if the model has none; the result is the new status, whose download
  then starts, or \<open>None\<close> for the error that one is already tracked.
\<close>

definition Download :: "go_time \<Rightarrow> string \<Rightarrow> Manager \<Rightarrow> nat option \<times> Manager" where
  "Download now modelName m =
     (case map_of (mg_downloads m) modelName of
        Some _ \<Rightarrow> (None, m)
      | None \<Rightarrow>
          (let k = length (mg_statuses m);
               s = SetCancelFunc \<lparr>ds_ModelName = modelName, ds_Phase = PhasePending, ds_Progress = 0, ds_BytesTotal = 0,
                 ds_BytesDone = 0, ds_Files = [], ds_StartedAt = now, ds_CompletedAt = None, ds_Error = '''', ds_Cancel = None\<rparr>
           in (Some k, m\<lparr>mg_downloads := AList.update modelName k (mg_downloads m), mg_statuses := mg_statuses m @ [s]\<rparr>)))"

definition IsDownloading :: "string \<Rightarrow> Manager \<Rightarrow> bool" where
  "IsDownloading modelName m =
     (case GetStatus modelName m of None \<Rightarrow> False | Some k \<Rightarrow> \<not> IsComplete (status_at m k))"

definition Cancel :: "string \<Rightarrow> Manager \<Rightarrow> Manager" where
  "Cancel modelName m =
     (case GetStatus modelName m of
        None \<Rightarrow> m
      | Some k \<Rightarrow> m\<lparr>mg_statuses := (mg_statuses m)[k := Cancel_status (status_at m k)]\<rparr>)"

definition RemoveStatus :: "string \<Rightarrow> Manager \<Rightarrow> Manager" where
  "RemoveStatus modelName m = m\<lparr>mg_downloads := AList.delete modelName (mg_downloads m)\<rparr>"

definition ListDownloads :: "Manager \<Rightarrow> (string, DownloadStatus) go_map" where
  "ListDownloads m = map (\<lambda>(n, k). (n, status_at m k)) (mg_downloads m)"

definition CleanupCompleted :: "Manager \<Rightarrow> Manager" where
  "CleanupCompleted m = m\<lparr>mg_downloads := filter (\<lambda>(n, k). \<not> IsComplete (status_at m k)) (mg_downloads m)\<rparr>"

definition GetModelPath :: "string \<Rightarrow> Manager \<Rightarrow> string" where
  "GetModelPath modelName m = Join [mg_cacheDir m, ''models'', ReplaceAll modelName ''/'' ''--'']"

text \<open>One tick of \<open>WaitForDownload\<close>: wait on, no such download, or the finished status.\<close>

fun WaitForDownload :: "string \<Rightarrow> (bool \<times> Manager) list \<Rightarrow> (bool + DownloadStatus) option" where
  "WaitForDownload modelName [] = None"
| "WaitForDownload modelName ((gone, m) # ticks) =
     (if gone then Some (Inl True)
      else case GetStatus modelName m of
        None \<Rightarrow> Some (Inl False)
      | Some k \<Rightarrow> if IsComplete (status_at m k) then Some (Inr (status_at m k)) else WaitForDownload modelName ticks)"

section \<open>Choosing the files\<close>

definition matches :: "string \<Rightarrow> string \<Rightarrow> bool" where
  "matches pattern s = (Match pattern s = Some True)"

definition shouldExclude :: "string \<Rightarrow> string list \<Rightarrow> bool" where
  "shouldExclude filePath excludePatterns =
     list_ex (\<lambda>p. matches p filePath \<or> list_ex (matches p) (split_on (CHR ''/'') filePath)) excludePatterns"

text \<open>The loop over the patterns for one file: a malformed pattern is an error, the first match decides.\<close>

fun match_patterns :: "string \<Rightarrow> string list \<Rightarrow> string + bool" where
  "match_patterns file [] = Inr False"
| "match_patterns file (p # ps) =
     (case Match p file of None \<Rightarrow> Inl p | Some True \<Rightarrow> Inr True | Some False \<Rightarrow> match_patterns file ps)"

fun resolve_loop :: "DownloadSpec \<Rightarrow> string list \<Rightarrow> string list \<Rightarrow> string + string list" where
  "resolve_loop spec found [] = Inr found"
| "resolve_loop spec found (f # fs) =
     (if shouldExclude f (sp_Exclude spec) then resolve_loop spec found fs
      else if f \<in> set (sp_Files spec) then resolve_loop spec (if f \<in> set found then found else found @ [f]) fs
      else case match_patterns f (sp_Patterns spec) of
        Inl p \<Rightarrow> Inl p
      | Inr True \<Rightarrow> resolve_loop spec (if f \<in> set found then found else found @ [f]) fs
      | Inr False \<Rightarrow> resolve_loop spec found fs)"

datatype resolve_error = ListFailed | BadPattern string

definition resolveFiles :: "FileInfo list option \<Rightarrow> DownloadSpec \<Rightarrow> resolve_error + string list" where
  "resolveFiles listing spec =
     (case listing of
        None \<Rightarrow> Inl ListFailed
      | Some allFiles \<Rightarrow>
          (let names = map fi_Name allFiles in
           case resolve_loop spec [] names of
             Inl p \<Rightarrow> Inl (BadPattern p)
           | Inr found \<Rightarrow>
               Inr (if sp_Files spec = [] \<and> sp_Patterns spec = []
                    then found @ filter (\<lambda>f. \<not> shouldExclude f (sp_Exclude spec)) names else found)))"

text \<open>The resolver of the parallel downloader: a sorted set of names, malformed patterns skipped.\<close>

definition Resolve :: "FileInfo list option \<Rightarrow> DownloadSpec \<Rightarrow> string list option" where
  "Resolve listing spec = map_option (\<lambda>allFiles.
     (let names = map fi_Name allFiles;
          chosen = sp_Files spec @ filter (\<lambda>f. list_ex (\<lambda>p. matches p f) (sp_Patterns spec)) names
            @ (if sp_Files spec = [] \<and> sp_Patterns spec = [] then names else [])
      in sort_key (map of_char :: string \<Rightarrow> nat list)
           (remdups (filter (\<lambda>f. \<not> list_ex (\<lambda>x. matches x f) (sp_Exclude spec)) chosen)))) listing"

end
