(* ===== verification/Progress.thy ===== *)
theory Progress
  imports Cache Download_Manager "HOL-Library.Signed_Division"
begin

text \<open>
  The progress tracker, \<open>internal/download/progress.go\<close>: bytes per file and in total, speed samples, and an estimate of the
  remaining time. Every operation holds the lock of the tracker, so operations are functions of its state. The clock
  readings of an operation are arguments, in the order it takes them; float arithmetic goes through a rounding.
\<close>

section \<open>State\<close>

record FileProgress =
  fp_Path :: string
  fp_Total :: int64
  fp_Completed :: int64
  fp_Phase :: "DownloadPhase option" \<comment> \<open>\<open>None\<close>: the empty phase of a new entry\<close>
  fp_Speed :: int64
  fp_StartTime :: go_time
  fp_CompletedAt :: "go_time option"

record ProgressTracker =
  pt_totalBytes :: int64
  pt_completedBytes :: int64
  pt_files :: "(string, FileProgress) go_map"
  pt_startTime :: go_time
  pt_lastUpdate :: int64
  pt_speeds :: "int64 list"

definition speedWindowSize :: nat where "speedWindowSize = 10"
definition speedSampleInterval :: duration where "speedSampleInterval = 500000000"

definition NewProgressTracker :: ProgressTracker where
  "NewProgressTracker = \<lparr>pt_totalBytes = 0, pt_completedBytes = 0, pt_files = [], pt_startTime = zero_time,
     pt_lastUpdate = 0, pt_speeds = []\<rparr>"

text \<open>\<open>UnixNano\<close> as it is stored, an \<open>int64\<close>.\<close>

definition tracker_Start :: "go_time \<Rightarrow> go_time \<Rightarrow> ProgressTracker \<Rightarrow> ProgressTracker" where
  "tracker_Start now1 now2 p = p\<lparr>pt_startTime := now1, pt_lastUpdate := word_of_int now2\<rparr>"

definition file_entry :: "go_time \<Rightarrow> string \<Rightarrow> ProgressTracker \<Rightarrow> FileProgress" where
  "file_entry now path p =
     (case map_of (pt_files p) path of
        Some fp \<Rightarrow> fp
      | None \<Rightarrow> \<lparr>fp_Path = path, fp_Total = 0, fp_Completed = 0, fp_Phase = None, fp_Speed = 0, fp_StartTime = now,
                 fp_CompletedAt = None\<rparr>)"

definition SetFileTotal :: "go_time \<Rightarrow> string \<Rightarrow> int64 \<Rightarrow> ProgressTracker \<Rightarrow> ProgressTracker" where
  "SetFileTotal now path bytes p =
     p\<lparr>pt_files := AList.update path ((file_entry now path p)\<lparr>fp_Total := bytes, fp_Phase := Some PhasePending\<rparr>) (pt_files p),
       pt_totalBytes := pt_totalBytes p + bytes\<rparr>"

section \<open>Speed\<close>

text \<open>\<open>Time.Sub\<close> saturates at the ends of \<open>int64\<close>.\<close>

definition time_Sub :: "go_time \<Rightarrow> go_time \<Rightarrow> duration" where
  "time_Sub a b = max (- (2 ^ 63)) (min (2 ^ 63 - 1) (a - b))"

text \<open>A duration in seconds, as a float, and the conversion of a float to \<open>int64\<close>, for values in its range.\<close>

definition Seconds :: "float_rounding \<Rightarrow> duration \<Rightarrow> rat" where
  "Seconds fl d = (let n = abs d; s = fl (of_int (n div 1000000000) + fl (of_int (n mod 1000000000) / 1000000000))
     in if d < 0 then - s else s)"

definition to_int64 :: "rat \<Rightarrow> int64" where
  "to_int64 r = word_of_int (if r < 0 then - \<lfloor>- r\<rfloor> else \<lfloor>r\<rfloor>)"

definition int64_float :: "float_rounding \<Rightarrow> int64 \<Rightarrow> rat" where
  "int64_float fl n = fl (of_int (sint n))"

definition recordSpeedSample :: "float_rounding \<Rightarrow> go_time \<Rightarrow> ProgressTracker \<Rightarrow> ProgressTracker" where
  "recordSpeedSample fl now p =
     (if time_Sub now (sint (pt_lastUpdate p)) < speedSampleInterval then p
      else
        (let p1 = p\<lparr>pt_lastUpdate := word_of_int now\<rparr>; elapsed = time_Sub now (pt_startTime p) in
         if elapsed \<le> 0 then p1
         else
           (let speed = to_int64 (fl (int64_float fl (pt_completedBytes p) / Seconds fl elapsed)); ss = pt_speeds p @ [speed]
            in p1\<lparr>pt_speeds := if length ss > speedWindowSize then drop 1 ss else ss\<rparr>)))"

definition tracker_UpdateFileProgress ::
  "float_rounding \<Rightarrow> go_time \<Rightarrow> go_time \<Rightarrow> string \<Rightarrow> int64 \<Rightarrow> ProgressTracker \<Rightarrow> ProgressTracker" where
  "tracker_UpdateFileProgress fl now1 now2 path completed p =
     (let fp = file_entry now1 path p; delta = completed - fp_Completed fp in
      recordSpeedSample fl now2
        (p\<lparr>pt_files := AList.update path (fp\<lparr>fp_Completed := completed, fp_Phase := Some PhaseDownloading\<rparr>) (pt_files p),
           pt_completedBytes := pt_completedBytes p + delta\<rparr>))"

definition CompleteFile :: "go_time \<Rightarrow> string \<Rightarrow> ProgressTracker \<Rightarrow> ProgressTracker" where
  "CompleteFile now path p =
     (case map_of (pt_files p) path of
        None \<Rightarrow> p
      | Some fp \<Rightarrow>
          (let short = sint (fp_Completed fp) < sint (fp_Total fp);
               fp1 = (if short then fp\<lparr>fp_Completed := fp_Total fp\<rparr> else fp);
               delta = (if short then fp_Total fp - fp_Completed fp else 0)
           in p\<lparr>pt_files := AList.update path (fp1\<lparr>fp_Phase := Some PhaseComplete, fp_CompletedAt := Some now\<rparr>) (pt_files p),
                pt_completedBytes := pt_completedBytes p + delta\<rparr>))"

definition FailFile :: "string \<Rightarrow> ProgressTracker \<Rightarrow> ProgressTracker" where
  "FailFile path p =
     (case map_of (pt_files p) path of
        None \<Rightarrow> p
      | Some fp \<Rightarrow> p\<lparr>pt_files := AList.update path (fp\<lparr>fp_Phase := Some PhaseFailed\<rparr>) (pt_files p)\<rparr>)"

text \<open>The average of the samples, or of the time since the start while there are none.\<close>

definition calculateSpeed :: "float_rounding \<Rightarrow> go_time \<Rightarrow> ProgressTracker \<Rightarrow> int64" where
  "calculateSpeed fl now p =
     (if pt_speeds p = [] then
        (let elapsed = time_Sub now (pt_startTime p) in
         if elapsed \<le> 0 then 0 else to_int64 (fl (int64_float fl (pt_completedBytes p) / Seconds fl elapsed)))
      else word_of_int (sint (fold (\<lambda>s acc. acc + s) (pt_speeds p) 0) sdiv int (length (pt_speeds p))))"

definition calculateETA :: "float_rounding \<Rightarrow> go_time \<Rightarrow> ProgressTracker \<Rightarrow> duration" where
  "calculateETA fl now p =
     (let speed = calculateSpeed fl now p; remaining = pt_totalBytes p - pt_completedBytes p in
      if sint speed \<le> 0 \<or> sint remaining \<le> 0 then 0
      else sint (to_int64 (fl (fl (int64_float fl remaining / int64_float fl speed) * 1000000000))))"

section \<open>Reading the tracker\<close>

definition percent_of :: "float_rounding \<Rightarrow> int64 \<Rightarrow> int64 \<Rightarrow> rat" where
  "percent_of fl part whole =
     (if sint whole > 0 then fl (fl (int64_float fl part / int64_float fl whole) * 100) else 0)"

definition file_snapshot :: "float_rounding \<Rightarrow> FileProgress \<Rightarrow> FileProgressSnapshot" where
  "file_snapshot fl fp = \<lparr>fs_Path = fp_Path fp, fs_Total = fp_Total fp, fs_Completed = fp_Completed fp,
     fs_Percentage = percent_of fl (fp_Completed fp) (fp_Total fp), fs_Phase = fp_Phase fp\<rparr>"

definition Snapshot :: "float_rounding \<Rightarrow> go_time \<Rightarrow> go_time \<Rightarrow> go_time \<Rightarrow> ProgressTracker \<Rightarrow> ProgressSnapshot" where
  "Snapshot fl now1 now2 now3 p =
     \<lparr>sn_BytesTotal = pt_totalBytes p, sn_BytesCompleted = pt_completedBytes p,
      sn_Percentage = percent_of fl (pt_completedBytes p) (pt_totalBytes p),
      sn_Speed = calculateSpeed fl now2 p, sn_ETA = calculateETA fl now3 p,
      sn_Files = map (\<lambda>(path, fp). file_snapshot fl fp) (pt_files p),
      sn_Elapsed = (if pt_startTime p = zero_time then 0 else time_Sub now1 (pt_startTime p))\<rparr>"

definition GetFileCount :: "ProgressTracker \<Rightarrow> nat" where "GetFileCount p = length (pt_files p)"

definition GetCompletedFileCount :: "ProgressTracker \<Rightarrow> nat" where
  "GetCompletedFileCount p = length (filter (\<lambda>(path, fp). fp_Phase fp = Some PhaseComplete) (pt_files p))"

definition tracker_Reset :: "ProgressTracker \<Rightarrow> ProgressTracker" where
  "tracker_Reset p = p\<lparr>pt_totalBytes := 0, pt_completedBytes := 0, pt_files := [], pt_startTime := zero_time,
     pt_lastUpdate := 0, pt_speeds := []\<rparr>"

section \<open>The numbers add up\<close>

datatype tracker_op = TrackerStart go_time go_time | TotalSet go_time string int64 | Updated go_time go_time string int64
  | Completed go_time string | Failed string | TrackerReset

fun run_op :: "float_rounding \<Rightarrow> tracker_op \<Rightarrow> ProgressTracker \<Rightarrow> ProgressTracker" where
  "run_op fl (TrackerStart now1 now2) p = tracker_Start now1 now2 p"
| "run_op fl (TotalSet now path n) p = SetFileTotal now path n p"
| "run_op fl (Updated now1 now2 path n) p = tracker_UpdateFileProgress fl now1 now2 path n p"
| "run_op fl (Completed now path) p = CompleteFile now path p"
| "run_op fl (Failed path) p = FailFile path p"
| "run_op fl TrackerReset p = tracker_Reset p"

definition adds_up :: "ProgressTracker \<Rightarrow> bool" where
  "adds_up p \<longleftrightarrow> keys_distinct (pt_files p) \<and> pt_completedBytes p = entry_sum fp_Completed (pt_files p)
     \<and> length (pt_speeds p) \<le> speedWindowSize"

lemma adds_up_sample [simp]: "adds_up p \<Longrightarrow> adds_up (recordSpeedSample fl now p)"
  by (auto simp: adds_up_def recordSpeedSample_def Let_def)

lemma adds_up_step: "adds_up p \<Longrightarrow> adds_up (run_op fl op p)"
proof (cases op)
  case (Updated now1 now2 path n)
  assume ok: "adds_up p"
  let ?fp = "file_entry now1 path p"
  let ?p1 = "p\<lparr>pt_files := AList.update path (?fp\<lparr>fp_Completed := n, fp_Phase := Some PhaseDownloading\<rparr>) (pt_files p),
       pt_completedBytes := pt_completedBytes p + (n - fp_Completed ?fp)\<rparr>"
  have "adds_up ?p1"
    using ok by (cases "map_of (pt_files p) path") (auto simp: adds_up_def file_entry_def sum_laws)
  then show ?thesis by (simp add: Updated tracker_UpdateFileProgress_def Let_def)
next
  case (TotalSet now path n)
  assume "adds_up p"
  then show ?thesis
    by (cases "map_of (pt_files p) path") (auto simp: adds_up_def TotalSet SetFileTotal_def file_entry_def sum_laws)
next
  case (Completed now path)
  assume "adds_up p"
  then show ?thesis
    by (auto simp: adds_up_def Completed CompleteFile_def Let_def sum_laws split: option.splits)
next
  case (Failed path)
  assume "adds_up p"
  then show ?thesis by (auto simp: adds_up_def Failed FailFile_def sum_laws split: option.splits)
qed (simp_all add: adds_up_def tracker_Start_def tracker_Reset_def)

text \<open>
  C37. After any sequence of operations of a tracker, the completed bytes it reports are the sum over its files, each file is there
  once, and at most ten samples are averaged.
\<close>

theorem progress_adds_up:
  "adds_up (fold (run_op fl) ops NewProgressTracker)"
proof -
  have "adds_up p \<Longrightarrow> adds_up (fold (run_op fl) ops p)" for p
    by (induction ops arbitrary: p) (simp_all add: adds_up_step)
  then show ?thesis by (simp add: adds_up_def NewProgressTracker_def)
qed

text \<open>The total is added to every time it is set, although the file keeps only the last one.\<close>

lemma total_set_twice:
  assumes "map_of (pt_files p) path = None"
  shows "pt_totalBytes (SetFileTotal t2 path b (SetFileTotal t1 path a p)) = pt_totalBytes p + a + b
    \<and> entry_sum fp_Total (pt_files (SetFileTotal t2 path b (SetFileTotal t1 path a p))) = entry_sum fp_Total (pt_files p) + b"
  using assms by (simp add: SetFileTotal_def file_entry_def map_laws sum_laws)

text \<open>Completing a file completes its bytes.\<close>

lemma completed_file:
  assumes "map_of (pt_files p) path = Some fp" and "sint (fp_Completed fp) \<le> sint (fp_Total fp)"
  shows "\<exists>fp'. map_of (pt_files (CompleteFile now path p)) path = Some fp' \<and> fp_Completed fp' = fp_Total fp
    \<and> fp_Phase fp' = Some PhaseComplete"
  using assms by (auto simp: CompleteFile_def Let_def map_laws intro: signed_word_eqI)

end
