(* ===== verification/Go_Time.thy ===== *)
theory Go_Time
  imports Budget
begin

text \<open>
  Durations as text: Go's \<open>time.ParseDuration\<close> and \<open>Duration.Round\<close>, which the controller reads cooldown
  periods with, and \<open>formatDuration\<close> of \<open>internal/controller/inferencemodel_controller.go\<close>, which prints the
  estimated time of a download. A \<open>time.Duration\<close> is an \<open>int\<close>, with the \<open>uint64\<close> wrap-around and the overflow
  checks of the library written out; the floating point product of a fraction goes through the rounding \<open>fl\<close>.

  Lemmas: printing and parsing agree.
\<close>

section \<open>Parsing\<close>

definition second_ns :: duration where "second_ns = 1000000000"

definition is_digit :: "char \<Rightarrow> bool" where
  "is_digit c \<longleftrightarrow> 48 \<le> (of_char c :: nat) \<and> (of_char c :: nat) \<le> 57"

definition digit_value :: "char \<Rightarrow> int" where
  "digit_value c = int (of_char c) - 48"

fun leading_int :: "int \<Rightarrow> string \<Rightarrow> int option" where
  "leading_int x [] = Some x"
| "leading_int x (c # cs) =
     (if x > 2 ^ 63 div 10 then None
      else let y = x * 10 + digit_value c in if y > 2 ^ 63 then None else leading_int y cs)"

text \<open>Digits after the point and ten to their number; digits that would overflow are skipped.\<close>

fun leading_fraction :: "int \<Rightarrow> int \<Rightarrow> bool \<Rightarrow> string \<Rightarrow> int \<times> int" where
  "leading_fraction x scale overflow [] = (x, scale)"
| "leading_fraction x scale overflow (c # cs) =
     (if overflow \<or> x > (2 ^ 63 - 1) div 10 then leading_fraction x scale True cs
      else let y = x * 10 + digit_value c in
        if y > 2 ^ 63 then leading_fraction x scale True cs else leading_fraction y (scale * 10) False cs)"

definition unit_ns :: "string \<Rightarrow> int option" where
  "unit_ns u = map_of
     [(''ns'', 1), (''us'', 1000), ([CHR 0xC2, CHR 0xB5, CHR ''s''], 1000), ([CHR 0xCE, CHR 0xBC, CHR ''s''], 1000),
      (''ms'', 1000000), (''s'', 1000000000), (''m'', 60000000000), (''h'', 3600000000000)] u"

definition in_unit :: "char \<Rightarrow> bool" where
  "in_unit c \<longleftrightarrow> c \<noteq> CHR ''.'' \<and> \<not> is_digit c"

text \<open>The fraction, if a point follows: its digits, their scale, whether there were any, and the rest.\<close>

definition fraction_part :: "string \<Rightarrow> int \<times> int \<times> bool \<times> string" where
  "fraction_part s =
     (case s of
        [] \<Rightarrow> (0, 1, False, s)
      | c # cs \<Rightarrow>
          if c = CHR ''.'' then
            (let (f, scale) = leading_fraction 0 1 False (takeWhile is_digit cs)
             in (f, scale, takeWhile is_digit cs \<noteq> [], dropWhile is_digit cs))
          else (0, 1, False, s))"

lemma fraction_part_length:
  "fraction_part s = (f, scale, post, r) \<Longrightarrow> length r \<le> length s"
  by (auto simp: fraction_part_def length_dropWhile_le le_SucI split: list.splits if_splits prod.splits)

function duration_loop :: "rounding \<Rightarrow> int \<Rightarrow> string \<Rightarrow> int option" where
  "duration_loop fl d s =
     (if s = [] then Some d
      else if \<not> (hd s = CHR ''.'' \<or> is_digit (hd s)) then None
      else case leading_int 0 (takeWhile is_digit s) of
        None \<Rightarrow> None
      | Some v \<Rightarrow>
          (case fraction_part (dropWhile is_digit s) of
             (f, scale, post, s2) \<Rightarrow>
               (if \<not> is_digit (hd s) \<and> \<not> post then None
                else if takeWhile in_unit s2 = [] then None
                else case unit_ns (takeWhile in_unit s2) of
                  None \<Rightarrow> None
                | Some unit \<Rightarrow>
                    (if v > 2 ^ 63 div unit then None
                     else
                       (let w = v * unit
                             + (if f > 0 then trunc (fl (fl (of_int f) * fl (fl (of_int unit) / fl (of_int scale)))) else 0);
                            d' = (d + w) mod 2 ^ 64
                        in if f > 0 \<and> w > 2 ^ 63 then None
                           else if d' > 2 ^ 63 then None
                           else duration_loop fl d' (dropWhile in_unit s2))))))"
  by pat_completeness auto
termination
proof (relation "measure (\<lambda>(fl, d, s). length s)")
  fix s s2 :: string and f scale :: int and post :: bool and x y z :: "int \<times> int \<times> bool \<times> string"
  fix fl d d' v unit w p q
  assume "(f, p) = fraction_part (dropWhile is_digit s)" and "(scale, q) = p" and "(post, s2) = q"
    and "takeWhile in_unit s2 \<noteq> []"
  then have "length s2 \<le> length s"
    using fraction_part_length [of "dropWhile is_digit s" f scale post s2] length_dropWhile_le [of is_digit s] by auto
  moreover have "length (dropWhile in_unit s2) < length s2"
    using \<open>takeWhile in_unit s2 \<noteq> []\<close> by (cases s2) (auto simp: length_dropWhile_le less_Suc_eq_le split: if_splits)
  ultimately have "length (dropWhile in_unit s2) < length s" by simp
  then show "((fl, d', dropWhile in_unit s2), (fl, d, s)) \<in> measure (\<lambda>(fl, d, s). length s)" by simp
qed simp

declare duration_loop.simps [simp del]

definition ParseDuration :: "rounding \<Rightarrow> string \<Rightarrow> duration option" where
  "ParseDuration fl text =
     (let neg = (text \<noteq> [] \<and> hd text = CHR ''-'');
          s = (if text \<noteq> [] \<and> (hd text = CHR ''-'' \<or> hd text = CHR ''+'') then tl text else text)
      in if s = ''0'' then Some 0
         else if s = [] then None
         else case duration_loop fl 0 s of
           None \<Rightarrow> None
         | Some d \<Rightarrow> if neg then Some (- d) else if d > 2 ^ 63 - 1 then None else Some d)"

section \<open>Printing\<close>

text \<open>\<open>d.Round(time.Second)\<close> for a positive \<open>d\<close>: half a second rounds up, at the limit of \<open>int64\<close>.\<close>

definition round_second :: "duration \<Rightarrow> duration" where
  "round_second d =
     (let r = d mod second_ns
      in if r + r < second_ns then d - r else min (d + second_ns - r) (2 ^ 63 - 1))"

definition formatDuration :: "duration \<Rightarrow> string" where
  "formatDuration d =
     (if d \<le> 0 then ''''
      else
        (let d = round_second d;
             h = d div (3600 * second_ns); d = d - h * (3600 * second_ns);
             m = d div (60 * second_ns); d = d - m * (60 * second_ns);
             s = d div second_ns
         in if h > 0 then show_int h @ ''h'' @ show_int m @ ''m'' @ show_int s @ ''s''
            else if m > 0 then show_int m @ ''m'' @ show_int s @ ''s''
            else show_int s @ ''s''))"

section \<open>Agreement\<close>

lemma show_nat_digits: "list_all is_digit (show_nat n) \<and> show_nat n \<noteq> []"
proof (induction n rule: show_nat.induct)
  case (1 n)
  have "is_digit (char_of (48 + m))" if "m < 10" for m :: nat
    using that by (simp add: is_digit_def)
  with 1 show ?case by (subst (1 2) show_nat.simps) auto
qed

lemma leading_int_append:
  "leading_int x (cs @ ds) = Option.bind (leading_int x cs) (\<lambda>y. leading_int y ds)"
  by (induction cs arbitrary: x) (auto simp: Let_def)

lemma leading_int_show_nat: "int n \<le> 2 ^ 63 \<Longrightarrow> leading_int 0 (show_nat n) = Some (int n)"
proof (induction n rule: show_nat.induct)
  case (1 n)
  have digit: "digit_value (char_of (48 + m)) = int m" if "m < 10" for m :: nat
    using that by (simp add: digit_value_def)
  show ?case
  proof (cases "n < 10")
    case True
    then show ?thesis by (subst show_nat.simps) (simp add: digit)
  next
    case False
    have small: "int (n div 10) \<le> 2 ^ 63 div 10" using 1(2) by (simp add: zdiv_int zdiv_mono1)
    then have "int (n div 10) \<le> 2 ^ 63" by simp
    with 1 False have "leading_int 0 (show_nat (n div 10)) = Some (int (n div 10))" by blast
    moreover have "int (n div 10) * 10 + int (n mod 10) = int n" by presburger
    ultimately show ?thesis
      using False small 1(2) by (subst show_nat.simps) (simp add: leading_int_append digit Let_def)
  qed
qed

text \<open>One step of the parser over a number and a unit without a fraction.\<close>

lemma duration_loop_step:
  assumes "unit_ns u = Some unit" and "list_all in_unit u" and "u \<noteq> []" and "0 < unit"
    and "int n \<le> 2 ^ 63 div unit" and "rest = [] \<or> \<not> in_unit (hd rest)"
    and "0 \<le> d" and "d + int n * unit \<le> 2 ^ 63"
  shows "duration_loop fl d (show_nat n @ u @ rest) = duration_loop fl (d + int n * unit) rest"
proof -
  have dig: "list_all is_digit (show_nat n)" and ne: "show_nat n \<noteq> []"
    using show_nat_digits by auto
  have hd_u: "\<not> is_digit (hd u)" "hd u \<noteq> CHR ''.''" using assms(2,3) by (cases u; simp add: in_unit_def)+
  have take_n: "takeWhile is_digit (show_nat n @ u @ rest) = show_nat n"
    and drop_n: "dropWhile is_digit (show_nat n @ u @ rest) = u @ rest"
    using dig hd_u(1) assms(3) by (cases u; simp add: list_all_iff takeWhile_append dropWhile_append)+
  have take_u: "takeWhile in_unit (u @ rest) = u" and drop_u: "dropWhile in_unit (u @ rest) = rest"
    using assms(2,6) by (cases rest; auto simp: list_all_iff takeWhile_append dropWhile_append)+
  have frac: "fraction_part (u @ rest) = (0, 1, False, u @ rest)"
    using hd_u(2) assms(3) by (cases u) (auto simp: fraction_part_def)
  have "2 ^ 63 div unit \<le> (2 ^ 63 :: int)" using assms(4) using zdiv_mono2 [of "2 ^ 63" 1 unit] by simp
  then have "leading_int 0 (show_nat n) = Some (int n)" using assms(5) by (simp add: leading_int_show_nat)
  moreover have "hd (show_nat n @ u @ rest) = hd (show_nat n)" and "is_digit (hd (show_nat n))"
    using dig ne by (auto simp: list_all_iff)
  moreover have "(d + int n * unit) mod 2 ^ 64 = d + int n * unit"
    using assms(4,7,8) by simp
  ultimately show ?thesis
    using assms ne by (subst duration_loop.simps) (simp add: take_n drop_n frac take_u drop_u Let_def)
qed

lemma duration_loop_end: "duration_loop fl d [] = Some d"
  by (subst duration_loop.simps) simp

lemma units:
  "unit_ns ''h'' = Some 3600000000000" "unit_ns ''m'' = Some 60000000000" "unit_ns ''s'' = Some 1000000000"
  "list_all in_unit ''h''" "list_all in_unit ''m''" "list_all in_unit ''s''"
  by (simp_all add: unit_ns_def in_unit_def is_digit_def)

lemma show_nat_not_unit: "\<not> in_unit (hd (show_nat n @ xs))"
  using show_nat_digits [of n] by (cases "show_nat n") (auto simp: in_unit_def)

lemma parse_seconds:
  "0 \<le> d \<Longrightarrow> d + int s * 1000000000 \<le> 2 ^ 63 \<Longrightarrow>
   duration_loop fl d (show_nat s @ ''s'') = Some (d + int s * 1000000000)"
  using duration_loop_step [OF units(3,6), of s "[]" d fl] by (simp add: duration_loop_end)

lemma parse_minutes:
  "0 \<le> d \<Longrightarrow> d + int m * 60000000000 + int s * 1000000000 \<le> 2 ^ 63 \<Longrightarrow>
   duration_loop fl d (show_nat m @ ''m'' @ show_nat s @ ''s'') = Some (d + int m * 60000000000 + int s * 1000000000)"
  using duration_loop_step [OF units(2,5), of m "show_nat s @ ''s''" d fl]
  by (simp add: show_nat_not_unit parse_seconds)

lemma parse_hours:
  "int h * 3600000000000 + int m * 60000000000 + int s * 1000000000 \<le> 2 ^ 63 \<Longrightarrow>
   duration_loop fl 0 (show_nat h @ ''h'' @ show_nat m @ ''m'' @ show_nat s @ ''s'')
     = Some (int h * 3600000000000 + int m * 60000000000 + int s * 1000000000)"
  using duration_loop_step [OF units(1,4), of h "show_nat m @ ''m'' @ show_nat s @ ''s''" 0 fl]
    parse_minutes [of "int h * 3600000000000" m s fl]
  by (simp add: show_nat_not_unit)

lemma ParseDuration_digits:
  assumes "duration_loop fl 0 (show_nat n @ c # cs) = Some d" and "d < 2 ^ 63"
  shows "ParseDuration fl (show_nat n @ c # cs) = Some d"
proof -
  obtain x xs where n: "show_nat n = x # xs" and "is_digit x"
    using show_nat_digits [of n] by (cases "show_nat n") auto
  then have "x \<noteq> CHR ''-''" and "x \<noteq> CHR ''+''" by (auto simp: is_digit_def)
  with assms n show ?thesis by (auto simp: ParseDuration_def Let_def)
qed

lemma round_second_facts:
  assumes "0 < d" and "d \<le> 2 ^ 63 - second_ns"
  shows "0 \<le> round_second d" and "round_second d < 2 ^ 63" and "round_second d mod second_ns = 0"
proof -
  define q r where "q = d div second_ns" and "r = d mod second_ns"
  have d: "d = q * second_ns + r" by (simp add: q_def r_def)
  have r: "0 \<le> r" "r < second_ns" by (simp_all add: r_def second_ns_def)
  have q: "0 \<le> q" using assms(1) by (simp add: q_def second_ns_def pos_imp_zdiv_nonneg_iff)
  have "round_second d = q * second_ns \<or> (0 < r \<and> round_second d = (q + 1) * second_ns)"
  proof (cases "r + r < second_ns")
    case True
    then show ?thesis by (simp add: round_second_def Let_def flip: r_def) (simp add: d)
  next
    case False
    then have "0 < r" and "d + second_ns - r \<le> 2 ^ 63 - 1" using r assms(2) by (simp_all add: second_ns_def)
    with False show ?thesis
      by (simp add: round_second_def Let_def flip: r_def) (simp add: d algebra_simps)
  qed
  then show "0 \<le> round_second d" and "round_second d < 2 ^ 63" and "round_second d mod second_ns = 0"
    using q r assms(2) by (auto simp: d second_ns_def algebra_simps)
qed

text \<open>
  Printed durations read back: for every positive duration (up to a second below the largest)
  \<open>ParseDuration\<close> of what \<open>formatDuration\<close> prints is the duration rounded to the second.
\<close>

theorem formatted_duration_parses:
  assumes "0 < d" and "d \<le> 2 ^ 63 - second_ns"
  shows "ParseDuration fl (formatDuration d) = Some (round_second d)"
proof -
  let ?D = "round_second d"
  define h where "h = nat (?D div 3600000000000)"
  define m where "m = nat ((?D - int h * 3600000000000) div 60000000000)"
  define s where "s = nat ((?D - int h * 3600000000000 - int m * 60000000000) div 1000000000)"
  note D = round_second_facts [OF assms]
  have h: "int h = ?D div 3600000000000" using D(1) by (simp add: h_def)
  have m: "int m = (?D - int h * 3600000000000) div 60000000000"
    unfolding h m_def by (simp add: minus_div_mult_eq_mod)
  have s: "int s = (?D - int h * 3600000000000 - int m * 60000000000) div 1000000000"
    unfolding m h s_def by (simp add: minus_div_mult_eq_mod)
  have sum: "int h * 3600000000000 + int m * 60000000000 + int s * 1000000000 = ?D"
  proof -
    obtain k where k: "?D = k * 1000000000" using D(3) unfolding second_ns_def by (metis mod_0_imp_dvd dvd_def mult.commute)
    have "?D - int h * 3600000000000 - int m * 60000000000 = (k - int h * 3600 - int m * 60) * 1000000000"
      unfolding k by simp
    then have "int s = k - int h * 3600 - int m * 60" unfolding s by simp
    then show ?thesis unfolding k by simp
  qed
  have printed: "formatDuration d = (if h > 0 then show_nat h @ ''h'' @ show_nat m @ ''m'' @ show_nat s @ ''s''
      else if m > 0 then show_nat m @ ''m'' @ show_nat s @ ''s'' else show_nat s @ ''s'')"
  proof -
    have "formatDuration d = (if int h > 0 then show_int (int h) @ ''h'' @ show_int (int m) @ ''m'' @ show_int (int s) @ ''s''
        else if int m > 0 then show_int (int m) @ ''m'' @ show_int (int s) @ ''s'' else show_int (int s) @ ''s'')"
      unfolding formatDuration_def Let_def s m h second_ns_def using assms(1) by simp
    then show ?thesis by (simp add: show_int_def)
  qed
  consider "h > 0" | "h = 0" "m > 0" | "h = 0" "m = 0" by blast
  then show ?thesis
  proof cases
    case 1
    with printed parse_hours [of h m s fl] sum D(2) show ?thesis by (simp add: ParseDuration_digits)
  next
    case 2
    with printed parse_minutes [of 0 m s fl] sum D(2) show ?thesis by (simp add: ParseDuration_digits)
  next
    case 3
    with printed parse_seconds [of 0 s fl] sum D(2) show ?thesis by (simp add: ParseDuration_digits)
  qed
qed

lemma formatted_duration_parses_witness:
  "ParseDuration (\<lambda>r. r) (formatDuration 90500000000) = Some 91000000000"
  using formatted_duration_parses [of 90500000000 "\<lambda>r. r"]
  by (simp add: second_ns_def round_second_def Let_def)

end
