(* ===== verification/Metrics.thy ===== *)
theory Metrics
  imports Progress Budget Go_Time
begin

text \<open>
  The metrics collector, \<open>internal/metrics/collector.go\<close>. The Prometheus library is not part of the program: an operation
  appends the calls it makes on the metric vectors to a list, in order. What a series then shows is read off that list by
  \<open>series_at\<close>, which states what the documentation of the library says of \<open>Set\<close>, \<open>Inc\<close>, \<open>Observe\<close> and \<open>Delete\<close>.
\<close>

section \<open>State\<close>

datatype metric = memoryDeclared | memoryObservedPeak | memoryUtilization | modelReplicas | modelRequestsTotal
  | modelRequestDuration | admissionRequestsTotal | admissionRejectedTotal | nodeMemoryTotal | nodeMemoryAvailable
  | nodeMemoryUsed | modelReady | budgetTotal | budgetAllocated | budgetAvailable

datatype metric_call = SetGauge metric "string list" rat | IncCounter metric "string list"
  | ObserveValue metric "string list" rat | DeleteSeries metric "string list"

datatype AdmissionResult = AdmissionAccepted | AdmissionRejected
datatype AdmissionReason = ReasonInsufficientMemory | ReasonBudgetExceeded | ReasonNodeCapacity
datatype RequestStatus = StatusSuccess | StatusError

fun result_text :: "AdmissionResult \<Rightarrow> string" where
  "result_text AdmissionAccepted = ''accepted''"
| "result_text AdmissionRejected = ''rejected''"

fun reason_text :: "AdmissionReason \<Rightarrow> string" where
  "reason_text ReasonInsufficientMemory = ''insufficient_memory''"
| "reason_text ReasonBudgetExceeded = ''budget_exceeded''"
| "reason_text ReasonNodeCapacity = ''node_capacity''"

fun status_text :: "RequestStatus \<Rightarrow> string" where
  "status_text StatusSuccess = ''success''"
| "status_text StatusError = ''error''"

record modelUtilization =
  mu_name :: string
  mu_namespace :: string
  mu_declaredBytes :: int64
  mu_observedPeakBytes :: int64
  mu_utilization :: rat

record RecommendationLogger =
  rl_models :: "(string, modelUtilization) go_map"
  rl_interval :: duration
  rl_stopped :: bool

record Collector =
  co_calls :: "metric_call list"
  co_logger :: RecommendationLogger

section \<open>The recommendation logger\<close>

definition NewRecommendationLogger :: "duration \<Rightarrow> RecommendationLogger" where
  "NewRecommendationLogger interval =
     \<lparr>rl_models = [], rl_interval = (if interval = 0 then 5 * 60 * 1000000000 else interval), rl_stopped = False\<rparr>"

definition UpdateModel :: "string \<Rightarrow> string \<Rightarrow> int64 \<Rightarrow> int64 \<Rightarrow> rat \<Rightarrow> RecommendationLogger \<Rightarrow> RecommendationLogger" where
  "UpdateModel name namespace declaredBytes observedPeakBytes utilization rl =
     rl\<lparr>rl_models := AList.update (name @ ''/'' @ namespace)
       \<lparr>mu_name = name, mu_namespace = namespace, mu_declaredBytes = declaredBytes,
        mu_observedPeakBytes = observedPeakBytes, mu_utilization = utilization\<rparr> (rl_models rl)\<rparr>"

definition RemoveModel :: "string \<Rightarrow> string \<Rightarrow> RecommendationLogger \<Rightarrow> RecommendationLogger" where
  "RemoveModel name namespace rl = rl\<lparr>rl_models := AList.delete (name @ ''/'' @ namespace) (rl_models rl)\<rparr>"

text \<open>\<open>%d\<close> of an \<open>int64\<close> after Go's division, which truncates; the sizes here are positive.\<close>

definition formatBytes :: "int64 \<Rightarrow> string" where
  "formatBytes w =
     (let n = sint w; KB = 1024; MB = KB * 1024; GB = MB * 1024; TB = GB * 1024 in
      if n \<ge> TB then show_int (n div TB) @ ''Ti''
      else if n \<ge> GB then show_int (n div GB) @ ''Gi''
      else if n \<ge> MB then show_int (n div MB) @ ''Mi''
      else if n \<ge> KB then show_int (n div KB) @ ''Ki''
      else show_int n)"

record hint =
  hint_model :: string
  hint_namespace :: string
  hint_declared :: string
  hint_observed_peak :: string
  hint_utilization_percent :: int
  hint_overprovisioned_percent :: int

text \<open>What one turn logs, in the order of the map.\<close>

definition logRecommendations :: "float_rounding \<Rightarrow> RecommendationLogger \<Rightarrow> hint list" where
  "logRecommendations fl rl =
     map (\<lambda>(k, m). \<lparr>hint_model = mu_name m, hint_namespace = mu_namespace m, hint_declared = formatBytes (mu_declaredBytes m),
            hint_observed_peak = formatBytes (mu_observedPeakBytes m),
            hint_utilization_percent = sint (to_int64 (fl (mu_utilization m * 100))),
            hint_overprovisioned_percent = sint (to_int64 (fl (fl (1 - mu_utilization m) * 100)))\<rparr>)
       (filter (\<lambda>(k, m). mu_utilization m < fl (9 / 10) \<and> mu_utilization m > 0) (rl_models rl))"

text \<open>The loop of \<open>Start\<close> over what its select sees: \<open>True\<close> for a tick, \<open>False\<close> for the end of the context or the stop.\<close>

fun logger_Start :: "float_rounding \<Rightarrow> (bool \<times> RecommendationLogger) list \<Rightarrow> hint list" where
  "logger_Start fl [] = []"
| "logger_Start fl ((False, rl) # events) = []"
| "logger_Start fl ((True, rl) # events) = logRecommendations fl rl @ logger_Start fl events"

section \<open>Memory texts\<close>

text \<open>\<open>fmt.Sscanf(s, "%d<unit>", &n)\<close>: an optional sign, digits and the unit; what follows is not looked at.\<close>

definition scan_unit :: "string \<Rightarrow> string \<Rightarrow> int64 option" where
  "scan_unit unit s =
     (let s1 = dropWhile (\<lambda>c. c = CHR '' '') s;
          neg = HasPrefix s1 ''-''; s2 = (if neg \<or> HasPrefix s1 ''+'' then tl s1 else s1);
          ds = takeWhile is_digit s2; n = foldl (\<lambda>a c. 10 * a + digit_value c) 0 ds; v = (if neg then - n else n)
      in if ds = '''' \<or> v < - (2 ^ 63) \<or> v \<ge> 2 ^ 63 \<or> \<not> HasPrefix (drop (length ds) s2) unit then None
         else Some (word_of_int v))"

definition HasSuffix :: "string \<Rightarrow> string \<Rightarrow> bool" where
  "HasSuffix s suf = (length suf \<le> length s \<and> drop (length s - length suf) s = suf)"

definition parseMemoryToBytes :: "'q quantity_api \<Rightarrow> string \<Rightarrow> int64" where
  "parseMemoryToBytes Q memory =
     (let scaled = (\<lambda>unit factor. case scan_unit unit memory of None \<Rightarrow> 0 | Some n \<Rightarrow> n * factor) in
      if memory = '''' then 0
      else case ParseQuantity Q memory of
        Some q \<Rightarrow> Value Q q
      | None \<Rightarrow>
          if HasSuffix memory ''TiB'' then scaled ''TiB'' (1024 * 1024 * 1024 * 1024)
          else if HasSuffix memory ''Ti'' then scaled ''Ti'' (1024 * 1024 * 1024 * 1024)
          else if HasSuffix memory ''GiB'' then scaled ''GiB'' (1024 * 1024 * 1024)
          else if HasSuffix memory ''Gi'' then scaled ''Gi'' (1024 * 1024 * 1024)
          else if HasSuffix memory ''MiB'' then scaled ''MiB'' (1024 * 1024)
          else if HasSuffix memory ''Mi'' then scaled ''Mi'' (1024 * 1024)
          else if HasSuffix memory ''KiB'' then scaled ''KiB'' 1024
          else if HasSuffix memory ''Ki'' then scaled ''Ki'' 1024
          else 0)"

section \<open>The collector\<close>

definition NewCollector :: Collector where
  "NewCollector = \<lparr>co_calls = [], co_logger = NewRecommendationLogger (5 * 60 * 1000000000)\<rparr>"

text \<open>The metric vectors as they are declared and registered: name and label names.\<close>

definition declared :: "(metric \<times> string \<times> string list) list" where
  "declared =
     [(memoryDeclared, ''inference_model_memory_declared_bytes'', [''model'', ''namespace'']),
      (memoryObservedPeak, ''inference_model_memory_observed_peak_bytes'', [''model'', ''namespace'']),
      (memoryUtilization, ''inference_model_memory_utilization_ratio'', [''model'', ''namespace'']),
      (modelReplicas, ''inference_model_replicas'', [''model'', ''namespace'']),
      (modelRequestsTotal, ''inference_model_requests_total'', [''model'', ''namespace'', ''status'']),
      (modelRequestDuration, ''inference_model_request_duration_seconds'', [''model'', ''namespace'']),
      (admissionRequestsTotal, ''inference_admission_requests_total'', [''model'', ''namespace'', ''result'']),
      (admissionRejectedTotal, ''inference_admission_rejected_total'', [''model'', ''namespace'', ''reason'']),
      (nodeMemoryTotal, ''inference_node_memory_total_bytes'', [''node'']),
      (nodeMemoryAvailable, ''inference_node_memory_available_bytes'', [''node'']),
      (nodeMemoryUsed, ''inference_node_memory_used_bytes'', [''node'']),
      (modelReady, ''inference_model_ready'', [''model'', ''namespace'']),
      (budgetTotal, ''inference_budget_total_bytes'', [''node_pool'']),
      (budgetAllocated, ''inference_budget_allocated_bytes'', [''node_pool'']),
      (budgetAvailable, ''inference_budget_available_bytes'', [''node_pool''])]"

definition label_names :: "metric \<Rightarrow> string list" where
  "label_names m = (case map_of declared m of None \<Rightarrow> [] | Some (name, ls) \<Rightarrow> ls)"

definition emit :: "metric_call list \<Rightarrow> Collector \<Rightarrow> Collector" where
  "emit calls c = c\<lparr>co_calls := co_calls c @ calls\<rparr>"

definition with_logger :: "(RecommendationLogger \<Rightarrow> RecommendationLogger) \<Rightarrow> Collector \<Rightarrow> Collector" where
  "with_logger f c = c\<lparr>co_logger := f (co_logger c)\<rparr>"

definition UpdateModelMetrics :: "'q quantity_api \<Rightarrow> float_rounding \<Rightarrow> InferenceModel \<Rightarrow> Collector \<Rightarrow> Collector" where
  "UpdateModelMetrics Q fl model c =
     (let labels = [im_Name model, im_Namespace model];
          declaredBytes = parseMemoryToBytes Q (res_Memory (Resources (Spec model)));
          c1 = emit [SetGauge memoryDeclared labels (int64_float fl declaredBytes),
                     SetGauge modelReady labels (if Ready (Status model) then 1 else 0),
                     SetGauge modelReplicas labels (of_int (sint (Replicas (Status model))))] c in
      if ObservedPeakMemory (Status model) \<noteq> '''' then
        (let observedBytes = parseMemoryToBytes Q (ObservedPeakMemory (Status model));
             c2 = emit [SetGauge memoryObservedPeak labels (int64_float fl observedBytes)] c1 in
         if sint declaredBytes > 0 then
           (let utilization = fl (int64_float fl observedBytes / int64_float fl declaredBytes) in
            with_logger (UpdateModel (im_Name model) (im_Namespace model) declaredBytes observedBytes utilization)
              (emit [SetGauge memoryUtilization labels utilization] c2))
         else c2)
      else with_logger (RemoveModel (im_Name model) (im_Namespace model)) c1)"

definition DeleteModelMetrics :: "string \<Rightarrow> string \<Rightarrow> Collector \<Rightarrow> Collector" where
  "DeleteModelMetrics name namespace c =
     (let labels = [name, namespace] in
      with_logger (RemoveModel name namespace)
        (emit [DeleteSeries memoryDeclared labels, DeleteSeries memoryObservedPeak labels, DeleteSeries memoryUtilization labels,
               DeleteSeries modelReady labels, DeleteSeries modelReplicas labels,
               DeleteSeries modelRequestsTotal [name, namespace, status_text StatusSuccess],
               DeleteSeries modelRequestsTotal [name, namespace, status_text StatusError],
               DeleteSeries modelRequestDuration labels,
               DeleteSeries admissionRequestsTotal [name, namespace, result_text AdmissionAccepted],
               DeleteSeries admissionRequestsTotal [name, namespace, result_text AdmissionRejected]] c))"

definition collector_RecordRequest ::
  "float_rounding \<Rightarrow> string \<Rightarrow> string \<Rightarrow> RequestStatus \<Rightarrow> duration \<Rightarrow> Collector \<Rightarrow> Collector" where
  "collector_RecordRequest fl name namespace status d =
     emit [IncCounter modelRequestsTotal [name, namespace, status_text status],
           ObserveValue modelRequestDuration [name, namespace] (Seconds fl d)]"

definition RecordAdmission :: "string \<Rightarrow> string \<Rightarrow> AdmissionResult \<Rightarrow> Collector \<Rightarrow> Collector" where
  "RecordAdmission name namespace result = emit [IncCounter admissionRequestsTotal [name, namespace, result_text result]]"

definition RecordAdmissionRejection :: "string \<Rightarrow> string \<Rightarrow> AdmissionReason \<Rightarrow> Collector \<Rightarrow> Collector" where
  "RecordAdmissionRejection name namespace reason =
     emit [IncCounter admissionRejectedTotal [name, namespace, reason_text reason]]"

definition UpdateNodeMemoryMetrics :: "float_rounding \<Rightarrow> string \<Rightarrow> int64 \<Rightarrow> int64 \<Rightarrow> int64 \<Rightarrow> Collector \<Rightarrow> Collector" where
  "UpdateNodeMemoryMetrics fl node totalBytes used available =
     emit [SetGauge nodeMemoryTotal [node] (int64_float fl totalBytes), SetGauge nodeMemoryUsed [node] (int64_float fl used),
           SetGauge nodeMemoryAvailable [node] (int64_float fl available)]"

definition UpdateBudgetMetrics :: "float_rounding \<Rightarrow> string \<Rightarrow> int64 \<Rightarrow> int64 \<Rightarrow> int64 \<Rightarrow> Collector \<Rightarrow> Collector" where
  "UpdateBudgetMetrics fl nodePool totalBytes allocated available c =
     UpdateNodeMemoryMetrics fl nodePool totalBytes allocated available
       (emit [SetGauge budgetTotal [nodePool] (int64_float fl totalBytes), SetGauge budgetAllocated [nodePool] (int64_float fl allocated),
              SetGauge budgetAvailable [nodePool] (int64_float fl available)] c)"

section \<open>What a scrape shows\<close>

text \<open>A gauge or a counter shows one number, a histogram what it observed; a series that was deleted is not shown.\<close>

datatype sample = Number rat | Observations "rat list"

definition apply_call :: "metric_call \<Rightarrow> (metric \<times> string list \<Rightarrow> sample option) \<Rightarrow> metric \<times> string list \<Rightarrow> sample option" where
  "apply_call call shown =
     (case call of
        SetGauge m ls v \<Rightarrow> shown((m, ls) \<mapsto> Number v)
      | IncCounter m ls \<Rightarrow> shown((m, ls) \<mapsto> Number (case shown (m, ls) of Some (Number v) \<Rightarrow> v + 1 | _ \<Rightarrow> 1))
      | ObserveValue m ls v \<Rightarrow> shown((m, ls) \<mapsto> Observations (case shown (m, ls) of Some (Observations vs) \<Rightarrow> vs @ [v] | _ \<Rightarrow> [v]))
      | DeleteSeries m ls \<Rightarrow> shown((m, ls) := None))"

definition series_at :: "Collector \<Rightarrow> metric \<Rightarrow> string list \<Rightarrow> sample option" where
  "series_at c m ls = fold apply_call (co_calls c) Map.empty (m, ls)"

section \<open>Series of deleted models\<close>

datatype 'q collector_op = ModelUpdated "'q quantity_api" InferenceModel | ModelDeleted string string
  | RequestDone string string RequestStatus duration | Admitted string string AdmissionResult
  | Rejected string string AdmissionReason | NodeUpdated string int64 int64 int64 | BudgetUpdated string int64 int64 int64

fun run_collector :: "float_rounding \<Rightarrow> 'q collector_op \<Rightarrow> Collector \<Rightarrow> Collector" where
  "run_collector fl (ModelUpdated Q m) c = UpdateModelMetrics Q fl m c"
| "run_collector fl (ModelDeleted n ns) c = DeleteModelMetrics n ns c"
| "run_collector fl (RequestDone n ns st d) c = collector_RecordRequest fl n ns st d c"
| "run_collector fl (Admitted n ns r) c = RecordAdmission n ns r c"
| "run_collector fl (Rejected n ns r) c = RecordAdmissionRejection n ns r c"
| "run_collector fl (NodeUpdated n t u a) c = UpdateNodeMemoryMetrics fl n t u a c"
| "run_collector fl (BudgetUpdated n t al av) c = UpdateBudgetMetrics fl n t al av c"

text \<open>The labels with which the code uses a metric.\<close>

fun labels_ok :: "metric \<Rightarrow> string list \<Rightarrow> bool" where
  "labels_ok modelRequestsTotal ls = (\<exists>n ns st. ls = [n, ns, status_text st])"
| "labels_ok admissionRequestsTotal ls = (\<exists>n ns r. ls = [n, ns, result_text r])"
| "labels_ok admissionRejectedTotal ls = (\<exists>n ns r. ls = [n, ns, reason_text r])"
| "labels_ok nodeMemoryTotal ls = (length ls = 1)"
| "labels_ok nodeMemoryAvailable ls = (length ls = 1)"
| "labels_ok nodeMemoryUsed ls = (length ls = 1)"
| "labels_ok budgetTotal ls = (length ls = 1)"
| "labels_ok budgetAllocated ls = (length ls = 1)"
| "labels_ok budgetAvailable ls = (length ls = 1)"
| "labels_ok m ls = (length ls = 2)"

definition call_ok :: "metric_call \<Rightarrow> bool" where
  "call_ok call = (case call of SetGauge m ls v \<Rightarrow> labels_ok m ls | IncCounter m ls \<Rightarrow> labels_ok m ls
     | ObserveValue m ls v \<Rightarrow> labels_ok m ls | DeleteSeries m ls \<Rightarrow> True)"

definition calls_ok :: "Collector \<Rightarrow> bool" where "calls_ok c \<longleftrightarrow> list_all call_ok (co_calls c)"

lemma calls_ok_simps [simp]:
  "calls_ok (emit calls c) \<longleftrightarrow> calls_ok c \<and> list_all call_ok calls" "calls_ok (with_logger f c) = calls_ok c"
  by (simp_all add: calls_ok_def emit_def with_logger_def)

lemma calls_ok_step: "calls_ok c \<Longrightarrow> calls_ok (run_collector fl op c)"
  by (cases op) (auto simp: UpdateModelMetrics_def DeleteModelMetrics_def collector_RecordRequest_def RecordAdmission_def
      RecordAdmissionRejection_def UpdateNodeMemoryMetrics_def UpdateBudgetMetrics_def Let_def call_ok_def)

lemma calls_ok_reachable: "calls_ok (fold (run_collector fl) ops NewCollector)"
proof -
  have "calls_ok c \<Longrightarrow> calls_ok (fold (run_collector fl) ops c)" for c
    by (induction ops arbitrary: c) (simp_all add: calls_ok_step)
  then show ?thesis by (simp add: calls_ok_def NewCollector_def)
qed

lemma shown_labels:
  assumes "list_all call_ok calls" and "fold apply_call calls shown (m, ls) \<noteq> None"
  shows "labels_ok m ls \<or> shown (m, ls) \<noteq> None"
  using assms
proof (induction calls arbitrary: shown)
  case Nil
  then show ?case by simp
next
  case (Cons a calls)
  then have "labels_ok m ls \<or> apply_call a shown (m, ls) \<noteq> None" by simp
  with Cons.prems(1) show ?case by (auto simp: apply_call_def call_ok_def split: metric_call.splits if_splits)
qed

definition model_series :: "string \<Rightarrow> string \<Rightarrow> (metric \<times> string list) list" where
  "model_series name ns =
     map (\<lambda>m. (m, [name, ns])) [memoryDeclared, memoryObservedPeak, memoryUtilization, modelReady, modelReplicas]
     @ map (\<lambda>st. (modelRequestsTotal, [name, ns, status_text st])) [StatusSuccess, StatusError] @ [(modelRequestDuration, [name, ns])]
     @ map (\<lambda>r. (admissionRequestsTotal, [name, ns, result_text r])) [AdmissionAccepted, AdmissionRejected]"

lemma fold_deletes:
  "fold apply_call (map (case_prod DeleteSeries) ks) shown k = (if k \<in> set ks then None else shown k)"
  by (induction ks arbitrary: shown) (auto simp: apply_call_def)

lemma series_deleted:
  "series_at (DeleteModelMetrics name ns c) m ls = (if (m, ls) \<in> set (model_series name ns) then None else series_at c m ls)"
proof -
  have "co_calls (DeleteModelMetrics name ns c) = co_calls c @ map (case_prod DeleteSeries) (model_series name ns)"
    by (simp add: DeleteModelMetrics_def with_logger_def emit_def model_series_def Let_def)
  then show ?thesis by (simp add: series_at_def fold_deletes)
qed

text \<open>\<open>With\<close> panics if the labels are not those declared; the code never gives another number of them.\<close>

lemma labels_as_declared:
  assumes "labels_ok m ls"
  shows "length ls = length (label_names m)"
  using assms by (cases m) (auto simp: label_names_def declared_def)

text \<open>
  C38. Whatever was recorded before: once the metrics of a model are deleted, no series with its name and namespace is left, except
  the rejections, which stay as they were, for ever.
\<close>

theorem deleted_model_series:
  assumes "c = fold (run_collector fl) ops NewCollector" and "take 2 ls = [name, ns]"
  shows "series_at (DeleteModelMetrics name ns c) m ls = (if m = admissionRejectedTotal then series_at c m ls else None)"
proof (cases "series_at c m ls = None")
  case True
  then show ?thesis by (auto simp: series_deleted)
next
  case False
  have "list_all call_ok (co_calls c)" using calls_ok_reachable [of fl ops] by (simp add: assms(1) calls_ok_def)
  from shown_labels [OF this] False have ok: "labels_ok m ls" by (auto simp: series_at_def)
  have st: "status_text st = ''success'' \<or> status_text st = ''error''" for st by (cases st) simp_all
  have re: "result_text r = ''accepted'' \<or> result_text r = ''rejected''" for r by (cases r) simp_all
  show ?thesis
    using ok assms(2) st re unfolding series_deleted model_series_def
    by (cases m) (auto simp: length_Suc_conv numeral_2_eq_2)
qed

lemma deleted_model_series_witness:
  "series_at (DeleteModelMetrics ''m'' ''ns'' (fold (run_collector id)
       [Admitted ''m'' ''ns'' AdmissionRejected, Rejected ''m'' ''ns'' ReasonBudgetExceeded :: unit collector_op] NewCollector))
     admissionRejectedTotal [''m'', ''ns'', ''budget_exceeded''] = Some (Number 1)"
proof -
  let ?ops = "[Admitted ''m'' ''ns'' AdmissionRejected, Rejected ''m'' ''ns'' ReasonBudgetExceeded :: unit collector_op]"
  have "series_at (fold (run_collector id) ?ops NewCollector) admissionRejectedTotal [''m'', ''ns'', ''budget_exceeded'']
      = Some (Number 1)"
    by (simp add: series_at_def RecordAdmission_def RecordAdmissionRejection_def emit_def NewCollector_def apply_call_def)
  then show ?thesis
    using deleted_model_series [OF refl, of "[''m'', ''ns'', ''budget_exceeded'']" "''m''" "''ns''" id ?ops admissionRejectedTotal]
    by simp
qed

section \<open>Printed sizes\<close>

text \<open>The unit a size is printed in.\<close>

definition size_unit :: "int \<Rightarrow> int \<times> string" where
  "size_unit n = (if n \<ge> 1024 ^ 4 then (1024 ^ 4, ''Ti'') else if n \<ge> 1024 ^ 3 then (1024 ^ 3, ''Gi'')
     else if n \<ge> 1024 ^ 2 then (1024 ^ 2, ''Mi'') else if n \<ge> 1024 then (1024, ''Ki'') else (1, ''''))"

text \<open>
  A size that is not negative is printed as a whole number of the largest unit that fits, which is less than one unit below
  it and, except for the largest unit, less than 1024.
\<close>

theorem formatBytes_bounds:
  assumes "0 \<le> sint w"
  shows "\<exists>q u suffix. size_unit (sint w) = (u, suffix) \<and> formatBytes w = show_int q @ suffix
    \<and> q * u \<le> sint w \<and> sint w < (q + 1) * u \<and> (1 \<le> q \<or> sint w = 0) \<and> (q < 1024 \<or> suffix = ''Ti'')"
proof -
  let ?n = "sint w"
  let ?u = "fst (size_unit ?n)" and ?s = "snd (size_unit ?n)"
  have u: "0 < ?u" by (simp add: size_unit_def)
  have "formatBytes w = show_int (?n div ?u) @ ?s"
    by (simp add: formatBytes_def size_unit_def Let_def)
  moreover have "?n div ?u * ?u \<le> ?n" "?n < (?n div ?u + 1) * ?u"
    using u by (simp_all add: minus_mod_eq_div_mult [symmetric] distrib_right)
  moreover have "1 \<le> ?n div ?u \<or> ?n = 0"
    using assms by (simp add: size_unit_def) linarith
  moreover have "?n div ?u < 1024 \<or> ?s = ''Ti''"
    by (simp add: size_unit_def) linarith
  ultimately show ?thesis by (intro exI [of _ "?n div ?u"] exI [of _ ?u] exI [of _ ?s]) simp
qed

lemma formatBytes_bounds_witness: "formatBytes 3221225472 = ''3Gi''"
proof -
  have s: "sint (3221225472 :: int64) = 3221225472" by simp
  obtain q u suffix where "size_unit 3221225472 = (u, suffix)" "formatBytes 3221225472 = show_int q @ suffix"
    "q * u \<le> 3221225472" "3221225472 < (q + 1) * u"
    using formatBytes_bounds [of 3221225472] unfolding s by auto
  moreover from this have "q = 3" by (simp add: size_unit_def)
  moreover have "char_of (51 :: nat) = CHR ''3''" by code_simp
  ultimately show ?thesis by (auto simp: size_unit_def show_int_def show_nat.simps)
qed

end
