(* ===== verification/Proxy_Forwarding.thy ===== *)
theory Proxy_Forwarding
  imports Proxy_Answers Metrics
begin

text \<open>
  What the proxy forwards and hands back: an answer that a client gets from a backend is the answer of a backend of the model
  it named to its own request; forms never arrive; and how the end of a request shows in the metrics.
\<close>

section \<open>What a request leaves in the log\<close>

text \<open>The requests made to backends, and the metrics of requests.\<close>

definition is_traffic :: "'q effect \<Rightarrow> bool" where
  "is_traffic e = (case e of RequestMetric ns n ok d \<Rightarrow> True | BackendAsked q \<Rightarrow> True | _ \<Rightarrow> False)"

lemma is_traffic_simps [simp]:
  "is_traffic (RequestMetric ns n ok d)" "is_traffic (BackendAsked q)" "\<not> is_traffic (PodDeleted ns n)"
  "\<not> is_traffic (PodCreated pod)" "\<not> is_traffic (AdmissionMetric ns n acc)"
  by (simp_all add: is_traffic_def)

definition traffic :: "'q server \<Rightarrow> 'q effect list" where
  "traffic s = filter is_traffic (effects s)"

lemma traffic_simps [simp]:
  "traffic (log_effect e s) = traffic s @ (if is_traffic e then [e] else [])"
  "traffic (on_registry f s) = traffic s" "traffic (s\<lparr>Tracker := t\<rparr>) = traffic s"
  "traffic (s\<lparr>Reg := r\<rparr>) = traffic s" "traffic (s\<lparr>IdleTracker := u\<rparr>) = traffic s"
  "traffic (finish_request model s) = traffic s" "traffic (set_model_state E i model st s) = traffic s"
  by (simp_all add: traffic_def finish_request_def set_model_state_def)

lemma traffic_drop [simp]: "traffic (drop_candidate E i ns n s) = traffic s"
  by (simp add: traffic_def)

text \<open>An outcome that logs no request.\<close>

definition unmetered :: "'q server \<Rightarrow> ('a, 'q server) outcome \<Rightarrow> bool" where
  "unmetered s m \<longleftrightarrow> traffic (outcome_state m) = traffic s"

named_theorems unmetered_laws

lemma unmetered_simps [unmetered_laws]:
  "unmetered s (Returns a s1) \<longleftrightarrow> traffic s1 = traffic s" "unmetered s (Panics p s1) \<longleftrightarrow> traffic s1 = traffic s"
  "unmetered s (Waits s1) \<longleftrightarrow> traffic s1 = traffic s" "unmetered s (attempt r s1) \<longleftrightarrow> traffic s1 = traffic s"
  by (simp_all add: unmetered_def)

lemma unmetered_and_then:
  "unmetered s m \<Longrightarrow> (\<And>a s1. m = Returns a s1 \<Longrightarrow> traffic s1 = traffic s \<Longrightarrow> unmetered s (f a s1)) \<Longrightarrow> unmetered s (and_then m f)"
  by (cases m) (simp_all add: unmetered_def)

lemma unmetered_cong: "traffic s1 = traffic s \<Longrightarrow> unmetered s1 m \<Longrightarrow> unmetered s m"
  by (simp add: unmetered_def)

lemma delete_candidate_log: "delete_candidate E i ns n s = (b, s1) \<Longrightarrow> traffic s1 = traffic s"
  by (auto simp: delete_candidate_def Let_def split: sum.splits option.splits api_error.splits)

lemma evict_loop_log: "traffic s = es0 \<Longrightarrow> traffic (outcome_state (evict_loop E i model es s)) = es0"
  by (induction es arbitrary: i s)
    (auto simp: Let_def dest: delete_candidate_log split: option.split prod.split bool.split sum.split)

lemma unmetered_evict_loop: "unmetered s (evict_loop E i model es s)"
  by (simp add: unmetered_def evict_loop_log)

lemma unmetered_evict: "unmetered s (tryEvictIdleModels cfg E i model s)"
  by (auto simp: tryEvictIdleModels_def unmetered_laws unmetered_evict_loop Let_def split: option.split sum.split)

lemma evict_global_log:
  "evict_global_loop E i model needed freed es s = (ok, s1) \<Longrightarrow> traffic s1 = traffic s"
  by (induction es arbitrary: i freed s)
    (auto simp: Let_def dest!: delete_candidate_log split: option.splits prod.splits bool.splits if_splits)

lemma try_evict_global_log: "tryEvictIdleModelsForGlobalLimit cfg E i model b s = (ok, s1) \<Longrightarrow> traffic s1 = traffic s"
  by (auto simp: tryEvictIdleModelsForGlobalLimit_def Let_def dest: evict_global_log split: option.splits if_splits)

lemma unmetered_limit: "unmetered s (checkGlobalLimit cfg E i model s)"
  unfolding checkGlobalLimit_def Let_def
  by (auto simp: unmetered_laws intro!: unmetered_and_then dest: try_evict_global_log
      simp: attempt_Returns split: prod.split bool.split)

lemma unmetered_wait: "unmetered s (waitForPodReady E i model s)"
  by (simp add: waitForPodReady_def unmetered_def traffic_def wait_effects)

lemma unmetered_wait_deleted: "unmetered s (waitForPodDeleted E i model s)"
proof -
  have "unmetered s (waitForPodDeleted_loop model evs s)" for evs
    by (induction model evs s rule: waitForPodDeleted_loop.induct) (simp_all add: unmetered_laws)
  then show ?thesis by (simp add: waitForPodDeleted_def)
qed

lemma unmetered_create: "unmetered s (createPod E i model s)"
  unfolding createPod_def submitPod_def Let_def
  by (auto simp: unmetered_laws attempt_Returns intro!: unmetered_and_then unmetered_cong [OF _ unmetered_wait]
      split: sum.split option.split)

lemma unmetered_ensure: "unmetered s (ensureDeployment cfg E i model s)"
  unfolding ensureDeployment_def
  by (auto simp: unmetered_laws attempt_Returns unmetered_limit intro!: unmetered_and_then
      unmetered_cong [OF _ unmetered_create] split: option.split)

lemma unmetered_unavailable: "unmetered s m \<Longrightarrow> unmetered s (or_unavailable model code m)"
  by (auto simp: or_unavailable_def unmetered_laws intro!: unmetered_and_then)



lemma unmetered_registry: "unmetered s (registry_admission sync cfg E i model r s)"
  unfolding registry_admission_def Let_def
  by (auto simp: unmetered_laws attempt_Returns
      intro!: unmetered_and_then unmetered_unavailable unmetered_cong [OF _ unmetered_wait] unmetered_cong [OF _ unmetered_wait_deleted]
        unmetered_cong [OF _ unmetered_ensure]
      split: option.split DeploymentState.split)

lemma unmetered_insufficient: "unmetered s (handleInsufficientMemory cfg E i model s)"
  unfolding handleInsufficientMemory_def Let_def
  by (auto simp: unmetered_laws attempt_Returns unmetered_evict intro!: unmetered_and_then)

lemma unmetered_scale_up: "unmetered s (scale_up_and_wait cfg E i model s)"
  unfolding scale_up_and_wait_def triggerScaleUp_def Let_def waitForModelReady_def
  by (auto simp: unmetered_laws attempt_Returns
      intro!: unmetered_and_then unmetered_cong [OF _ unmetered_ensure] split: sum.split)
    (simp_all add: unmetered_def legacy_wait)

lemma unmetered_legacy: "unmetered s (legacy_admission cfg E i model s)"
  unfolding legacy_admission_def
  by (auto simp: unmetered_laws attempt_Returns unmetered_insufficient
      intro!: unmetered_and_then unmetered_cong [OF _ unmetered_scale_up] unmetered_cong [OF _ unmetered_insufficient]
      split: option.split)

text \<open>No admission asks a backend or meters a request.\<close>

lemma unmetered_admission: "unmetered s (admission sync cfg E i model s)"
  by (simp add: admission_def unmetered_registry unmetered_legacy split: option.split)

lemma admission_traffic: "admission sync cfg E i model s = Returns a s1 \<Longrightarrow> traffic s1 = traffic s"
  using unmetered_admission [of s sync cfg E i model] by (simp add: unmetered_def)

section \<open>Answers of backends\<close>

fun from_backend :: "'q response \<Rightarrow> bool" where
  "from_backend (BackendResponse st h b) = True"
| "from_backend (ErrorAfterHeaders st h c) = True"
| "from_backend (StreamedResponse h b) = True"
| "from_backend _ = False"

lemma insufficient_not_from_backend:
  "handleInsufficientMemory cfg E i model s = Returns (ev, resp) s' \<Longrightarrow> \<not> from_backend resp"
  by (auto simp: handleInsufficientMemory_def Let_def and_then_Returns attempt_Returns split: if_splits)

lemma scale_up_not_from_backend:
  "scale_up_and_wait cfg E i model s = Returns (Some resp) s' \<Longrightarrow> \<not> from_backend resp"
  by (auto simp: scale_up_and_wait_def and_then_Returns split: if_splits)

lemma legacy_not_from_backend:
  "legacy_admission cfg E i model s = Returns (Some resp) s' \<Longrightarrow> \<not> from_backend resp"
  by (auto simp: legacy_admission_def and_then_Returns attempt_Returns split: if_splits option.splits
      dest: insufficient_not_from_backend scale_up_not_from_backend)

lemma admission_not_from_backend:
  "admission sync cfg E i model s = Returns (Some resp) s' \<Longrightarrow> \<not> from_backend resp"
  by (auto simp: admission_def split: option.splits dest: legacy_not_from_backend registry_admission_answers)

text \<open>A handler that gets as far as the admission either lets it answer or forwards.\<close>

lemma admit_cases:
  assumes "admit_and_forward sync cfg E i model forward s = Returns resp s'"
  obtains (answered) "admission sync cfg E i model s = Returns (Some resp) s'" "\<not> from_backend resp" "traffic s' = traffic s"
    | (forwarded) s1 s2 where "admission sync cfg E i model s = Returns None s1" "traffic s1 = traffic s"
        "forward s1 = (resp, s2)" "s' = finish_request model s2"
proof -
  obtain a s1 where adm: "admission sync cfg E i model s = Returns a s1"
    and rest: "(case a of Some resp \<Rightarrow> Returns resp s1
       | None \<Rightarrow> (let (resp, s2) = forward s1 in Returns resp (finish_request model s2))) = Returns resp s'"
    using assms by (auto simp: admit_and_forward_def and_then_Returns)
  show thesis
  proof (cases a)
    case None
    with rest obtain s2 where "forward s1 = (resp, s2)" "s' = finish_request model s2" by (auto split: prod.splits)
    with None adm forwarded admission_traffic [OF adm] show thesis by blast
  next
    case (Some r)
    with adm rest have answer: "admission sync cfg E i model s = Returns (Some resp) s'" by simp
    show thesis by (rule answered [OF answer admission_not_from_backend [OF answer] admission_traffic [OF answer]])
  qed
qed

text \<open>What one exchange logs: the request if it could be made, and its end.\<close>

lemma exchange_traffic:
  assumes "exchange E i model t0 q deliver s = (resp, s')" and "\<And>rp. from_backend (deliver rp)"
  shows "traffic s' = traffic s @ (if backend_call E i q = RequestError then [] else [BackendAsked q])
      @ [RequestMetric (im_Namespace model) (im_Name model) (from_backend resp) (clock E i - t0)]"
    and "from_backend resp \<Longrightarrow> \<exists>rp. backend_call E i q = Answered rp \<and> \<not> length_mismatch q \<and> resp = deliver rp"
  using assms by (auto simp: exchange_def http_Do_def recordRequestMetrics_def split: call_result.splits if_splits)

definition json_deliver :: "bool \<Rightarrow> reply \<Rightarrow> 'q response" where
  "json_deliver stream rp = (if stream then StreamedResponse streamed_headers (handleStreamingResponse (an_Body rp))
     else handleNonStreamingResponse rp)"

lemma deliver_from_backend [simp]: "from_backend (handleNonStreamingResponse rp)" "from_backend (json_deliver stream rp)"
  by (simp_all add: handleNonStreamingResponse_def json_deliver_def Let_def)

lemma forward_exchange:
  "forwardToBackend E i model path header j stream t0
     = exchange E i model t0 (json_request E i model path header j) (json_deliver stream)"
  "forwardRawRequest E i model path r t0 = exchange E i model t0 (raw_request E i model path r) handleNonStreamingResponse"
  by (simp_all add: forwardToBackend_def forwardRawRequest_def json_deliver_def [abs_def] fun_eq_iff)

section \<open>The model a request is for\<close>

text \<open>What a handler goes on to admit; \<open>None\<close> where it answers, or panics, before that.\<close>

definition openai_target ::
  "config \<Rightarrow> 'q cluster \<Rightarrow> nat \<Rightarrow> json option option \<Rightarrow> (inferenceRequest \<times> json \<times> InferenceModel) option" where
  "openai_target cfg E i body =
     (case body of
        Some (Some j) \<Rightarrow>
          (case rewrite_body (json_number E) (DefaultModel cfg) j of
             Inr (Some (req, j')) \<Rightarrow>
               (case lookupInferenceModelByName cfg E i (Model req) of
                  Inr (Some model) \<Rightarrow> if still_downloading model then None else Some (req, j', model)
                | _ \<Rightarrow> None)
           | _ \<Rightarrow> None)
      | _ \<Rightarrow> None)"

definition multipart_target :: "config \<Rightarrow> 'q cluster \<Rightarrow> nat \<Rightarrow> client_request \<Rightarrow> InferenceModel option" where
  "multipart_target cfg E i r =
     (if cr_Form r ''model'' = '''' then None
      else case lookupInferenceModelByName cfg E i (cr_Form r ''model'') of Inr m \<Rightarrow> m | Inl err \<Rightarrow> None)"

lemma openai_without_target:
  "openaiPassthroughHandler cfg E i path header body s = Returns resp s' \<Longrightarrow> openai_target cfg E i body = None \<Longrightarrow>
     s' = s \<and> \<not> from_backend resp"
  by (auto simp: openaiPassthroughHandler_def openai_target_def attempt_def split: option.splits sum.splits prod.splits if_splits)

lemma openai_with_target:
  "openai_target cfg E i body = Some (req, j', model) \<Longrightarrow> openaiPassthroughHandler cfg E i path header body s
     = admit_and_forward True cfg E (i + 2) model (forwardToBackend E (i + 1) model path header j' (Stream req) (clock E i)) s"
  by (auto simp: openaiPassthroughHandler_def openai_target_def split: option.splits sum.splits prod.splits if_splits)

lemma multipart_without_target:
  "multipartPassthroughHandler cfg E i path r s = Returns resp s' \<Longrightarrow> multipart_target cfg E i r = None \<Longrightarrow>
     s' = s \<and> \<not> from_backend resp"
  by (auto simp: multipartPassthroughHandler_def multipart_target_def FormValue_def split: option.splits sum.splits if_splits)

lemma multipart_with_target:
  "multipart_target cfg E i r = Some model \<Longrightarrow> multipartPassthroughHandler cfg E i path r s
     = admit_and_forward False cfg E (i + 2) model
         (forwardRawRequest E (i + 1) model path (snd (FormValue ''model'' r)) (clock E i)) s"
  by (auto simp: multipartPassthroughHandler_def multipart_target_def FormValue_def split: option.splits sum.splits if_splits)

section \<open>From the client to the backend and back\<close>

text \<open>How an answer becomes the response of the client.\<close>

definition delivered :: "bool \<Rightarrow> reply \<Rightarrow> 'q response \<Rightarrow> bool" where
  "delivered stream rp resp \<longleftrightarrow>
     (if stream then resp = StreamedResponse streamed_headers (handleStreamingResponse (an_Body rp))
      else if an_Complete rp
      then \<exists>h. resp = BackendResponse (an_Status rp) h (an_Body rp)
        \<and> (canonical (an_Header rp) \<longrightarrow> (\<forall>k. header_values h k = last_value (header_values (an_Header rp) k)))
      else response_status resp = 500)"

lemma json_deliver_delivered: "delivered stream rp (json_deliver stream rp)"
  by (simp add: delivered_def json_deliver_def handleNonStreamingResponse_def Let_def answer_headers_last)

text \<open>
  C4. What a client gets from a backend is a backend's answer to its own request, asked once: whatever happened in between, the model
  is one that the lookup found under the name in the request (or the default), exactly one request was made to a backend and one
  success recorded, that request has the method \<open>POST\<close>, the address of that model with the path of the endpoint, all headers of the client
  and the rewritten body, and the response has the status and the body of its answer. A streamed response has its whole lines but
  always the status 200 (\<open>streamed_status_lost\<close>), and an answer that breaks off is an error 500. The headers of the client are as
  \<open>net/http\<close> delivers them, each key once and in its canonical form. What rewriting does to the body is the
  subject of \<open>rewritten_body_complete\<close>.
\<close>

theorem answers_come_from_backend:
  assumes "openaiPassthroughHandler cfg E i path header (Some (Some j)) s = Returns resp s'" and "from_backend resp"
    and "canonical header"
  shows "\<exists>req j' model q rp. rewrite_body (json_number E) (DefaultModel cfg) j = Inr (Some (req, j'))
    \<and> lookupInferenceModelByName cfg E i (Model req) = Inr (Some model) \<and> ModelName (Spec model) = Model req
    \<and> \<not> still_downloading model \<and> backend_call E (i + 1) q = Answered rp
    \<and> traffic s' = traffic s @ [BackendAsked q, RequestMetric (im_Namespace model) (im_Name model) True (clock E (i + 1) - clock E i)]
    \<and> bq_Method q = ''POST'' \<and> bq_URL q = backend_base E (i + 1) model @ path
    \<and> header_values (bq_Header q) = header_values header \<and> bq_Body q = JsonText j' \<and> delivered (Stream req) rp resp"
proof -
  from assms(1,2) openai_without_target obtain req j' model where target: "openai_target cfg E i (Some (Some j)) = Some (req, j', model)"
    by (metis not_None_eq prod_cases3)
  then have body: "rewrite_body (json_number E) (DefaultModel cfg) j = Inr (Some (req, j'))"
    and found: "lookupInferenceModelByName cfg E i (Model req) = Inr (Some model)" and complete: "\<not> still_downloading model"
    by (auto simp: openai_target_def split: sum.splits option.splits if_splits)
  let ?q = "json_request E (i + 1) model path header j'"
  from assms(1) [unfolded openai_with_target [OF target]] obtain s1 s2 where
    "traffic s1 = traffic s" "forwardToBackend E (i + 1) model path header j' (Stream req) (clock E i) s1 = (resp, s2)"
    "s' = finish_request model s2"
    using assms(2) by (cases rule: admit_cases) auto
  with exchange_traffic [of E "i + 1" model "clock E i" ?q "json_deliver (Stream req)" s1 resp s2] assms(2)
  obtain rp where "backend_call E (i + 1) ?q = Answered rp" "resp = json_deliver (Stream req) rp"
    "traffic s' = traffic s @ [BackendAsked ?q, RequestMetric (im_Namespace model) (im_Name model) True (clock E (i + 1) - clock E i)]"
    by (auto simp: forward_exchange)
  moreover have "ModelName (Spec model) = Model req"
    using found by (auto simp: lookupInferenceModelByName_def find_Some_iff split: sum.splits)
  ultimately show ?thesis
    using body found complete request_headers_kept [OF assms(3)] json_deliver_delivered
    by (intro exI [of _ req] exI [of _ j'] exI [of _ model] exI [of _ ?q] exI [of _ rp]) (simp add: json_request_def)
qed

section \<open>Forms\<close>

text \<open>
  C5. No form ever reaches a backend: reading the field \<open>model\<close> parses the form and so reads the body, and what is forwarded has the
  declared length of the request but only what is left of its body. A request with a form in its body of the declared length is
  never answered by a backend, whatever the cluster and the backend do.
\<close>

theorem multipart_body_lost:
  assumes "multipartPassthroughHandler cfg E i path r s = Returns resp s'"
    and "cr_ContentLength r = int (length (cr_Body r))" and "cr_Unread r < length (cr_Body r)"
  shows "\<not> from_backend resp"
proof
  assume backend: "from_backend resp"
  let ?r = "snd (FormValue ''model'' r)"
  from assms(1) backend multipart_without_target obtain model where target: "multipart_target cfg E i r = Some model"
    by (metis not_None_eq)
  from assms(1) [unfolded multipart_with_target [OF target]] obtain s1 s2 where
    "forwardRawRequest E (i + 1) model path ?r (clock E i) s1 = (resp, s2)"
    using backend by (cases rule: admit_cases) auto
  then have "\<not> length_mismatch (raw_request E (i + 1) model path ?r)"
    using exchange_traffic(2) backend unfolding forward_exchange by (metis deliver_from_backend(1))
  with assms(2,3) show False by (simp add: length_mismatch_def raw_request_def FormValue_def)
qed

text \<open>Where the length is not declared, the backend is asked with what the parser left, which is no form any more.\<close>

lemma chunked_form_lost:
  "bq_Body (raw_request E i model path (snd (FormValue k r)))
     = RawText (drop (length (cr_Body r) - cr_Unread r) (cr_Body r))"
  by (simp add: raw_request_def FormValue_def)

section \<open>Status and metrics\<close>

text \<open>The status of a streamed answer is lost: an error of the backend arrives as a success.\<close>

lemma streamed_status_lost:
  assumes "backend_call E i (json_request E i model path header j) = Answered rp"
  shows "response_status (fst (forwardToBackend E i model path header j True t0 s)) = 200"
  using assms by (simp add: forwardToBackend_def exchange_def http_Do_def length_mismatch_def json_request_def Let_def)

text \<open>
  C6. A request shows in the metrics once, as the model it is for and as what it was. A request that names no model that is ready to be
  asked for is answered without a trace. Otherwise the metrics depend on the admission: where that lets the request go on, exactly one
  request of that very model is recorded, with the time since the handler began, as a success if the answer came from a backend (of
  whatever status) and as an error if not, after at most one request to a backend; where the admission answers, nothing is.
\<close>

theorem requests_metered:
  assumes "sync \<and> openaiPassthroughHandler cfg E i path header body s = Returns resp s'
        \<and> target = map_option (\<lambda>(req, j, model). model) (openai_target cfg E i body)
      \<or> \<not> sync \<and> multipartPassthroughHandler cfg E i path r s = Returns resp s' \<and> target = multipart_target cfg E i r"
  shows "case target of
      None \<Rightarrow> s' = s \<and> \<not> from_backend resp
    | Some model \<Rightarrow>
        (case admission sync cfg E (i + 2) model s of
           Returns None s1 \<Rightarrow> \<exists>asked. traffic s' = traffic s @ asked
               @ [RequestMetric (im_Namespace model) (im_Name model) (from_backend resp) (clock E (i + 1) - clock E i)]
             \<and> (asked = [] \<or> (\<exists>q. asked = [BackendAsked q]))
         | _ \<Rightarrow> traffic s' = traffic s \<and> \<not> from_backend resp)"
proof (cases target)
  case None
  from assms have "s' = s \<and> \<not> from_backend resp"
  proof
    assume "sync \<and> openaiPassthroughHandler cfg E i path header body s = Returns resp s'
      \<and> target = map_option (\<lambda>(req, j, model). model) (openai_target cfg E i body)"
    with None show ?thesis by (intro openai_without_target) auto
  next
    assume "\<not> sync \<and> multipartPassthroughHandler cfg E i path r s = Returns resp s' \<and> target = multipart_target cfg E i r"
    with None show ?thesis by (intro multipart_without_target) auto
  qed
  with None show ?thesis by simp
next
  case (Some model)
  obtain q deliver where "admit_and_forward sync cfg E (i + 2) model (exchange E (i + 1) model (clock E i) q deliver) s = Returns resp s'"
    and deliver: "\<And>rp. from_backend (deliver rp :: 'a response)"
    using assms
  proof
    assume openai: "sync \<and> openaiPassthroughHandler cfg E i path header body s = Returns resp s'
      \<and> target = map_option (\<lambda>(req, j, model). model) (openai_target cfg E i body)"
    with Some obtain req j where "openai_target cfg E i body = Some (req, j, model)" by auto
    from openai [unfolded openai_with_target [OF this] forward_exchange] that deliver_from_backend(2) show thesis by auto
  next
    assume multipart: "\<not> sync \<and> multipartPassthroughHandler cfg E i path r s = Returns resp s' \<and> target = multipart_target cfg E i r"
    with Some have "multipart_target cfg E i r = Some model" by simp
    from multipart [unfolded multipart_with_target [OF this] forward_exchange] that deliver_from_backend(1) show thesis by auto
  qed
  from this(1) show ?thesis
  proof (cases rule: admit_cases)
    case answered
    with Some show ?thesis by simp
  next
    case (forwarded s1 s2)
    with Some exchange_traffic(1) [OF forwarded(3) deliver] show ?thesis by auto
  qed
qed

section \<open>What a scrape shows of it\<close>

text \<open>The calls that the proxy makes on the collector.\<close>

fun metrics_of :: "float_rounding \<Rightarrow> 'q effect \<Rightarrow> Collector \<Rightarrow> Collector" where
  "metrics_of fl (RequestMetric ns n ok d) = collector_RecordRequest fl n ns (if ok then StatusSuccess else StatusError) d"
| "metrics_of fl (AdmissionMetric ns n True) = RecordAdmission n ns AdmissionAccepted"
| "metrics_of fl (AdmissionMetric ns n False) =
     RecordAdmissionRejection n ns ReasonInsufficientMemory \<circ> RecordAdmission n ns AdmissionRejected"
| "metrics_of fl (PodDeleted ns n) = id"
| "metrics_of fl (PodCreated pod) = id"
| "metrics_of fl (BackendAsked q) = id"

definition counted :: "nat \<Rightarrow> sample option" where
  "counted k = (if k = 0 then None else Some (Number (of_nat k)))"

lemma counted_Suc: "Some (Number (case counted k of Some (Number v) \<Rightarrow> v + 1 | _ \<Rightarrow> 1)) = counted (Suc k)"
  by (simp add: counted_def)

definition is_outcome :: "string \<Rightarrow> string \<Rightarrow> bool \<Rightarrow> 'q effect \<Rightarrow> bool" where
  "is_outcome ns n ok e \<longleftrightarrow> (\<exists>d. e = RequestMetric ns n ok d)"

lemma series_emit: "series_at (emit calls c) m ls = fold apply_call calls (\<lambda>(m, ls). series_at c m ls) (m, ls)"
  by (simp add: series_at_def emit_def)

lemma totals_step:
  assumes "series_at c modelRequestsTotal [n, ns, status_text (if ok then StatusSuccess else StatusError)] = counted k"
  shows "series_at (metrics_of fl e c) modelRequestsTotal [n, ns, status_text (if ok then StatusSuccess else StatusError)]
    = counted (if is_outcome ns n ok e then Suc k else k)"
  using assms counted_Suc [of k]
  by (cases "(fl, e)" rule: metrics_of.cases)
    (auto simp: collector_RecordRequest_def RecordAdmission_def RecordAdmissionRejection_def series_emit apply_call_def is_outcome_def)

text \<open>
  C7. The totals are exact: after any sequence of effects of the proxy, the number of requests that a scrape shows for a model with a
  status is the number of its requests that ended so, and no series is shown for none.
\<close>

theorem request_totals_exact:
  "series_at (fold (metrics_of fl) es NewCollector) modelRequestsTotal [n, ns, status_text (if ok then StatusSuccess else StatusError)]
     = counted (length (filter (is_outcome ns n ok) es))"
proof (induction es rule: rev_induct)
  case Nil
  then show ?case by (simp add: series_at_def NewCollector_def counted_def)
next
  case (snoc e es)
  then show ?case by (simp add: totals_step)
qed

section \<open>Witnesses\<close>

text \<open>A ready model whose backend answers every request with two cookies.\<close>

definition cookie_reply :: reply where
  "cookie_reply = \<lparr>an_Status = 404, an_Header = [(''Set-Cookie'', [''a'', ''b''])], an_Body = ''no'', an_Complete = True\<rparr>"

definition answering_cluster :: "int cluster" where
  "answering_cluster = demo_listing (demo_model ''a'' ''xxxx'')
     ((demo_cluster pod_missing [])\<lparr>backend_call := (\<lambda>i q. Answered cookie_reply)\<rparr>)"

definition demo_body :: json where
  "demo_body = JObject [(''model'', JString (ModelName (Spec (demo_model ''a'' ''xxxx''))))]"

lemmas eval_demo = answering_cluster_def demo_body_def cookie_reply_def rewrite_body_def same_field_def apply_default_model_def
  disable_thinking_def last_values_def Let_def still_downloading_def demo_status_def

lemma demo_answer:
  "\<exists>s'. openaiPassthroughHandler (demo_config 9) answering_cluster 0 ''/v1'' [(''X-Id'', [''1'', ''2''])] (Some (Some demo_body)) idle_server
     = Returns (BackendResponse 404 [(''Set-Cookie'', [''b''])] ''no'') s'"
proof -
  have "copy_answer_headers [(''Set-Cookie'', [''a'', ''b''])] = [(''Set-Cookie'', [''b''])]" by code_simp
  then show ?thesis
    by (simp add: openaiPassthroughHandler_def eval_demo eval_handler idle_server_def forwardToBackend_def json_request_def
      handleNonStreamingResponse_def)
qed

lemma answers_come_from_backend_witness:
  "\<exists>resp s' q. openaiPassthroughHandler (demo_config 9) answering_cluster 0 ''/v1'' [(''X-Id'', [''1'', ''2''])] (Some (Some demo_body)) idle_server
     = Returns resp s' \<and> backend_call answering_cluster 1 q = Answered cookie_reply
     \<and> bq_Method q = ''POST'' \<and> header_values (bq_Header q) ''X-Id'' = [''1'', ''2'']"
proof -
  obtain s' where run: "openaiPassthroughHandler (demo_config 9) answering_cluster 0 ''/v1'' [(''X-Id'', [''1'', ''2''])]
      (Some (Some demo_body)) idle_server = Returns (BackendResponse 404 [(''Set-Cookie'', [''b''])] ''no'') s'"
    using demo_answer by blast
  have "canonical [(''X-Id'', [''1'', ''2''])]" by (simp add: canonical_def) code_simp
  from answers_come_from_backend [OF run _ this] obtain q rp where
    "backend_call answering_cluster (0 + 1) q = Answered rp" "bq_Method q = ''POST''"
    "header_values (bq_Header q) = header_values [(''X-Id'', [''1'', ''2''])]" by auto
  with run show ?thesis
    by (intro exI [of _ "BackendResponse 404 [(''Set-Cookie'', [''b''])] ''no''"] exI [of _ s'] exI [of _ q])
      (simp add: answering_cluster_def demo_listing_def)
qed

lemma multipart_body_lost_witness:
  "\<exists>s'. multipartPassthroughHandler (demo_config 9) answering_cluster 0 ''/v1'' (demo_form ''a'') idle_server
      = Returns (ErrorResponse 502 ''backend_unavailable'') s'
    \<and> \<not> from_backend (ErrorResponse 502 ''backend_unavailable'' :: int response)"
proof -
  obtain s' where run: "multipartPassthroughHandler (demo_config 9) answering_cluster 0 ''/v1'' (demo_form ''a'') idle_server
      = Returns (ErrorResponse 502 ''backend_unavailable'') s'"
    by (simp add: answering_cluster_def eval_handler idle_server_def)
  from multipart_body_lost [OF run] run show ?thesis by (simp add: demo_form_def)
qed

lemma requests_metered_witness:
  "\<exists>resp s' asked. openaiPassthroughHandler (demo_config 9) answering_cluster 0 ''/v1'' [(''X-Id'', [''1'', ''2''])]
      (Some (Some demo_body)) idle_server = Returns resp s'
    \<and> traffic s' = asked @ [RequestMetric ''ns'' ''a'' True 0]"
proof -
  let ?resp = "BackendResponse 404 [(''Set-Cookie'', [''b''])] ''no''" and ?m = "demo_model ''a'' ''xxxx''"
  obtain s' where run: "openaiPassthroughHandler (demo_config 9) answering_cluster 0 ''/v1'' [(''X-Id'', [''1'', ''2''])]
      (Some (Some demo_body)) idle_server = Returns ?resp s'"
    using demo_answer by blast
  have target: "map_option (\<lambda>(req, j, model). model) (openai_target (demo_config 9) answering_cluster 0 (Some (Some demo_body))) = Some ?m"
    by (simp add: openai_target_def eval_demo eval_handler)
  obtain s1 where admitted: "admission True (demo_config 9) answering_cluster (Suc (Suc 0)) ?m idle_server = Returns None s1"
    by (simp add: eval_demo eval_handler idle_server_def)
  from requests_metered [where sync = True and target = "Some ?m", OF disjI1, OF conjI [OF TrueI conjI [OF run target [symmetric]]]]
  obtain asked where "traffic s' = traffic idle_server @ asked
      @ [RequestMetric (im_Namespace ?m) (im_Name ?m) (from_backend ?resp) (clock answering_cluster 1 - clock answering_cluster 0)]"
    by (auto simp: admitted)
  with run show ?thesis
    by (intro exI [of _ ?resp] exI [of _ s'] exI [of _ asked])
      (simp add: eval_demo demo_cluster_def demo_listing_def demo_model_def traffic_def idle_server_def)
qed

end
