(* ===== verification/Pod_Properties.thy ===== *)
theory Pod_Properties
  imports Proxy_Limits
begin

text \<open>
  What the pod that the proxy creates has to do with the rest of the proxy: its placeholders, the memory it
  requests against the memory the tracker holds, the port it listens on against the port forwarded to.
\<close>

text \<open>
  Arguments are resolved: when a model file and no projector file is configured and the path starts with
  a slash and has no dollar sign, no argument of the container still contains \<open>$(HF_SOURCE)\<close>, wherever and
  however often it stood.
\<close>

theorem model_path_is_substituted:
  assumes "hfSource paths = CHR ''/'' # path" and "CHR ''$'' \<notin> set path" and "mmprojSource paths = ''''"
    and "arg \<in> set (buildContainerArgs model backend paths)" and "context_size model = ''''"
  shows "\<not> occurs ''$(HF_SOURCE)'' arg"
proof -
  from assms(4,5) obtain a where "arg = substitute_arg paths a"
    by (auto simp: buildContainerArgs_def)
  then have "arg = ReplaceAll a ''$(HF_SOURCE)'' (CHR ''/'' # path)"
    using assms(1,3) by (simp add: substitute_arg_def)
  then show ?thesis
    using ReplaceAll_no_occurrence [of "CHR ''$''" "CHR ''/''" path "''(HF_SOURCE)''" a] assms(2) by simp
qed

definition args_backend :: "string list \<Rightarrow> InferenceBackend" where
  "args_backend args = demo_backend\<lparr>BackendSpec := (BackendSpec demo_backend)\<lparr>be_Args := args\<rparr>\<rparr>"

lemma model_path_is_substituted_witness:
  "\<not> occurs ''$(HF_SOURCE)'' (hd (buildContainerArgs (demo_model ''m'' ''x'')
      (args_backend [''-m $(HF_SOURCE)'']) \<lparr>hfSource = ''/models/m'', mmprojSource = ''''\<rparr>))"
  using model_path_is_substituted [of "\<lparr>hfSource = ''/models/m'', mmprojSource = ''''\<rparr>" "''models/m''"
      "hd (buildContainerArgs (demo_model ''m'' ''x'') (args_backend [''-m $(HF_SOURCE)''])
        \<lparr>hfSource = ''/models/m'', mmprojSource = ''''\<rparr>)"
      "demo_model ''m'' ''x''" "args_backend [''-m $(HF_SOURCE)'']"]
  by (simp add: buildContainerArgs_def args_backend_def demo_backend_def demo_model_def demo_spec_def context_size_def)

text \<open>
  With a projector file the model path is lost: the second replacement starts from the argument as it
  was, so an argument list that names both files keeps \<open>$(HF_SOURCE)\<close> verbatim.
\<close>

theorem projector_loses_model_path:
  "buildContainerArgs (demo_model ''m'' ''x'') (args_backend [''$(HF_SOURCE)'', ''$(MMPROJ_SOURCE)''])
     \<lparr>hfSource = ''/models/m'', mmprojSource = ''/models/p''\<rparr> = [''$(HF_SOURCE)'', ''/models/p'']"
  by (simp add: buildContainerArgs_def args_backend_def demo_backend_def demo_model_def demo_spec_def
      context_size_def substitute_arg_def ReplaceAll.simps)

section \<open>Memory\<close>

definition pod_memory :: "'q BuiltPod \<Rightarrow> 'q option" where
  "pod_memory pod = (case ct_Resources (hd (ps_Containers (bp_Spec pod))) of
     Declared r \<Rightarrow> map_of (Requests r) ''memory'' | _ \<Rightarrow> None)"

lemma put_parsed_lookup:
  "map_of (put_parsed Q name text m) k =
     (if k = name \<and> text \<noteq> '''' \<and> ParseQuantity Q text \<noteq> None then ParseQuantity Q text else map_of m k)"
  by (auto simp: put_parsed_def map_laws split: option.split)

lemma built_memory:
  assumes "buildPod Q now owner model backend = Inr (Inr pod)" and "model_memory model \<noteq> ''''"
    and "ParseQuantity Q (model_memory model) = Some q"
    and "\<forall>g. gpu_config model backend = Some g \<longrightarrow> gpu_ResourceName g \<noteq> ''memory''"
  shows "pod_memory pod = Some q"
proof -
  have req: "map_of (Requests r) ''memory'' = Some q" if "buildResourceRequirements Q model backend = Inr r" for r
    using that assms(2-4)
    by (auto simp: buildResourceRequirements_def Let_def put_parsed_lookup map_laws
        split: option.splits sum.splits if_splits)
  obtain port path path' env ms args container volumes where
    "buildMainContainer Q model backend port path path' env ms args = Inr container"
    and pod: "ps_Containers (bp_Spec pod) = ps_Containers (buildPodSpec model backend container volumes)"
    using assms(1) by (auto simp: buildPod_def Let_def split: prod.splits sum.splits option.splits)
  then obtain r where "ct_Resources container = Declared r" and "buildResourceRequirements Q model backend = Inr r"
    by (auto simp: buildMainContainer_def split: sum.splits)
  moreover have "hd (ps_Containers (buildPodSpec model backend container volumes)) = container"
    by (auto simp: buildPodSpec_def Let_def split: option.split)
  ultimately show ?thesis using req by (simp add: pod_memory_def pod)
qed

text \<open>
  C21. The pod requests what the tracker accounts: whenever \<open>ensureDeployment\<close> gets as far as creating a
  pod and it becomes ready, the memory request of the created pod's main container is the quantity that the
  tracker holds for the model (a GPU resource named "memory" excluded).
\<close>

theorem pod_requests_accounted_memory:
  assumes "createPod E i model s = Returns None s'" and "model_memory model \<noteq> ''''"
    and "backend_get E i (im_Namespace model) (Backend (Spec model)) = Inr backend"
    and "\<forall>g. gpu_config model backend = Some g \<longrightarrow> gpu_ResourceName g \<noteq> ''memory''"
  shows "\<exists>pod a. effects s' = effects s @ [PodCreated pod]
    \<and> GetAllocation (im_Name model) (im_Namespace model) (Tracker s') = Some a
    \<and> pod_memory pod = Some (ma_Memory a)"
proof (cases rule: createPod_cases [of E i model s])
  case (unchanged s2)
  with assms(1) show ?thesis by blast
next
  case (waited t s2 backend' pod)
  obtain q where q: "MustParse (quantities E) (model_memory model) = Inr q"
    and al: "allocations t = AList.update (modelKey (im_Name model) (im_Namespace model))
      \<lparr>ma_Name = im_Name model, ma_Namespace = im_Namespace model, ma_Memory = q,
       ma_NodeSelector = model_selector model\<rparr> (allocations (Tracker s))"
    using Allocate_entry [OF waited(1) [unfolded alloc_of_def]] by auto
  then have "map_of (allocations (Tracker s2)) (modelKey (im_Name model) (im_Namespace model)) \<noteq> None"
    by (simp add: waited(2) map_laws)
  then have "Tracker s' = t" and "effects s' = effects s @ [PodCreated pod]"
    using wait_keeps_tracker [of s2 model E "i + 2" "polls E (i + 2)"] wait_effects [of E "i + 2" model "polls E (i + 2)" s2]
      assms(1) waited(2,4,6) by simp_all
  moreover have "pod_memory pod = Some q"
    using built_memory [OF waited(5) assms(2)] q assms(3,4) waited(7)
    by (simp add: MustParse_def split: option.splits)
  ultimately show ?thesis by (simp add: GetAllocation_def al map_laws)
qed

lemma pod_requests_accounted_memory_witness:
  "\<exists>s' pod a. createPod (demo_cluster pod_missing [Tick (Inr (demo_pod ''b''))]) 0 (demo_model ''b'' ''xx'') idle_server
      = Returns None s' \<and> effects s' = [PodCreated pod]
    \<and> GetAllocation ''b'' ''ns'' (Tracker s') = Some a \<and> pod_memory pod = Some (ma_Memory a)"
proof -
  let ?E = "demo_cluster pod_missing [Tick (Inr (demo_pod ''b''))]" and ?m = "demo_model ''b'' ''xx''"
  obtain s' where *: "createPod ?E 0 ?m idle_server = Returns None s'"
    by (simp add: eval_proxy idle_server_def)
  have "model_memory ?m \<noteq> ''''" and "backend_get ?E 0 (im_Namespace ?m) (Backend (Spec ?m)) = Inr demo_backend"
    and "\<forall>g. gpu_config ?m demo_backend = Some g \<longrightarrow> gpu_ResourceName g \<noteq> ''memory''"
    and "effects idle_server = []" and "im_Name ?m = ''b''" and "im_Namespace ?m = ''ns''"
    by (simp_all add: demo_cluster_def demo_model_def demo_spec_def demo_backend_def gpu_config_def idle_server_def)
  with pod_requests_accounted_memory [OF *] * show ?thesis by simp
qed

section \<open>Ports\<close>

text \<open>
  The proxy forwards to another port than the pod listens on: the API documents the service port as
  defaulting to the backend port, but the forward falls back to 8080 whatever the backend says. With a
  backend on port 9000 the container listens on 9000 and the request goes to 8080.
\<close>

theorem forwards_to_wrong_port:
  "let backend = demo_backend\<lparr>BackendSpec := (BackendSpec demo_backend)\<lparr>be_Port := 9000\<rparr>\<rparr>;
       model = demo_model ''b'' ''xx'';
       E = demo_cluster (\<lambda>i ns n. Inr (demo_pod n)) []
   in resolvePort model backend = 9000 \<and> svc_Port (Service (Spec model)) = None
     \<and> backend_base E 0 model = ''http://10.0.0.7:8080''"
  by (simp add: resolvePort_def demo_backend_def demo_model_def demo_spec_def demo_cluster_def demo_pod_def
      backend_base_def getBackendPodIP_def service_port_def show_int_def show_nat.simps char_of_def bit_0)

end
