(* ===== verification/Gguf_Bounds.thy ===== *)
theory Gguf_Bounds
  imports Gguf
begin

text \<open>What the check of a GGUF file guarantees, and the arithmetic that escapes it.\<close>

section \<open>Bytes counted are bytes read\<close>

definition consumes :: "'a reader \<Rightarrow> ('a \<Rightarrow> int64) \<Rightarrow> bool" where
  "consumes m sz \<longleftrightarrow> (\<forall>bs a rest. m bs = Inr (a, rest) \<longrightarrow>
     (\<exists>c. bs = c @ rest \<and> of_nat (length c) = sz a))"

lemma consumesI:
  "(\<And>bs a rest. m bs = Inr (a, rest) \<Longrightarrow> \<exists>c. bs = c @ rest \<and> of_nat (length c) = sz a) \<Longrightarrow> consumes m sz"
  by (simp add: consumes_def)

lemma consumesD: "consumes m sz \<Longrightarrow> m bs = Inr (a, rest) \<Longrightarrow> \<exists>c. bs = c @ rest \<and> of_nat (length c) = sz a"
  by (simp add: consumes_def)

lemma bindR_Inr: "bindR m f bs = Inr (b, rest) \<longleftrightarrow> (\<exists>a r. m bs = Inr (a, r) \<and> f a r = Inr (b, rest))"
  by (auto simp: bindR_def split: sum.splits)

lemma bindR_Inl: "bindR m f bs = Inl e \<longleftrightarrow> m bs = Inl e \<or> (\<exists>a r. m bs = Inr (a, r) \<and> f a r = Inl e)"
  by (auto simp: bindR_def split: sum.splits)

lemma consumes_returnR: "consumes (returnR a) (\<lambda>_. 0)"
  by (auto simp: returnR_def intro!: consumesI)

lemma consumes_failR: "consumes (failR e) sz"
  by (auto simp: failR_def intro!: consumesI)

lemma consumes_readFull: "consumes (readFull n) (\<lambda>_. of_nat n)"
proof (rule consumesI)
  fix bs a rest
  assume "readFull n bs = Inr (a, rest)"
  then have "n \<le> length bs" and "rest = drop n bs" by (auto simp: readFull_def not_less split: if_splits)
  then show "\<exists>c. bs = c @ rest \<and> of_nat (length c) = (of_nat n :: int64)"
    by (intro exI [of _ "take n bs"]) simp
qed

text \<open>A bind consumes what its parts consume; \<open>out\<close> is the size the caller reports.\<close>

lemma consumes_bindR:
  assumes "consumes m sz" and "\<And>a. consumes (f a) (\<lambda>b. out b - sz a)"
  shows "consumes (bindR m f) out"
proof (rule consumesI)
  fix bs b rest
  assume "bindR m f bs = Inr (b, rest)"
  then obtain a r where "m bs = Inr (a, r)" and "f a r = Inr (b, rest)" by (auto simp: bindR_Inr)
  then obtain c d where "bs = c @ r" "of_nat (length c) = sz a" "r = d @ rest" "of_nat (length d) = out b - sz a"
    using consumesD [OF assms(1)] consumesD [OF assms(2)] by metis
  then show "\<exists>c. bs = c @ rest \<and> of_nat (length c) = out b"
    by (intro exI [of _ "c @ d"]) simp
qed

lemma consumes_cong: "consumes m sz \<Longrightarrow> (\<And>a. sz a = sz' a) \<Longrightarrow> consumes m sz'"
  by (simp add: consumes_def)

lemma consumes_return: "out a = 0 \<Longrightarrow> consumes (returnR a) out"
  by (auto simp: returnR_def intro!: consumesI)

lemma consumes_u32: "consumes read_u32 (\<lambda>_. 4)"
  unfolding read_u32_def
  by (rule consumes_bindR [OF consumes_readFull], rule consumes_return) simp

lemma consumes_u64: "consumes read_u64 (\<lambda>_. 8)"
  unfolding read_u64_def
  by (rule consumes_bindR [OF consumes_readFull], rule consumes_return) simp

lemma consumes_bytes: "consumes (readBytes n) (\<lambda>k. k)"
  unfolding readBytes_def
  by (rule consumes_bindR [OF consumes_readFull], rule consumes_return) simp

lemma consumes_string: "consumes readGGUFString snd"
  unfolding readGGUFString_def
  by (rule consumes_bindR [OF consumes_u64])
    (auto intro!: consumes_failR consumes_bindR [OF consumes_readFull] consumes_return)

lemma consumes_repeat:
  assumes "consumes m (\<lambda>k. k)"
  shows "consumes (repeat_read n m acc) (\<lambda>k. k - acc)"
proof (induction n arbitrary: acc)
  case 0
  then show ?case by (simp add: consumes_return)
next
  case (Suc n)
  show ?case
    by (auto intro!: consumes_bindR [OF assms] consumes_cong [OF Suc] simp: algebra_simps)
qed

lemma consumes_skip_fuel: "consumes (skip_fuel fuel ty) (\<lambda>k. k)"
proof (induction fuel arbitrary: ty)
  case 0
  then show ?case by (simp add: consumes_failR)
next
  case (Suc fuel)
  show ?case
    by (auto intro!: consumes_bytes consumes_failR consumes_bindR [OF consumes_string] consumes_return
        consumes_bindR [OF consumes_u32] consumes_bindR [OF consumes_u64]
        consumes_cong [OF consumes_repeat [OF Suc]] split: option.split)
qed

lemma consumes_skip: "consumes (skipGGUFMetadataValue ty) (\<lambda>k. k)"
  unfolding skipGGUFMetadataValue_def
  by (intro consumesI) (rule consumesD [OF consumes_skip_fuel])

lemma consumes_value: "consumes (readGGUFMetadataValue ty) snd"
  unfolding readGGUFMetadataValue_def
  by (auto intro!: consumes_bindR [OF consumes_u32] consumes_bindR [OF consumes_u64]
      consumes_bindR [OF consumes_skip] consumes_return)

lemma consumes_metadata: "consumes (metadata_loop i alignment n) (\<lambda>r. snd r - n)"
proof (induction i arbitrary: alignment n)
  case 0
  then show ?case by (simp add: consumes_return)
next
  case (Suc i)
  show ?case
    by (auto intro!: consumes_bindR [OF consumes_string] consumes_bindR [OF consumes_u32]
        consumes_bindR [OF consumes_value] consumes_bindR [OF consumes_skip] consumes_cong [OF Suc]
        simp: algebra_simps split: prod.split)
qed

lemma consumes_dims: "consumes (dims_loop n) (\<lambda>_. 8 * of_nat n)"
proof (induction n)
  case 0
  then show ?case by (simp add: consumes_return)
next
  case (Suc n)
  show ?case
    by (auto intro!: consumes_bindR [OF consumes_u64] consumes_bindR [OF Suc] consumes_return simp: algebra_simps)
qed

lemma consumes_tensors: "consumes (tensors_loop i n) (\<lambda>r. snd r - n)"
proof (induction i arbitrary: n)
  case 0
  then show ?case by (simp add: consumes_return)
next
  case (Suc i)
  show ?case
    by (auto intro!: consumes_bindR [OF consumes_string] consumes_bindR [OF consumes_u32] consumes_failR
        consumes_bindR [OF consumes_dims] consumes_bindR [OF consumes_u64] consumes_bindR [OF Suc] consumes_return
        simp: algebra_simps split: prod.split)
qed

lemma consumes_header: "consumes readGGUFFileHeader (\<lambda>_. 24)"
  unfolding readGGUFFileHeader_def
  by (auto intro!: consumes_bindR [OF consumes_readFull] consumes_bindR [OF consumes_u32] consumes_failR
      consumes_bindR [OF consumes_u64] consumes_return)

text \<open>
  The header size is exact: when the tables of a file parse, the number of bytes counted along the way
  is the number of bytes read, so the tensor data is taken to start where the tables end.
\<close>

theorem header_size_is_bytes_read:
  assumes "parse_tables bs = Inr ((alignment, tensors, bytesRead), rest)"
  shows "bytesRead = of_nat (length bs - length rest) \<and> length rest \<le> length bs"
proof -
  have "consumes parse_tables (\<lambda>(al, ts, n). n)"
    unfolding parse_tables_def parseGGUFMetadata_def parseGGUFTensorInfos_def
    by (auto intro!: consumes_bindR [OF consumes_header] consumes_bindR [OF consumes_metadata]
        consumes_bindR [OF consumes_tensors] consumes_return simp: algebra_simps split: prod.split)
  from consumesD [OF this assms] show ?thesis by auto
qed

section \<open>The fuel is enough\<close>

lemma consumes_length: "consumes m sz \<Longrightarrow> m bs = Inr (a, rest) \<Longrightarrow> length rest \<le> length bs"
  by (auto dest: consumesD)

lemma repeat_read_fuel:
  assumes "consumes m (\<lambda>k. k)" and "\<And>bs. length bs \<le> L \<Longrightarrow> m bs \<noteq> Inl OutOfFuel" and "length bs \<le> L"
  shows "repeat_read n m acc bs \<noteq> Inl OutOfFuel"
  using assms(3)
proof (induction n arbitrary: acc bs)
  case 0
  then show ?case by (simp add: returnR_def)
next
  case (Suc n)
  then show ?case
    using assms(2) consumes_length [OF assms(1)] by (fastforce simp: bindR_Inl)
qed

lemma u64_shrinks: "read_u64 bs = Inr (v, rest) \<Longrightarrow> length bs = length rest + 8"
  by (auto simp: read_u64_def bindR_def readFull_def returnR_def split: if_splits)

lemma string_no_fuel: "readGGUFString bs \<noteq> Inl OutOfFuel" "read_u32 bs \<noteq> Inl OutOfFuel" "read_u64 bs \<noteq> Inl OutOfFuel"
    "readBytes n bs \<noteq> Inl OutOfFuel"
  by (auto simp: readGGUFString_def read_u32_def read_u64_def readBytes_def bindR_def readFull_def returnR_def failR_def
      split: sum.splits if_splits)

lemma skip_fuel_enough: "length bs < fuel \<Longrightarrow> skip_fuel fuel ty bs \<noteq> Inl OutOfFuel"
proof (induction fuel arbitrary: ty bs)
  case 0
  then show ?case by simp
next
  case (Suc fuel)
  have arr: "repeat_read n (skip_fuel fuel elem) 12 r2 \<noteq> Inl OutOfFuel"
    if "read_u32 bs = Inr (e, r1)" "read_u64 r1 = Inr (c, r2)" for n elem e c r1 r2
  proof (rule repeat_read_fuel [OF consumes_skip_fuel, of "length r2"])
    have "length r2 < fuel"
      using Suc.prems u64_shrinks [OF that(2)] consumes_length [OF consumes_u32 that(1)] by simp
    then show "skip_fuel fuel elem bs' \<noteq> Inl OutOfFuel" if "length bs' \<le> length r2" for bs'
      using Suc.IH that by simp
  qed simp
  show ?case
    using string_no_fuel arr
    by (auto simp: bindR_Inl failR_def returnR_def split: option.split if_splits)
qed

text \<open>
  Skipping a metadata value always ends in a value or a real error of the file: the nesting of arrays
  is bounded by the length of the input, so the recursion of the code never runs deeper than that.
\<close>

theorem skip_terminates:
  "skipGGUFMetadataValue ty bs \<noteq> Inl OutOfFuel"
  by (simp add: skipGGUFMetadataValue_def skip_fuel_enough del: skip_fuel.simps)

section \<open>Accepted tensors\<close>

text \<open>The size of a tensor in exact arithmetic; \<open>None\<close> for an unknown type.\<close>

definition exact_elements :: "ggufTensorInfo \<Rightarrow> nat" where
  "exact_elements t = prod_list (map unat (dimensions t))"

definition exact_size :: "ggufTensorInfo \<Rightarrow> nat option" where
  "exact_size t =
     (case map_of ggufQuantTypes (typeID t) of
        None \<Rightarrow> None
      | Some (blockSize, bytesPerBlock) \<Rightarrow>
          Some ((exact_elements t + unat blockSize - 1) div unat blockSize * unat bytesPerBlock))"

lemma quant_types_small:
  "map_of ggufQuantTypes ty = Some (blockSize, bytes) \<Longrightarrow> 1 \<le> unat blockSize \<and> unat blockSize \<le> 256"
proof -
  have "list_all (\<lambda>(ty, blockSize, bytes). 1 \<le> unat blockSize \<and> unat blockSize \<le> 256) ggufQuantTypes"
    by (simp add: ggufQuantTypes_def)
  moreover assume "map_of ggufQuantTypes ty = Some (blockSize, bytes)"
  ultimately show ?thesis by (auto simp: list_all_iff dest: map_of_SomeD)
qed

lemma numElements_prod:
  "numElements acc ds = (if 0 \<in> set ds then None else Some (acc * of_nat (prod_list (map unat ds))))"
  by (induction acc ds rule: numElements.induct) (auto simp: algebra_simps)

lemma computeTensorDataSize_exact:
  assumes "exact_size t = Some sz" and "exact_elements t < 2 ^ 64 - 256" and "sz < 2 ^ 64"
  shows "computeTensorDataSize t = Some (of_nat sz)"
proof -
  obtain blockSize bytes where q: "map_of ggufQuantTypes (typeID t) = Some (blockSize, bytes)"
    and sz: "sz = (exact_elements t + unat blockSize - 1) div unat blockSize * unat bytes"
    using assms(1) by (auto simp: exact_size_def split: option.splits)
  have b: "1 \<le> unat blockSize" "unat blockSize \<le> 256" using quant_types_small [OF q] by auto
  show ?thesis
  proof (cases "0 \<in> set (dimensions t)")
    case True
    then have "exact_elements t = 0" by (force simp: exact_elements_def prod_list_zero_iff)
    with b sz have "sz = 0" by simp
    with True q show ?thesis by (simp add: computeTensorDataSize_def numElements_prod)
  next
    case False
    let ?n = "of_nat (exact_elements t) :: uint64"
    have "?n + blockSize - 1 = of_nat (exact_elements t + unat blockSize - 1)"
      using b by (simp add: of_nat_diff)
    then have "unat (?n + blockSize - 1) = exact_elements t + unat blockSize - 1"
      using assms(2) b by (simp only: unat_of_nat_small)
    then have "unat ((?n + blockSize - 1) div blockSize) = (exact_elements t + unat blockSize - 1) div unat blockSize"
      by (simp add: unat_div)
    from arg_cong [OF this, of "of_nat :: nat \<Rightarrow> uint64"]
    have "(?n + blockSize - 1) div blockSize * bytes = of_nat sz"
      unfolding sz by simp
    with False q show ?thesis
      by (simp add: computeTensorDataSize_def numElements_prod exact_elements_def)
  qed
qed

lemma bounds_loop_None:
  "bounds_loop start fileSize ts = None \<Longrightarrow> t \<in> set ts \<Longrightarrow> computeTensorDataSize t = Some k
   \<Longrightarrow> sint (start + offset t + k) \<le> sint fileSize"
  by (induction start fileSize ts rule: bounds_loop.induct) (auto split: option.splits if_splits)

text \<open>
  C29. Accepted files are large enough: when the check accepts a file, the data of every tensor of a known type,
  at its exact size, ends within the file, as long as the exact sums and products stay below the limits at
  which the code's \<open>uint64\<close> and \<open>int64\<close> arithmetic wraps.
\<close>

theorem accepted_tensors_fit:
  assumes "validateGGUFHeader file fileSize = None"
    and "parse_tables file = Inr ((alignment, tensors, bytesRead), rest)"
    and "t \<in> set tensors" and "exact_size t = Some sz" and "exact_elements t < 2 ^ 64 - 256"
    and "unat (align_up bytesRead alignment) + unat (offset t) + sz < 2 ^ 63"
  shows "int (unat (align_up bytesRead alignment) + unat (offset t) + sz) \<le> sint fileSize"
proof -
  let ?start = "align_up bytesRead alignment"
  have "computeTensorDataSize t = Some (of_nat sz)"
    using computeTensorDataSize_exact [OF assms(4,5)] assms(6) by simp
  then have "sint (?start + offset t + of_nat sz) \<le> sint fileSize"
    using assms(1-3) by (auto simp: validateGGUFHeader_def validateGGUFTensorBounds_def intro: bounds_loop_None)
  moreover have "sint (?start + offset t + of_nat sz) = int (unat ?start + unat (offset t) + sz)"
  proof -
    have "sint (word_of_int (int (unat ?start + unat (offset t) + sz)) :: int64) = int (unat ?start + unat (offset t) + sz)"
    proof (rule sint_small)
      show "int (unat ?start + unat (offset t) + sz) < 2 ^ 63"
        using assms(6) by (metis of_nat_less_iff of_nat_numeral of_nat_power)
      show "- (2 ^ 63) \<le> int (unat ?start + unat (offset t) + sz)"
        by (rule order_trans [of _ 0]) simp_all
    qed
    moreover have "?start + offset t + of_nat sz = word_of_int (int (unat ?start + unat (offset t) + sz))"
      by simp
    ultimately show ?thesis by metis
  qed
  ultimately show ?thesis by simp
qed

text \<open>A file of no metadata and one tensor: name \<open>t\<close>, two dimensions, type \<open>F32\<close>, at offset 0.\<close>

definition demo_gguf :: "byte list \<Rightarrow> byte list \<Rightarrow> byte list" where
  "demo_gguf d1 d2 =
     [0x47, 0x47, 0x55, 0x46, 3, 0, 0, 0, 1, 0, 0, 0, 0, 0, 0, 0, 0, 0, 0, 0, 0, 0, 0, 0,
      1, 0, 0, 0, 0, 0, 0, 0, 0x74, 2, 0, 0, 0] @ d1 @ d2 @ [0, 0, 0, 0, 0, 0, 0, 0, 0, 0, 0, 0]"

definition demo_tensor :: "uint64 \<Rightarrow> uint64 \<Rightarrow> ggufTensorInfo" where
  "demo_tensor d1 d2 = \<lparr>gt_name = ''t'', nDims = 2, dimensions = [d1, d2], typeID = 0, offset = 0\<rparr>"

lemma demo_gguf_parses:
  "parse_tables (demo_gguf [2, 0, 0, 0, 0, 0, 0, 0] [3, 0, 0, 0, 0, 0, 0, 0]) = Inr ((32, [demo_tensor 2 3], 65), [])"
  by code_simp

lemma header_size_is_bytes_read_witness:
  "(65 :: int64) = of_nat (length (demo_gguf [2, 0, 0, 0, 0, 0, 0, 0] [3, 0, 0, 0, 0, 0, 0, 0]))"
  using header_size_is_bytes_read [OF demo_gguf_parses] by simp

lemma accepted_tensors_fit_witness:
  "validateGGUFHeader (demo_gguf [2, 0, 0, 0, 0, 0, 0, 0] [3, 0, 0, 0, 0, 0, 0, 0]) 120 = None
   \<and> int (unat (align_up 65 32) + unat (offset (demo_tensor 2 3)) + 24) \<le> 120"
proof -
  have ok: "validateGGUFHeader (demo_gguf [2, 0, 0, 0, 0, 0, 0, 0] [3, 0, 0, 0, 0, 0, 0, 0]) 120 = None"
    by code_simp
  have "exact_size (demo_tensor 2 3) = Some 24" and "exact_elements (demo_tensor 2 3) = 6"
    and "unat (align_up 65 32) = 96" and "unat (offset (demo_tensor 2 3)) = 0"
    by (simp_all add: exact_size_def exact_elements_def demo_tensor_def ggufQuantTypes_def align_up_def)
  with accepted_tensors_fit [OF ok demo_gguf_parses, of "demo_tensor 2 3" 24] ok show ?thesis by simp
qed

text \<open>
  The bounds check can be escaped: with two dimensions of \<open>2^32\<close> the number of elements wraps to zero, so a
  tensor of \<open>2^66\<close> bytes passes the check of a file of a hundred bytes.
\<close>

theorem wrapped_tensor_is_accepted:
  "validateGGUFTensorBounds [demo_tensor 4294967296 4294967296] 65 32 100 = None
   \<and> exact_size (demo_tensor 4294967296 4294967296) = Some (2 ^ 66)"
proof
  show "validateGGUFTensorBounds [demo_tensor 4294967296 4294967296] 65 32 100 = None"
    by (simp add: validateGGUFTensorBounds_def align_up_def demo_tensor_def computeTensorDataSize_def ggufQuantTypes_def)
  show "exact_size (demo_tensor 4294967296 4294967296) = Some (2 ^ 66)"
    by (simp add: exact_size_def exact_elements_def demo_tensor_def ggufQuantTypes_def)
qed

end
