(* ===== verification/Controller.thy ===== *)
theory Controller
  imports Cluster Download_Manager Go_Time "HOL-Library.Signed_Division"
begin

text \<open>
  The reconciler, \<open>internal/controller/inferencemodel_controller.go\<close>: one call of \<open>Reconcile\<close>, handler by handler.

  It shares the budget tracker and the deployment registry with the proxy and keeps the downloads and the model
  directories. Every answer of the Kubernetes API is a function of the moment; the requests that change the cluster,
  the events and the metrics are logged in order. The object sent in an update is taken to be what the server keeps.
\<close>

section \<open>State and surroundings\<close>

datatype ctl_effect =
    ModelUpdated InferenceModel
  | StatusUpdated InferenceModel
  | PodUpdated Pod
  | PodDeletedIdle string string \<comment> \<open>namespace and name\<close>
  | EventRecorded string string \<comment> \<open>type and reason\<close>
  | ModelMetrics InferenceModel
  | ModelMetricsDeleted string string \<comment> \<open>name and namespace\<close>
  | NodeMemoryMetrics int64 int64 int64 \<comment> \<open>total, used, available\<close>
  | DownloadStarted nat DownloadSpec

record 'q reconciler =
  ct_server :: "'q server"
  ct_manager :: Manager
  ct_disk :: disk
  ct_log :: "ctl_effect list"

record 'q control_env =
  ce_cluster :: "'q cluster"
  ce_model_get :: "nat \<Rightarrow> string \<Rightarrow> string \<Rightarrow> api_error + InferenceModel"
  ce_update :: "nat \<Rightarrow> api_error option"
  ce_status_update :: "nat \<Rightarrow> api_error option"
  ce_pod_metrics :: "nat \<Rightarrow> (string \<Rightarrow> string \<Rightarrow> 'q option list option) option"
    \<comment> \<open>\<open>None\<close> where there is no metrics client; per container its memory, by namespace and name\<close>
  ce_quantity_text :: "'q \<Rightarrow> string"
  ce_recommendation_text :: "'q recommendation \<Rightarrow> string" \<comment> \<open>empty for none\<close>
  ce_parse_rfc3339 :: "string \<Rightarrow> go_time option"
  ce_storage :: storage
  ce_fl :: rounding
  ce_hf_home :: string
  ce_MaxMemoryBytes :: int64
  ce_advance :: "nat \<Rightarrow> DownloadStatus \<Rightarrow> DownloadStatus" \<comment> \<open>what the download did to its status by then\<close>

record ctrl_result =
  Requeue :: bool
  RequeueAfter :: duration

datatype ctl_error = FromApi string api_error | FromDisk string os_error | DownloadFailed string

type_synonym ctl_answer = "ctrl_result \<times> ctl_error option"

definition NoResult :: ctrl_result where "NoResult = \<lparr>Requeue = False, RequeueAfter = 0\<rparr>"
definition RequeueNow :: ctrl_result where "RequeueNow = \<lparr>Requeue = True, RequeueAfter = 0\<rparr>"
definition After :: "duration \<Rightarrow> ctrl_result" where "After d = \<lparr>Requeue = False, RequeueAfter = d\<rparr>"

definition FinalizerName :: string where "FinalizerName = ''inference.eh-ops.io/finalizer''"
definition LastRequestAnnotation :: string where "LastRequestAnnotation = ''inference.eh-ops.io/last-request-time''"
definition RetryDownloadAnnotation :: string where "RetryDownloadAnnotation = ''inference.eh-ops.io/retry-download''"
definition IdleCheckInterval :: duration where "IdleCheckInterval = 60000000000"

text \<open>Recording in the log, and changes of the shared memory.\<close>

definition ctl :: "ctl_effect \<Rightarrow> 'q reconciler \<Rightarrow> 'q reconciler" where
  "ctl e s = s\<lparr>ct_log := ct_log s @ [e]\<rparr>"

definition map_tracker :: "('q Tracker \<Rightarrow> 'q Tracker) \<Rightarrow> 'q reconciler \<Rightarrow> 'q reconciler" where
  "map_tracker f s = s\<lparr>ct_server := (ct_server s)\<lparr>Tracker := f (Tracker (ct_server s))\<rparr>\<rparr>"

text \<open>A call on the registry where the code does not check the pointer.\<close>

definition with_registry :: "(registry \<Rightarrow> registry) \<Rightarrow> 'q reconciler \<Rightarrow> (unit, 'q reconciler) outcome" where
  "with_registry f s = (case Reg (ct_server s) of
     None \<Rightarrow> Panics NilDereference s
   | Some r \<Rightarrow> Returns () (s\<lparr>ct_server := (ct_server s)\<lparr>Reg := Some (f r)\<rparr>\<rparr>))"

definition release :: "'q::ab_group_add control_env \<Rightarrow> nat \<Rightarrow> InferenceModel \<Rightarrow> 'q reconciler \<Rightarrow> 'q reconciler" where
  "release E i m s = map_tracker (ReleaseModel (range_start (ce_cluster E) i) (im_Name m) (im_Namespace m)) s"

text \<open>\<open>r.Status().Update\<close> and \<open>r.Update\<close>: the request is sent, and the API answers.\<close>

definition send_status :: "'q control_env \<Rightarrow> nat \<Rightarrow> InferenceModel \<Rightarrow> 'q reconciler \<Rightarrow> api_error option \<times> 'q reconciler" where
  "send_status E i m s = (ce_status_update E i, ctl (StatusUpdated m) s)"

definition send_model :: "'q control_env \<Rightarrow> nat \<Rightarrow> InferenceModel \<Rightarrow> 'q reconciler \<Rightarrow> api_error option \<times> 'q reconciler" where
  "send_model E i m s = (ce_update E i, ctl (ModelUpdated m) s)"

definition send_pod :: "'q control_env \<Rightarrow> nat \<Rightarrow> Pod \<Rightarrow> 'q reconciler \<Rightarrow> api_error option \<times> 'q reconciler" where
  "send_pod E i p s = (ce_update E i, ctl (PodUpdated p) s)"

section \<open>Conditions\<close>

text \<open>The loop over the conditions: \<open>None\<close> where none has the type; otherwise whether it changed, and the list.\<close>

fun update_condition ::
  "go_time \<Rightarrow> string \<Rightarrow> string \<Rightarrow> string \<Rightarrow> string \<Rightarrow> Condition list \<Rightarrow> (bool \<times> Condition list) option" where
  "update_condition now ty st reason msg [] = None"
| "update_condition now ty st reason msg (c # cs) =
     (if cond_Type c = ty
      then (if cond_Status c = st \<and> cond_Reason c = reason \<and> cond_Message c = msg then Some (False, c # cs)
            else Some (True, \<lparr>cond_Type = ty, cond_Status = st, cond_Reason = reason, cond_Message = msg,
                              cond_LastTransitionTime = now\<rparr> # cs))
      else map_option (map_prod id ((#) c)) (update_condition now ty st reason msg cs))"

definition setConditionOnModel ::
  "go_time \<Rightarrow> string \<Rightarrow> string \<Rightarrow> string \<Rightarrow> string \<Rightarrow> InferenceModelStatus \<Rightarrow> bool \<times> InferenceModelStatus" where
  "setConditionOnModel now ty st reason msg status =
     (case update_condition now ty st reason msg (Conditions status) of
        Some (changed, cs) \<Rightarrow> (changed, status\<lparr>Conditions := cs\<rparr>)
      | None \<Rightarrow> (True, status\<lparr>Conditions := Conditions status @
          [\<lparr>cond_Type = ty, cond_Status = st, cond_Reason = reason, cond_Message = msg, cond_LastTransitionTime = now\<rparr>]\<rparr>))"

definition on_status :: "(InferenceModelStatus \<Rightarrow> InferenceModelStatus) \<Rightarrow> InferenceModel \<Rightarrow> InferenceModel" where
  "on_status f m = m\<lparr>Status := f (Status m)\<rparr>"

text \<open>The model with the condition set, and the error of the update if one was needed.\<close>

definition setCondition ::
  "'q control_env \<Rightarrow> nat \<Rightarrow> string \<Rightarrow> string \<Rightarrow> string \<Rightarrow> string \<Rightarrow> InferenceModel \<Rightarrow> 'q reconciler
    \<Rightarrow> api_error option \<times> InferenceModel \<times> 'q reconciler" where
  "setCondition E i ty st reason msg m s =
     (case setConditionOnModel (clock (ce_cluster E) i) ty st reason msg (Status m) of
        (changed, status) \<Rightarrow>
          (let m1 = m\<lparr>Status := status\<rparr> in
           if changed then (case send_status E i m1 s of (e, s1) \<Rightarrow> (e, m1, s1)) else (None, m1, s)))"

fun scaled_down :: "Condition list \<Rightarrow> bool" where
  "scaled_down [] = False"
| "scaled_down (c # cs) =
     (if cond_Type c = ''Ready'' then cond_Status c = ''False'' \<and> cond_Reason c = ''ScaledToZero'' else scaled_down cs)"

definition isScaledDown :: "InferenceModel \<Rightarrow> bool" where
  "isScaledDown m = scaled_down (Conditions (Status m))"

section \<open>Metrics of the budget\<close>

definition updateBudgetMetrics :: "'q control_env \<Rightarrow> 'q reconciler \<Rightarrow> 'q reconciler" where
  "updateBudgetMetrics E s =
     (if sint (ce_MaxMemoryBytes E) \<le> 0 then s
      else (let used = GetTotalAllocatedMemory (quantities (ce_cluster E)) (Tracker (ct_server s));
                available = ce_MaxMemoryBytes E - used
            in ctl (NodeMemoryMetrics (ce_MaxMemoryBytes E) used (if sint available < 0 then 0 else available)) s))"

definition getNodeSelectorKey :: "nat \<Rightarrow> selector \<Rightarrow> string" where
  "getNodeSelectorKey c sel = nodeSelectorKey c sel"

section \<open>Idle scaling\<close>

definition updateLastRequestAnnotation ::
  "'q control_env \<Rightarrow> nat \<Rightarrow> Pod \<Rightarrow> 'q reconciler \<Rightarrow> ctl_answer \<times> 'q reconciler" where
  "updateLastRequestAnnotation E i pod s =
     (let podCopy = pod\<lparr>pod_Annotations := AList.update LastRequestAnnotation
            (format_rfc3339 (ce_cluster E) (clock (ce_cluster E) i)) (pod_Annotations pod)\<rparr> in
      case send_pod E i podCopy s of
        (Some e, s1) \<Rightarrow> ((NoResult, Some (FromApi ''failed to update last request annotation'' e)), s1)
      | (None, s1) \<Rightarrow> ((After IdleCheckInterval, None), s1))"

definition registry_entry :: "InferenceModel \<Rightarrow> registry \<Rightarrow> DeploymentEntry option" where
  "registry_entry m r = Get (im_Namespace m) (im_Name m) r"

definition busy :: "InferenceModel \<Rightarrow> registry option \<Rightarrow> bool" where
  "busy m r = (case Option.bind r (registry_entry m) of Some e \<Rightarrow> ActiveRequests e > 0 | None \<Rightarrow> False)"

definition deleteIdlePod ::
  "'q::ab_group_add control_env \<Rightarrow> nat \<Rightarrow> InferenceModel \<Rightarrow> Pod \<Rightarrow> 'q reconciler \<Rightarrow> ctl_answer \<times> 'q reconciler" where
  "deleteIdlePod E i m pod s =
     (if busy m (Reg (ct_server s)) then ((After IdleCheckInterval, None), s)
      else if isScaledDown m then ((After IdleCheckInterval, None), s)
      else
        (case setCondition E i ''Ready'' ''False'' ''ScaledToZero'' ''Model pod deleted due to inactivity'' m s of
           (Some e, m1, s1) \<Rightarrow> ((NoResult, Some (FromApi ''failed to set scaled-to-zero condition'' e)), s1)
         | (None, m1, s1) \<Rightarrow>
             (let s2 = ctl (PodDeletedIdle (pod_Namespace pod) (pod_Name pod)) s1;
                  answer = pod_delete (ce_cluster E) i (pod_Namespace pod) (pod_Name pod) in
              if answer \<noteq> None \<and> answer \<noteq> Some NotFound
              then ((NoResult, map_option (FromApi ''failed to delete pod for idle model'') answer), s2)
              else
                (let s3 = (if answer = None then ctl (EventRecorded ''Normal'' ''PodDeleted'') s2 else s2);
                     s4 = s3\<lparr>ct_server := on_registry (Delete (im_Namespace m) (im_Name m)) (ct_server s3)\<rparr>
                 in ((After IdleCheckInterval, None), release E i m s4)))))"

text \<open>The cooldown period: the first of the two settings that parses to something other than zero, else five minutes.\<close>

definition cooldown_period :: "rounding \<Rightarrow> ScalingConfig \<Rightarrow> duration" where
  "cooldown_period fl sc =
     (let parse = (\<lambda>t. if t = '''' then 0 else case ParseDuration fl t of Some d \<Rightarrow> d | None \<Rightarrow> 0);
          a = parse (sc_ScaleToZeroDelay sc); b = (if a = 0 then parse (sc_CooldownPeriod sc) else a)
      in if b = 0 then 300000000000 else b)"

definition handleIdleScaling ::
  "'q::ab_group_add control_env \<Rightarrow> nat \<Rightarrow> InferenceModel \<Rightarrow> Pod \<Rightarrow> 'q reconciler
    \<Rightarrow> (ctl_answer, 'q reconciler) outcome" where
  "handleIdleScaling E i m pod s =
     (let sc = Scaling (Spec m) in
      if sc_Enabled sc = Some False then Returns (NoResult, None) s
      else if sc_EvictionPolicy sc = EvictionPolicyMemoryPressureOnly then Returns (NoResult, None) s
      else if Reg (ct_server s) = None then Panics NilDereference s
      else if busy m (Reg (ct_server s)) then Returns (NoResult, None) s
      else
        (let cooldown = cooldown_period (ce_fl E) sc;
             annotate = (case updateLastRequestAnnotation E i pod s of (a, s1) \<Rightarrow> Returns a s1) in
         case map_of (pod_Annotations pod) LastRequestAnnotation of
           None \<Rightarrow> annotate
         | Some text \<Rightarrow>
             if text = '''' then annotate
             else (case ce_parse_rfc3339 E text of
               None \<Rightarrow> annotate
             | Some lastRequest \<Rightarrow>
                 (let idleTime = clock (ce_cluster E) i - lastRequest in
                  if idleTime > cooldown then (case deleteIdlePod E i m pod s of (a, s1) \<Rightarrow> Returns a s1)
                  else Returns (After (min (cooldown - idleTime) IdleCheckInterval), None) s))))"

text \<open>Called by nothing else in the repository.\<close>

definition UpdateLastRequestTime ::
  "'q control_env \<Rightarrow> nat \<Rightarrow> string \<Rightarrow> string \<Rightarrow> 'q reconciler \<Rightarrow> api_error option \<times> 'q reconciler" where
  "UpdateLastRequestTime E i modelName namespace s =
     (case pod_get (ce_cluster E) i namespace modelName of
        Inl e \<Rightarrow> (Some e, s)
      | Inr pod \<Rightarrow> send_pod E i (pod\<lparr>pod_Annotations := AList.update LastRequestAnnotation
          (format_rfc3339 (ce_cluster E) (clock (ce_cluster E) i)) (pod_Annotations pod)\<rparr>) s)"

section \<open>Status of a running pod\<close>

text \<open>The memory of the first container that reports one.\<close>

definition observed_memory :: "'q control_env \<Rightarrow> nat \<Rightarrow> Pod \<Rightarrow> 'q option" where
  "observed_memory E i pod =
     (case ce_pod_metrics E i of
        None \<Rightarrow> None
      | Some get \<Rightarrow> (case get (pod_Namespace pod) (pod_Name pod) of
          None \<Rightarrow> None
        | Some containers \<Rightarrow> (case List.map_filter (\<lambda>c. c) containers of [] \<Rightarrow> None | q # qs \<Rightarrow> Some q)))"

definition utilization_status :: "'q control_env \<Rightarrow> 'q UtilizationInfo \<Rightarrow> InferenceModelStatus \<Rightarrow> InferenceModelStatus" where
  "utilization_status E info st =
     (case ui_ObservedPeak info of
        None \<Rightarrow> st
      | Some peak \<Rightarrow>
          (let st1 = st\<lparr>ObservedPeakMemory := ce_quantity_text E peak,
                        UtilizationPercent := word_of_int (trunc (ce_fl E (ui_Utilization info * 100)))\<rparr>;
               rec_text = ce_recommendation_text E (ui_Recommendation info)
           in if rec_text \<noteq> '''' then st1\<lparr>Recommendation := rec_text\<rparr> else st1))"

text \<open>Status, reason and message of the condition \<open>Ready\<close>.\<close>

definition pod_condition :: "Pod \<Rightarrow> string \<times> string \<times> string" where
  "pod_condition pod =
     (if pod_is_ready pod then (''True'', ''Deployed'', ''Pod is ready and serving traffic'')
      else if pod_Phase pod = ''Running'' then (''False'', ''Deploying'', ''Pod is running but not yet ready'')
      else (''False'', ''Pending'', ''Pod is '' @ pod_Phase pod))"

definition set_conditions :: "go_time \<Rightarrow> Pod \<Rightarrow> InferenceModelStatus \<Rightarrow> InferenceModelStatus" where
  "set_conditions now pod st =
     (let (cs, reason, msg) = pod_condition pod;
          st1 = snd (setConditionOnModel now ''Ready'' cs reason msg st)
      in if pod_is_ready pod
         then snd (setConditionOnModel now ''Available'' ''True'' ''Deployed'' ''Model is available and serving requests'' st1)
         else snd (setConditionOnModel now ''Available'' ''False'' reason msg st1))"

definition updateStatus ::
  "'q::linorder control_env \<Rightarrow> nat \<Rightarrow> InferenceModel \<Rightarrow> Pod \<Rightarrow> 'q reconciler
    \<Rightarrow> (ctl_answer, 'q reconciler) outcome" where
  "updateStatus E i m pod s =
     (let oldReady = Ready (Status m); oldPeak = ObservedPeakMemory (Status m); ready = pod_is_ready pod;
          m1 = on_status (\<lambda>st. st\<lparr>Ready := ready, Replicas := 1, AvailableReplicas := 1,
                 DeclaredMemory := res_Memory (Resources (Spec m))\<rparr>) m;
          recorded = (if ready
            then (case observed_memory E i pod of
                None \<Rightarrow> Inr (Tracker (ct_server s))
              | Some q \<Rightarrow> RecordUsage (im_Name m) (im_Namespace m) (Some q) (Tracker (ct_server s)))
            else Inr (Tracker (ct_server s))) in
      and_then (attempt recorded s) (\<lambda>t s.
      let s1 = map_tracker (\<lambda>_. t) s in
      and_then (attempt (GetUtilization (quantities (ce_cluster E)) (ce_fl E) (im_Name m) (im_Namespace m)
                  (res_Memory (Resources (Spec m))) t) s1) (\<lambda>info s1.
      let m2 = on_status (\<lambda>st. set_conditions (clock (ce_cluster E) i) pod (utilization_status E info st)) m1 in
      and_then (if ready then with_registry (SetState (clock (ce_cluster E) i) (im_Namespace m) (im_Name m) StateReady) s1
                else Returns () s1) (\<lambda>_ s2.
        let write = (oldReady \<noteq> Ready (Status m2) \<or> Conditions (Status m2) = [] \<or> oldPeak \<noteq> ObservedPeakMemory (Status m2));
            finish = (\<lambda>s. Returns (After IdleCheckInterval, None) (updateBudgetMetrics E (ctl (ModelMetrics m2) s))) in
        if write
        then (case send_status E i m2 s2 of
            (None, s3) \<Rightarrow> finish s3
          | (Some Conflict, s3) \<Rightarrow> Returns (RequeueNow, None) s3
          | (Some e, s3) \<Rightarrow> Returns (NoResult, Some (FromApi '''' e)) s3)
        else finish s2))))"

section \<open>Downloads\<close>

definition getCacheDir :: "string \<Rightarrow> string" where
  "getCacheDir modelName = Join [''/models'', modelName]"

definition needsDownload :: "'q control_env \<Rightarrow> nat \<Rightarrow> InferenceModel \<Rightarrow> disk \<Rightarrow> bool" where
  "needsDownload E i m d =
     (if src_HuggingFace (Source (Spec m)) = None then False
      else if DownloadPhase (Status m) = DownloadPhaseComplete
      then \<not> CheckReadyMarker (ce_storage E) i (getCacheDir (im_Name m)) d
      else True)"

definition is_pattern :: "string \<Rightarrow> bool" where
  "is_pattern f = (Contains f ''*'' \<or> Contains f ''?'')"

definition buildDownloadSpec :: "InferenceModel \<Rightarrow> HuggingFaceSource \<Rightarrow> DownloadSpec" where
  "buildDownloadSpec m hf =
     NewDownloadSpec (hf_Repo hf)
       [WithBranch (if hf_Revision hf = '''' then ''main'' else hf_Revision hf),
        WithFiles (filter (\<lambda>f. \<not> is_pattern f) (hf_Files hf)), WithPatterns (filter is_pattern (hf_Files hf)),
        WithDestDir (getCacheDir (im_Name m))]"

definition convertDownloadPhase :: "DownloadPhase \<Rightarrow> string" where
  "convertDownloadPhase p =
     (case p of
        PhasePending \<Rightarrow> DownloadPhasePending
      | PhaseDownloading \<Rightarrow> DownloadPhaseDownloading
      | PhaseComplete \<Rightarrow> DownloadPhaseComplete
      | PhaseFailed \<Rightarrow> DownloadPhaseFailed)"

definition getProgressSnapshot :: "go_time \<Rightarrow> DownloadStatus \<Rightarrow> ProgressSnapshot" where
  "getProgressSnapshot now st =
     \<lparr>sn_BytesTotal = ds_BytesTotal st, sn_BytesCompleted = ds_BytesDone st, sn_Percentage = ds_Progress st,
      sn_Speed = 0, sn_ETA = 0, sn_Files = [], sn_Elapsed = Duration now st\<rparr>"

text \<open>\<open>d.Seconds()\<close>, and the speed: the bytes by the whole seconds begun.\<close>

definition seconds_of :: "rounding \<Rightarrow> duration \<Rightarrow> rat" where
  "seconds_of fl d = fl (fl (of_int (d div second_ns)) + fl (fl (of_int (d mod second_ns)) / 1000000000))"

definition download_speed :: "rounding \<Rightarrow> go_time \<Rightarrow> DownloadStatus \<Rightarrow> int64 may_panic" where
  "download_speed fl now st =
     (let n = trunc (fl (seconds_of fl (Duration now st) + 1))
      in if n = 0 then Inl DivideByZero else Inr (word_of_int (sint (ds_BytesDone st) sdiv n)))"

definition transitionToDeploying ::
  "'q control_env \<Rightarrow> nat \<Rightarrow> InferenceModel \<Rightarrow> 'q reconciler \<Rightarrow> ctl_answer \<times> 'q reconciler" where
  "transitionToDeploying E i m s =
     (case send_status E i (on_status (\<lambda>st. st\<lparr>Phase := ''Deploying''\<rparr>) m) s of
        (Some e, s1) \<Rightarrow> ((NoResult, Some (FromApi '''' e)), s1)
      | (None, s1) \<Rightarrow> ((RequeueNow, None), s1))"

text \<open>Look at the status again: what the download did to it meanwhile is there.\<close>

definition observe :: "'q control_env \<Rightarrow> nat \<Rightarrow> nat \<Rightarrow> 'q reconciler \<Rightarrow> DownloadStatus \<times> 'q reconciler" where
  "observe E i k s =
     (let st = ce_advance E i (status_at (ct_manager s) k)
      in (st, s\<lparr>ct_manager := (ct_manager s)\<lparr>mg_statuses := (mg_statuses (ct_manager s))[k := st]\<rparr>\<rparr>))"

text \<open>The status of a download that was tracked already or is started now.\<close>

definition ensure_download ::
  "'q control_env \<Rightarrow> nat \<Rightarrow> InferenceModel \<Rightarrow> 'q reconciler \<Rightarrow> nat option \<times> 'q reconciler" where
  "ensure_download E i m s =
     (case GetStatus (im_Name m) (ct_manager s) of
        Some k \<Rightarrow> (Some k, s)
      | None \<Rightarrow>
          (case Download (clock (ce_cluster E) i) (im_Name m) (ct_manager s) of
             (started, mg) \<Rightarrow>
               (let s1 = (ctl (EventRecorded ''Normal'' ''DownloadStarted'') s)\<lparr>ct_manager := mg\<rparr>;
                    s2 = (case (started, src_HuggingFace (Source (Spec m))) of
                      (Some k, Some hf) \<Rightarrow> ctl (DownloadStarted k (buildDownloadSpec m hf)) s1 | _ \<Rightarrow> s1)
                in (GetStatus (im_Name m) mg, s2))))"

text \<open>The end of the handler, once the phase has been read and the status written.\<close>

definition finish_handling ::
  "'q control_env \<Rightarrow> nat \<Rightarrow> DownloadPhase \<Rightarrow> DownloadStatus \<Rightarrow> InferenceModel \<Rightarrow> 'q reconciler
    \<Rightarrow> ctl_answer \<times> 'q reconciler" where
  "finish_handling E i phase st m s =
     (case phase of
        PhaseComplete \<Rightarrow>
          (let s1 = ctl (EventRecorded ''Normal'' ''DownloadComplete'') s in
           case WriteReadyMarker (ce_storage E) (i + 1) (getCacheDir (im_Name m)) (ct_disk s1) of
             (Some e, d) \<Rightarrow> ((NoResult, Some (FromDisk ''failed to write ready marker'' e)), s1\<lparr>ct_disk := d\<rparr>)
           | (None, d) \<Rightarrow> transitionToDeploying E (i + 1) m
               (s1\<lparr>ct_disk := d, ct_manager := RemoveStatus (im_Name m) (ct_manager s1)\<rparr>))
      | PhaseFailed \<Rightarrow>
          ((NoResult, Some (DownloadFailed (ds_Error st))),
           (ctl (EventRecorded ''Warning'' ''DownloadFailed'') s)\<lparr>ct_manager := RemoveStatus (im_Name m) (ct_manager s)\<rparr>)
      | _ \<Rightarrow> ((After 2000000000, None), s))"

definition download_status :: "'q control_env \<Rightarrow> go_time \<Rightarrow> DownloadPhase \<Rightarrow> DownloadStatus \<Rightarrow> int64 \<Rightarrow> InferenceModelStatus
    \<Rightarrow> InferenceModelStatus" where
  "download_status E now phase st speed ms =
     (let ms1 = ms\<lparr>DownloadPhase := convertDownloadPhase phase, DownloadProgress := word_of_int (trunc (ds_Progress st)),
            DownloadBytesTotal := ds_BytesTotal st, DownloadBytesDone := ds_BytesDone st, DownloadSpeed := speed\<rparr>;
          eta = sn_ETA (getProgressSnapshot now st)
      in if eta > 0 then ms1\<lparr>DownloadETA := formatDuration eta\<rparr> else ms1)"

definition handleDownload ::
  "'q control_env \<Rightarrow> nat \<Rightarrow> InferenceModel \<Rightarrow> 'q reconciler \<Rightarrow> (ctl_answer, 'q reconciler) outcome" where
  "handleDownload E i m s =
     (let now = clock (ce_cluster E) i;
          (verified, d1) = CheckAndVerifyReadyMarkerDetailed (ce_storage E) i (getCacheDir (im_Name m)) (ct_disk s);
          s1 = s\<lparr>ct_disk := d1\<rparr> in
      if Verified verified
      then (let m1 = on_status (\<lambda>st. st\<lparr>DownloadPhase := DownloadPhaseComplete\<rparr>) m in
            case send_status E i m1 s1 of
              (Some e, s2) \<Rightarrow> Returns (NoResult, Some (FromApi '''' e)) s2
            | (None, s2) \<Rightarrow> (case transitionToDeploying E (i + 1) m1 s2 of (a, s3) \<Rightarrow> Returns a s3))
      else
        (let s2 = (case src_HuggingFace (Source (Spec m)) of
               Some hf \<Rightarrow> if MarkerExists verified
                 then s1\<lparr>ct_disk := snd (CleanHuggingFaceCache (ce_storage E) (i + 1)
                        (if ce_hf_home E = '''' then ''/models'' else ce_hf_home E) (hf_Repo hf) (ct_disk s1))\<rparr>
                 else s1
             | None \<Rightarrow> s1) in
         case ensure_download E i m s2 of
           (None, s3) \<Rightarrow> Returns (After 1000000000, None) s3
         | (Some k, s3) \<Rightarrow>
             (let (st0, s4) = observe E i k s3; phase = ds_Phase st0; (st, s5) = observe E (i + 1) k s4 in
              and_then (attempt (download_speed (ce_fl E) now st) s5) (\<lambda>speed s5.
                let m1 = on_status (download_status E now phase st speed) m in
                case send_status E i m1 s5 of
                  (Some e, s6) \<Rightarrow> Returns (NoResult, Some (FromApi '''' e)) s6
                | (None, s6) \<Rightarrow> (case finish_handling E i phase st m1 s6 of (a, s7) \<Rightarrow> Returns a s7)))))"

section \<open>Deletion and finalizers\<close>

definition AddFinalizer :: "InferenceModel \<Rightarrow> InferenceModel" where
  "AddFinalizer m = (if FinalizerName \<in> set (im_Finalizers m) then m else m\<lparr>im_Finalizers := im_Finalizers m @ [FinalizerName]\<rparr>)"

definition RemoveFinalizer :: "InferenceModel \<Rightarrow> InferenceModel" where
  "RemoveFinalizer m = m\<lparr>im_Finalizers := filter (\<lambda>f. f \<noteq> FinalizerName) (im_Finalizers m)\<rparr>"

definition addFinalizer :: "'q control_env \<Rightarrow> nat \<Rightarrow> InferenceModel \<Rightarrow> 'q reconciler \<Rightarrow> api_error option \<times> 'q reconciler" where
  "addFinalizer E i m s = send_model E i (AddFinalizer m) s"

definition removeFinalizer :: "'q control_env \<Rightarrow> nat \<Rightarrow> InferenceModel \<Rightarrow> 'q reconciler \<Rightarrow> api_error option \<times> 'q reconciler" where
  "removeFinalizer E i m s = send_model E i (RemoveFinalizer m) s"

definition handleDeletion ::
  "'q::ab_group_add control_env \<Rightarrow> nat \<Rightarrow> InferenceModel \<Rightarrow> 'q reconciler \<Rightarrow> (ctl_answer, 'q reconciler) outcome" where
  "handleDeletion E i m s =
     (if FinalizerName \<notin> set (im_Finalizers m) then Returns (NoResult, None) s
      else
        (let s1 = ctl (ModelMetricsDeleted (im_Name m) (im_Namespace m)) (release E i m s) in
         and_then (with_registry (Delete (im_Namespace m) (im_Name m)) s1) (\<lambda>_ s2.
           case removeFinalizer E i m s2 of
             (Some e, s3) \<Rightarrow> Returns (NoResult, Some (FromApi ''failed to remove finalizer'' e)) s3
           | (None, s3) \<Rightarrow> Returns (NoResult, None) (ctl (EventRecorded ''Normal'' ''Deleted'') s3))))"

section \<open>Reconcile\<close>

definition wants_retry :: "InferenceModel \<Rightarrow> bool" where
  "wants_retry m \<longleftrightarrow> map_of (im_Annotations m) RetryDownloadAnnotation \<noteq> None
     \<and> (DownloadPhase (Status m) = DownloadPhaseFailed \<or> DownloadPhase (Status m) = DownloadPhaseComplete)"

definition handleRetry ::
  "'q control_env \<Rightarrow> nat \<Rightarrow> InferenceModel \<Rightarrow> 'q reconciler \<Rightarrow> ctl_answer \<times> 'q reconciler" where
  "handleRetry E i m s =
     (let s1 = s\<lparr>ct_manager := Cancel (im_Name m) (ct_manager s),
                 ct_disk := snd (RemoveReadyMarker (ce_storage E) i (getCacheDir (im_Name m)) (ct_disk s))\<rparr>;
          m1 = m\<lparr>im_Annotations := AList.delete RetryDownloadAnnotation (im_Annotations m)\<rparr> in
      case send_model E i m1 s1 of
        (Some e, s2) \<Rightarrow> ((NoResult, Some (FromApi ''failed to remove retry annotation'' e)), s2)
      | (None, s2) \<Rightarrow>
          (case send_status E i (on_status (\<lambda>st. st\<lparr>DownloadPhase := DownloadPhasePending, DownloadProgress := 0,
                    DownloadMessage := ''Retry requested'', DownloadError := ''''\<rparr>) m1) s2 of
             (Some e, s3) \<Rightarrow> ((NoResult, Some (FromApi ''failed to reset download status'' e)), s3)
           | (None, s3) \<Rightarrow> ((RequeueNow, None), ctl (EventRecorded ''Normal'' ''DownloadRetry'') s3)))"

definition handleMissingPod ::
  "'q::ab_group_add control_env \<Rightarrow> nat \<Rightarrow> InferenceModel \<Rightarrow> 'q reconciler \<Rightarrow> (ctl_answer, 'q reconciler) outcome" where
  "handleMissingPod E i m s =
     and_then (with_registry (SetState (clock (ce_cluster E) i) (im_Namespace m) (im_Name m) StateNonexistent) (release E i m s))
       (\<lambda>_ s1.
         let m1 = on_status (\<lambda>st. st\<lparr>Phase := ''ScaledToZero'', Ready := False, Replicas := 0, AvailableReplicas := 0\<rparr>) m;
             s2 = snd (send_status E i m1 s1);
             (e, m2, s3) = setCondition E (i + 1) ''Ready'' ''True'' ''ScaledToZero'' ''Scaled to zero, waiting for first request'' m1 s2
         in Returns (After IdleCheckInterval, None) (updateBudgetMetrics E (ctl (ModelMetrics m2) s3)))"

definition reconcile_pod ::
  "'q::linordered_ab_group_add control_env \<Rightarrow> nat \<Rightarrow> string \<Rightarrow> string \<Rightarrow> InferenceModel \<Rightarrow> 'q reconciler
    \<Rightarrow> (ctl_answer, 'q reconciler) outcome" where
  "reconcile_pod E i namespace name m s =
     (case pod_get (ce_cluster E) i namespace name of
        Inl NotFound \<Rightarrow> handleMissingPod E i m s
      | Inl e \<Rightarrow> Returns (NoResult, Some (FromApi '''' e)) s
      | Inr pod \<Rightarrow>
          and_then (handleIdleScaling E i m pod s) (\<lambda>a s1.
            if snd a \<noteq> None \<or> Requeue (fst a) \<or> RequeueAfter (fst a) > 0 then Returns a s1
            else updateStatus E (i + 1) m pod s1))"

definition Reconcile ::
  "'q::linordered_ab_group_add control_env \<Rightarrow> nat \<Rightarrow> string \<Rightarrow> string \<Rightarrow> 'q reconciler
    \<Rightarrow> (ctl_answer, 'q reconciler) outcome" where
  "Reconcile E i namespace name s =
     (case ce_model_get E i namespace name of
        Inl NotFound \<Rightarrow> Returns (NoResult, None) s
      | Inl e \<Rightarrow> Returns (NoResult, Some (FromApi '''' e)) s
      | Inr m \<Rightarrow>
          if im_DeletionTimestamp m \<noteq> None then handleDeletion E i m s
          else if FinalizerName \<notin> set (im_Finalizers m) then
            (case addFinalizer E i m s of
               (Some e, s1) \<Rightarrow> Returns (NoResult, Some (FromApi ''failed to add finalizer'' e)) s1
             | (None, s1) \<Rightarrow> Returns (RequeueNow, None) s1)
          else if wants_retry m then (case handleRetry E i m s of (a, s1) \<Rightarrow> Returns a s1)
          else if needsDownload E i m (ct_disk s) then handleDownload E i m s
          else reconcile_pod E i namespace name m s)"

text \<open>The models to reconcile when a backend changes.\<close>

definition findModelsForBackend :: "'q control_env \<Rightarrow> nat \<Rightarrow> InferenceBackend \<Rightarrow> (string \<times> string) list" where
  "findModelsForBackend E i backend =
     (case model_list (ce_cluster E) i (ib_Namespace backend) of
        Inl _ \<Rightarrow> []
      | Inr models \<Rightarrow>
          map (\<lambda>m. (im_Namespace m, im_Name m)) (filter (\<lambda>m. Backend (Spec m) = ib_Name backend) models))"

end
