(* ===== verification/Disk_Properties.thy ===== *)
theory Disk_Properties
  imports Disk
begin

text \<open>
  What the file operations of the downloader guarantee: a write is atomic at every moment, a manifest reads back,
  and the verification of a model directory accepts only what the manifest describes and otherwise removes all of it.
\<close>

named_theorems disk_laws \<open>the files of a disk after one operation\<close>

lemma file_at_put [disk_laws]: "file_at (put_file p bs d) q = (if q = p then Some bs else file_at d q)"
  by (simp add: file_at_def put_file_def map_laws)

lemma file_at_drop [disk_laws]: "file_at (drop_file p d) q = (if q = p then None else file_at d q)"
  by (simp add: file_at_def drop_file_def map_laws)

lemma file_at_Remove [disk_laws]:
  "file_at (snd (os_Remove E i p d)) q = (if q = p \<and> \<not> fault E i Remove p then None else file_at d q)"
  by (auto simp: os_Remove_def disk_laws split: option.splits)

lemma file_at_ignore [disk_laws]: "snd (ignore_missing r) = snd r"
  by (auto simp: ignore_missing_def split: prod.splits option.splits os_error.splits)

lemma map_of_filter_keys: "map_of (filter (\<lambda>(q, bs). P q) m) q = (if P q then map_of m q else None)"
  by (induction m) auto

lemma file_at_RemoveAll [disk_laws]:
  "file_at (snd (os_RemoveAll E i p d)) q
     = (if under p q \<and> \<not> (fault E i RemoveAll p \<and> survives E i q) then None else file_at d q)"
  by (simp add: file_at_def os_RemoveAll_def Let_def map_of_filter_keys)

lemma file_at_Mkdir [disk_laws]: "file_at (snd (os_MkdirAll E i p d)) q = file_at d q"
  by (simp add: file_at_def os_MkdirAll_def)

lemma file_at_EnsureDir [disk_laws]: "file_at (snd (EnsureDir E i p d)) q = file_at d q"
  by (simp add: EnsureDir_def Let_def disk_laws)

section \<open>Atomic writes\<close>

lemma AtomicWrite_trace_safe:
  assumes "AtomicWrite_trace E i p data d = (err, ds)" and "temp_path E i p \<noteq> p"
    and "file_at d (temp_path E i p) = None"
  shows "(\<forall>d' \<in> set ds. (file_at d' p = file_at d p \<or> file_at d' p = Some data)
      \<and> (\<forall>q. q \<noteq> p \<longrightarrow> q \<noteq> temp_path E i p \<longrightarrow> file_at d' q = file_at d q))
    \<and> (if err = None then file_at (last ds) p = Some data \<and> file_at (last ds) (temp_path E i p) = None
       else file_at (last ds) p = file_at d p)"
proof -
  obtain e d1 where dir: "EnsureDir E i p d = (e, d1)" by (cases "EnsureDir E i p d")
  then have d1: "file_at d1 q = file_at d q" for q using file_at_EnsureDir [of E i p d] by simp
  show ?thesis
    using assms by (auto simp: AtomicWrite_trace_def dir d1 Let_def disk_laws abandon_def split: option.splits if_splits)
qed

text \<open>
  C12. Writes are atomic: on every disk that a crash or another process can see while \<open>AtomicWrite\<close> runs the target
  holds either what it held before or all of the new data, and no file other than the target and the temporary
  one changes. Without an error the target holds the data and the temporary file is gone; with one it is as before.
\<close>

theorem atomic_write:
  assumes "AtomicWrite_trace E i p data d = (err, ds)" and "temp_path E i p \<noteq> p"
    and "file_at d (temp_path E i p) = None"
  shows "(\<forall>d' \<in> set ds. (file_at d' p = file_at d p \<or> file_at d' p = Some data)
      \<and> (\<forall>q. q \<noteq> p \<longrightarrow> q \<noteq> temp_path E i p \<longrightarrow> file_at d' q = file_at d q))
    \<and> (if err = None then file_at (last ds) p = Some data \<and> file_at (last ds) (temp_path E i p) = None
       else file_at (last ds) p = file_at d p)"
  using AtomicWrite_trace_safe [OF assms] .

definition demo_storage :: storage where
  "demo_storage = \<lparr>fault = (\<lambda>i op p. False), temp_suffix = (\<lambda>i. ''1''), short_write = (\<lambda>i. 0),
     survives = (\<lambda>i p. False), dir_size = (\<lambda>p. 0), json_encode = (\<lambda>m. [1]),
     json_decode = (\<lambda>bs. Some \<lparr>man_Files = [(''a.bin'', 2)], man_Checksums = []\<rparr>),
     sha256_hex = (\<lambda>bs. ''''), pid_text = [], parse_pid = (\<lambda>bs. None)\<rparr>"

lemma demo_storage_simps:
  "\<not> fault demo_storage i op p"
  "json_decode demo_storage (json_encode demo_storage m) = Some \<lparr>man_Files = [(''a.bin'', 2)], man_Checksums = []\<rparr>"
  by (simp_all add: demo_storage_def)

definition demo_disk :: disk where
  "demo_disk = \<lparr>contents = [(''/models/m/a.bin'', [7, 7]), (''/models/m/.ready'', []), (''/models/m/.manifest'', [1]),
     (''/models/mm/b.bin'', [8])], directories = [''/models/m'', ''/models'']\<rparr>"

lemma atomic_write_witness:
  "file_at (last (snd (AtomicWrite_trace demo_storage 0 ''/models/m/x'' [5] demo_disk))) ''/models/m/x'' = Some [5]"
proof -
  have tmp: "temp_path demo_storage 0 ''/models/m/x'' = ''/models/m/.tmp-download-1''" by code_simp
  have "fst (AtomicWrite_trace demo_storage 0 ''/models/m/x'' [5] demo_disk) = None" by code_simp
  moreover have "file_at demo_disk ''/models/m/.tmp-download-1'' = None" by code_simp
  ultimately show ?thesis
    using atomic_write [of demo_storage 0 "''/models/m/x''" "[5]" demo_disk None
        "snd (AtomicWrite_trace demo_storage 0 ''/models/m/x'' [5] demo_disk)"]
    by (simp add: tmp prod_eq_iff)
qed

lemma AtomicWrite_last:
  assumes "temp_path E i p \<noteq> p" and "file_at d (temp_path E i p) = None"
  shows "fst (AtomicWrite E i p data d) = None \<Longrightarrow> file_at (snd (AtomicWrite E i p data d)) p = Some data"
    and "fst (AtomicWrite E i p data d) \<noteq> None \<Longrightarrow> file_at (snd (AtomicWrite E i p data d)) p = file_at d p"
    and "q \<noteq> p \<Longrightarrow> file_at (snd (AtomicWrite E i p data d)) q = file_at d q \<or> q = temp_path E i p"
proof -
  obtain err ds where t: "AtomicWrite_trace E i p data d = (err, ds)" by (cases "AtomicWrite_trace E i p data d")
  moreover have "ds \<noteq> []"
    using t by (auto simp: AtomicWrite_trace_def Let_def split: prod.splits option.splits if_splits)
  moreover note * = AtomicWrite_trace_safe [OF t assms] calculation
  ultimately show "fst (AtomicWrite E i p data d) = None \<Longrightarrow> file_at (snd (AtomicWrite E i p data d)) p = Some data"
    and "fst (AtomicWrite E i p data d) \<noteq> None \<Longrightarrow> file_at (snd (AtomicWrite E i p data d)) p = file_at d p"
    and "q \<noteq> p \<Longrightarrow> file_at (snd (AtomicWrite E i p data d)) q = file_at d q \<or> q = temp_path E i p"
    using * last_in_set [OF \<open>ds \<noteq> []\<close>] by (auto simp: AtomicWrite_def)
qed

section \<open>The manifest reads back\<close>

text \<open>
  A manifest that was written without an error is what a later read returns, provided decoding inverts encoding
  on it and the read does not fail.
\<close>

theorem manifest_reads_back:
  assumes "json_decode E (json_encode E m) = Some m"
    and "temp_path E i (Join [dir, ManifestFile]) \<noteq> Join [dir, ManifestFile]"
    and "file_at d (temp_path E i (Join [dir, ManifestFile])) = None"
    and "WriteManifest E i dir m d = (None, d')" and "\<not> fault E j ReadFile (Join [dir, ManifestFile])"
  shows "ReadManifest E j dir d' = Inr m"
  using AtomicWrite_last(1) [OF assms(2,3), of "json_encode E m"] assms(1,4,5)
  by (simp add: WriteManifest_def ReadManifest_def os_ReadFile_def)

lemma manifest_reads_back_witness:
  "ReadManifest demo_storage 1 ''/models/m'' (snd (WriteManifest demo_storage 0 ''/models/m''
       \<lparr>man_Files = [(''a.bin'', 2)], man_Checksums = []\<rparr> demo_disk))
     = Inr \<lparr>man_Files = [(''a.bin'', 2)], man_Checksums = []\<rparr>"
proof -
  let ?m = "\<lparr>man_Files = [(''a.bin'', 2)], man_Checksums = []\<rparr> :: FileManifest"
  have p: "Join [''/models/m'', ManifestFile] = ''/models/m/.manifest''"
    and tmp: "temp_path demo_storage 0 ''/models/m/.manifest'' = ''/models/m/.tmp-download-1''" by code_simp+
  have "file_at demo_disk ''/models/m/.tmp-download-1'' = None" by code_simp
  moreover have "WriteManifest demo_storage 0 ''/models/m'' ?m demo_disk
      = (None, snd (WriteManifest demo_storage 0 ''/models/m'' ?m demo_disk))" by code_simp
  ultimately show ?thesis
    using manifest_reads_back [of demo_storage ?m 0 "''/models/m''" demo_disk _ 1]
    by (simp add: p tmp demo_storage_simps)
qed

section \<open>Verification\<close>

text \<open>What the manifest \<open>m\<close> of a directory describes: every listed file is there, of the listed size.\<close>

definition matches_entry :: "storage \<Rightarrow> disk \<Rightarrow> string \<Rightarrow> bool \<Rightarrow> int64 \<Rightarrow> bool" where
  "matches_entry E d p gguf sz =
     (case file_at d p of
        Some bs \<Rightarrow> of_nat (length bs) = sz \<and> (gguf \<longrightarrow> validateGGUFHeader bs sz = None)
      | None \<Rightarrow> \<not> gguf \<and> p \<in> set (directories d) \<and> dir_size E p = sz)"

definition matches_manifest :: "storage \<Rightarrow> string \<Rightarrow> disk \<Rightarrow> FileManifest \<Rightarrow> bool" where
  "matches_manifest E dir d m =
     list_all (\<lambda>(f, sz). matches_entry E d (Join [dir, f]) (Ext f = ''.gguf'') sz) (man_Files m)"

lemma check_file_ok:
  assumes "check_file E i dir d f sz = []"
  shows "matches_entry E d (Join [dir, f]) (Ext f = ''.gguf'') sz"
proof (cases "file_at d (Join [dir, f])")
  case None
  then show ?thesis
    using assms unfolding check_file_def Let_def os_Stat_def matches_entry_def
    by (simp split: if_split_asm)
next
  case (Some bs)
  then show ?thesis
    using assms unfolding check_file_def Let_def os_Stat_def matches_entry_def
    by (simp split: if_split_asm option.split_asm)
qed

lemma check_file_complete:
  assumes "matches_entry E d (Join [dir, f]) (Ext f = ''.gguf'') sz" and "\<And>op. \<not> fault E i op (Join [dir, f])"
  shows "check_file E i dir d f sz = []"
proof (cases "file_at d (Join [dir, f])")
  case None
  then show ?thesis
    using assms unfolding check_file_def Let_def os_Stat_def matches_entry_def by simp
next
  case (Some bs)
  then show ?thesis
    using assms unfolding check_file_def Let_def os_Stat_def matches_entry_def by simp
qed

lemma VerifyFiles_None:
  assumes "VerifyFiles E i dir d = None"
  obtains m where "ReadManifest E i dir d = Inr m" "matches_manifest E dir d m"
proof -
  from assms obtain m where m: "ReadManifest E i dir d = Inr m"
    by (auto simp: VerifyFiles_def split: sum.splits)
  with assms have none: "check_file E i dir d f sz = []" if "(f, sz) \<in> set (man_Files m)" for f sz
    using that by (auto simp: VerifyFiles_def Let_def split: if_splits)
  have "matches_manifest E dir d m"
    unfolding matches_manifest_def list_all_iff using check_file_ok [OF none] by auto
  with m that show thesis by blast
qed

lemma VerifyFiles_complete:
  assumes "ReadManifest E i dir d = Inr m" and "matches_manifest E dir d m" and "\<And>op p. \<not> fault E i op p"
  shows "VerifyFiles E i dir d = None"
proof -
  have "check_file E i dir d f sz = []" if "(f, sz) \<in> set (man_Files m)" for f sz
    using that assms(2,3) by (intro check_file_complete) (auto simp: matches_manifest_def list_all_iff)
  then show ?thesis using assms(1) by (auto simp: VerifyFiles_def Let_def)
qed

text \<open>
  C13. The verification of a model directory: it accepts only a directory with a ready marker whose manifest matches its
  files, leaving the disk alone, and it accepts every such directory unless a system call fails. When a marked
  directory is rejected, nothing under it survives a removal that succeeds and nothing outside it changes.
\<close>

theorem verification_decides:
  assumes "CheckAndVerifyReadyMarkerDetailed E i dir d = (r, d')"
    and "under dir (Join [dir, ReadyMarkerFile])"
  shows "(Verified r \<longrightarrow> CheckReadyMarker E i dir d \<and> d' = d
            \<and> (\<exists>m. ReadManifest E i dir d = Inr m \<and> matches_manifest E dir d m))
    \<and> (CheckReadyMarker E i dir d \<and> ReadManifest E i dir d = Inr m \<and> matches_manifest E dir d m
         \<and> (\<forall>op p. \<not> fault E i op p) \<longrightarrow> Verified r)
    \<and> (MarkerExists r \<and> \<not> Verified r \<and> \<not> fault E i RemoveAll dir
         \<longrightarrow> (\<forall>p. file_at d' p = (if under dir p then None else file_at d p)))
    \<and> (\<not> MarkerExists r \<longrightarrow> d' = d)"
proof (cases "CheckReadyMarker E i dir d")
  case False
  with assms show ?thesis by (auto simp: CheckAndVerifyReadyMarkerDetailed_def)
next
  case True
  show ?thesis
  proof (cases "VerifyFiles E i dir d")
    case None
    with True assms(1) show ?thesis
      by (auto simp: CheckAndVerifyReadyMarkerDetailed_def elim: VerifyFiles_None)
  next
    case (Some e)
    have "\<not> (ReadManifest E i dir d = Inr m \<and> matches_manifest E dir d m \<and> (\<forall>op p. \<not> fault E i op p))"
    proof
      assume "ReadManifest E i dir d = Inr m \<and> matches_manifest E dir d m \<and> (\<forall>op p. \<not> fault E i op p)"
      then have "VerifyFiles E i dir d = None" by (blast intro: VerifyFiles_complete)
      with Some show False by simp
    qed
    moreover have "r = \<lparr>MarkerExists = True, Verified = False, VerifyError = Some e\<rparr>"
      and "d' = snd (os_RemoveAll E i dir (snd (RemoveReadyMarker E i dir d)))"
      using assms(1) True Some by (auto simp: CheckAndVerifyReadyMarkerDetailed_def)
    ultimately show ?thesis
      using True assms(2) by (auto simp: disk_laws RemoveReadyMarker_def)
  qed
qed

lemma verification_decides_witness:
  "Verified (fst (CheckAndVerifyReadyMarkerDetailed demo_storage 0 ''/models/m'' demo_disk))"
proof -
  have r: "ReadManifest demo_storage 0 ''/models/m'' demo_disk = Inr \<lparr>man_Files = [(''a.bin'', 2)], man_Checksums = []\<rparr>"
    and m: "CheckReadyMarker demo_storage 0 ''/models/m'' demo_disk"
    and u: "under ''/models/m'' (Join [''/models/m'', ReadyMarkerFile])" by code_simp+
  have "matches_manifest demo_storage ''/models/m'' demo_disk \<lparr>man_Files = [(''a.bin'', 2)], man_Checksums = []\<rparr>"
    by code_simp
  with verification_decides [OF prod.collapse [symmetric] u, of demo_storage 0 demo_disk] r m
  show ?thesis by (auto simp: demo_storage_simps)
qed

end
