(* ===== verification/Controller_Properties.thy ===== *)
theory Controller_Properties
  imports Controller Disk_Properties
begin

text \<open>
  What a reconciliation does to the rest of the system: which requests it sends, whose memory it releases, and when it
  deletes a pod. Each handler is described by a step relation, so that the properties of \<open>Reconcile\<close> compose.
\<close>

section \<open>Steps\<close>

text \<open>The requests, events and metrics added between two states.\<close>

definition added :: "'q reconciler \<Rightarrow> 'q reconciler \<Rightarrow> ctl_effect list" where
  "added s s' = drop (length (ct_log s)) (ct_log s')"

definition grows :: "'q reconciler \<Rightarrow> 'q reconciler \<Rightarrow> bool" where
  "grows s s' \<longleftrightarrow> ct_log s' = ct_log s @ added s s'"

lemma added_append: "ct_log s' = ct_log s @ es \<Longrightarrow> added s s' = es"
  by (simp add: added_def)

definition own_key :: "InferenceModel \<Rightarrow> string" where
  "own_key m = slash_key (im_Namespace m) (im_Name m)"

definition held :: "'q reconciler \<Rightarrow> string \<Rightarrow> 'q ModelAllocation option" where
  "held s k = map_of (allocations (Tracker (ct_server s))) k"

definition entry :: "'q reconciler \<Rightarrow> string \<Rightarrow> DeploymentEntry option" where
  "entry s k = Option.bind (Reg (ct_server s)) (\<lambda>r. map_of r k)"

text \<open>
  A step for model \<open>m\<close>: the log grows by effects that satisfy \<open>P\<close>, no allocation but that of the model changes and that
  one is kept or, where \<open>r\<close> allows it, dropped, and no registry entry but that of the model changes.
\<close>

definition step_for :: "(ctl_effect \<Rightarrow> bool) \<Rightarrow> bool \<Rightarrow> InferenceModel \<Rightarrow> 'q reconciler \<Rightarrow> 'q reconciler \<Rightarrow> bool" where
  "step_for P r m s s' \<longleftrightarrow>
     (\<exists>es. ct_log s' = ct_log s @ es \<and> list_all P es)
     \<and> (\<forall>k. k \<noteq> own_key m \<longrightarrow> held s' k = held s k \<and> entry s' k = entry s k)
     \<and> (held s' (own_key m) = held s (own_key m) \<or> r \<and> held s' (own_key m) = None)
     \<and> (Reg (ct_server s') = None \<longleftrightarrow> Reg (ct_server s) = None)"

lemma step_refl [simp]: "step_for P r m s s"
  by (simp add: step_for_def)

lemma step_trans: "step_for P r m s s1 \<Longrightarrow> step_for P r m s1 s2 \<Longrightarrow> step_for P r m s s2"
  unfolding step_for_def by (elim conjE exE, intro conjI) (force, metis, metis, metis)

lemma step_mono: "step_for P r m s s' \<Longrightarrow> (\<And>e. P e \<Longrightarrow> Q e) \<Longrightarrow> (r \<Longrightarrow> r') \<Longrightarrow> step_for Q r' m s s'"
  unfolding step_for_def by (auto simp: list_all_iff)

lemma own_key_keys: "modelKey (im_Name m) (im_Namespace m) = own_key m" "entryKey (im_Namespace m) (im_Name m) = own_key m"
  by (simp_all add: own_key_def modelKey_def entryKey_def)

lemma step_ctl: "P e \<Longrightarrow> step_for P r m s (ctl e s)"
  by (simp add: step_for_def ctl_def held_def entry_def)

lemma step_other_fields:
  "step_for P r m s (s\<lparr>ct_disk := d\<rparr>)" "step_for P r m s (s\<lparr>ct_manager := g\<rparr>)"
  by (simp_all add: step_for_def held_def entry_def)

lemma step_release: "step_for P True m s (release E i m s)"
  by (auto simp: step_for_def release_def map_tracker_def held_def entry_def alloc_laws own_key_keys map_laws)

lemma step_tracker: "allocations t = allocations (Tracker (ct_server s)) \<Longrightarrow> step_for P r m s (map_tracker (\<lambda>_. t) s)"
  by (simp add: step_for_def map_tracker_def held_def entry_def)

lemma step_on_registry:
  "step_for P r m s (s\<lparr>ct_server := on_registry (Delete (im_Namespace m) (im_Name m)) (ct_server s)\<rparr>)"
  by (cases "Reg (ct_server s)") (auto simp: step_for_def held_def entry_def reg_laws own_key_keys)

lemma step_with_registry:
  assumes "\<And>rg k. k \<noteq> own_key m \<Longrightarrow> map_of (f rg) k = map_of rg k"
  shows "step_for P r m s (outcome_state (with_registry f s))"
  using assms by (cases "Reg (ct_server s)") (auto simp: with_registry_def step_for_def held_def entry_def)

section \<open>The handlers as steps\<close>

lemma outcome_and_then_step:
  assumes "step_for P r m s (outcome_state o1)" and "\<And>a s1. o1 = Returns a s1 \<Longrightarrow> step_for P r m s1 (outcome_state (f a s1))"
  shows "step_for P r m s (outcome_state (and_then o1 f))"
  using assms by (cases o1) (auto intro: step_trans)

text \<open>Effects of which the status is that of a model, and effects that delete nothing.\<close>

definition harmless :: "ctl_effect \<Rightarrow> bool" where
  "harmless e \<longleftrightarrow> (\<forall>ns n. e \<noteq> PodDeletedIdle ns n)"

lemma harmless_simps [simp]:
  "harmless (ModelUpdated x)" "harmless (StatusUpdated x)" "harmless (PodUpdated p)" "harmless (EventRecorded a b)"
  "harmless (ModelMetrics x)" "harmless (ModelMetricsDeleted a b)" "harmless (NodeMemoryMetrics i j k)"
  "harmless (DownloadStarted l sp)" "\<not> harmless (PodDeletedIdle ns n)"
  by (simp_all add: harmless_def)

lemma step_send:
  "step_for harmless r m s (snd (send_status E i x s))" "step_for harmless r m s (snd (send_model E i x s))"
  "step_for harmless r m s (snd (send_pod E i p s))"
  by (simp_all add: send_status_def send_model_def send_pod_def step_ctl)

lemma step_setCondition: "step_for harmless r m s (snd (snd (setCondition E i ty st why msg x s)))"
  by (simp add: setCondition_def send_status_def step_ctl Let_def split: prod.splits)

lemma step_metrics: "step_for harmless r m s (updateBudgetMetrics E s)"
  by (simp add: updateBudgetMetrics_def step_ctl Let_def)

lemma step_metrics_ctl: "harmless e \<Longrightarrow> step_for harmless r m s (updateBudgetMetrics E (ctl e s))"
  using step_trans [OF step_ctl step_metrics] .

lemma step_annotation: "step_for harmless r m s (snd (updateLastRequestAnnotation E i pod s))"
  by (simp add: updateLastRequestAnnotation_def send_pod_def step_ctl Let_def split: option.splits)

text \<open>The deletion of an idle pod: only for a model that is not busy and not scaled down already.\<close>

lemma step_deleteIdlePod:
  "step_for (if busy m (Reg (ct_server s)) \<or> isScaledDown m then harmless else (\<lambda>e. True))
     (\<not> (busy m (Reg (ct_server s)) \<or> isScaledDown m)) m s (snd (deleteIdlePod E i m pod s))"
proof (cases "busy m (Reg (ct_server s)) \<or> isScaledDown m")
  case True
  then show ?thesis by (auto simp: deleteIdlePod_def)
next
  case False
  obtain e m1 s1 where c: "setCondition E i ''Ready'' ''False'' ''ScaledToZero'' ''Model pod deleted due to inactivity'' m s
      = (e, m1, s1)" by (metis prod_cases3)
  have s1: "step_for (\<lambda>e. True) True m s s1" using step_mono [OF step_setCondition] c by (metis snd_conv)
  show ?thesis
  proof (cases e)
    case (Some x)
    with False c s1 show ?thesis by (simp add: deleteIdlePod_def)
  next
    case None
    let ?s2 = "ctl (PodDeletedIdle (pod_Namespace pod) (pod_Name pod)) s1"
    have s2: "step_for (\<lambda>e. True) True m s ?s2" by (rule step_trans [OF s1 step_ctl]) simp
    let ?s3 = "if pod_delete (ce_cluster E) i (pod_Namespace pod) (pod_Name pod) = None
      then ctl (EventRecorded ''Normal'' ''PodDeleted'') ?s2 else ?s2"
    have s3: "step_for (\<lambda>e. True) True m s ?s3" using step_trans [OF s2 step_ctl] s2 by simp
    from step_trans [OF step_trans [OF s3 step_on_registry] step_release]
    have "step_for (\<lambda>e. True) True m s (release E i m (?s3\<lparr>ct_server := on_registry (Delete (im_Namespace m) (im_Name m)) (ct_server ?s3)\<rparr>))" .
    with False c None s2 show ?thesis by (simp add: deleteIdlePod_def Let_def)
  qed
qed

lemma step_handleIdleScaling: "step_for (\<lambda>e. True) True m s (outcome_state (handleIdleScaling E i m pod s))"
proof -
  have "step_for (\<lambda>e. True) True m s (snd (updateLastRequestAnnotation E i pod s))"
    by (rule step_mono [OF step_annotation]) simp_all
  moreover have "step_for (\<lambda>e. True) True m s (snd (deleteIdlePod E i m pod s))"
    by (rule step_mono [OF step_deleteIdlePod]) simp_all
  ultimately show ?thesis
    by (simp add: handleIdleScaling_def Let_def split_beta split: option.splits)
qed

text \<open>Idle scaling deletes a pod only under all of these conditions.\<close>

definition idle_beyond_cooldown :: "'q control_env \<Rightarrow> nat \<Rightarrow> InferenceModel \<Rightarrow> Pod \<Rightarrow> bool" where
  "idle_beyond_cooldown E i m pod \<longleftrightarrow> (\<exists>text t. map_of (pod_Annotations pod) LastRequestAnnotation = Some text
     \<and> text \<noteq> '''' \<and> ce_parse_rfc3339 E text = Some t \<and> clock (ce_cluster E) i - t > cooldown_period (ce_fl E) (Scaling (Spec m)))"

definition may_scale_down :: "'q control_env \<Rightarrow> nat \<Rightarrow> InferenceModel \<Rightarrow> Pod \<Rightarrow> 'q reconciler \<Rightarrow> bool" where
  "may_scale_down E i m pod s \<longleftrightarrow> sc_Enabled (Scaling (Spec m)) \<noteq> Some False
     \<and> sc_EvictionPolicy (Scaling (Spec m)) \<noteq> EvictionPolicyMemoryPressureOnly
     \<and> \<not> busy m (Reg (ct_server s)) \<and> \<not> isScaledDown m \<and> idle_beyond_cooldown E i m pod"

lemma handleIdleScaling_harmless:
  assumes "\<not> may_scale_down E i m pod s"
  shows "step_for harmless False m s (outcome_state (handleIdleScaling E i m pod s))"
proof -
  let ?sc = "Scaling (Spec m)"
  have del: "step_for harmless False m s (snd (deleteIdlePod E i m pod s))"
    if "busy m (Reg (ct_server s)) \<or> isScaledDown m"
    using step_deleteIdlePod [of m s E i pod] that by simp
  show ?thesis
  proof (cases "sc_Enabled ?sc = Some False \<or> sc_EvictionPolicy ?sc = EvictionPolicyMemoryPressureOnly
      \<or> Reg (ct_server s) = None \<or> busy m (Reg (ct_server s))")
    case True
    then show ?thesis by (auto simp: handleIdleScaling_def Let_def)
  next
    case False
    then show ?thesis
      using assms step_annotation [of False m s E i pod] del
      by (auto simp: handleIdleScaling_def Let_def split_beta may_scale_down_def idle_beyond_cooldown_def split: option.splits)
  qed
qed

lemma RecordUsage_allocations: "RecordUsage n ns q t = Inr t' \<Longrightarrow> allocations t' = allocations t"
  by (auto simp: RecordUsage_def Let_def split: option.splits if_splits)

lemma step_SetState:
  "step_for P r m s (outcome_state (with_registry (SetState now (im_Namespace m) (im_Name m) st) s))"
  by (rule step_with_registry) (simp add: reg_laws own_key_keys)

text \<open>The write at the end of \<open>updateStatus\<close>.\<close>

lemma step_write:
  "step_for harmless False m s (outcome_state (if write
     then (case send_status E i x s of
         (None, s3) \<Rightarrow> Returns (After IdleCheckInterval, None) (updateBudgetMetrics E (ctl (ModelMetrics x) s3))
       | (Some Conflict, s3) \<Rightarrow> Returns (RequeueNow, None) s3
       | (Some e, s3) \<Rightarrow> Returns (NoResult, Some (FromApi t e)) s3)
     else Returns (After IdleCheckInterval, None) (updateBudgetMetrics E (ctl (ModelMetrics x) s))))"
  by (auto simp: send_status_def step_metrics_ctl step_ctl step_trans [OF step_ctl step_metrics_ctl]
      split: option.splits api_error.splits)

lemma step_updateStatus: "step_for harmless False m s (outcome_state (updateStatus E i m pod s))"
  unfolding updateStatus_def Let_def
proof (rule outcome_and_then_step, goal_cases)
  case 1
  show ?case by simp
next
  case (2 t s1)
  then have s1: "s1 = s" and "allocations t = allocations (Tracker (ct_server s))"
    by (auto simp: attempt_Returns dest: RecordUsage_allocations split: if_splits option.splits)
  then have track: "step_for harmless False m s1 (map_tracker (\<lambda>_. t) s1)" by (intro step_tracker) simp
  show ?case
  proof (rule outcome_and_then_step, goal_cases)
    case 1
    show ?case using track by simp
  next
    case (2 info s2)
    then have "s2 = map_tracker (\<lambda>_. t) s1" by (simp add: attempt_Returns)
    show ?case
    proof (rule outcome_and_then_step, goal_cases)
      case 1
      show ?case by (simp add: step_SetState)
    next
      case (2 u s3)
      show ?case by (rule step_write)
    qed
  qed
qed

lemma step_transition: "step_for harmless False m s (snd (transitionToDeploying E i x s))"
  by (simp add: transitionToDeploying_def send_status_def step_ctl split: option.splits)

lemma step_observe: "step_for P r m s (snd (observe E i k s))"
  by (simp add: observe_def Let_def step_other_fields)

lemma step_ensure: "step_for harmless False m s (snd (ensure_download E i x s))"
proof (cases "GetStatus (im_Name x) (ct_manager s)")
  case None
  obtain started mg where d: "Download (clock (ce_cluster E) i) (im_Name x) (ct_manager s) = (started, mg)" by fastforce
  let ?s1 = "(ctl (EventRecorded ''Normal'' ''DownloadStarted'') s)\<lparr>ct_manager := mg\<rparr>"
  have s1: "step_for harmless False m s ?s1" by (rule step_trans [OF step_ctl step_other_fields(2)]) simp
  then have "step_for harmless False m s (ctl (DownloadStarted k sp) ?s1)" for k sp
    by (rule step_trans [OF _ step_ctl]) simp
  with s1 None d show ?thesis
    by (simp add: ensure_download_def Let_def split: option.splits)
qed (simp add: ensure_download_def)

lemma step_finish: "step_for harmless False m s (snd (finish_handling E i ph st x s))"
proof -
  have ev: "step_for harmless False m s (ctl (EventRecorded a b) s)" for a b by (simp add: step_ctl)
  note d = step_trans [OF ev step_other_fields(1)]
  have "step_for harmless False m s (snd (transitionToDeploying E j x ((ctl (EventRecorded a b) s)\<lparr>ct_disk := dd, ct_manager := g\<rparr>)))" for j a b dd g
    by (rule step_trans [OF step_trans [OF d step_other_fields(2)] step_transition])
  moreover have "step_for harmless False m s ((ctl (EventRecorded a b) s)\<lparr>ct_manager := g\<rparr>)" for a b g
    by (rule step_trans [OF ev step_other_fields(2)])
  moreover have "ct_manager (ctl e s) = ct_manager s" "ct_disk (ctl e s) = ct_disk s" for e by (simp_all add: ctl_def)
  ultimately show ?thesis
    by (simp add: finish_handling_def Let_def d split: DownloadPhase.splits option.splits prod.splits)
qed

lemma step_handleDownload: "step_for harmless False m s (outcome_state (handleDownload E i m s))"
proof -
  obtain v d1 where v: "CheckAndVerifyReadyMarkerDetailed (ce_storage E) i (getCacheDir (im_Name m)) (ct_disk s) = (v, d1)"
    by fastforce
  let ?s1 = "s\<lparr>ct_disk := d1\<rparr>"
  show ?thesis
  proof (cases "Verified v")
    case True
    let ?m1 = "on_status (\<lambda>st. st\<lparr>DownloadPhase := DownloadPhaseComplete\<rparr>) m"
    have "step_for harmless False m s (ctl (StatusUpdated ?m1) ?s1)"
      by (rule step_trans [OF step_other_fields(1) step_ctl]) simp
    moreover have "step_for harmless False m s (snd (transitionToDeploying E (i + 1) ?m1 (ctl (StatusUpdated ?m1) ?s1)))"
      by (rule step_trans [OF calculation step_transition])
    ultimately show ?thesis using True v
      by (simp add: handleDownload_def Let_def send_status_def split_beta split: option.splits)
  next
    case False
    define s2 where "s2 = (case src_HuggingFace (Source (Spec m)) of
         Some hf \<Rightarrow> if MarkerExists v
           then ?s1\<lparr>ct_disk := snd (CleanHuggingFaceCache (ce_storage E) (i + 1)
                  (if ce_hf_home E = '''' then ''/models'' else ce_hf_home E) (hf_Repo hf) (ct_disk ?s1))\<rparr>
           else ?s1
       | None \<Rightarrow> ?s1)"
    have s2: "step_for harmless False m s s2"
      unfolding s2_def by (auto split: option.splits intro: step_trans [OF step_other_fields(1) step_other_fields(1)] step_other_fields)
    obtain k s3 where e: "ensure_download E i m s2 = (k, s3)" by fastforce
    have s3: "step_for harmless False m s s3" using step_trans [OF s2 step_ensure] e by (metis snd_conv)
    show ?thesis
    proof (cases k)
      case None
      with False v e s3 show ?thesis by (simp add: handleDownload_def Let_def s2_def [symmetric])
    next
      case (Some j)
      obtain st0 s4 where o1: "observe E i j s3 = (st0, s4)" by fastforce
      obtain st s5 where o2: "observe E (i + 1) j s4 = (st, s5)" by fastforce
      have s5: "step_for harmless False m s s5"
        using step_trans [OF step_trans [OF s3 step_observe] step_observe] o1 o2 by (metis snd_conv)
      let ?m1 = "\<lambda>speed. on_status (download_status E (clock (ce_cluster E) i) (ds_Phase st0) st speed) m"
      have "step_for harmless False m s (outcome_state (and_then (attempt (download_speed (ce_fl E) (clock (ce_cluster E) i) st) s5)
         (\<lambda>speed s5. case send_status E i (?m1 speed) s5 of
              (Some e, s6) \<Rightarrow> Returns (NoResult, Some (FromApi '''' e)) s6
            | (None, s6) \<Rightarrow> (case finish_handling E i (ds_Phase st0) st (?m1 speed) s6 of (a, s7) \<Rightarrow> Returns a s7))))"
      proof (rule step_trans [OF s5], rule outcome_and_then_step, goal_cases)
        case (2 speed s6)
        have u: "step_for harmless False m s6 (ctl (StatusUpdated (?m1 speed)) s6)" by (rule step_ctl) simp
        moreover have "step_for harmless False m s6 (snd (finish_handling E i (ds_Phase st0) st (?m1 speed)
            (ctl (StatusUpdated (?m1 speed)) s6)))" by (rule step_trans [OF u step_finish])
        ultimately show ?case by (simp add: send_status_def split_beta split: option.splits)
      qed simp
      with False v e Some o1 o2 show ?thesis
        by (simp add: handleDownload_def Let_def s2_def [symmetric])
    qed
  qed
qed

lemma step_handleDeletion: "step_for harmless True m s (outcome_state (handleDeletion E i m s))"
proof (cases "FinalizerName \<in> set (im_Finalizers m)")
  case True
  let ?s1 = "ctl (ModelMetricsDeleted (im_Name m) (im_Namespace m)) (release E i m s)"
  have s1: "step_for harmless True m s ?s1" by (rule step_trans [OF step_release step_ctl]) simp
  have "step_for harmless True m s (outcome_state (and_then (with_registry (Delete (im_Namespace m) (im_Name m)) ?s1) (\<lambda>_ s2.
           case removeFinalizer E i m s2 of
             (Some e, s3) \<Rightarrow> Returns (NoResult, Some (FromApi ''failed to remove finalizer'' e)) s3
           | (None, s3) \<Rightarrow> Returns (NoResult, None) (ctl (EventRecorded ''Normal'' ''Deleted'') s3))))"
  proof (rule step_trans [OF s1], rule outcome_and_then_step, goal_cases)
    case 1
    show ?case by (rule step_with_registry) (simp add: reg_laws own_key_keys)
  next
    case (2 u s2)
    show ?case by (auto simp: removeFinalizer_def send_model_def step_ctl split: option.splits
        intro!: step_trans [OF step_ctl step_ctl])
  qed
  with True show ?thesis by (simp add: handleDeletion_def Let_def)
qed (simp add: handleDeletion_def)

lemma step_handleRetry: "step_for harmless False m s (snd (handleRetry E i m s))"
proof -
  let ?s1 = "s\<lparr>ct_manager := Cancel (im_Name m) (ct_manager s),
     ct_disk := snd (RemoveReadyMarker (ce_storage E) i (getCacheDir (im_Name m)) (ct_disk s))\<rparr>"
  have s1: "step_for harmless False m s ?s1" by (rule step_trans [OF step_other_fields(2) step_other_fields(1)])
  have a: "step_for harmless False m s (ctl e ?s1)" if "harmless e" for e
    using that by (rule step_trans [OF s1 step_ctl])
  have b: "step_for harmless False m s (ctl e' (ctl e ?s1))" if "harmless e" "harmless e'" for e e'
    using that by (intro step_trans [OF a step_ctl])
  have c: "step_for harmless False m s (ctl e'' (ctl e' (ctl e ?s1)))" if "harmless e" "harmless e'" "harmless e''" for e e' e''
    using that by (intro step_trans [OF b step_ctl])
  show ?thesis by (simp add: handleRetry_def Let_def send_model_def send_status_def a b c split: option.splits)
qed

lemma step_handleMissingPod: "step_for harmless True m s (outcome_state (handleMissingPod E i m s))"
  unfolding handleMissingPod_def
proof (rule outcome_and_then_step, goal_cases)
  case 1
  show ?case by (rule step_trans [OF step_release step_SetState])
next
  case (2 u s1)
  let ?m1 = "on_status (\<lambda>st. st\<lparr>Phase := ''ScaledToZero'', Ready := False, Replicas := 0, AvailableReplicas := 0\<rparr>) m"
  obtain e m2 s3 where c: "setCondition E (i + 1) ''Ready'' ''True'' ''ScaledToZero'' ''Scaled to zero, waiting for first request''
      ?m1 (snd (send_status E i ?m1 s1)) = (e, m2, s3)" by (metis prod_cases3)
  have "step_for harmless True m s1 s3"
    using step_trans [OF step_send(1) step_setCondition] c by (metis snd_conv)
  then have "step_for harmless True m s1 (updateBudgetMetrics E (ctl (ModelMetrics m2) s3))"
    by (rule step_trans [OF _ step_metrics_ctl]) simp
  with c show ?case by (simp add: Let_def)
qed

end
