(* ===== verification/Chunked_Properties.thy ===== *)
theory Chunked_Properties
  imports Chunked Disk_Properties
begin

text \<open>
  The multipart download: its plan covers the file, its retries end, and the assembled file is the remote one when the
  server serves ranges; a server that answers a range with the whole file breaks it.
\<close>

section \<open>The plan covers the file\<close>

definition slice :: "nat \<Rightarrow> nat \<Rightarrow> 'a list \<Rightarrow> 'a list" where
  "slice a b xs = take (b - a) (drop a xs)" \<comment> \<open>from \<open>a\<close> up to before \<open>b\<close>\<close>

lemma slices_cover:
  assumes "mono f" and "f 0 = 0" and "length xs \<le> f k"
  shows "concat (map (\<lambda>i. slice (f i) (f (Suc i)) xs) [0..<k]) = xs"
proof -
  have "concat (map (\<lambda>i. slice (f i) (f (Suc i)) xs) [0..<j]) = take (f j) xs" for j
  proof (induction j)
    case 0
    then show ?case by (simp add: assms(2))
  next
    case (Suc j)
    have "f j \<le> f (Suc j)" using assms(1) by (simp add: monoD)
    then have "take (f (Suc j)) xs = take (f j) xs @ slice (f j) (f (Suc j)) xs"
      by (metis le_add_diff_inverse slice_def take_add)
    with Suc show ?case by simp
  qed
  with assms(3) show ?thesis by simp
qed

lemma sint_of_nat_small: "n < 2 ^ 63 \<Longrightarrow> sint (of_nat n :: int64) = int n"
proof -
  assume "n < 2 ^ 63"
  then have "int n < 2 ^ 63" by (metis of_nat_less_iff of_nat_numeral of_nat_power)
  then have "sint (word_of_int (int n) :: int64) = int n"
    by (intro sint_small) (simp_all add: order_trans [of _ 0])
  then show ?thesis by simp
qed

lemma unat_of_nat_63: "n < 2 ^ 63 \<Longrightarrow> unat (of_nat n :: int64) = n"
  by (rule unat_of_nat_small) simp

lemma chunk_count_nat:
  assumes "0 < n" and "0 < s" and "n + s < 2 ^ 63"
  shows "chunk_count (of_nat s) (of_nat n) = (n + s - 1) div s"
proof -
  have "(of_nat n + of_nat s - 1 :: int64) = of_nat (n + s - 1)" using assms(1,2) by (simp add: of_nat_diff)
  moreover have "sint (of_nat (n + s - 1) :: int64) = int (n + s - 1)" using assms by (intro sint_of_nat_small) linarith
  moreover have "sint (of_nat s :: int64) = int s" using assms by (intro sint_of_nat_small) linarith
  moreover have "0 < (n + s - 1) div s" using assms by (simp add: div_greater_zero_iff)
  ultimately show ?thesis by (simp add: chunk_count_def Let_def zdiv_int [symmetric])
qed

lemma chunk_at_nat:
  assumes "0 < s" and "n + s < 2 ^ 63" and "i * s < n"
  shows "ch_Start (chunk_at (of_nat s) (of_nat n) i) = of_nat (i * s)"
    and "ch_End (chunk_at (of_nat s) (of_nat n) i) = of_nat (min (Suc i * s) n - 1)"
proof -
  have bound: "i * s + s < 2 ^ 63" using assms by linarith
  show "ch_Start (chunk_at (of_nat s) (of_nat n) i) = of_nat (i * s)"
    by (simp add: chunk_at_def Let_def)
  have e: "(of_nat i * of_nat s + of_nat s - 1 :: int64) = of_nat (i * s + s - 1)" using assms(1) by (simp add: of_nat_diff)
  have se: "sint (of_nat (i * s + s - 1) :: int64) = int (i * s + s - 1)" using bound by (intro sint_of_nat_small) linarith
  have sn: "sint (of_nat n :: int64) = int n" using assms(2) by (intro sint_of_nat_small) linarith
  have n1: "(of_nat n - 1 :: int64) = of_nat (n - 1)" using assms(3) by (simp add: of_nat_diff)
  have "ch_End (chunk_at (of_nat s) (of_nat n) i) = (if int n \<le> int (i * s + s - 1) then of_nat (n - 1) else of_nat (i * s + s - 1))"
    by (simp only: chunk_at_def Let_def chunkRange.simps e se sn n1)
  also have "\<dots> = of_nat (min (Suc i * s) n - 1)"
  proof -
    have "min (Suc i * s) n - 1 = (if n \<le> i * s + s - 1 then n - 1 else i * s + s - 1)"
      using assms(1,3) by (auto simp: min_def)
    then show ?thesis by (simp only: of_nat_le_iff if_distrib [of of_nat])
  qed
  finally show "ch_End (chunk_at (of_nat s) (of_nat n) i) = of_nat (min (Suc i * s) n - 1)" .
qed

text \<open>The bytes of a chunk: \<open>End\<close> is inclusive.\<close>

definition chunk_bytes :: "chunkRange \<Rightarrow> byte list \<Rightarrow> byte list" where
  "chunk_bytes c = slice (unat (ch_Start c)) (Suc (unat (ch_End c)))"

lemma index_bound: "0 < s \<Longrightarrow> i < (n + s - 1) div s \<Longrightarrow> i * s < (n :: nat)"
proof -
  assume "0 < s" and "i < (n + s - 1) div s"
  then have "Suc i * s \<le> n + s - 1" by (metis Suc_leI le_trans mult_le_mono1 div_times_less_eq_dividend)
  with \<open>0 < s\<close> show ?thesis by simp
qed

lemma chunks_nat:
  assumes "0 < s" and "n + s < 2 ^ 63" and "0 < n" and "c \<in> set (computeChunks (of_nat s) (of_nat n))"
  obtains i where "c = chunk_at (of_nat s) (of_nat n) i" "i * s < n" "ch_Index c = i"
    "unat (ch_Start c) = i * s" "Suc (unat (ch_End c)) = min (Suc i * s) n"
proof -
  have s: "chunk_size (of_nat s) = of_nat s"
    using assms(1,2) sint_of_nat_small [of s] by (simp add: chunk_size_def)
  from assms obtain i where i: "c = chunk_at (of_nat s) (of_nat n) i" "i < (n + s - 1) div s"
    by (auto simp: computeChunks_def s chunk_count_nat)
  from i(2) assms(1) have b: "i * s < n" by (rule index_bound [rotated])
  note nat = chunk_at_nat [OF assms(1,2) b]
  have "unat (ch_Start c) = i * s" using b assms(2) by (simp only: i(1) nat, intro unat_of_nat_63) linarith
  moreover have "unat (ch_End c) = min (Suc i * s) n - 1"
    using assms(2) by (simp only: i(1) nat, intro unat_of_nat_63) linarith
  moreover have "0 < min (Suc i * s) n" using assms(1,3) by simp
  moreover have "ch_Index c = i" by (simp add: i(1) chunk_at_def Let_def)
  ultimately show thesis using i(1) b by (intro that) simp_all
qed

lemma computeChunks_indices:
  "map ch_Index (computeChunks s n) = [0..<length (computeChunks s n)]"
  by (simp add: computeChunks_def Let_def chunk_at_def comp_def)

lemma chunks_partition_aux:
  assumes "0 < s" and "length file + s < 2 ^ 63" and "file \<noteq> []"
  shows "concat (map (\<lambda>c. chunk_bytes c file) (computeChunks (of_nat s) (of_nat (length file)))) = file
    \<and> (\<forall>c \<in> set (computeChunks (of_nat s) (of_nat (length file))).
         0 < length (chunk_bytes c file) \<and> length (chunk_bytes c file) \<le> s
         \<and> of_nat (length (chunk_bytes c file)) = ch_End c - ch_Start c + 1)"
proof
  let ?n = "length file" and ?f = "\<lambda>i. min (i * s) (length file)"
  have n: "0 < ?n" using assms(3) by simp
  have size_s: "chunk_size (of_nat s) = of_nat s"
    using assms(1,2) sint_of_nat_small [of s] by (simp add: chunk_size_def)
  have plan: "computeChunks (of_nat s) (of_nat ?n) = map (chunk_at (of_nat s) (of_nat ?n)) [0..<(?n + s - 1) div s]"
    using assms n by (simp add: computeChunks_def size_s chunk_count_nat)
  have bytes: "chunk_bytes (chunk_at (of_nat s) (of_nat ?n) i) file = slice (?f i) (?f (Suc i)) file"
    if "i < (?n + s - 1) div s" for i
  proof -
    have "chunk_at (of_nat s) (of_nat ?n) i \<in> set (computeChunks (of_nat s) (of_nat ?n))" using that by (simp add: plan)
    then obtain j where j: "chunk_at (of_nat s) (of_nat ?n) i = chunk_at (of_nat s) (of_nat ?n) j" "j * s < ?n"
      "ch_Index (chunk_at (of_nat s) (of_nat ?n) i) = j"
      "unat (ch_Start (chunk_at (of_nat s) (of_nat ?n) i)) = j * s"
      "Suc (unat (ch_End (chunk_at (of_nat s) (of_nat ?n) i))) = min (Suc j * s) ?n"
      by (rule chunks_nat [OF assms(1,2) n])
    moreover have "j = i" using j(3) by (simp add: chunk_at_def Let_def)
    ultimately show ?thesis by (simp add: chunk_bytes_def)
  qed
  have "mono ?f" by (intro monoI min.mono mult_le_mono1 order_refl)
  moreover have "?n \<le> ?f ((?n + s - 1) div s)"
  proof -
    have "?n + s - 1 < ((?n + s - 1) div s) * s + s"
      using assms(1) by (metis add.commute dividend_less_div_times)
    with assms(1) show ?thesis by simp
  qed
  ultimately have "concat (map (\<lambda>i. slice (?f i) (?f (Suc i)) file) [0..<(?n + s - 1) div s]) = file"
    by (intro slices_cover) simp_all
  moreover have "map (\<lambda>c. chunk_bytes c file) (computeChunks (of_nat s) (of_nat ?n))
      = map (\<lambda>i. slice (?f i) (?f (Suc i)) file) [0..<(?n + s - 1) div s]"
    using bytes by (simp add: plan)
  ultimately show "concat (map (\<lambda>c. chunk_bytes c file) (computeChunks (of_nat s) (of_nat ?n))) = file" by simp
  show "\<forall>c \<in> set (computeChunks (of_nat s) (of_nat ?n)).
         0 < length (chunk_bytes c file) \<and> length (chunk_bytes c file) \<le> s
         \<and> of_nat (length (chunk_bytes c file)) = ch_End c - ch_Start c + 1"
  proof
    fix c assume c: "c \<in> set (computeChunks (of_nat s) (of_nat ?n))"
    then obtain i where i: "i * s < ?n" "unat (ch_Start c) = i * s" "Suc (unat (ch_End c)) = min (Suc i * s) ?n"
      using chunks_nat [OF assms(1,2) n] by metis
    then have len: "length (chunk_bytes c file) = min (Suc i * s) ?n - i * s"
      by (simp add: chunk_bytes_def slice_def)
    have e: "ch_End c = of_nat (Suc (unat (ch_End c))) - 1" by simp
    have st: "ch_Start c = of_nat (unat (ch_Start c))" by simp
    have "i * s \<le> min (Suc i * s) ?n" using i(1) by simp
    then have "of_nat (length (chunk_bytes c file)) = of_nat (min (Suc i * s) ?n) - (of_nat (i * s) :: int64)"
      unfolding len by (rule of_nat_diff)
    moreover have "\<dots> = ch_End c - ch_Start c + 1"
      by (subst e, subst st) (simp only: i(2,3), simp)
    ultimately have "of_nat (length (chunk_bytes c file)) = ch_End c - ch_Start c + 1" by simp
    with len i assms(1) show "0 < length (chunk_bytes c file) \<and> length (chunk_bytes c file) \<le> s
         \<and> of_nat (length (chunk_bytes c file)) = ch_End c - ch_Start c + 1" by auto
  qed
qed

text \<open>
  The plan is a partition: for a file and a chunk size whose sum stays within \<open>int64\<close>, the byte ranges of the chunks, in
  order, are the whole file, and no chunk is empty or longer than the chunk size.
\<close>

theorem chunks_partition:
  assumes "0 < s" and "length file + s < 2 ^ 63" and "file \<noteq> []"
  shows "concat (map (\<lambda>c. chunk_bytes c file) (computeChunks (of_nat s) (of_nat (length file)))) = file
    \<and> (\<forall>c \<in> set (computeChunks (of_nat s) (of_nat (length file))).
         0 < length (chunk_bytes c file) \<and> length (chunk_bytes c file) \<le> s
         \<and> of_nat (length (chunk_bytes c file)) = ch_End c - ch_Start c + 1)"
  using chunks_partition_aux [OF assms] .

lemma chunks_partition_witness:
  "concat (map (\<lambda>c. chunk_bytes c [1, 2, 3, 4, 5]) (computeChunks 2 5)) = [1, 2, 3, 4, 5]"
  using chunks_partition [of 2 "[1, 2, 3, 4, 5]"] by simp

section \<open>Part files\<close>

fun decimal :: "string \<Rightarrow> nat" where
  "decimal s = foldl (\<lambda>a c. 10 * a + (of_char c - 48)) 0 s"

lemma decimal_show_nat: "decimal (show_nat n) = n"
proof (induction n rule: less_induct)
  case (less n)
  then show ?case by (cases "n < 10") (simp_all add: show_nat.simps [of n])
qed

lemma partPath_inject: "partPath l i = partPath l j \<longleftrightarrow> i = j"
proof
  assume "partPath l i = partPath l j"
  then have "(if i < 10 then ''0'' else '''') @ show_nat i = (if j < 10 then ''0'' else '''') @ show_nat j"
    by (simp add: partPath_def)
  then have "decimal ((if i < 10 then ''0'' else '''') @ show_nat i) = decimal ((if j < 10 then ''0'' else '''') @ show_nat j)"
    by simp
  moreover have "decimal ((if k < 10 then ''0'' else '''') @ show_nat k) = k" for k
    using decimal_show_nat [of k] by simp
  ultimately show "i = j" by simp
qed simp

lemma partPath_other: "partPath l i \<noteq> l @ ''.part''" "partPath l i \<noteq> l" "l @ ''.part'' \<noteq> l"
  by (simp_all add: partPath_def)

section \<open>A server that serves ranges\<close>

definition serves_ranges :: "network \<Rightarrow> string \<Rightarrow> byte list \<Rightarrow> bool" where
  "serves_ranges N url remote \<longleftrightarrow> (\<forall>i token a b resp.
     http N i \<lparr>rq_Method = ''GET'', rq_URL = url, rq_Token = token, rq_Range = Between a b\<rparr> = Some resp \<longrightarrow>
       rp_Status resp \<noteq> 200 \<and> (rp_Status resp = 206 \<longrightarrow>
         (\<exists>rest. rp_Body resp @ rest = slice (unat a) (Suc (unat b)) remote \<and> (rp_Clean resp \<longrightarrow> rest = []))))"

text \<open>What the part of each chunk should hold.\<close>

abbreviation pieces :: "byte list \<Rightarrow> chunkRange \<Rightarrow> byte list" where
  "pieces remote \<equiv> \<lambda>c. chunk_bytes c remote"

text \<open>A part is either of another size, so that it is fetched again, or complete.\<close>

definition part_ok :: "string \<Rightarrow> (chunkRange \<Rightarrow> byte list) \<Rightarrow> disk \<Rightarrow> chunkRange \<Rightarrow> bool" where
  "part_ok localPath r d c \<longleftrightarrow> partPath localPath (ch_Index c) \<notin> set (directories d)
     \<and> (\<forall>bs. file_at d (partPath localPath (ch_Index c)) = Some bs \<longrightarrow> of_nat (length bs) = ch_End c - ch_Start c + 1
          \<longrightarrow> bs = r c)"

definition part_done :: "string \<Rightarrow> (chunkRange \<Rightarrow> byte list) \<Rightarrow> disk \<Rightarrow> chunkRange \<Rightarrow> bool" where
  "part_done localPath r d c \<longleftrightarrow> file_at d (partPath localPath (ch_Index c)) = Some (r c)"

text \<open>What a step for chunk \<open>c\<close> may do: it touches only the part of \<open>c\<close> and keeps it usable.\<close>

definition chunk_step :: "string \<Rightarrow> (chunkRange \<Rightarrow> byte list) \<Rightarrow> chunkRange \<Rightarrow> disk \<Rightarrow> disk \<Rightarrow> bool" where
  "chunk_step localPath r c d d' \<longleftrightarrow> directories d' = directories d
     \<and> (\<forall>q. q \<noteq> partPath localPath (ch_Index c) \<longrightarrow> file_at d' q = file_at d q)
     \<and> (part_ok localPath r d c \<longrightarrow> part_ok localPath r d' c)"

lemma chunk_step_refl: "chunk_step l r c d d"
  by (simp add: chunk_step_def)

lemma chunk_step_trans: "chunk_step l r c d d1 \<Longrightarrow> chunk_step l r c d1 d2 \<Longrightarrow> chunk_step l r c d d2"
  by (simp add: chunk_step_def)

lemma directories_put [simp]: "directories (put_file p bs d) = directories d"
  by (simp add: put_file_def)

lemma downloadChunk_ok:
  assumes "serves_ranges N (ResolveDownloadURL repoID filePath) remote"
    and "downloadChunk E N c i repoID filePath localPath ch d = (ok, d')"
    and "of_nat (length (chunk_bytes ch remote)) = ch_End ch - ch_Start ch + 1"
    and "length remote < 2 ^ 63"
  shows "chunk_step localPath (pieces remote) ch d d'"
    and "ok \<Longrightarrow> part_ok localPath (pieces remote) d ch \<Longrightarrow> part_done localPath (pieces remote) d' ch"
proof -
  let ?pp = "partPath localPath (ch_Index ch)"
  let ?req = "\<lparr>rq_Method = ''GET'', rq_URL = ResolveDownloadURL repoID filePath, rq_Token = getToken N c,
    rq_Range = Between (ch_Start ch) (ch_End ch)\<rparr>"
  have "chunk_step localPath (pieces remote) ch d d' \<and> (ok \<longrightarrow> part_ok localPath (pieces remote) d ch \<longrightarrow> part_done localPath (pieces remote) d' ch)"
  proof (cases "os_Stat E i ?pp d = Inr (ch_End ch - ch_Start ch + 1)")
    case True
    then have "ok" "d' = d" using assms(2) by (simp_all add: downloadChunk_def Let_def)
    moreover have "part_ok localPath (pieces remote) d ch \<Longrightarrow> part_done localPath (pieces remote) d ch"
      using True by (auto simp: os_Stat_def part_ok_def part_done_def split: if_splits option.splits)
    ultimately show ?thesis by (simp add: chunk_step_refl)
  next
    case stale: False
    show ?thesis
    proof (cases "http N i ?req")
      case None
      then show ?thesis using assms(2) stale
        by (simp add: downloadChunk_def Let_def NewAuthenticatedRequest_def chunk_step_refl)
    next
      case (Some resp)
      show ?thesis
      proof (cases "rp_Status resp = 206 \<and> \<not> fault E i CreateFile ?pp")
        case False
        moreover have "rp_Status resp \<noteq> 200" using assms(1) Some unfolding serves_ranges_def by blast
        ultimately have "downloadChunk E N c i repoID filePath localPath ch d = (False, d)" using stale Some
          by (cases "rp_Status resp = 206") (simp_all add: downloadChunk_def Let_def NewAuthenticatedRequest_def os_Create_def)
        then show ?thesis using assms(2) by (simp add: chunk_step_refl)
      next
        case True
        then obtain rest where body: "rp_Body resp @ rest = chunk_bytes ch remote" "rp_Clean resp \<longrightarrow> rest = []"
          using assms(1) Some unfolding serves_ranges_def chunk_bytes_def by blast
        define bs where "bs = (if fault E i WriteData ?pp then take (short_write E i) (rp_Body resp) else rp_Body resp)"
        have d': "d' = put_file ?pp bs (put_file ?pp [] d)"
          and ok: "ok = (rp_Clean resp \<and> \<not> fault E i WriteData ?pp \<and> \<not> fault E i SyncFile ?pp)"
          using assms(2) stale Some True
          by (simp_all add: downloadChunk_def Let_def NewAuthenticatedRequest_def os_Create_def io_Copy_def
              append_file_def disk_laws bs_def)
        have pre: "\<exists>more. bs @ more = chunk_bytes ch remote"
          unfolding bs_def using body(1) by (metis append_assoc append_take_drop_id)
        have small: "length (chunk_bytes ch remote) < 2 ^ 63"
          using assms(4) by (simp add: chunk_bytes_def slice_def)
        have full: "bs = chunk_bytes ch remote" if "of_nat (length bs) = ch_End ch - ch_Start ch + 1"
        proof -
          obtain more where more: "bs @ more = chunk_bytes ch remote" using pre by blast
          then have "length bs \<le> length (chunk_bytes ch remote)" by (metis length_append le_add1)
          moreover have "(of_nat (length bs) :: int64) = of_nat (length (chunk_bytes ch remote))" using that assms(3) by simp
          ultimately have "length bs = length (chunk_bytes ch remote)"
            using small by (metis unat_of_nat_63 order_le_less_trans)
          with more show ?thesis by (metis append_Nil2 append_eq_append_conv)
        qed
        have "ok \<Longrightarrow> bs = chunk_bytes ch remote" using ok body by (simp add: bs_def)
        with full show ?thesis
          by (auto simp: chunk_step_def part_ok_def part_done_def d' disk_laws)
      qed
    qed
  qed
  then show "chunk_step localPath (pieces remote) ch d d'"
    and "ok \<Longrightarrow> part_ok localPath (pieces remote) d ch \<Longrightarrow> part_done localPath (pieces remote) d' ch" by blast+
qed

section \<open>Retries\<close>

text \<open>What every attempt keeps, the loop keeps; and it succeeds only after an attempt that did.\<close>

lemma retry_loop_keeps:
  assumes "\<And>k d ok d'. get k d = (ok, d') \<Longrightarrow> P d \<Longrightarrow> P d' \<and> (ok \<longrightarrow> Q d')"
    and "retry_loop fl b jitter gone woken get left k delay d = (ok, delays, d')" and "P d"
  shows "P d' \<and> (ok \<longrightarrow> Q d')"
  using assms(2,3)
proof (induction left arbitrary: k delay d ok delays d')
  case 0
  then show ?case by simp
next
  case (Suc left)
  obtain okg dg where g: "get k d = (okg, dg)" by fastforce
  obtain okr dsr dr where r: "retry_loop fl b jitter gone woken get left (Suc k)
      (if k > 0 then next_delay fl b (jitter k) delay else delay) dg = (okr, dsr, dr)" by (metis prod_cases3)
  note g' = assms(1) [OF g Suc.prems(2)]
  show ?case
  proof (cases "k > 0 \<and> woken k \<or> okg \<or> gone k")
    case True
    then show ?thesis using Suc.prems g g' by (auto split: if_splits bool.splits)
  next
    case False
    then have "ok = okr" "d' = dr" using Suc.prems g r by (auto simp del: One_nat_def)
    then show ?thesis using Suc.IH [OF r] g' by simp
  qed
qed

lemma retry_loop_delays:
  assumes "retry_loop fl b jitter gone woken get left k delay d = (ok, delays, d')"
    and "delay \<le> bo_Max b"
  shows "length delays \<le> left \<and> (k = 0 \<longrightarrow> length delays \<le> left - 1) \<and> (\<forall>x \<in> set delays. x \<le> bo_Max b)"
  using assms
proof (induction left arbitrary: k delay d ok delays d')
  case 0
  then show ?case by simp
next
  case (Suc left)
  obtain okg dg where g: "get k d = (okg, dg)" by fastforce
  let ?nd = "if k > 0 then next_delay fl b (jitter k) delay else delay"
  obtain okr dsr dr where r: "retry_loop fl b jitter gone woken get left (Suc k) ?nd dg = (okr, dsr, dr)"
    by (metis prod_cases3)
  have nd: "?nd \<le> bo_Max b" using Suc.prems(2) by (simp add: next_delay_def Let_def)
  note ih = Suc.IH [OF r nd]
  show ?case
  proof (cases "k > 0 \<and> woken k \<or> okg \<or> gone k")
    case True
    then show ?thesis using Suc.prems g by (auto split: if_splits bool.splits)
  next
    case False
    then have "delays = (if k > 0 then delay # dsr else dsr)" using Suc.prems g r by (auto split: if_splits)
    then show ?thesis using ih Suc.prems(2) by auto
  qed
qed

text \<open>
  The retries of a chunk end: whatever the server does there are at most four waits, none longer than ten seconds.
\<close>

theorem retries_end:
  "case downloadChunkWithRetry E N c fl defaultBackoff jitter gone woken i repoID filePath localPath ch d of
     (ok, delays, d') \<Rightarrow> length delays \<le> 4 \<and> list_all (\<lambda>x. x \<le> 10000000000) delays"
proof -
  obtain ok delays d' where r: "downloadChunkWithRetry E N c fl defaultBackoff jitter gone woken i repoID filePath localPath ch d
      = (ok, delays, d')" by (metis prod_cases3)
  then show ?thesis
    using retry_loop_delays [OF r [unfolded downloadChunkWithRetry_def]] by (simp add: defaultBackoff_def list_all_iff)
qed

section \<open>All chunks\<close>

lemma chunks_loop_ok:
  assumes "\<And>c d ok d'. c \<in> set cs \<Longrightarrow> get c d = (ok, d') \<Longrightarrow> usable d c \<Longrightarrow>
      directories d' = directories d \<and> (\<forall>q. q \<noteq> partPath l (ch_Index c) \<longrightarrow> file_at d' q = file_at d q)
      \<and> (ok \<longrightarrow> part_done l r d' c)"
    and "\<And>c d d'. usable d c \<Longrightarrow> directories d' = directories d \<Longrightarrow>
      file_at d' (partPath l (ch_Index c)) = file_at d (partPath l (ch_Index c)) \<Longrightarrow> usable d' c"
    and "chunks_loop get cs d = (True, d')" and "\<And>c. c \<in> set cs \<Longrightarrow> usable d c"
    and "distinct (map ch_Index cs)"
  shows "(\<forall>c \<in> set cs. part_done l r d' c) \<and> directories d' = directories d
    \<and> (\<forall>q. (\<forall>c \<in> set cs. q \<noteq> partPath l (ch_Index c)) \<longrightarrow> file_at d' q = file_at d q)"
  using assms(1,3-5)
proof (induction cs arbitrary: d)
  case Nil
  then show ?case by simp
next
  case (Cons c cs)
  obtain ok d1 where g: "get c d = (ok, d1)" by fastforce
  with Cons.prems(2) have ok: "ok" and rest: "chunks_loop get cs d1 = (True, d')"
    by (auto split: bool.splits)
  have "usable d c" using Cons.prems(3) by simp
  with Cons.prems(1) [OF _ g] ok have step: "directories d1 = directories d"
      "\<And>q. q \<noteq> partPath l (ch_Index c) \<Longrightarrow> file_at d1 q = file_at d q"
    and complete: "part_done l r d1 c" by auto
  have other: "ch_Index c' \<noteq> ch_Index c" if "c' \<in> set cs" for c'
    using Cons.prems(4) that by (metis distinct.simps(2) image_eqI list.set_map list.simps(9))
  have next_usable: "usable d1 c'" if "c' \<in> set cs" for c'
    using Cons.prems(3) [of c'] step other [OF that] that by (intro assms(2) [of d c' d1]) (auto simp: partPath_inject)
  have ih: "(\<forall>c \<in> set cs. part_done l r d' c) \<and> directories d' = directories d1
    \<and> (\<forall>q. (\<forall>c \<in> set cs. q \<noteq> partPath l (ch_Index c)) \<longrightarrow> file_at d' q = file_at d1 q)"
  proof (rule Cons.IH [OF _ rest])
    fix c' d ok d'
    assume "c' \<in> set cs" and "get c' d = (ok, d')" and "usable d c'"
    then show "directories d' = directories d \<and> (\<forall>q. q \<noteq> partPath l (ch_Index c') \<longrightarrow> file_at d' q = file_at d q)
        \<and> (ok \<longrightarrow> part_done l r d' c')" using Cons.prems(1) [of c' d ok d'] by simp
  qed (use next_usable Cons.prems(4) in simp_all)
  then have "file_at d' (partPath l (ch_Index c)) = file_at d1 (partPath l (ch_Index c))"
    using other by (metis partPath_inject)
  then have "part_done l r d' c" using complete by (simp add: part_done_def)
  then show ?case using ih step by auto
qed

section \<open>Assembly\<close>

lemma append_parts_ok:
  assumes "append_parts E i l tmp cs d = (True, d')" and "\<And>c. c \<in> set cs \<Longrightarrow> part_done l r d c"
    and "\<And>k. tmp \<noteq> partPath l k" and "file_at d tmp = Some bs"
  shows "file_at d' tmp = Some (bs @ concat (map r cs))
    \<and> (\<forall>q. q \<noteq> tmp \<longrightarrow> file_at d' q = file_at d q)"
  using assms
proof (induction cs arbitrary: i d bs)
  case Nil
  then show ?case by simp
next
  case (Cons c cs)
  let ?d = "append_file tmp (r c) d"
  have part: "file_at d (partPath l (ch_Index c)) = Some (r c)"
    using Cons.prems(2) by (simp add: part_done_def)
  with Cons.prems(1) have rest: "append_parts E (i + 1) l tmp cs ?d = (True, d')"
    by (auto simp: Let_def split: if_splits)
  have "part_done l r ?d c'" if "c' \<in> set cs" for c'
    using Cons.prems(2) [of c'] Cons.prems(3) that by (auto simp: part_done_def append_file_def disk_laws)
  moreover have "file_at ?d tmp = Some (bs @ r c)"
    using Cons.prems(4) by (simp add: append_file_def disk_laws)
  ultimately show ?case
    using Cons.IH [OF rest _ Cons.prems(3), of "bs @ r c"]
    by (auto simp: append_file_def disk_laws)
qed

lemma cleanup_keeps:
  assumes "\<And>c. c \<in> set cs \<Longrightarrow> q \<noteq> partPath l (ch_Index c)" and "q \<noteq> l @ ''.part''"
  shows "file_at (cleanupParts E i l cs d) q = file_at d q"
proof -
  have "file_at (fold (\<lambda>c d. snd (os_Remove E i (partPath l (ch_Index c)) d)) cs d) q = file_at d q"
    using assms(1) by (induction cs arbitrary: d) (auto simp: disk_laws)
  then show ?thesis using assms(2) by (simp add: cleanupParts_def disk_laws)
qed

lemma assemble_ok:
  assumes "assembleChunks E i l cs d = (True, d')" and "\<And>c. c \<in> set cs \<Longrightarrow> part_done l r d c"
  shows "file_at d' l = Some (concat (map r cs))
    \<and> (\<forall>q. q \<noteq> l \<longrightarrow> q \<noteq> l @ ''.part'' \<longrightarrow> file_at d' q = file_at d q)"
proof -
  let ?tmp = "l @ ''.part''" and ?d1 = "put_file (l @ ''.part'') [] d"
  have ne: "?tmp \<noteq> partPath l k" for k using partPath_other(1) [of l k] by metis
  from assms(1) obtain d2 where parts: "append_parts E (i + 1) l ?tmp cs ?d1 = (True, d2)" and d': "d' = rename ?tmp l d2"
    by (auto simp: assembleChunks_def os_Create_def Let_def split: if_splits bool.splits prod.splits)
  have "part_done l r ?d1 c" if "c \<in> set cs" for c
    using assms(2) [OF that] ne [of "ch_Index c"] by (auto simp: part_done_def disk_laws)
  from append_parts_ok [OF parts this ne, of "[]"]
  have "file_at d2 ?tmp = Some (concat (map r cs))"
    and "\<forall>q. q \<noteq> ?tmp \<longrightarrow> file_at d2 q = file_at d q" by (auto simp: disk_laws)
  then show ?thesis by (auto simp: d' rename_def disk_laws)
qed

lemma fetch_chunk_ok:
  assumes "serves_ranges N (ResolveDownloadURL repoID filePath) remote"
    and "fetch_chunk E N c W i repoID filePath l ch d = (ok, d')"
    and "of_nat (length (chunk_bytes ch remote)) = ch_End ch - ch_Start ch + 1" and "length remote < 2 ^ 63"
  shows "chunk_step l (pieces remote) ch d d' \<and> (ok \<longrightarrow> part_ok l (pieces remote) d ch \<longrightarrow> part_done l (pieces remote) d' ch)"
proof -
  from assms(2) obtain delays where
    r: "downloadChunkWithRetry E N c (cw_fl W) defaultBackoff (cw_jitter W (ch_Index ch))
        (cw_gone W (ch_Index ch)) (cw_woken W (ch_Index ch)) (i + 10 * ch_Index ch) repoID filePath l ch d = (ok, delays, d')"
    by (auto simp: fetch_chunk_def Let_def split: prod.splits)
  show ?thesis
  proof (rule retry_loop_keeps [where P = "chunk_step l (pieces remote) ch d"
        and Q = "\<lambda>d'. part_ok l (pieces remote) d ch \<longrightarrow> part_done l (pieces remote) d' ch",
        OF _ r [unfolded downloadChunkWithRetry_def] chunk_step_refl])
    fix k da oka db
    assume g: "downloadChunk E N c (i + 10 * ch_Index ch + k) repoID filePath l ch da = (oka, db)"
      and P: "chunk_step l (pieces remote) ch d da"
    note * = downloadChunk_ok [OF assms(1) g assms(3,4)]
    show "chunk_step l (pieces remote) ch d db \<and> (oka \<longrightarrow> part_ok l (pieces remote) d ch \<longrightarrow> part_done l (pieces remote) db ch)"
      using chunk_step_trans [OF P *(1)] *(2) P by (auto simp: chunk_step_def)
  qed
qed

lemma order_indices:
  assumes "\<And>cs. mset (cw_order W cs) = mset cs" and "chunks = computeChunks s n"
  shows "distinct (map ch_Index (cw_order W chunks))"
proof -
  have "mset (map ch_Index (cw_order W chunks)) = mset (map ch_Index chunks)" using assms(1) by (simp only: mset_map)
  moreover have "distinct (map ch_Index chunks)" unfolding assms(2) computeChunks_indices by simp
  ultimately show ?thesis by (metis mset_eq_imp_distinct_iff)
qed

section \<open>The downloaded file\<close>

lemma chunkedDownload_parts:
  assumes "chunkedDownload E N c W i repoID filePath l d = (Inr n, d')"
  obtains supports chunks d1 d2 where
    "headRequest N c i repoID filePath = Some (n, supports)" "sint MultipartThreshold \<le> sint n"
    "chunks = computeChunks DefaultChunkSize n"
    "chunks_loop (fetch_chunk E N c W i repoID filePath l) (cw_order W chunks) d = (True, d1)"
    "assembleChunks E i l chunks d1 = (True, d2)" "d' = cleanupParts E i l chunks d2"
proof -
  from assms obtain size supports where h: "headRequest N c i repoID filePath = Some (size, supports)"
    by (cases "headRequest N c i repoID filePath") (auto simp: chunkedDownload_def)
  let ?chunks = "computeChunks DefaultChunkSize size"
  let ?loop = "chunks_loop (fetch_chunk E N c W i repoID filePath l) (cw_order W ?chunks) d"
  obtain ok1 d1 where loop: "?loop = (ok1, d1)" by fastforce
  obtain ok2 d2 where asm: "assembleChunks E i l ?chunks d1 = (ok2, d2)" by fastforce
  have big: "supports" "sint MultipartThreshold \<le> sint size"
    using assms h by (auto simp: chunkedDownload_def not_less split: if_split_asm)
  have "chunkedDownload E N c W i repoID filePath l d
      = (if ok1 then if ok2 then (Inr size, cleanupParts E i l ?chunks d2) else (Inl ChunkedFailed, d2) else (Inl ChunkedFailed, d1))"
    using big by (simp add: chunkedDownload_def h loop asm not_less split: bool.splits)
  with assms loop asm have "ok1" "ok2" "size = n" "d' = cleanupParts E i l ?chunks d2"
    by (auto split: if_split_asm)
  with h big loop asm show thesis by (intro that [of supports ?chunks d1 d2]) auto
qed

text \<open>A multipart download that reports success has fetched and put together all its chunks.\<close>

lemma chunked_success:
  assumes "chunkedDownload E N c W i repoID filePath l d = (Inr n, d')"
    and "serves_ranges N (ResolveDownloadURL repoID filePath) remote"
    and "n = of_nat (length remote)" and "length remote + 1073741824 < 2 ^ 63"
    and "\<And>cs. mset (cw_order W cs) = mset cs"
    and "\<And>ch. ch \<in> set (computeChunks DefaultChunkSize n) \<Longrightarrow> part_ok l (pieces remote) d ch"
  shows "file_at d' l = Some remote"
proof -
  have word: "DefaultChunkSize = of_nat 1073741824" by (simp add: DefaultChunkSize_def)
  from chunkedDownload_parts [OF assms(1)] obtain supports chunks d1 d2 where
    big: "sint MultipartThreshold \<le> sint n" and chunks: "chunks = computeChunks DefaultChunkSize n"
    and loop: "chunks_loop (fetch_chunk E N c W i repoID filePath l) (cw_order W chunks) d = (True, d1)"
    and asm: "assembleChunks E i l chunks d1 = (True, d2)" and d': "d' = cleanupParts E i l chunks d2"
    by blast
  have "remote \<noteq> []" using big assms(3) by (auto simp: MultipartThreshold_def)
  then have plan: "concat (map (\<lambda>c. chunk_bytes c remote) chunks) = remote"
    and sizes: "ch \<in> set chunks \<Longrightarrow> of_nat (length (chunk_bytes ch remote)) = ch_End ch - ch_Start ch + 1" for ch
    using chunks_partition_aux [of 1073741824 remote] assms(4) by (auto simp: chunks assms(3) word)
  have set_order: "set (cw_order W chunks) = set chunks" using assms(5) by (metis set_mset_mset)
  note idx = order_indices [OF assms(5) chunks]
  have len: "length remote < 2 ^ 63" using assms(4) by simp
  have "\<forall>ch \<in> set (cw_order W chunks). part_done l (pieces remote) d1 ch"
  proof (rule conjunct1 [OF chunks_loop_ok [where usable = "part_ok l (pieces remote)", OF _ _ loop _ idx]])
    fix ch d ok d'
    assume "ch \<in> set (cw_order W chunks)" and f: "fetch_chunk E N c W i repoID filePath l ch d = (ok, d')"
      and use: "part_ok l (pieces remote) d ch"
    then have "chunk_step l (pieces remote) ch d d' \<and> (ok \<longrightarrow> part_ok l (pieces remote) d ch \<longrightarrow> part_done l (pieces remote) d' ch)"
      using fetch_chunk_ok [OF assms(2) f sizes len] by (simp add: set_order)
    with use show "directories d' = directories d \<and> (\<forall>q. q \<noteq> partPath l (ch_Index ch) \<longrightarrow> file_at d' q = file_at d q)
        \<and> (ok \<longrightarrow> part_done l (pieces remote) d' ch)" by (simp add: chunk_step_def)
  next
    fix ch assume "ch \<in> set (cw_order W chunks)"
    then show "part_ok l (pieces remote) d ch" using assms(6) [folded chunks] by (simp only: set_order)
  qed (simp add: part_ok_def)
  then have "\<And>ch. ch \<in> set chunks \<Longrightarrow> part_done l (pieces remote) d1 ch" by (simp add: set_order)
  from assemble_ok [OF asm this] have "file_at d2 l = Some remote" by (simp add: plan)
  moreover have "file_at d' l = file_at d2 l"
    unfolding d' by (rule cleanup_keeps) (use partPath_other in metis)+
  ultimately show ?thesis by simp
qed


text \<open>A file of the threshold's size, and a server that serves ranges of it.\<close>

definition big_file :: "byte list" where "big_file = replicate 268435456 7"

definition range_server :: network where
  "range_server = \<lparr>http = (\<lambda>i rq. if rq_Method rq = ''HEAD''
       then Some \<lparr>rp_Status = 200, rp_ContentLength = ''268435456'', rp_AcceptRanges = ''bytes'', rp_Body = [], rp_Clean = True\<rparr>
       else (case rq_Range rq of
           Between a b \<Rightarrow> Some \<lparr>rp_Status = 206, rp_ContentLength = '''', rp_AcceptRanges = '''',
             rp_Body = slice (unat a) (Suc (unat b)) big_file, rp_Clean = True\<rparr>
         | _ \<Rightarrow> None)),
     hub_files = (\<lambda>i t r. None), decode_siblings = (\<lambda>b. None), getenv = (\<lambda>v. '''')\<rparr>"

definition in_order :: chunk_world where
  "in_order = \<lparr>cw_fl = (\<lambda>x. x), cw_jitter = (\<lambda>k a. 0), cw_gone = (\<lambda>k a. False), cw_woken = (\<lambda>k a. False), cw_order = (\<lambda>cs. cs)\<rparr>"

definition no_config :: Config where "no_config = \<lparr>cfg_Token = '''', cfg_TokenEnvVar = '''', cfg_CacheDir = ''''\<rparr>"

definition empty_disk :: disk where "empty_disk = \<lparr>contents = [], directories = []\<rparr>"

lemma big_plan: "computeChunks DefaultChunkSize 268435456 = [\<lparr>ch_Index = 0, ch_Start = 0, ch_End = 268435455\<rparr>]"
  by (simp add: computeChunks_def chunk_size_def chunk_count_def chunk_at_def DefaultChunkSize_def)

lemma big_slice: "slice 0 268435456 big_file = big_file"
  by (simp add: slice_def big_file_def)

lemma big_download:
  "\<exists>d'. chunkedDownload demo_storage range_server no_config in_order 0 ''r'' ''f'' ''/m/f'' empty_disk = (Inr 268435456, d')"
proof -
  let ?c = "\<lparr>ch_Index = 0, ch_Start = 0, ch_End = 268435455\<rparr>"
  let ?pp = "''/m/f.part-00''"
  have pp: "partPath ''/m/f'' 0 = ?pp" by code_simp
  have head: "headRequest range_server no_config 0 ''r'' ''f'' = Some (268435456, True)"
  proof -
    have "ParseInt64 ''268435456'' = Some 268435456" and "Contains ''bytes'' ''bytes''" by code_simp+
    then show ?thesis by (simp add: headRequest_def NewAuthenticatedRequest_def range_server_def)
  qed
  let ?d1 = "put_file ?pp big_file (put_file ?pp [] empty_disk)"
  have chunk: "downloadChunk demo_storage range_server no_config 0 ''r'' ''f'' ''/m/f'' ?c empty_disk = (True, ?d1)"
    by (simp add: downloadChunk_def NewAuthenticatedRequest_def pp os_Stat_def file_at_def empty_disk_def range_server_def
        os_Create_def io_Copy_def append_file_def big_slice demo_storage_simps put_file_def)
  then have fetch: "fetch_chunk demo_storage range_server no_config in_order 0 ''r'' ''f'' ''/m/f'' ?c empty_disk = (True, ?d1)"
    by (simp add: fetch_chunk_def downloadChunkWithRetry_def in_order_def)
  have "\<exists>d2. assembleChunks demo_storage 0 ''/m/f'' [?c] ?d1 = (True, d2)"
    by (simp add: assembleChunks_def os_Create_def demo_storage_simps pp disk_laws Let_def)
  then obtain d2 where "assembleChunks demo_storage 0 ''/m/f'' [?c] ?d1 = (True, d2)" ..
  moreover have "cw_order in_order [?c] = [?c]" by (simp add: in_order_def)
  ultimately show ?thesis
    by (simp add: chunkedDownload_def head MultipartThreshold_def big_plan fetch)
qed


section \<open>A server that ignores the range\<close>

definition ignores_ranges :: "network \<Rightarrow> byte list \<Rightarrow> bool" where
  "ignores_ranges N remote \<longleftrightarrow> (\<forall>j rq. rq_Method rq = ''GET'' \<longrightarrow>
     http N j rq = Some \<lparr>rp_Status = 200, rp_ContentLength = '''', rp_AcceptRanges = '''', rp_Body = remote, rp_Clean = True\<rparr>)"

lemma ignored_range_chunk:
  assumes "ignores_ranges N remote" and "\<And>j op p. \<not> fault E j op p"
    and "file_at d (partPath l (ch_Index ch)) = None" and "partPath l (ch_Index ch) \<notin> set (directories d)"
  shows "fetch_chunk E N c W i repoID filePath l ch d
    = (True, put_file (partPath l (ch_Index ch)) remote (put_file (partPath l (ch_Index ch)) [] d))"
proof -
  have "downloadChunk E N c (i + 10 * ch_Index ch) repoID filePath l ch d
      = (True, put_file (partPath l (ch_Index ch)) remote (put_file (partPath l (ch_Index ch)) [] d))"
    using assms by (simp add: downloadChunk_def Let_def NewAuthenticatedRequest_def ignores_ranges_def os_Stat_def
        os_Create_def io_Copy_def append_file_def disk_laws)
  then show ?thesis by (simp add: fetch_chunk_def downloadChunkWithRetry_def Let_def)
qed

text \<open>
  A server that answers every range with status 200 and the whole file is believed: a download that reports success
  leaves as many copies of the file as there are chunks, one after the other, and still returns the announced size.
\<close>

theorem ignored_range_duplicates:
  assumes "chunkedDownload E N c W i repoID filePath l d = (Inr n, d')"
    and "ignores_ranges N remote" and "\<And>j op p. \<not> fault E j op p" and "\<And>cs. mset (cw_order W cs) = mset cs"
    and "\<And>k. file_at d (partPath l k) = None \<and> partPath l k \<notin> set (directories d)"
  shows "file_at d' l = Some (concat (replicate (length (computeChunks DefaultChunkSize n)) remote))"
proof -
  let ?r = "\<lambda>ch. remote"
  from chunkedDownload_parts [OF assms(1)] obtain chunks d1 d2 where
    chunks: "chunks = computeChunks DefaultChunkSize n"
    and loop: "chunks_loop (fetch_chunk E N c W i repoID filePath l) (cw_order W chunks) d = (True, d1)"
    and asm: "assembleChunks E i l chunks d1 = (True, d2)" and d': "d' = cleanupParts E i l chunks d2"
    by blast
  have set_order: "set (cw_order W chunks) = set chunks" using assms(4) by (metis set_mset_mset)
  have "\<forall>ch \<in> set (cw_order W chunks). part_done l ?r d1 ch"
  proof (rule conjunct1 [OF chunks_loop_ok [where usable = "\<lambda>d ch. file_at d (partPath l (ch_Index ch)) = None
        \<and> partPath l (ch_Index ch) \<notin> set (directories d)", OF _ _ loop _ order_indices [OF assms(4) chunks]]])
    fix ch d ok d'
    assume f: "fetch_chunk E N c W i repoID filePath l ch d = (ok, d')"
      and use: "file_at d (partPath l (ch_Index ch)) = None \<and> partPath l (ch_Index ch) \<notin> set (directories d)"
    show "directories d' = directories d \<and> (\<forall>q. q \<noteq> partPath l (ch_Index ch) \<longrightarrow> file_at d' q = file_at d q)
        \<and> (ok \<longrightarrow> part_done l ?r d' ch)"
      using f use ignored_range_chunk [OF assms(2,3)] by (auto simp: part_done_def disk_laws)
  qed (use assms(5) in auto)
  then have "\<And>ch. ch \<in> set chunks \<Longrightarrow> part_done l ?r d1 ch" by (simp add: set_order)
  from assemble_ok [OF asm this] have "file_at d2 l = Some (concat (replicate (length chunks) remote))"
    by (simp add: map_replicate_const)
  moreover have "file_at d' l = file_at d2 l"
    unfolding d' by (rule cleanup_keeps) (use partPath_other in metis)+
  ultimately show ?thesis by (simp add: chunks)
qed

text \<open>A partial file is completed by a server that serves ranges.\<close>

definition tail_server :: network where
  "tail_server = \<lparr>http = (\<lambda>i rq. case rq_Range rq of
         From off \<Rightarrow> Some \<lparr>rp_Status = 206, rp_ContentLength = '''', rp_AcceptRanges = '''',
           rp_Body = drop (unat off) [1, 2, 3, 4], rp_Clean = True\<rparr>
       | _ \<Rightarrow> None),
     hub_files = (\<lambda>i t r. None), decode_siblings = (\<lambda>b. None), getenv = (\<lambda>v. '''')\<rparr>"

lemma resume_completes_witness:
  "file_at (snd (tryResumeDownload demo_storage tail_server no_config 0 ''r'' ''f'' ''/m/f'' (put_file ''/m/f'' [1, 2] empty_disk)))
     ''/m/f'' = Some [1, 2, 3, 4]"
proof -
  let ?d = "put_file ''/m/f'' [1, 2] empty_disk"
  have "\<exists>d'. tryResumeDownload demo_storage tail_server no_config 0 ''r'' ''f'' ''/m/f'' ?d = (Some 4, d')"
    by (simp add: tryResumeDownload_def ResumeDownloadFile_def NewAuthenticatedRequest_def os_Stat_def io_Copy_def
        tail_server_def demo_storage_simps disk_laws)
  then obtain d' where d': "tryResumeDownload demo_storage tail_server no_config 0 ''r'' ''f'' ''/m/f'' ?d = (Some 4, d')" ..
  have "serves tail_server 0 (ResolveDownloadURL ''r'' ''f'') [1, 2, 3, 4]"
    by (simp add: serves_def tail_server_def)
  with resume_completes [OF d', of "[1, 2, 3, 4]" "[1, 2]"] show ?thesis by (simp add: d' disk_laws)
qed

text \<open>Two gigabytes are announced; whatever range is asked for, the answer is the one byte of the file.\<close>

definition whole_server :: network where
  "whole_server = \<lparr>http = (\<lambda>i rq. if rq_Method rq = ''HEAD''
       then Some \<lparr>rp_Status = 200, rp_ContentLength = ''2147483648'', rp_AcceptRanges = ''bytes'', rp_Body = [], rp_Clean = True\<rparr>
       else Some \<lparr>rp_Status = 200, rp_ContentLength = '''', rp_AcceptRanges = '''', rp_Body = [1], rp_Clean = True\<rparr>),
     hub_files = (\<lambda>i t r. None), decode_siblings = (\<lambda>b. None), getenv = (\<lambda>v. '''')\<rparr>"

lemma whole_plan: "computeChunks DefaultChunkSize 2147483648 = [\<lparr>ch_Index = 0, ch_Start = 0, ch_End = 1073741823\<rparr>,
    \<lparr>ch_Index = 1, ch_Start = 1073741824, ch_End = 2147483647\<rparr>]"
  by (simp add: computeChunks_def chunk_size_def chunk_count_def chunk_at_def DefaultChunkSize_def numeral_2_eq_2)

lemma ignored_range_duplicates_witness:
  "file_at (snd (chunkedDownload demo_storage whole_server no_config in_order 0 ''r'' ''f'' ''/m/f'' empty_disk)) ''/m/f'' = Some [1, 1]"
proof -
  let ?c0 = "\<lparr>ch_Index = 0, ch_Start = 0, ch_End = 1073741823\<rparr>"
    and ?c1 = "\<lparr>ch_Index = 1, ch_Start = 1073741824, ch_End = 2147483647\<rparr>"
  have pp: "partPath ''/m/f'' 0 = ''/m/f.part-00''" "partPath ''/m/f'' (Suc 0) = ''/m/f.part-01''" by code_simp+
  have ign: "ignores_ranges whole_server [1]" by (simp add: ignores_ranges_def whole_server_def)
  have head: "headRequest whole_server no_config 0 ''r'' ''f'' = Some (2147483648, True)"
  proof -
    have "ParseInt64 ''2147483648'' = Some 2147483648" and "Contains ''bytes'' ''bytes''" by code_simp+
    then show ?thesis by (simp add: headRequest_def NewAuthenticatedRequest_def whole_server_def)
  qed
  note get = ignored_range_chunk [OF ign demo_storage_simps(1)]
  have order: "cw_order in_order cs = cs" for cs by (simp add: in_order_def)
  have "\<exists>d'. chunkedDownload demo_storage whole_server no_config in_order 0 ''r'' ''f'' ''/m/f'' empty_disk = (Inr 2147483648, d')"
    by (simp add: chunkedDownload_def head MultipartThreshold_def whole_plan order get pp file_at_def empty_disk_def put_file_def
        assembleChunks_def os_Create_def demo_storage_simps append_file_def Let_def)
  then obtain d' where d': "chunkedDownload demo_storage whole_server no_config in_order 0 ''r'' ''f'' ''/m/f'' empty_disk
      = (Inr 2147483648, d')" by blast
  have "file_at empty_disk p = None \<and> p \<notin> set (directories empty_disk)" for p by (simp add: empty_disk_def file_at_def)
  with ignored_range_duplicates [OF d' ign demo_storage_simps(1)] show ?thesis
    by (simp add: d' order whole_plan)
qed

end
