(* ===== verification/Reconcile_Properties.thy ===== *)
theory Reconcile_Properties
  imports Controller_Properties Proxy_Limits Chunked_Properties
begin

text \<open>
  What one reconciliation may do: whose memory it releases, when it deletes a pod, which conditions it writes, and the
  situations in which it leaves the status or the pod as it should not.
\<close>

section \<open>Memory and pods\<close>

definition may_delete_pod :: "'q control_env \<Rightarrow> nat \<Rightarrow> string \<Rightarrow> string \<Rightarrow> InferenceModel \<Rightarrow> 'q reconciler \<Rightarrow> bool" where
  "may_delete_pod E i ns n m s \<longleftrightarrow> (\<exists>pod. pod_get (ce_cluster E) i ns n = Inr pod \<and> may_scale_down E i m pod s)"

definition may_release :: "'q control_env \<Rightarrow> nat \<Rightarrow> string \<Rightarrow> string \<Rightarrow> InferenceModel \<Rightarrow> 'q reconciler \<Rightarrow> bool" where
  "may_release E i ns n m s \<longleftrightarrow> im_DeletionTimestamp m \<noteq> None \<or> pod_get (ce_cluster E) i ns n = Inl NotFound
     \<or> may_delete_pod E i ns n m s"

definition allowed :: "bool \<Rightarrow> ctl_effect \<Rightarrow> bool" where "allowed b e \<longleftrightarrow> b \<or> harmless e"

lemma allowed_simps [simp]: "harmless e \<Longrightarrow> allowed b e" "allowed True = (\<lambda>e. True)" "allowed False = harmless"
  by (auto simp: allowed_def)

lemma step_reconcile_pod:
  "step_for (allowed (may_delete_pod E i ns n m s))
     (pod_get (ce_cluster E) i ns n = Inl NotFound \<or> may_delete_pod E i ns n m s) m s
     (outcome_state (reconcile_pod E i ns n m s))"
proof (cases "pod_get (ce_cluster E) i ns n")
  case (Inl e)
  then show ?thesis
    using step_handleMissingPod [of m s E i] Inl
    by (cases e) (simp_all add: reconcile_pod_def may_delete_pod_def)
next
  case (Inr pod)
  let ?P = "allowed (may_delete_pod E i ns n m s)" and ?r = "may_delete_pod E i ns n m s"
  have idle: "step_for ?P ?r m s (outcome_state (handleIdleScaling E i m pod s))"
    using step_handleIdleScaling [of m s E i pod] handleIdleScaling_harmless [of E i m pod s] Inr
    by (cases "may_scale_down E i m pod s") (simp_all add: may_delete_pod_def)
  have "step_for ?P ?r m s (outcome_state (and_then (handleIdleScaling E i m pod s) (\<lambda>a s1.
            if snd a \<noteq> None \<or> Requeue (fst a) \<or> RequeueAfter (fst a) > 0 then Returns a s1
            else updateStatus E (i + 1) m pod s1)))"
  proof (rule outcome_and_then_step [OF idle])
    fix a s1
    have "step_for ?P ?r m s1 (outcome_state (updateStatus E (i + 1) m pod s1))"
      by (rule step_mono [OF step_updateStatus]) auto
    then show "step_for ?P ?r m s1 (outcome_state (if snd a \<noteq> None \<or> Requeue (fst a) \<or> RequeueAfter (fst a) > 0
        then Returns a s1 else updateStatus E (i + 1) m pod s1))"
      by (cases "snd a \<noteq> None \<or> Requeue (fst a) \<or> RequeueAfter (fst a) > 0")
        (simp_all only: if_True if_False step_refl outcome_state.simps)
  qed
  with Inr show ?thesis by (simp add: reconcile_pod_def)
qed

lemma step_Reconcile:
  assumes "ce_model_get E i ns n = Inr m"
  shows "step_for (allowed (may_delete_pod E i ns n m s)) (may_release E i ns n m s) m s
     (outcome_state (Reconcile E i ns n s))"
proof -
  let ?P = "allowed (may_delete_pod E i ns n m s)" and ?r = "may_release E i ns n m s"
  have mono: "step_for harmless False m s s' \<Longrightarrow> step_for ?P ?r m s s'" for s'
    by (erule step_mono) simp_all
  have del: "im_DeletionTimestamp m \<noteq> None \<Longrightarrow> step_for ?P ?r m s (outcome_state (handleDeletion E i m s))"
    by (rule step_mono [OF step_handleDeletion]) (auto simp: may_release_def)
  have pod: "step_for ?P ?r m s (outcome_state (reconcile_pod E i ns n m s))"
    by (rule step_mono [OF step_reconcile_pod]) (auto simp: may_release_def)
  show ?thesis
    using del pod mono [OF step_handleDownload] mono [OF step_handleRetry] mono [OF step_send(2)]
    by (simp add: Reconcile_def assms addFinalizer_def split_beta split: option.splits)
qed

lemma Reconcile_no_model: "ce_model_get E i ns n = Inl e \<Longrightarrow> outcome_state (Reconcile E i ns n s) = s"
  by (cases e) (simp_all add: Reconcile_def)

text \<open>The API returns the object that was asked for.\<close>

definition right_model :: "'q control_env \<Rightarrow> nat \<Rightarrow> string \<Rightarrow> string \<Rightarrow> bool" where
  "right_model E i ns n \<longleftrightarrow> (\<forall>m. ce_model_get E i ns n = Inr m \<longrightarrow> im_Namespace m = ns \<and> im_Name m = n)"

text \<open>
  C10. A reconciliation touches only its own model: every other model keeps its memory and its registry entry, and its own
  memory either stays or is dropped, and that only if the model is being deleted, its pod is missing, or its pod may be
  deleted for being idle.
\<close>

theorem reconcile_touches_own_model:
  assumes "right_model E i ns n" and "s' = outcome_state (Reconcile E i ns n s)"
  shows "(\<forall>k. k \<noteq> slash_key ns n \<longrightarrow> held s' k = held s k \<and> entry s' k = entry s k)
    \<and> (held s' (slash_key ns n) \<noteq> held s (slash_key ns n) \<longrightarrow> held s' (slash_key ns n) = None
        \<and> (\<exists>m. ce_model_get E i ns n = Inr m \<and> may_release E i ns n m s))"
proof (cases "ce_model_get E i ns n")
  case (Inl e)
  then show ?thesis by (simp add: assms(2) Reconcile_no_model)
next
  case (Inr m)
  then have "own_key m = slash_key ns n" using assms(1) by (simp add: right_model_def own_key_def)
  with step_Reconcile [OF Inr, of s] Inr show ?thesis unfolding assms(2) step_for_def by auto
qed

lemma idle_deletion_guards:
  assumes "PodDeletedIdle pns pn \<in> set (added s (outcome_state (Reconcile E i ns n s)))"
  shows "\<exists>m pod. ce_model_get E i ns n = Inr m \<and> pod_get (ce_cluster E) i ns n = Inr pod
    \<and> sc_Enabled (Scaling (Spec m)) \<noteq> Some False \<and> sc_EvictionPolicy (Scaling (Spec m)) \<noteq> EvictionPolicyMemoryPressureOnly
    \<and> \<not> busy m (Reg (ct_server s)) \<and> \<not> isScaledDown m \<and> idle_beyond_cooldown E i m pod"
proof (cases "ce_model_get E i ns n")
  case (Inl e)
  with assms show ?thesis by (simp add: Reconcile_no_model added_def)
next
  case (Inr m)
  note step = step_Reconcile [OF Inr, of s]
  have "may_delete_pod E i ns n m s"
  proof (rule ccontr)
    assume "\<not> may_delete_pod E i ns n m s"
    with step obtain es where "ct_log (outcome_state (Reconcile E i ns n s)) = ct_log s @ es" and "list_all harmless es"
      by (auto simp: step_for_def)
    with assms show False by (auto simp: added_append list_all_iff harmless_def)
  qed
  with Inr show ?thesis unfolding may_delete_pod_def may_scale_down_def by blast
qed

text \<open>
  C11. A pod is deleted for being idle only when it is: scaling is enabled and the policy allows it, no request is in flight,
  the model is not marked as scaled down, and the time in the pod's annotation is longer ago than the cooldown period.
\<close>

theorem pod_deleted_only_when_idle:
  assumes "PodDeletedIdle pns pn \<in> set (added s (outcome_state (Reconcile E i ns n s)))"
  shows "\<exists>m pod. ce_model_get E i ns n = Inr m \<and> pod_get (ce_cluster E) i ns n = Inr pod
    \<and> sc_Enabled (Scaling (Spec m)) \<noteq> Some False \<and> sc_EvictionPolicy (Scaling (Spec m)) \<noteq> EvictionPolicyMemoryPressureOnly
    \<and> \<not> busy m (Reg (ct_server s)) \<and> \<not> isScaledDown m \<and> idle_beyond_cooldown E i m pod"
  using idle_deletion_guards [OF assms] .

section \<open>A small cluster for the witnesses\<close>

definition demo_control :: "InferenceModel \<Rightarrow> api_error + Pod \<Rightarrow> go_time \<Rightarrow> api_error option \<Rightarrow> int control_env" where
  "demo_control m pod now deletion = \<lparr>
     ce_cluster = (demo_cluster (\<lambda>i ns n. pod) [])\<lparr>clock := (\<lambda>i. now), pod_delete := (\<lambda>i ns n. deletion)\<rparr>,
     ce_model_get = (\<lambda>i ns n. Inr m), ce_update = (\<lambda>i. None), ce_status_update = (\<lambda>i. None), ce_pod_metrics = (\<lambda>i. None),
     ce_quantity_text = (\<lambda>q. ''''), ce_recommendation_text = (\<lambda>r. ''''),
     ce_parse_rfc3339 = (\<lambda>t. if t = ''t0'' then Some 0 else None), ce_storage = demo_storage, ce_fl = (\<lambda>x. x),
     ce_hf_home = '''', ce_MaxMemoryBytes = 10, ce_advance = (\<lambda>i st. st)\<rparr>"

definition kept_model :: InferenceModel where
  "kept_model = (demo_model ''a'' ''xxxx'')\<lparr>im_Finalizers := [FinalizerName]\<rparr>"

definition old_pod :: Pod where
  "old_pod = \<lparr>pod_Name = ''a'', pod_Namespace = ''ns'', pod_Annotations = [(LastRequestAnnotation, ''t0'')],
     pod_Phase = ''Running'', pod_PodIP = '''', pod_Conditions = [(''Ready'', ''True'')]\<rparr>"

definition demo_reconciler :: "int reconciler" where
  "demo_reconciler = \<lparr>ct_server = idle_server,
     ct_manager = \<lparr>mg_hfClient = None, mg_cacheDir = '''', mg_maxConcurrent = 3, mg_downloads = [], mg_statuses = []\<rparr>,
     ct_disk = empty_disk, ct_log = []\<rparr>"

lemmas eval_control = demo_control_def kept_model_def demo_model_def demo_spec_def demo_status_def old_pod_def
  demo_reconciler_def idle_server_def demo_entry_def demo_cluster_def

lemma kept_model_simps:
  "im_Namespace kept_model = ''ns''" "im_Name kept_model = ''a''" "im_DeletionTimestamp kept_model = None"
  "im_Finalizers kept_model = [FinalizerName]" "\<not> wants_retry kept_model" "\<not> needsDownload E i kept_model d"
  "Scaling (Spec kept_model) = \<lparr>sc_Enabled = None, sc_MaxReplicas = 0, sc_CooldownPeriod = '''',
     sc_ScaleToZeroDelay = '''', sc_EvictionPolicy = ''''\<rparr>"
  "\<not> isScaledDown kept_model" "own_key kept_model = ''ns/a''"
  by (simp_all add: kept_model_def demo_model_def demo_spec_def demo_status_def wants_retry_def needsDownload_def
      isScaledDown_def own_key_def slash_key_def)

lemma kept_model_not_busy: "\<not> busy kept_model (Reg (ct_server demo_reconciler))"
  by (simp add: busy_def registry_entry_def kept_model_simps demo_reconciler_def idle_server_def Get_def entryKey_def
      slash_key_def demo_entry_def)

lemma kept_model_cooldown: "cooldown_period fl (Scaling (Spec kept_model)) = 300000000000"
  by (simp add: cooldown_period_def kept_model_simps)

lemma scaled_down_set: "update_condition now ''Ready'' ''False'' ''ScaledToZero'' msg cs = Some (b, cs') \<Longrightarrow> scaled_down cs'"
  by (induction cs arbitrary: b cs') (auto split: if_splits)

lemma scaled_down_add:
  "update_condition now ''Ready'' st reason msg cs = None \<Longrightarrow> scaled_down (cs @ [c]) = scaled_down [c]"
  by (induction cs) (auto split: if_splits)

lemma update_condition_same: "update_condition now ty st reason msg cs = Some (False, cs') \<Longrightarrow> cs' = cs"
  by (induction cs arbitrary: cs') (auto split: if_splits)

lemma setConditionOnModel_scaled:
  "isScaledDown (m\<lparr>Status := snd (setConditionOnModel now ''Ready'' ''False'' ''ScaledToZero'' msg (Status m))\<rparr>)"
  by (auto simp: isScaledDown_def setConditionOnModel_def scaled_down_add dest: scaled_down_set split: option.splits prod.splits)

lemma setConditionOnModel_unchanged:
  "setConditionOnModel now ty st reason msg s = (False, s') \<Longrightarrow> s' = s"
  by (auto simp: setConditionOnModel_def split: option.splits dest: update_condition_same)

text \<open>The deletion of an idle pod, once the guards have passed and the condition was written.\<close>

lemma deleteIdlePod_runs:
  assumes "\<not> busy m (Reg (ct_server s))" and "\<not> isScaledDown m" and "ce_status_update E i = None"
  obtains m1 where "isScaledDown m1" "StatusUpdated m1 \<in> set (added s (snd (deleteIdlePod E i m pod s)))"
    "im_Finalizers m1 = im_Finalizers m" "im_DeletionTimestamp m1 = im_DeletionTimestamp m" "Spec m1 = Spec m"
    "PodDeletedIdle (pod_Namespace pod) (pod_Name pod) \<in> set (added s (snd (deleteIdlePod E i m pod s)))"
    "pod_delete (ce_cluster E) i (pod_Namespace pod) (pod_Name pod) = None \<longrightarrow>
       held (snd (deleteIdlePod E i m pod s)) (own_key m) = None
       \<and> fst (deleteIdlePod E i m pod s) = (After IdleCheckInterval, None)"
proof -
  let ?msg = "''Model pod deleted due to inactivity''"
  obtain b st where c: "setConditionOnModel (clock (ce_cluster E) i) ''Ready'' ''False'' ''ScaledToZero'' ?msg (Status m) = (b, st)"
    by fastforce
  let ?m1 = "m\<lparr>Status := st\<rparr>"
  have sd: "isScaledDown ?m1" using setConditionOnModel_scaled [of "clock (ce_cluster E) i" ?msg m] c by simp
  have "b"
  proof (rule ccontr)
    assume "\<not> b"
    then have "?m1 = m" using setConditionOnModel_unchanged c by simp
    with sd assms(2) show False by simp
  qed
  with c assms(3) have set: "setCondition E i ''Ready'' ''False'' ''ScaledToZero'' ?msg m s = (None, ?m1, ctl (StatusUpdated ?m1) s)"
    by (simp add: setCondition_def send_status_def Let_def)
  have rel: "held (release E i m x) (own_key m) = None" for x
    by (simp add: release_def map_tracker_def held_def alloc_laws own_key_keys map_laws)
  have log: "ct_log (release E i m x) = ct_log x" for x by (simp add: release_def map_tracker_def)
  show thesis
    by (rule that [of ?m1])
      (use sd in \<open>simp_all add: deleteIdlePod_def assms set Let_def added_def ctl_def rel log\<close>)
qed

lemma reconcile_idle:
  assumes "ce_model_get E i ns n = Inr m" and "im_DeletionTimestamp m = None" and "FinalizerName \<in> set (im_Finalizers m)"
    and "\<not> wants_retry m" and "\<not> needsDownload E i m (ct_disk s)" and "pod_get (ce_cluster E) i ns n = Inr pod"
  shows "Reconcile E i ns n s = and_then (handleIdleScaling E i m pod s) (\<lambda>a s1.
            if snd a \<noteq> None \<or> Requeue (fst a) \<or> RequeueAfter (fst a) > 0 then Returns a s1
            else updateStatus E (i + 1) m pod s1)"
  using assms by (simp add: Reconcile_def reconcile_pod_def)

lemma deleteIdlePod_answer:
  "snd (fst (deleteIdlePod E i m pod s)) \<noteq> None \<or> RequeueAfter (fst (fst (deleteIdlePod E i m pod s))) > 0"
  by (auto simp: deleteIdlePod_def Let_def After_def IdleCheckInterval_def split: prod.splits option.splits)

lemma idle_scaling_deletes:
  assumes "may_scale_down E i m pod s" and "Reg (ct_server s) \<noteq> None"
  shows "handleIdleScaling E i m pod s = Returns (fst (deleteIdlePod E i m pod s)) (snd (deleteIdlePod E i m pod s))"
proof -
  from assms(1) obtain stamp t where "map_of (pod_Annotations pod) LastRequestAnnotation = Some stamp" "stamp \<noteq> ''''"
    "ce_parse_rfc3339 E stamp = Some t" "clock (ce_cluster E) i - t > cooldown_period (ce_fl E) (Scaling (Spec m))"
    unfolding may_scale_down_def idle_beyond_cooldown_def by blast
  with assms show ?thesis by (simp add: handleIdleScaling_def Let_def may_scale_down_def split_beta)
qed

lemma reconcile_deletes_idle:
  assumes "ce_model_get E i ns n = Inr m" and "im_DeletionTimestamp m = None" and "FinalizerName \<in> set (im_Finalizers m)"
    and "\<not> wants_retry m" and "\<not> needsDownload E i m (ct_disk s)" and "pod_get (ce_cluster E) i ns n = Inr pod"
    and "may_scale_down E i m pod s" and "Reg (ct_server s) \<noteq> None"
  shows "Reconcile E i ns n s = Returns (fst (deleteIdlePod E i m pod s)) (snd (deleteIdlePod E i m pod s))"
  using deleteIdlePod_answer [of E i m pod s]
  by (simp only: reconcile_idle [OF assms(1-6)] idle_scaling_deletes [OF assms(7,8)] and_then.simps split: if_split) blast

text \<open>An idle model of the small cluster.\<close>

lemma demo_idle:
  "may_scale_down (demo_control kept_model (Inr old_pod) 400000000000 del) i kept_model old_pod demo_reconciler"
proof -
  have "idle_beyond_cooldown (demo_control kept_model (Inr old_pod) 400000000000 del) i kept_model old_pod"
    unfolding idle_beyond_cooldown_def kept_model_cooldown by (simp add: demo_control_def old_pod_def)
  then show ?thesis
    by (simp add: may_scale_down_def kept_model_simps kept_model_not_busy EvictionPolicyMemoryPressureOnly_def)
qed

lemma demo_reconcile_idle:
  "Reconcile (demo_control kept_model (Inr old_pod) 400000000000 del) 0 ''ns'' ''a'' demo_reconciler
     = Returns (fst (deleteIdlePod (demo_control kept_model (Inr old_pod) 400000000000 del) 0 kept_model old_pod demo_reconciler))
         (snd (deleteIdlePod (demo_control kept_model (Inr old_pod) 400000000000 del) 0 kept_model old_pod demo_reconciler))"
  by (rule reconcile_deletes_idle)
    (simp_all add: kept_model_simps demo_idle, simp_all add: demo_control_def demo_cluster_def demo_reconciler_def idle_server_def)

lemma demo_deletion:
  "PodDeletedIdle ''ns'' ''a'' \<in> set (added demo_reconciler
     (outcome_state (Reconcile (demo_control kept_model (Inr old_pod) 400000000000 None) 0 ''ns'' ''a'' demo_reconciler)))
   \<and> held (outcome_state (Reconcile (demo_control kept_model (Inr old_pod) 400000000000 None) 0 ''ns'' ''a'' demo_reconciler)) ''ns/a'' = None"
proof -
  let ?E = "demo_control kept_model (Inr old_pod) 400000000000 None"
  have "ce_status_update ?E 0 = None" by (simp add: demo_control_def)
  from deleteIdlePod_runs [OF kept_model_not_busy kept_model_simps(8) this, of old_pod]
  obtain m1 where d: "PodDeletedIdle (pod_Namespace old_pod) (pod_Name old_pod)
      \<in> set (added demo_reconciler (snd (deleteIdlePod ?E 0 kept_model old_pod demo_reconciler)))"
    "pod_delete (ce_cluster ?E) 0 (pod_Namespace old_pod) (pod_Name old_pod) = None \<longrightarrow>
       held (snd (deleteIdlePod ?E 0 kept_model old_pod demo_reconciler)) (own_key kept_model) = None
       \<and> fst (deleteIdlePod ?E 0 kept_model old_pod demo_reconciler) = (After IdleCheckInterval, None)" by metis
  have "pod_delete (ce_cluster ?E) 0 (pod_Namespace old_pod) (pod_Name old_pod) = None" by (simp add: demo_control_def)
  moreover have "pod_Namespace old_pod = ''ns''" "pod_Name old_pod = ''a''" by (simp_all add: old_pod_def)
  ultimately show ?thesis
    using d unfolding demo_reconcile_idle outcome_state.simps kept_model_simps(9) by simp
qed

lemma demo_right: "right_model (demo_control kept_model p now del) i ''ns'' ''a''"
  by (simp add: right_model_def demo_control_def kept_model_simps)

lemma reconcile_touches_own_model_witness:
  "held (outcome_state (Reconcile (demo_control kept_model (Inr old_pod) 400000000000 None) 0 ''ns'' ''a'' demo_reconciler)) ''ns/a'' = None
   \<and> may_release (demo_control kept_model (Inr old_pod) 400000000000 None) 0 ''ns'' ''a'' kept_model demo_reconciler"
proof -
  let ?E = "demo_control kept_model (Inr old_pod) 400000000000 None"
  have had: "held demo_reconciler (slash_key ''ns'' ''a'') \<noteq> None"
    by (simp add: held_def demo_reconciler_def idle_server_def slash_key_def)
  have key: "slash_key ''ns'' ''a'' = ''ns/a''" by (simp add: slash_key_def)
  have get: "ce_model_get ?E 0 ''ns'' ''a'' = Inr kept_model" by (simp add: demo_control_def)
  from demo_deletion have gone: "held (outcome_state (Reconcile ?E 0 ''ns'' ''a'' demo_reconciler)) (slash_key ''ns'' ''a'') = None"
    unfolding key by blast
  with had have "held (outcome_state (Reconcile ?E 0 ''ns'' ''a'' demo_reconciler)) (slash_key ''ns'' ''a'')
      \<noteq> held demo_reconciler (slash_key ''ns'' ''a'')" by metis
  with reconcile_touches_own_model [OF demo_right refl, of "Inr old_pod" 400000000000 None 0 demo_reconciler] gone get
  show ?thesis unfolding key by (metis sum.inject(2))
qed

lemma pod_deleted_only_when_idle_witness:
  "idle_beyond_cooldown (demo_control kept_model (Inr old_pod) 400000000000 None) 0 kept_model old_pod"
proof -
  from demo_deletion have "PodDeletedIdle ''ns'' ''a'' \<in> set (added demo_reconciler
     (outcome_state (Reconcile (demo_control kept_model (Inr old_pod) 400000000000 None) 0 ''ns'' ''a'' demo_reconciler)))" ..
  from pod_deleted_only_when_idle [OF this] show ?thesis by (auto simp: demo_control_def demo_cluster_def)
qed

section \<open>Idle pods and what is not done again\<close>

text \<open>
  Requests do not postpone the deletion: the decision rests on the annotation of the pod alone, so a pod whose annotation
  is older than the cooldown is deleted even if the registry saw its last request at this very moment.
\<close>

theorem recent_requests_ignored:
  assumes "ce_model_get E i ns n = Inr m" and "im_DeletionTimestamp m = None" and "FinalizerName \<in> set (im_Finalizers m)"
    and "\<not> wants_retry m" and "\<not> needsDownload E i m (ct_disk s)" and "pod_get (ce_cluster E) i ns n = Inr pod"
    and "sc_Enabled (Scaling (Spec m)) \<noteq> Some False"
    and "sc_EvictionPolicy (Scaling (Spec m)) \<noteq> EvictionPolicyMemoryPressureOnly" and "\<not> isScaledDown m"
    and "idle_beyond_cooldown E i m pod" and "ce_status_update E i = None"
    and "entry s (own_key m) = Some e" and "ActiveRequests e = 0" and "LastRequestTime e = clock (ce_cluster E) i"
  shows "PodDeletedIdle (pod_Namespace pod) (pod_Name pod) \<in> set (added s (outcome_state (Reconcile E i ns n s)))"
proof -
  from assms(12) obtain r where r: "Reg (ct_server s) = Some r" "map_of r (own_key m) = Some e"
    by (auto simp: entry_def split: bind_splits)
  then have idle: "\<not> busy m (Reg (ct_server s))"
    using assms(13) by (simp add: busy_def registry_entry_def Get_def own_key_keys)
  then have "may_scale_down E i m pod s" using assms by (simp add: may_scale_down_def)
  then have "Reconcile E i ns n s = Returns (fst (deleteIdlePod E i m pod s)) (snd (deleteIdlePod E i m pod s))"
    using reconcile_deletes_idle [OF assms(1-6)] r by simp
  with deleteIdlePod_runs [OF idle assms(9,11), of pod] show ?thesis by (metis outcome_state.simps(1))
qed

lemma recent_requests_ignored_witness:
  "PodDeletedIdle ''ns'' ''a'' \<in> set (added (demo_reconciler\<lparr>ct_server := idle_server\<lparr>Reg := Some [(''ns/a'', demo_entry ''a'' StateReady 400000000000 0)]\<rparr>\<rparr>)
     (outcome_state (Reconcile (demo_control kept_model (Inr old_pod) 400000000000 None) 0 ''ns'' ''a''
       (demo_reconciler\<lparr>ct_server := idle_server\<lparr>Reg := Some [(''ns/a'', demo_entry ''a'' StateReady 400000000000 0)]\<rparr>\<rparr>))))"
proof -
  let ?E = "demo_control kept_model (Inr old_pod) 400000000000 None"
  let ?s = "demo_reconciler\<lparr>ct_server := idle_server\<lparr>Reg := Some [(''ns/a'', demo_entry ''a'' StateReady 400000000000 0)]\<rparr>\<rparr>"
  have api: "ce_model_get ?E 0 ''ns'' ''a'' = Inr kept_model" "pod_get (ce_cluster ?E) 0 ''ns'' ''a'' = Inr old_pod"
    "ce_status_update ?E 0 = None" "clock (ce_cluster ?E) 0 = 400000000000"
    by (simp_all add: demo_control_def demo_cluster_def)
  have "idle_beyond_cooldown ?E 0 kept_model old_pod" using demo_idle [of None 0] by (simp add: may_scale_down_def)
  moreover have "entry ?s (own_key kept_model) = Some (demo_entry ''a'' StateReady 400000000000 0)"
    by (simp add: entry_def kept_model_simps)
  ultimately have "PodDeletedIdle (pod_Namespace old_pod) (pod_Name old_pod)
      \<in> set (added ?s (outcome_state (Reconcile ?E 0 ''ns'' ''a'' ?s)))"
    using recent_requests_ignored [OF api(1) _ _ _ _ api(2), of ?s] api
    by (simp add: kept_model_simps EvictionPolicyMemoryPressureOnly_def demo_entry_def)
  then show ?thesis by (simp add: old_pod_def)
qed

text \<open>
  C25. A deletion that failed is never tried again: once the condition was written, reconciling the model as it was stored
  deletes no pod in whatever state and cluster, although the pod is still there.
\<close>

theorem failed_deletion_is_final:
  fixes s :: "'q::linordered_ab_group_add reconciler"
  assumes "\<not> busy m (Reg (ct_server s))" and "\<not> isScaledDown m" and "ce_status_update E i = None"
  shows "\<exists>m1. StatusUpdated m1 \<in> set (added s (snd (deleteIdlePod E i m pod s)))
    \<and> (\<forall>(E' :: 'q control_env) j ns n s' pns pn. ce_model_get E' j ns n = Inr m1 \<longrightarrow>
         PodDeletedIdle pns pn \<notin> set (added s' (outcome_state (Reconcile E' j ns n s'))))"
proof -
  from deleteIdlePod_runs [OF assms, of pod] obtain m1 where
    "isScaledDown m1" "StatusUpdated m1 \<in> set (added s (snd (deleteIdlePod E i m pod s)))" by metis
  moreover have "PodDeletedIdle pns pn \<notin> set (added s' (outcome_state (Reconcile E' j ns n s')))"
    if "ce_model_get E' j ns n = Inr m1" for E' :: "'q control_env" and j ns n s' pns pn
    using idle_deletion_guards [of pns pn s' E' j ns n] that \<open>isScaledDown m1\<close> by auto
  ultimately show ?thesis by blast
qed

lemma failed_deletion_is_final_witness:
  "\<exists>m1. StatusUpdated m1 \<in> set (added demo_reconciler (snd (deleteIdlePod
       (demo_control kept_model (Inr old_pod) 400000000000 (Some Conflict)) 0 kept_model old_pod demo_reconciler)))
    \<and> (\<forall>E' j ns n s' pns pn. ce_model_get (E' :: int control_env) j ns n = Inr m1 \<longrightarrow>
         PodDeletedIdle pns pn \<notin> set (added s' (outcome_state (Reconcile E' j ns n s'))))"
  using failed_deletion_is_final [OF kept_model_not_busy kept_model_simps(8),
      of "demo_control kept_model (Inr old_pod) 400000000000 (Some Conflict)" 0 old_pod]
  by (simp add: demo_control_def)

text \<open>
  C26. The status of a running model is not kept up. Consider a model with its finalizer, not being deleted, for which no retry is
  requested and nothing is to be downloaded, whose pod is there with a last-request annotation that parses, whose scaling is not
  switched off and whose eviction policy is not \<open>MemoryPressureOnly\<close>, in a reconciler with a registry that counts no request of it.
  While the annotation is younger than the cooldown, a reconciliation changes nothing and sends nothing, however ready the pod is; it
  only asks to be called again.
\<close>

theorem running_model_unreported:
  assumes "ce_model_get E i ns n = Inr m" and "im_DeletionTimestamp m = None" and "FinalizerName \<in> set (im_Finalizers m)"
    and "\<not> wants_retry m" and "\<not> needsDownload E i m (ct_disk s)" and "pod_get (ce_cluster E) i ns n = Inr pod"
    and "sc_Enabled (Scaling (Spec m)) \<noteq> Some False"
    and "sc_EvictionPolicy (Scaling (Spec m)) \<noteq> EvictionPolicyMemoryPressureOnly"
    and "Reg (ct_server s) \<noteq> None" and "\<not> busy m (Reg (ct_server s))"
    and "map_of (pod_Annotations pod) LastRequestAnnotation = Some stamp" and "stamp \<noteq> ''''"
    and "ce_parse_rfc3339 E stamp = Some t" and "clock (ce_cluster E) i - t < cooldown_period (ce_fl E) (Scaling (Spec m))"
  shows "\<exists>d > 0. Reconcile E i ns n s = Returns (After d, None) s"
proof -
  let ?left = "cooldown_period (ce_fl E) (Scaling (Spec m)) - (clock (ce_cluster E) i - t)"
  have "handleIdleScaling E i m pod s = Returns (After (min ?left IdleCheckInterval), None) s"
    using assms(7-14) by (simp add: handleIdleScaling_def Let_def)
  moreover have "min ?left IdleCheckInterval > 0" using assms(14) by (simp add: IdleCheckInterval_def)
  ultimately show ?thesis
    by (intro exI [of _ "min ?left IdleCheckInterval"]) (simp add: reconcile_idle [OF assms(1-6)] After_def)
qed

lemma running_model_unreported_witness:
  "\<exists>d > 0. Reconcile (demo_control kept_model (Inr old_pod) 100 None) 0 ''ns'' ''a'' demo_reconciler
     = Returns (After d, None) demo_reconciler"
proof -
  let ?E = "demo_control kept_model (Inr old_pod) 100 None"
  have api: "ce_model_get ?E 0 ''ns'' ''a'' = Inr kept_model" "pod_get (ce_cluster ?E) 0 ''ns'' ''a'' = Inr old_pod"
    "ce_parse_rfc3339 ?E ''t0'' = Some 0" "clock (ce_cluster ?E) 0 = 100" "ce_fl ?E = (\<lambda>x. x)"
    by (simp_all add: demo_control_def demo_cluster_def)
  have "Reg (ct_server demo_reconciler) \<noteq> None" by (simp add: demo_reconciler_def idle_server_def)
  moreover have "map_of (pod_Annotations old_pod) LastRequestAnnotation = Some ''t0''" by (simp add: old_pod_def)
  moreover have "clock (ce_cluster ?E) 0 - 0 < cooldown_period (ce_fl ?E) (Scaling (Spec kept_model))"
    by (simp add: api kept_model_cooldown)
  ultimately show ?thesis
    using running_model_unreported [OF api(1) _ _ _ _ api(2) _ _ _ kept_model_not_busy _ _ api(3)]
    by (simp add: kept_model_simps EvictionPolicyMemoryPressureOnly_def)
qed

section \<open>A missing pod\<close>

lemma handleMissingPod_result:
  assumes "Reg (ct_server s) = Some r"
  shows "\<exists>a s'. handleMissingPod E i m s = Returns a s' \<and> held s' (own_key m) = None
    \<and> Reg (ct_server s') = Some (SetState (clock (ce_cluster E) i) (im_Namespace m) (im_Name m) StateNonexistent r)
    \<and> allocations (Tracker (ct_server s')) = AList.delete (own_key m) (allocations (Tracker (ct_server s)))"
proof -
  let ?now = "clock (ce_cluster E) i"
  let ?r = "SetState ?now (im_Namespace m) (im_Name m) StateNonexistent r"
  let ?s1 = "(release E i m s)\<lparr>ct_server := (ct_server (release E i m s))\<lparr>Reg := Some ?r\<rparr>\<rparr>"
  let ?m1 = "on_status (\<lambda>st. st\<lparr>Phase := ''ScaledToZero'', Ready := False, Replicas := 0, AvailableReplicas := 0\<rparr>) m"
  obtain e m2 s3 where c: "setCondition E (i + 1) ''Ready'' ''True'' ''ScaledToZero'' ''Scaled to zero, waiting for first request''
      ?m1 (snd (send_status E i ?m1 ?s1)) = (e, m2, s3)" by (metis prod_cases3)
  have server: "ct_server s3 = ct_server ?s1"
    using c by (auto simp: setCondition_def send_status_def ctl_def Let_def split: prod.splits if_splits)
  have final: "ct_server (updateBudgetMetrics E (ctl (ModelMetrics m2) s3)) = ct_server ?s1"
    by (simp add: updateBudgetMetrics_def ctl_def Let_def server)
  have "handleMissingPod E i m s = Returns (After IdleCheckInterval, None) (updateBudgetMetrics E (ctl (ModelMetrics m2) s3))"
    using assms c by (simp add: handleMissingPod_def with_registry_def release_def map_tracker_def Let_def)
  moreover have "allocations (Tracker (ct_server ?s1)) = AList.delete (own_key m) (allocations (Tracker (ct_server s)))"
    by (simp add: release_def map_tracker_def alloc_laws own_key_keys)
  ultimately show ?thesis by (simp add: held_def final map_laws del: allocations_ReleaseModel)
qed

text \<open>
  A reconciliation that finds no pod takes the memory from a model that the proxy is just creating: the entry says
  \<open>Nonexistent\<close> instead of \<open>Creating\<close> although the requests that wait for the pod are still counted, and the allocation
  made for the pod is gone, so that others may use the memory.
\<close>

theorem creation_loses_memory:
  assumes "ce_model_get E i ns n = Inr m" and "right_model E i ns n" and "im_DeletionTimestamp m = None"
    and "FinalizerName \<in> set (im_Finalizers m)" and "\<not> wants_retry m" and "\<not> needsDownload E i m (ct_disk s)"
    and "pod_get (ce_cluster E) i ns n = Inl NotFound" and "entry s (slash_key ns n) = Some e" and "State e = StateCreating"
  shows "\<exists>a s'. Reconcile E i ns n s = Returns a s' \<and> held s' (slash_key ns n) = None
    \<and> entry s' (slash_key ns n) = Some (e\<lparr>State := StateNonexistent\<rparr>)"
proof -
  from assms(8) obtain r where r: "Reg (ct_server s) = Some r" "map_of r (slash_key ns n) = Some e"
    by (auto simp: entry_def split: bind_splits)
  have key: "own_key m = slash_key ns n" "im_Namespace m = ns" "im_Name m = n"
    using assms(1,2) by (simp_all add: right_model_def own_key_def)
  have "Reconcile E i ns n s = handleMissingPod E i m s"
    using assms(1,3-7) by (simp add: Reconcile_def reconcile_pod_def)
  with handleMissingPod_result [OF r(1), of E i m] r(2) show ?thesis
    by (auto simp: key entry_def reg_laws entryKey_def)
qed

lemma creation_loses_memory_witness:
  "\<exists>a s'. Reconcile (demo_control kept_model (Inl NotFound) 100 None) 0 ''ns'' ''a''
       (demo_reconciler\<lparr>ct_server := idle_server\<lparr>Reg := Some [(''ns/a'', demo_entry ''a'' StateCreating 90 2)]\<rparr>\<rparr>) = Returns a s'
    \<and> held s' ''ns/a'' = None \<and> entry s' ''ns/a'' = Some (demo_entry ''a'' StateNonexistent 90 2)"
proof -
  let ?E = "demo_control kept_model (Inl NotFound) 100 None"
  let ?s = "demo_reconciler\<lparr>ct_server := idle_server\<lparr>Reg := Some [(''ns/a'', demo_entry ''a'' StateCreating 90 2)]\<rparr>\<rparr>"
  have api: "ce_model_get ?E 0 ''ns'' ''a'' = Inr kept_model" "pod_get (ce_cluster ?E) 0 ''ns'' ''a'' = Inl NotFound"
    by (simp_all add: demo_control_def demo_cluster_def)
  have key: "slash_key ''ns'' ''a'' = ''ns/a''" by (simp add: slash_key_def)
  have "entry ?s (slash_key ''ns'' ''a'') = Some (demo_entry ''a'' StateCreating 90 2)" by (simp add: entry_def key)
  from creation_loses_memory [OF api(1) demo_right _ _ _ _ api(2) this] show ?thesis
    by (simp add: kept_model_simps key demo_entry_def)
qed

section \<open>Conditions\<close>

definition one_per_type :: "Condition list \<Rightarrow> bool" where
  "one_per_type cs \<longleftrightarrow> distinct (map cond_Type cs)"

definition condition_of :: "string \<Rightarrow> InferenceModelStatus \<Rightarrow> Condition option" where
  "condition_of ty st = map_of (map (\<lambda>c. (cond_Type c, c)) (Conditions st)) ty"

lemma update_condition_None:
  "update_condition now ty st reason msg cs = None \<longleftrightarrow> ty \<notin> cond_Type ` set cs"
  by (induction cs) auto

lemma update_condition_types:
  "update_condition now ty st reason msg cs = Some (b, cs') \<Longrightarrow> map cond_Type cs' = map cond_Type cs"
  by (induction cs arbitrary: b cs') (auto split: if_splits)

lemma update_condition_lookup:
  "update_condition now ty st reason msg cs = Some (b, cs') \<Longrightarrow>
     map_of (map (\<lambda>c. (cond_Type c, c)) cs') ty' =
       (if ty' = ty \<and> b then Some \<lparr>cond_Type = ty, cond_Status = st, cond_Reason = reason, cond_Message = msg, cond_LastTransitionTime = now\<rparr>
        else map_of (map (\<lambda>c. (cond_Type c, c)) cs) ty')"
  by (induction cs arbitrary: b cs') (auto split: if_splits)

lemma update_condition_kept:
  "update_condition now ty st reason msg cs = Some (False, cs') \<Longrightarrow>
     \<exists>c. map_of (map (\<lambda>c. (cond_Type c, c)) cs) ty = Some c \<and> cond_Status c = st \<and> cond_Reason c = reason \<and> cond_Message c = msg"
  by (induction cs arbitrary: cs') (auto split: if_splits)

text \<open>
  C24. The conditions of a status stay a map: setting one keeps at most one condition per type, afterwards the condition of
  that type says what was asked, those of the other types are as before, and setting the same again changes nothing.
\<close>

theorem conditions_are_a_map:
  assumes "setConditionOnModel now ty status reason msg st = (changed, st')"
  shows "(one_per_type (Conditions st) \<longrightarrow> one_per_type (Conditions st'))
    \<and> (\<exists>c. condition_of ty st' = Some c \<and> cond_Status c = status \<and> cond_Reason c = reason \<and> cond_Message c = msg)
    \<and> (\<forall>ty'. ty' \<noteq> ty \<longrightarrow> condition_of ty' st' = condition_of ty' st)
    \<and> (\<not> changed \<longrightarrow> st' = st) \<and> setConditionOnModel later ty status reason msg st' = (False, st')"
proof -
  let ?c = "\<lparr>cond_Type = ty, cond_Status = status, cond_Reason = reason, cond_Message = msg, cond_LastTransitionTime = now\<rparr>"
  have again: "\<exists>c. map_of (map (\<lambda>c. (cond_Type c, c)) cs) ty = Some c \<and> cond_Status c = status \<and> cond_Reason c = reason \<and> cond_Message c = msg
      \<Longrightarrow> update_condition later ty status reason msg cs = Some (False, cs)" for cs
    by (induction cs) (auto split: if_splits)
  show ?thesis
  proof (cases "update_condition now ty status reason msg (Conditions st)")
    case None
    then have st': "changed" "st' = st\<lparr>Conditions := Conditions st @ [?c]\<rparr>"
      using assms by (auto simp: setConditionOnModel_def)
    have fresh: "ty \<notin> cond_Type ` set (Conditions st)" using None by (simp add: update_condition_None)
    then have "map_of (map (\<lambda>c. (cond_Type c, c)) (Conditions st)) ty = None"
      by (simp add: map_of_eq_None_iff image_image)
    with fresh show ?thesis
      using again [of "Conditions st'"]
      by (auto simp: st' one_per_type_def condition_of_def map_add_def setConditionOnModel_def split: option.splits)
  next
    case (Some p)
    obtain b cs' where p: "p = (b, cs')" by fastforce
    with Some assms have st': "changed = b" "st' = st\<lparr>Conditions := cs'\<rparr>" by (auto simp: setConditionOnModel_def)
    note u = Some [unfolded p]
    have lk: "\<exists>c. map_of (map (\<lambda>c. (cond_Type c, c)) cs') ty = Some c \<and> cond_Status c = status \<and> cond_Reason c = reason \<and> cond_Message c = msg"
      using update_condition_lookup [OF u, of ty] update_condition_kept [of now ty status reason msg "Conditions st" cs'] u
      by (cases b) auto
    show ?thesis
      using update_condition_types [OF u] update_condition_lookup [OF u] update_condition_same [of now ty status reason msg "Conditions st" cs']
        u lk again [OF lk]
      by (auto simp: st' one_per_type_def condition_of_def setConditionOnModel_def)
  qed
qed

lemma conditions_are_a_map_witness:
  "one_per_type (Conditions (snd (setConditionOnModel 7 ''Ready'' ''True'' ''Deployed'' ''ok'' demo_status)))"
  using conditions_are_a_map
      [where now = 7 and ty = "''Ready''" and status = "''True''" and reason = "''Deployed''" and msg = "''ok''" and st = demo_status,
       OF prod.collapse [symmetric]]
  by (simp add: one_per_type_def demo_status_def)

end
