(* ===== verification/Xorb.thy ===== *)
theory Xorb
  imports Gguf
begin

text \<open>
  The container format of Xet storage, \<open>internal/xet/xorb.go\<close>, and the decompression of its chunks,
  \<open>internal/xet/decompress.go\<close>. A slice of Go may be extended within its capacity, so a slice that is sliced again
  carries the bytes behind its end. The LZ4 library is a parameter: the stream it decodes, or \<open>None\<close> for an error.
\<close>

unbundle bit_operations_syntax

section \<open>Chunk headers\<close>

record ChunkHeader =
  hdr_Version :: byte
  hdr_CompressedSize :: uint32
  hdr_CompressionType :: byte
  hdr_UncompressedSize :: uint32

definition ChunkHeaderSize :: nat where "ChunkHeaderSize = 8"
definition CompressionNone :: byte where "CompressionNone = 0"
definition CompressionLZ4 :: byte where "CompressionLZ4 = 1"
definition CompressionByteGrouping4LZ4 :: byte where "CompressionByteGrouping4LZ4 = 2"

text \<open>Three bytes, little-endian.\<close>

definition read24 :: "byte \<Rightarrow> byte \<Rightarrow> byte \<Rightarrow> uint32" where
  "read24 a b c = ucast a OR push_bit 8 (ucast b) OR push_bit 16 (ucast c)"

definition write24 :: "uint32 \<Rightarrow> byte list" where
  "write24 w = [ucast w, ucast (drop_bit 8 w), ucast (drop_bit 16 w)]"

definition ParseChunkHeader :: "byte list \<Rightarrow> ChunkHeader option" where
  "ParseChunkHeader bs =
     (if length bs < ChunkHeaderSize then None
      else Some \<lparr>hdr_Version = bs ! 0, hdr_CompressedSize = read24 (bs ! 1) (bs ! 2) (bs ! 3),
                 hdr_CompressionType = bs ! 4, hdr_UncompressedSize = read24 (bs ! 5) (bs ! 6) (bs ! 7)\<rparr>)"

definition Serialize :: "ChunkHeader \<Rightarrow> byte list" where
  "Serialize h = [hdr_Version h] @ write24 (hdr_CompressedSize h) @ [hdr_CompressionType h] @ write24 (hdr_UncompressedSize h)"

definition IsCompressed :: "ChunkHeader \<Rightarrow> bool" where
  "IsCompressed h = (hdr_CompressionType h \<noteq> CompressionNone)"

definition CompressionName :: "ChunkHeader \<Rightarrow> string" where
  "CompressionName h =
     (let t = hdr_CompressionType h in
      if t = CompressionNone then ''none''
      else if t = CompressionLZ4 then ''lz4''
      else if t = CompressionByteGrouping4LZ4 then ''bytegrouping4+lz4''
      else ''unknown('' @ show_nat (unat t) @ '')'')"

section \<open>Iterating over a xorb\<close>

record XorbIterator =
  it_data :: "byte list"
  it_offset :: nat

definition NewXorbIterator :: "byte list \<Rightarrow> XorbIterator" where
  "NewXorbIterator bs = \<lparr>it_data = bs, it_offset = 0\<rparr>"

definition HasNext :: "XorbIterator \<Rightarrow> bool" where
  "HasNext it = (it_offset it + ChunkHeaderSize \<le> length (it_data it))"

datatype next_chunk = NoMoreChunks | ChunkOf ChunkHeader "byte list" | BeyondBoundary

definition Next :: "XorbIterator \<Rightarrow> next_chunk \<times> XorbIterator" where
  "Next it =
     (let off = it_offset it; bs = it_data it in
      if off + ChunkHeaderSize > length bs then (NoMoreChunks, it)
      else case ParseChunkHeader (take ChunkHeaderSize (drop off bs)) of
        None \<Rightarrow> (BeyondBoundary, it)
      | Some h \<Rightarrow>
          (let chunkStart = off + ChunkHeaderSize; chunkEnd = chunkStart + unat (hdr_CompressedSize h) in
           if chunkEnd > length bs then (BeyondBoundary, it)
           else (ChunkOf h (take (unat (hdr_CompressedSize h)) (drop chunkStart bs)), it\<lparr>it_offset := chunkEnd\<rparr>)))"

section \<open>Byte grouping\<close>

text \<open>The loops copy \<open>data[src]\<close> to \<open>result[dst]\<close> where both indices are in range.\<close>

fun copy_bytes :: "(nat \<times> nat) list \<Rightarrow> byte list \<Rightarrow> byte list \<Rightarrow> byte list" where
  "copy_bytes [] bs result = result"
| "copy_bytes ((src, dst) # ms) bs result =
     copy_bytes ms bs (if src < length bs \<and> dst < length result then result[dst := bs ! src] else result)"

text \<open>The indices of the loop over complete groups, and of the loop over the remaining bytes.\<close>

definition group_moves :: "nat \<Rightarrow> (nat \<times> nat) list" where
  "group_moves g = concat (map (\<lambda>i. map (\<lambda>j. (i + j * g, i * 4 + j)) [0..<4]) [0..<g])"

definition rest_moves :: "nat \<Rightarrow> nat \<Rightarrow> (nat \<times> nat) list" where
  "rest_moves g r = map (\<lambda>j. (g + j * g, g * 4 + j)) [0..<r]"

definition undoByteGrouping4Partial :: "byte list \<Rightarrow> nat \<Rightarrow> byte list" where
  "undoByteGrouping4Partial bs expectedSize =
     (let n = length bs; g = n div 4; r = n mod 4;
          originalSize = (if expectedSize > 0 then expectedSize else if r > 0 then g * 4 + r else g * 4)
      in copy_bytes (rest_moves g r) bs (copy_bytes (group_moves g) bs (replicate originalSize 0)))"

definition undoByteGrouping4 :: "byte list \<Rightarrow> nat \<Rightarrow> byte list" where
  "undoByteGrouping4 bs expectedSize =
     (let n = length bs in
      if n = 0 then []
      else if n mod 4 \<noteq> 0 then undoByteGrouping4Partial bs expectedSize
      else (let result = copy_bytes (group_moves (n div 4)) bs (replicate n 0)
            in if expectedSize > 0 \<and> length result > expectedSize then take expectedSize result else result))"

section \<open>Decompression\<close>

type_synonym lz4_decoder = "byte list \<Rightarrow> byte list option"

text \<open>
  Both branches of \<open>decompressLZ4\<close>, for a known and for an unknown size, read the stream to its end; the size is only a
  hint for the buffer.
\<close>

definition decompressLZ4 :: "lz4_decoder \<Rightarrow> byte list \<Rightarrow> int \<Rightarrow> byte list option" where
  "decompressLZ4 lz4 bs uncompressedSize = lz4 bs"

definition Decompress :: "lz4_decoder \<Rightarrow> ChunkHeader \<Rightarrow> byte list \<Rightarrow> byte list option" where
  "Decompress lz4 h bs =
     (let t = hdr_CompressionType h in
      if t = CompressionNone then Some bs
      else if t = CompressionLZ4 then decompressLZ4 lz4 bs (uint (hdr_UncompressedSize h))
      else if t = CompressionByteGrouping4LZ4 then
        (case decompressLZ4 lz4 bs (- 1) of
           None \<Rightarrow> None
         | Some grouped \<Rightarrow> Some (undoByteGrouping4 grouped (unat (hdr_UncompressedSize h))))
      else None)"

section \<open>Headers are read back\<close>

lemma read24_write24:
  "(case write24 w of [a, b, c] \<Rightarrow> read24 a b c) = take_bit 24 w"
proof -
  have "read24 (ucast w) (ucast (drop_bit 8 w)) (ucast (drop_bit 16 w)) = take_bit 24 w"
  proof (rule bit_word_eqI)
    fix n
    show "bit (read24 (ucast w) (ucast (drop_bit 8 w)) (ucast (drop_bit 16 w))) n = bit (take_bit 24 w) n"
      by (cases "n < 8"; cases "16 \<le> n") (auto simp: read24_def bit_simps dest: bit_imp_le_length)
  qed
  then show ?thesis by (simp add: write24_def)
qed

lemma write24_read24: "write24 (read24 a b c) = [a, b, c]"
  by (auto simp: write24_def read24_def intro!: bit_word_eqI) (auto simp: bit_simps dest: bit_imp_le_length)

lemma header_roundtrip_aux:
  "ParseChunkHeader (Serialize h @ rest) = Some (h\<lparr>hdr_CompressedSize := take_bit 24 (hdr_CompressedSize h),
       hdr_UncompressedSize := take_bit 24 (hdr_UncompressedSize h)\<rparr>)"
  using read24_write24 [of "hdr_CompressedSize h"] read24_write24 [of "hdr_UncompressedSize h"]
  by (simp add: ParseChunkHeader_def Serialize_def write24_def ChunkHeaderSize_def)

text \<open>
  A serialized header is read back with its two sizes cut to 24 bits, whatever follows it, and a header that was read is
  written as the eight bytes it was read from.
\<close>

theorem header_roundtrip:
  "ParseChunkHeader (Serialize h @ rest) = Some (h\<lparr>hdr_CompressedSize := take_bit 24 (hdr_CompressedSize h),
       hdr_UncompressedSize := take_bit 24 (hdr_UncompressedSize h)\<rparr>)
   \<and> map_option Serialize (ParseChunkHeader bs) = (if length bs < 8 then None else Some (take 8 bs))"
proof -
  have "Serialize \<lparr>hdr_Version = bs ! 0, hdr_CompressedSize = read24 (bs ! 1) (bs ! 2) (bs ! 3),
      hdr_CompressionType = bs ! 4, hdr_UncompressedSize = read24 (bs ! 5) (bs ! 6) (bs ! 7)\<rparr> = take 8 bs"
    if "8 \<le> length bs"
  proof -
    from that obtain a b c d e f g k tl where "bs = [a, b, c, d, e, f, g, k] @ tl"
      by (auto simp: numeral_eq_Suc Suc_le_length_iff)
    then show ?thesis by (simp add: Serialize_def write24_read24 numeral_eq_Suc)
  qed
  then show ?thesis
    using header_roundtrip_aux [of h rest] by (simp add: ParseChunkHeader_def ChunkHeaderSize_def)
qed

end
