(* ===== verification/Xet_Client.thy ===== *)
theory Xet_Client
  imports Xorb Hub_Client
begin

text \<open>
  The client of the Xet API, \<open>internal/xet/client.go\<close>, and the resolution of Hub URLs, \<open>internal/xet/file_id.go\<close>.
  The server is a function of the moment, of whether redirects are followed and of the request; JSON decoding is a
  parameter.
\<close>

section \<open>Answers\<close>

record ByteRange =
  br_Start :: int64
  br_End :: int64 \<comment> \<open>exclusive\<close>

record ReconstructionTerm =
  tm_Hash :: string
  tm_UnpackedLength :: int64
  tm_Range :: ByteRange

record XetFetchInfo =
  xf_URL :: string
  xf_URLRange :: ByteRange
  xf_Range :: ByteRange

record ReconstructionResponse =
  rc_OffsetIntoFirstRange :: int64
  rc_Terms :: "ReconstructionTerm list"
  rc_FetchInfo :: "(string, XetFetchInfo list) go_map"

record AuthResponse =
  au_Token :: string
  au_ExpiresAt :: go_time

record xet_reply =
  xr_Status :: nat
  xr_XetHash :: string
  xr_Location :: string
  xr_Body :: "byte list"
  xr_Clean :: bool

record xet_world =
  xw_http :: "nat \<Rightarrow> bool \<Rightarrow> http_request \<Rightarrow> xet_reply option"
  xw_decode_auth :: "byte list \<Rightarrow> AuthResponse option"
  xw_decode_recon :: "byte list \<Rightarrow> ReconstructionResponse option"
  xw_spare :: "nat \<Rightarrow> byte list" \<comment> \<open>what lies between length and capacity of a body that was read\<close>
  xw_lz4 :: lz4_decoder
  xw_clock :: "nat \<Rightarrow> go_time"
  xw_make_limit :: int \<comment> \<open>the largest capacity \<open>make\<close> accepts\<close>

section \<open>The client\<close>

record XetClient =
  xc_hfHost :: string
  xc_xetAPIEndpoint :: string
  xc_authEndpoint :: string
  xc_token :: string
  xc_cachedAuth :: "AuthResponse option"

datatype ClientOption = WithHuggingFaceHost string | WithXetAPIEndpoint string | WithAuthEndpoint string | WithToken string

fun apply_client_option :: "ClientOption \<Rightarrow> XetClient \<Rightarrow> XetClient" where
  "apply_client_option (WithHuggingFaceHost h) c = c\<lparr>xc_hfHost := h\<rparr>"
| "apply_client_option (WithXetAPIEndpoint e) c = c\<lparr>xc_xetAPIEndpoint := e\<rparr>"
| "apply_client_option (WithAuthEndpoint e) c = c\<lparr>xc_authEndpoint := e\<rparr>"
| "apply_client_option (WithToken t) c = c\<lparr>xc_token := t\<rparr>"

definition NewXetClient :: "ClientOption list \<Rightarrow> XetClient" where
  "NewXetClient opts = fold apply_client_option opts
     \<lparr>xc_hfHost = ''huggingface.co'', xc_xetAPIEndpoint = ''https://xetfs.huggingface.co'',
      xc_authEndpoint = ''https://huggingface.co/api/xet-auth'', xc_token = '''', xc_cachedAuth = None\<rparr>"

definition SetXetToken :: "string \<Rightarrow> XetClient \<Rightarrow> XetClient" where
  "SetXetToken t c = c\<lparr>xc_token := t\<rparr>"

definition xet_request :: "string \<Rightarrow> string \<Rightarrow> string \<Rightarrow> byte_range \<Rightarrow> http_request" where
  "xet_request meth url token rng = \<lparr>rq_Method = meth, rq_URL = url, rq_Token = token, rq_Range = rng\<rparr>"

definition fetchAuthToken :: "xet_world \<Rightarrow> nat \<Rightarrow> XetClient \<Rightarrow> AuthResponse option" where
  "fetchAuthToken W i c =
     (case xw_http W i True (xet_request ''GET'' (xc_authEndpoint c) (xc_token c) WholeBody) of
        None \<Rightarrow> None
      | Some resp \<Rightarrow> if xr_Status resp \<noteq> 200 then None else xw_decode_auth W (xr_Body resp))"

text \<open>A cached token is used until five minutes before it expires.\<close>

definition getAuthToken :: "xet_world \<Rightarrow> nat \<Rightarrow> XetClient \<Rightarrow> string option \<times> XetClient" where
  "getAuthToken W i c =
     (if xc_token c \<noteq> '''' then (Some (xc_token c), c)
      else
        (let refresh = (case fetchAuthToken W i c of
               None \<Rightarrow> (None, c)
             | Some auth \<Rightarrow> (Some (au_Token auth), c\<lparr>xc_cachedAuth := Some auth\<rparr>)) in
         case xc_cachedAuth c of
           Some auth \<Rightarrow> if xw_clock W i + 300000000000 < au_ExpiresAt auth then (Some (au_Token auth), c) else refresh
         | None \<Rightarrow> refresh))"

text \<open>The text for the header \<open>Authorization\<close>: empty where no token could be had.\<close>

definition bearer :: "string option \<Rightarrow> string" where
  "bearer t = (case t of Some tok \<Rightarrow> tok | None \<Rightarrow> '''')"

definition resolveFileIDFromURL :: "xet_world \<Rightarrow> nat \<Rightarrow> string \<Rightarrow> XetClient \<Rightarrow> string option \<times> XetClient" where
  "resolveFileIDFromURL W i location c =
     (case getAuthToken W i c of (token, c1) \<Rightarrow>
        (case xw_http W (i + 1) True (xet_request ''HEAD'' location (bearer token) WholeBody) of
           None \<Rightarrow> (None, c1)
         | Some resp \<Rightarrow> (if xr_XetHash resp = '''' then None else Some (xr_XetHash resp), c1)))"

definition ResolveFileID ::
  "xet_world \<Rightarrow> nat \<Rightarrow> string \<Rightarrow> string \<Rightarrow> string \<Rightarrow> string \<Rightarrow> XetClient \<Rightarrow> string option \<times> XetClient" where
  "ResolveFileID W i namespace repo branch filepath c =
     (let resolveURL = ''https://'' @ xc_hfHost c @ ''/'' @ namespace @ ''/'' @ repo @ ''/resolve/'' @ branch @ ''/'' @ filepath in
      case getAuthToken W i c of (token, c1) \<Rightarrow>
        (case xw_http W (i + 1) False (xet_request ''GET'' resolveURL (bearer token) WholeBody) of
           None \<Rightarrow> (None, c1)
         | Some resp \<Rightarrow>
             if xr_XetHash resp \<noteq> '''' then (Some (xr_XetHash resp), c1)
             else if 300 \<le> xr_Status resp \<and> xr_Status resp < 400 \<and> xr_Location resp \<noteq> ''''
             then resolveFileIDFromURL W (i + 2) (xr_Location resp) c1
             else (None, c1)))"

definition GetReconstruction ::
  "xet_world \<Rightarrow> nat \<Rightarrow> string \<Rightarrow> XetClient \<Rightarrow> ReconstructionResponse option \<times> XetClient" where
  "GetReconstruction W i fileID c =
     (case getAuthToken W i c of (token, c1) \<Rightarrow>
        (case xw_http W (i + 1) True (xet_request ''GET'' (xc_xetAPIEndpoint c @ ''/v1/reconstructions/'' @ fileID)
                (bearer token) WholeBody) of
           None \<Rightarrow> (None, c1)
         | Some resp \<Rightarrow> (if xr_Status resp \<noteq> 200 then None else xw_decode_recon W (xr_Body resp), c1)))"

text \<open>The bytes of a range, as a slice.\<close>

definition FetchXorbRange ::
  "xet_world \<Rightarrow> nat \<Rightarrow> string \<Rightarrow> int64 \<Rightarrow> int64 \<Rightarrow> (byte list \<times> byte list) option" where
  "FetchXorbRange W i xorbURL start e =
     (case xw_http W i True (xet_request ''GET'' xorbURL '''' (Between start (e - 1))) of
        None \<Rightarrow> None
      | Some resp \<Rightarrow>
          if xr_Status resp \<noteq> 200 \<and> xr_Status resp \<noteq> 206 then None
          else if xr_Clean resp then Some (xr_Body resp, xw_spare W i) else None)"

definition FetchXorbFromFetchInfo :: "xet_world \<Rightarrow> nat \<Rightarrow> XetFetchInfo \<Rightarrow> (byte list \<times> byte list) option" where
  "FetchXorbFromFetchInfo W i info =
     FetchXorbRange W i (xf_URL info) (br_Start (xf_URLRange info)) (br_End (xf_URLRange info))"

section \<open>Hub URLs\<close>

record HuggingFaceURL =
  hu_Namespace :: string
  hu_Repo :: string
  hu_Branch :: string
  hu_FilePath :: string

definition parseHFProtocol :: "string \<Rightarrow> HuggingFaceURL option" where
  "parseHFProtocol url =
     (case SplitN (CHR ''/'') 3 (TrimPrefix url ''hf://'') of
        [namespace, repo] \<Rightarrow> Some \<lparr>hu_Namespace = namespace, hu_Repo = repo, hu_Branch = ''main'', hu_FilePath = ''''\<rparr>
      | [namespace, repo, remaining] \<Rightarrow>
          (case SplitN (CHR ''/'') 2 remaining of
             [potentialBranch, path] \<Rightarrow>
               if potentialBranch = ''main'' \<or> potentialBranch = ''master''
               then Some \<lparr>hu_Namespace = namespace, hu_Repo = repo, hu_Branch = potentialBranch, hu_FilePath = path\<rparr>
               else Some \<lparr>hu_Namespace = namespace, hu_Repo = repo, hu_Branch = ''main'', hu_FilePath = remaining\<rparr>
           | _ \<Rightarrow> Some \<lparr>hu_Namespace = namespace, hu_Repo = repo, hu_Branch = ''main'', hu_FilePath = remaining\<rparr>)
      | _ \<Rightarrow> None)"

definition ParseHuggingFaceURL :: "string \<Rightarrow> HuggingFaceURL option" where
  "ParseHuggingFaceURL url =
     (if HasPrefix url ''hf://'' then parseHFProtocol url
      else
        (let url1 = TrimPrefix (TrimPrefix url ''https://'') ''http://'';
             url2 = TrimPrefix (TrimPrefix url1 ''huggingface.co/'') ''hf.co/'' in
         case SplitN (CHR ''/'') 4 url2 of
           [namespace, repo, what, remaining] \<Rightarrow>
             if what = ''resolve'' \<or> what = ''blob''
             then Some (case SplitN (CHR ''/'') 2 remaining of
                 [branch, path] \<Rightarrow> \<lparr>hu_Namespace = namespace, hu_Repo = repo, hu_Branch = branch, hu_FilePath = path\<rparr>
               | branch # _ \<Rightarrow> \<lparr>hu_Namespace = namespace, hu_Repo = repo, hu_Branch = branch, hu_FilePath = ''''\<rparr>
               | [] \<Rightarrow> \<lparr>hu_Namespace = namespace, hu_Repo = repo, hu_Branch = '''', hu_FilePath = ''''\<rparr>)
             else Some \<lparr>hu_Namespace = namespace, hu_Repo = repo, hu_Branch = what, hu_FilePath = remaining\<rparr>
         | _ \<Rightarrow> None))"

definition url_String :: "HuggingFaceURL \<Rightarrow> string" where
  "url_String u = ''https://huggingface.co/'' @ hu_Namespace u @ ''/'' @ hu_Repo u @ ''/resolve/'' @ hu_Branch u
     @ ''/'' @ hu_FilePath u"

definition RepositoryID :: "HuggingFaceURL \<Rightarrow> string" where
  "RepositoryID u = slash_key (hu_Namespace u) (hu_Repo u)"

definition ResolveFromURL :: "xet_world \<Rightarrow> nat \<Rightarrow> string \<Rightarrow> XetClient \<Rightarrow> string option \<times> XetClient" where
  "ResolveFromURL W i url c =
     (case ParseHuggingFaceURL url of
        None \<Rightarrow> (None, c)
      | Some u \<Rightarrow> ResolveFileID W i (hu_Namespace u) (hu_Repo u) (hu_Branch u) (hu_FilePath u) c)"

fun ResolveMultiple ::
  "xet_world \<Rightarrow> nat \<Rightarrow> string \<Rightarrow> string \<Rightarrow> string \<Rightarrow> string list \<Rightarrow> (string, string) go_map \<Rightarrow> XetClient
    \<Rightarrow> (string, string) go_map option \<times> XetClient" where
  "ResolveMultiple W i namespace repo branch [] results c = (Some results, c)"
| "ResolveMultiple W i namespace repo branch (p # ps) results c =
     (case ResolveFileID W i namespace repo branch p c of
        (None, c1) \<Rightarrow> (None, c1)
      | (Some fileID, c1) \<Rightarrow> ResolveMultiple W (i + 4) namespace repo branch ps (AList.update p fileID results) c1)"

end
