(* ===== verification/Xet_Download.thy ===== *)
theory Xet_Download
  imports Xet_Client
begin

text \<open>
  The Xet downloader, \<open>internal/xet/download.go\<close>: a file is put together from the terms of its reconstruction, each a
  range of a xorb that is fetched and decompressed. Slicing beyond the capacity and a negative capacity panic.
\<close>

section \<open>Chunks of a xorb\<close>

text \<open>\<open>s[a:b]\<close> of a slice with the bytes \<open>spare\<close> behind its end.\<close>

definition slice_expr :: "byte list \<times> byte list \<Rightarrow> int64 \<Rightarrow> int64 \<Rightarrow> byte list may_panic" where
  "slice_expr s a b =
     (let whole = fst s @ snd s in
      if 0 \<le> sint a \<and> sint a \<le> sint b \<and> sint b \<le> int (length whole)
      then Inr (take (unat b - unat a) (drop (unat a) whole)) else Inl SliceOutOfRange)"

lemma Next_ChunkOf:
  "Next it = (ChunkOf h c, it') \<Longrightarrow> it_data it' = it_data it \<and> it_offset it + 8 \<le> it_offset it'
     \<and> it_offset it' \<le> length (it_data it)"
  by (auto simp: Next_def Let_def ChunkHeaderSize_def split: if_splits option.splits)

lemma Next_decreases:
  "HasNext it \<Longrightarrow> (ChunkOf h c, it') = Next it \<Longrightarrow>
     length (it_data it') - it_offset it' < length (it_data it) - it_offset it"
  by (auto simp: HasNext_def ChunkHeaderSize_def dest!: Next_ChunkOf [OF sym])

text \<open>The loop of \<open>extractChunks\<close>: what was decompressed so far, to which each chunk is appended; \<open>None\<close> is its error.\<close>

function extract_loop :: "lz4_decoder \<Rightarrow> XorbIterator \<Rightarrow> byte list \<Rightarrow> byte list option" where
  "extract_loop lz4 it result =
     (if \<not> HasNext it then Some result
      else case Next it of
        (NoMoreChunks, it') \<Rightarrow> Some result
      | (BeyondBoundary, it') \<Rightarrow> None
      | (ChunkOf h compressed, it') \<Rightarrow>
          (case Decompress lz4 h compressed of
             None \<Rightarrow> None
           | Some decompressed \<Rightarrow> extract_loop lz4 it' (result @ decompressed)))"
  by auto
termination
  by (relation "measure (\<lambda>(lz4, it, result). length (it_data it) - it_offset it)") (auto intro: Next_decreases)

declare extract_loop.simps [simp del]

definition extractChunks :: "lz4_decoder \<Rightarrow> byte list \<times> byte list \<Rightarrow> ByteRange \<Rightarrow> byte list option may_panic" where
  "extractChunks lz4 xorb r =
     (case slice_expr xorb (br_Start r) (br_End r) of
        Inl p \<Rightarrow> Inl p
      | Inr rangeData \<Rightarrow> Inr (extract_loop lz4 (NewXorbIterator rangeData) []))"

text \<open>
  The loop of \<open>extractChunksToWriter\<close>, which writes each chunk before it reads the next one: the bytes the writer has taken, which may
  refuse a write after what it has taken so far, and whether the loop ended without an error.
\<close>

function write_loop ::
  "lz4_decoder \<Rightarrow> (byte list \<Rightarrow> byte list \<Rightarrow> bool) \<Rightarrow> XorbIterator \<Rightarrow> byte list \<Rightarrow> byte list \<times> bool" where
  "write_loop lz4 accepts it written =
     (if \<not> HasNext it then (written, True)
      else case Next it of
        (NoMoreChunks, it') \<Rightarrow> (written, True)
      | (BeyondBoundary, it') \<Rightarrow> (written, False)
      | (ChunkOf h compressed, it') \<Rightarrow>
          (case Decompress lz4 h compressed of
             None \<Rightarrow> (written, False)
           | Some decompressed \<Rightarrow>
               if accepts written decompressed then write_loop lz4 accepts it' (written @ decompressed)
               else (written, False)))"
  by auto
termination
  by (relation "measure (\<lambda>(lz4, accepts, it, written). length (it_data it) - it_offset it)") (auto intro: Next_decreases)

declare write_loop.simps [simp del]

definition extractChunksToWriter ::
  "lz4_decoder \<Rightarrow> (byte list \<Rightarrow> byte list \<Rightarrow> bool) \<Rightarrow> byte list \<times> byte list \<Rightarrow> ByteRange \<Rightarrow> byte list
    \<Rightarrow> (byte list \<times> bool) may_panic" where
  "extractChunksToWriter lz4 accepts xorb r sofar =
     (case slice_expr xorb (br_Start r) (br_End r) of
        Inl p \<Rightarrow> Inl p
      | Inr rangeData \<Rightarrow> Inr (write_loop lz4 accepts (NewXorbIterator rangeData) sofar))"

section \<open>Reconstruction\<close>

definition fetchXorbData :: "xet_world \<Rightarrow> nat \<Rightarrow> XetFetchInfo list \<Rightarrow> (byte list \<times> byte list) option" where
  "fetchXorbData W i infos = (case infos of [] \<Rightarrow> None | info # _ \<Rightarrow> FetchXorbFromFetchInfo W i info)"

definition total_size :: "ReconstructionTerm list \<Rightarrow> int64" where
  "total_size terms = fold (\<lambda>t n. n + tm_UnpackedLength t) terms 0"

fun terms_loop ::
  "xet_world \<Rightarrow> (string, XetFetchInfo list) go_map \<Rightarrow> nat \<Rightarrow> ReconstructionTerm list \<Rightarrow> byte list
    \<Rightarrow> byte list option may_panic" where
  "terms_loop W infos i [] result = Inr (Some result)"
| "terms_loop W infos i (t # ts) result =
     (case map_of infos (tm_Hash t) of
        None \<Rightarrow> Inr None
      | Some fs \<Rightarrow>
          (case fetchXorbData W i fs of
             None \<Rightarrow> Inr None
           | Some xorb \<Rightarrow>
               (case extractChunks (xw_lz4 W) xorb (tm_Range t) of
                  Inl p \<Rightarrow> Inl p
                | Inr None \<Rightarrow> Inr None
                | Inr (Some bs) \<Rightarrow> terms_loop W infos (i + 1) ts (result @ bs))))"

text \<open>The buffer is made for the announced size, which panics if that is negative or too large.\<close>

definition reconstruct :: "xet_world \<Rightarrow> nat \<Rightarrow> ReconstructionResponse \<Rightarrow> byte list option may_panic" where
  "reconstruct W i recon =
     (let size = sint (total_size (rc_Terms recon)) in
      if size < 0 \<or> size > xw_make_limit W then Inl SliceOutOfRange
      else terms_loop W (rc_FetchInfo recon) i (rc_Terms recon) [])"

fun terms_to_writer ::
  "xet_world \<Rightarrow> (byte list \<Rightarrow> byte list \<Rightarrow> bool) \<Rightarrow> (string, XetFetchInfo list) go_map \<Rightarrow> nat \<Rightarrow> ReconstructionTerm list
    \<Rightarrow> byte list \<Rightarrow> (byte list \<times> bool) may_panic" where
  "terms_to_writer W accepts infos i [] written = Inr (written, True)"
| "terms_to_writer W accepts infos i (t # ts) written =
     (case map_of infos (tm_Hash t) of
        None \<Rightarrow> Inr (written, False)
      | Some fs \<Rightarrow>
          (case fetchXorbData W i fs of
             None \<Rightarrow> Inr (written, False)
           | Some xorb \<Rightarrow>
               (case extractChunksToWriter (xw_lz4 W) accepts xorb (tm_Range t) written of
                  Inl p \<Rightarrow> Inl p
                | Inr (written', False) \<Rightarrow> Inr (written', False)
                | Inr (written', True) \<Rightarrow> terms_to_writer W accepts infos (i + 1) ts written')))"

definition reconstructToWriter ::
  "xet_world \<Rightarrow> (byte list \<Rightarrow> byte list \<Rightarrow> bool) \<Rightarrow> nat \<Rightarrow> ReconstructionResponse \<Rightarrow> (byte list \<times> bool) may_panic" where
  "reconstructToWriter W accepts i recon = terms_to_writer W accepts (rc_FetchInfo recon) i (rc_Terms recon) []"

section \<open>Downloads\<close>

record DownloadOptions =
  xo_Namespace :: string
  xo_Repo :: string
  xo_Branch :: string
  xo_FilePath :: string
  xo_OutputPath :: string
  xo_FileID :: string

text \<open>The file's identifier, given or resolved, and its reconstruction; \<open>None\<close> is an error of either.\<close>

definition find_reconstruction ::
  "xet_world \<Rightarrow> nat \<Rightarrow> DownloadOptions \<Rightarrow> XetClient \<Rightarrow> ReconstructionResponse option \<times> XetClient" where
  "find_reconstruction W i opts c =
     (case (if xo_FileID opts = '''' then ResolveFileID W i (xo_Namespace opts) (xo_Repo opts) (xo_Branch opts) (xo_FilePath opts) c
            else (Some (xo_FileID opts), c)) of
        (None, c1) \<Rightarrow> (None, c1)
      | (Some fileID, c1) \<Rightarrow> GetReconstruction W (i + 4) fileID c1)"

definition DownloadData ::
  "xet_world \<Rightarrow> nat \<Rightarrow> DownloadOptions \<Rightarrow> XetClient \<Rightarrow> byte list option may_panic \<times> XetClient" where
  "DownloadData W i opts c =
     (case find_reconstruction W i opts c of
        (None, c1) \<Rightarrow> (Inr None, c1)
      | (Some recon, c1) \<Rightarrow> (reconstruct W (i + 6) recon, c1))"

definition DownloadToWriter ::
  "xet_world \<Rightarrow> (byte list \<Rightarrow> byte list \<Rightarrow> bool) \<Rightarrow> nat \<Rightarrow> DownloadOptions \<Rightarrow> XetClient
    \<Rightarrow> (byte list \<times> bool) may_panic \<times> XetClient" where
  "DownloadToWriter W accepts i opts c =
     (case find_reconstruction W i opts c of
        (None, c1) \<Rightarrow> (Inr ([], False), c1)
      | (Some recon, c1) \<Rightarrow> (reconstructToWriter W accepts (i + 6) recon, c1))"

definition GetFileSize :: "xet_world \<Rightarrow> nat \<Rightarrow> DownloadOptions \<Rightarrow> XetClient \<Rightarrow> int64 option \<times> XetClient" where
  "GetFileSize W i opts c = map_prod (map_option (\<lambda>recon. total_size (rc_Terms recon))) id (find_reconstruction W i opts c)"

definition os_WriteFile :: "storage \<Rightarrow> nat \<Rightarrow> string \<Rightarrow> byte list \<Rightarrow> disk \<Rightarrow> bool \<times> disk" where
  "os_WriteFile E i p bs d =
     (if fault E i CreateFile p then (False, d)
      else if fault E i WriteData p then (False, put_file p (take (short_write E i) bs) d)
      else (True, put_file p bs d))"

text \<open>Whether the download succeeded, or the panic.\<close>

definition xetDownload ::
  "storage \<Rightarrow> xet_world \<Rightarrow> nat \<Rightarrow> DownloadOptions \<Rightarrow> XetClient \<Rightarrow> disk \<Rightarrow> bool may_panic \<times> XetClient \<times> disk" where
  "xetDownload E W i opts c d =
     (case DownloadData W i opts c of
        (Inl p, c1) \<Rightarrow> (Inl p, c1, d)
      | (Inr None, c1) \<Rightarrow> (Inr False, c1, d)
      | (Inr (Some bs), c1) \<Rightarrow>
          if xo_OutputPath opts = '''' then (Inr True, c1, d)
          else (case os_MkdirAll E i (Dir (xo_OutputPath opts)) d of
              (Some e, d1) \<Rightarrow> (Inr False, c1, d1)
            | (None, d1) \<Rightarrow> (case os_WriteFile E i (xo_OutputPath opts) bs d1 of (ok, d2) \<Rightarrow> (Inr ok, c1, d2))))"

end
