(* ===== verification/Xet_Properties.thy ===== *)
theory Xet_Properties
  imports Xet_Download
begin

text \<open>
  Xet storage: byte grouping is undone exactly for lengths divisible by four, a xorb is iterated chunk by chunk, a file
  is reconstructed from honest answers, directly and through a writer alike, and tokens are reused while they last.
\<close>

section \<open>Copying bytes\<close>

lemma length_copy_bytes [simp]: "length (copy_bytes ms bs r) = length r"
  by (induction ms bs r rule: copy_bytes.induct) auto

lemma copy_bytes_append: "copy_bytes (ms @ ms') bs r = copy_bytes ms' bs (copy_bytes ms bs r)"
  by (induction ms bs r rule: copy_bytes.induct) auto

text \<open>Moves to consecutive destinations from sources in range replace a segment.\<close>

lemma copy_in_order:
  assumes "map snd ms = [k..<k + length ms]" and "k + length ms \<le> length r"
    and "\<forall>m \<in> set ms. fst m < length bs"
  shows "copy_bytes ms bs r = take k r @ map (\<lambda>m. bs ! fst m) ms @ drop (k + length ms) r"
  using assms
proof (induction ms rule: rev_induct)
  case Nil
  then show ?case by simp
next
  case (snoc m ms)
  obtain s d where m: "m = (s, d)" by fastforce
  from snoc.prems(1) have d: "d = k + length ms" and ms: "map snd ms = [k..<k + length ms]" by (simp_all add: m)
  have ih: "copy_bytes ms bs r = take k r @ map (\<lambda>m. bs ! fst m) ms @ drop (k + length ms) r"
    using snoc.IH [OF ms] snoc.prems(2,3) by simp
  have s: "s < length bs" using snoc.prems(3) by (simp add: m)
  have "drop (k + length ms) r = r ! (k + length ms) # drop (Suc (k + length ms)) r"
    using snoc.prems(2) by (simp add: Cons_nth_drop_Suc)
  then show ?case
    using snoc.prems(2) s by (auto simp: copy_bytes_append ih m d list_update_append)
qed

lemma copy_bytes_cong:
  assumes "\<forall>m \<in> set ms. fst m < length bs \<and> fst m < length bs' \<and> bs ! fst m = bs' ! fst m"
  shows "copy_bytes ms bs r = copy_bytes ms bs' r"
  using assms by (induction ms bs r rule: copy_bytes.induct) auto

section \<open>Byte grouping\<close>

definition moves_upto :: "nat \<Rightarrow> nat \<Rightarrow> (nat \<times> nat) list" where
  "moves_upto k g = concat (map (\<lambda>i. map (\<lambda>j. (i + j * g, i * 4 + j)) [0..<4]) [0..<k])"

lemma upt_4: "[0..<4] = [0, 1, 2, 3]" by (simp add: upt_rec)

lemma moves_upto_shape: "map snd (moves_upto k g) = [0..<4 * k] \<and> length (moves_upto k g) = 4 * k"
proof (induction k)
  case 0
  then show ?case by (simp add: moves_upto_def)
next
  case (Suc k)
  have "[0..<4 * k + 4] = [0..<4 * k] @ [4 * k..<4 * k + 4]" by (rule upt_add_eq_append) simp
  moreover have "[4 * k..<4 * k + 4] = [4 * k, 4 * k + 1, 4 * k + 2, 4 * k + 3]" by (simp add: upt_rec)
  ultimately show ?case using Suc by (simp add: moves_upto_def upt_4 add.commute mult.commute)
qed

lemma moves_upto_sources: "m \<in> set (moves_upto k g) \<Longrightarrow> k \<le> g \<Longrightarrow> fst m < 4 * g"
proof -
  assume "m \<in> set (moves_upto k g)" and "k \<le> g"
  then obtain i j where "fst m = i + j * g" "i < g" "j < 4" by (auto simp: moves_upto_def)
  moreover from \<open>j < 4\<close> have "j * g \<le> 3 * g" by (intro mult_le_mono1) simp
  ultimately show ?thesis by linarith
qed

lemma group_moves_upto: "group_moves g = moves_upto g g"
  by (simp add: group_moves_def moves_upto_def)

text \<open>The grouped form: the first bytes of all groups of four, then the second bytes, and so on.\<close>

definition group4 :: "byte list \<Rightarrow> byte list" where
  "group4 xs = concat (map (\<lambda>j. map (\<lambda>i. xs ! (4 * i + j)) [0..<length xs div 4]) [0..<4])"

lemma length_group4: "length xs mod 4 = 0 \<Longrightarrow> length (group4 xs) = length xs"
  by (simp add: group4_def upt_4) presburger

lemma group4_nth:
  assumes "i < length xs div 4" and "j < 4"
  shows "group4 xs ! (i + j * (length xs div 4)) = xs ! (4 * i + j)"
proof -
  from assms(2) have "j = 0 \<or> j = 1 \<or> j = 2 \<or> j = 3" by arith
  then show ?thesis using assms(1) by (elim disjE) (simp_all add: group4_def upt_4 nth_append)
qed

lemma fours_cover:
  assumes "4 * k \<le> length xs"
  shows "concat (map (\<lambda>i. map (\<lambda>j. xs ! (4 * i + j)) [0..<4]) [0..<k]) = take (4 * k) xs"
  using assms
proof (induction k)
  case 0
  then show ?case by simp
next
  case (Suc k)
  have "take (4 * Suc k) xs = take (4 * k) xs @ take 4 (drop (4 * k) xs)"
    by (simp add: take_add [symmetric] add.commute)
  moreover have "take 4 (drop (4 * k) xs) = map (\<lambda>j. xs ! (4 * k + j)) [0..<4]"
    using Suc.prems by (intro nth_equalityI) auto
  ultimately show ?case using Suc by simp
qed

lemma undo_group4:
  assumes "length xs mod 4 = 0"
  shows "copy_bytes (group_moves (length xs div 4)) (group4 xs) (replicate (length xs) 0) = xs"
proof -
  let ?g = "length xs div 4"
  have len: "4 * ?g = length xs" using assms by presburger
  have "copy_bytes (group_moves ?g) (group4 xs) (replicate (length xs) 0) = map (\<lambda>m. group4 xs ! fst m) (moves_upto ?g ?g)"
    using copy_in_order [of "moves_upto ?g ?g" 0 "replicate (length xs) 0" "group4 xs"] moves_upto_shape [of ?g ?g]
      moves_upto_sources [of _ ?g ?g] len length_group4 [OF assms]
    by (simp add: group_moves_upto)
  also have "\<dots> = concat (map (\<lambda>i. map (\<lambda>j. group4 xs ! (i + j * ?g)) [0..<4]) [0..<?g])"
    by (simp add: moves_upto_def map_concat comp_def)
  also have "\<dots> = concat (map (\<lambda>i. map (\<lambda>j. xs ! (4 * i + j)) [0..<4]) [0..<?g])"
    using group4_nth [of _ xs] by (intro arg_cong [of _ _ concat] map_cong) auto
  also have "\<dots> = take (4 * ?g) xs" using len by (intro fours_cover) simp
  finally show ?thesis using len by simp
qed

text \<open>
  For a length divisible by four, undoing the grouping gives back the bytes that were grouped, cut to the expected size.
\<close>

theorem grouping_undone:
  assumes "length xs mod 4 = 0"
  shows "undoByteGrouping4 (group4 xs) expectedSize = (if expectedSize > 0 then take expectedSize xs else xs)"
  using undo_group4 [OF assms] length_group4 [OF assms] assms
  by (cases "xs = []") (auto simp: undoByteGrouping4_def Let_def group4_def)

lemma grouping_undone_witness:
  "undoByteGrouping4 (group4 [1, 2, 3, 4, 5, 6, 7, 8]) 7 = [1, 2, 3, 4, 5, 6, 7]"
  using grouping_undone [of "[1, 2, 3, 4, 5, 6, 7, 8]" 7] by simp

text \<open>
  For any other length above four the result repeats a byte: the first of the remaining bytes is always the second of the
  file. So whatever grouped form of the same length is decoded, a file in which these two bytes differ is not restored.
\<close>

lemma rest_moves_shape: "map snd (rest_moves g r) = [4 * g..<4 * g + r] \<and> length (rest_moves g r) = r"
  by (induction r) (simp_all add: rest_moves_def)

lemma undo_partial_repeats:
  assumes "length bs mod 4 \<noteq> 0" and "4 < length bs"
  shows "undoByteGrouping4 bs (length bs) ! (4 * (length bs div 4)) = undoByteGrouping4 bs (length bs) ! 1"
proof -
  let ?n = "length bs" and ?g = "length bs div 4" and ?r = "length bs mod 4"
  let ?r1 = "copy_bytes (group_moves ?g) bs (replicate ?n 0)"
  have g: "0 < ?g" and n: "?n = 4 * ?g + ?r" using assms by presburger+
  have groups: "?r1 = map (\<lambda>m. bs ! fst m) (moves_upto ?g ?g) @ replicate ?r 0"
  proof -
    have "\<forall>m \<in> set (moves_upto ?g ?g). fst m < ?n" using moves_upto_sources [of _ ?g ?g] n by fastforce
    moreover have "?n - 4 * ?g = ?r" "4 * ?g \<le> ?n" by (simp_all add: minus_mult_div_eq_mod)
    ultimately show ?thesis
      using copy_in_order [of "moves_upto ?g ?g" 0 "replicate ?n 0" bs] moves_upto_shape [of ?g ?g]
      by (simp add: group_moves_upto)
  qed
  have "j < ?r \<Longrightarrow> ?g + j * ?g < ?n" for j
  proof -
    assume "j < ?r"
    then have "j \<le> 2" by presburger
    then have "j * ?g \<le> 2 * ?g" by (rule mult_le_mono1)
    then show ?thesis using g n by linarith
  qed
  then have rest: "copy_bytes (rest_moves ?g ?r) bs ?r1
      = take (4 * ?g) ?r1 @ map (\<lambda>m. bs ! fst m) (rest_moves ?g ?r) @ drop (4 * ?g + ?r) ?r1"
    using copy_in_order [of "rest_moves ?g ?r" "4 * ?g" ?r1 bs] n rest_moves_shape [of ?g ?r]
    by (auto simp: rest_moves_def)
  obtain s where sources: "moves_upto ?g ?g = (0, 0) # (?g, 1) # s"
    using g by (cases ?g) (simp_all add: moves_upto_def upt_4 upt_conv_Cons del: upt_Suc)
  have first: "take (4 * ?g) ?r1 ! 1 = bs ! ?g" using g by (simp add: groups sources nth_append)
  have shape: "length (take (4 * ?g) ?r1) = 4 * ?g" using n by simp
  obtain rs where rm: "rest_moves ?g ?r = (?g, ?g * 4) # rs"
    using assms(1) by (cases ?r) (simp_all add: rest_moves_def upt_conv_Cons del: upt_Suc)
  have "copy_bytes (rest_moves ?g ?r) bs ?r1 ! (4 * ?g) = bs ! ?g"
    unfolding rest by (simp only: nth_append shape) (simp add: rm)
  moreover have "copy_bytes (rest_moves ?g ?r) bs ?r1 ! 1 = bs ! ?g"
    using g first shape by (simp add: rest nth_append)
  moreover have "undoByteGrouping4 bs ?n = copy_bytes (rest_moves ?g ?r) bs ?r1"
    using assms by (auto simp: undoByteGrouping4_def undoByteGrouping4Partial_def Let_def)
  ultimately show ?thesis by simp
qed

text \<open>
  Whatever a file of more than four bytes and of a length not divisible by four is grouped to, undoing the grouping does not
  give the file back, if its second byte differs from the first of its last, incomplete group: that byte is copied twice.
\<close>

theorem odd_sizes_garbled:
  assumes "length grouped = length file" and "length file mod 4 \<noteq> 0" and "4 < length file"
    and "file ! (4 * (length file div 4)) \<noteq> file ! 1"
  shows "undoByteGrouping4 grouped (length file) \<noteq> file"
  using undo_partial_repeats [of grouped] assms by metis

lemma odd_sizes_garbled_witness: "undoByteGrouping4 [1, 3, 4, 5, 2] 5 \<noteq> [1, 3, 4, 5, 2]"
proof -
  let ?f = "[1, 3, 4, 5, 2] :: byte list"
  have "undoByteGrouping4 ?f (length ?f) \<noteq> ?f" by (rule odd_sizes_garbled) simp_all
  moreover have "length ?f = 5" by simp
  ultimately show ?thesis by metis
qed

section \<open>Chunks of a xorb\<close>

definition encode_chunk :: "ChunkHeader \<times> byte list \<Rightarrow> byte list" where
  "encode_chunk c = Serialize (fst c) @ snd c"

text \<open>A chunk whose header describes its bytes, which decompress to \<open>plain_bytes\<close>.\<close>

definition chunk_ok :: "lz4_decoder \<Rightarrow> ChunkHeader \<times> byte list \<Rightarrow> byte list \<Rightarrow> bool" where
  "chunk_ok lz4 c plain_bytes \<longleftrightarrow> hdr_CompressedSize (fst c) = of_nat (length (snd c)) \<and> length (snd c) < 2 ^ 24
     \<and> take_bit 24 (hdr_UncompressedSize (fst c)) = hdr_UncompressedSize (fst c)
     \<and> Decompress lz4 (fst c) (snd c) = Some plain_bytes"

lemma length_Serialize [simp]: "length (Serialize h) = 8"
  by (simp add: Serialize_def write24_def)

lemma parse_serialized:
  assumes "chunk_ok lz4 (h, cs) p"
  shows "ParseChunkHeader (take 8 (Serialize h @ rest)) = Some h" and "unat (hdr_CompressedSize h) = length cs"
proof -
  from assms have size: "hdr_CompressedSize h = of_nat (length cs)" "length cs < 2 ^ 24"
    and u: "take_bit 24 (hdr_UncompressedSize h) = hdr_UncompressedSize h" by (simp_all add: chunk_ok_def)
  show n: "unat (hdr_CompressedSize h) = length cs"
    using size by (simp add: unat_of_nat take_bit_nat_eq_self)
  have "take_bit 24 (hdr_CompressedSize h) = hdr_CompressedSize h"
    using size by (simp add: take_bit_of_nat take_bit_nat_eq_self)
  with header_roundtrip_aux [of h "[]"] u show "ParseChunkHeader (take 8 (Serialize h @ rest)) = Some h" by simp
qed

lemma Next_encoded:
  assumes "chunk_ok lz4 (h, cs) p"
  shows "Next \<lparr>it_data = pre @ encode_chunk (h, cs) @ rest, it_offset = length pre\<rparr>
    = (ChunkOf h cs, \<lparr>it_data = pre @ encode_chunk (h, cs) @ rest, it_offset = length (pre @ encode_chunk (h, cs))\<rparr>)"
  using parse_serialized [OF assms] by (simp add: Next_def Let_def ChunkHeaderSize_def encode_chunk_def)

text \<open>The chunks that an iterator yields, decompressed, up to the first error, and whether there was none.\<close>

function chunks_from :: "lz4_decoder \<Rightarrow> XorbIterator \<Rightarrow> byte list list \<times> bool" where
  "chunks_from lz4 it =
     (if \<not> HasNext it then ([], True)
      else case Next it of
        (NoMoreChunks, it') \<Rightarrow> ([], True)
      | (BeyondBoundary, it') \<Rightarrow> ([], False)
      | (ChunkOf h compressed, it') \<Rightarrow>
          (case Decompress lz4 h compressed of
             None \<Rightarrow> ([], False)
           | Some bs \<Rightarrow> (case chunks_from lz4 it' of (rest, ok) \<Rightarrow> (bs # rest, ok))))"
  by auto
termination
  by (relation "measure (\<lambda>(lz4, it). length (it_data it) - it_offset it)") (auto intro: Next_decreases)

declare chunks_from.simps [simp del]

text \<open>Both loops run over these chunks: one appends them, the other offers them to the writer one by one.\<close>

lemma extract_loop_chunks:
  "extract_loop lz4 it result = (case chunks_from lz4 it of (bss, ok) \<Rightarrow> if ok then Some (result @ concat bss) else None)"
  by (induction lz4 it result rule: extract_loop.induct, subst extract_loop.simps, subst chunks_from.simps)
    (auto split: prod.splits next_chunk.splits option.splits)

fun write_all :: "(byte list \<Rightarrow> byte list \<Rightarrow> bool) \<Rightarrow> byte list \<Rightarrow> byte list list \<Rightarrow> byte list \<times> bool" where
  "write_all accepts sofar [] = (sofar, True)"
| "write_all accepts sofar (b # bs) =
     (if accepts sofar b then write_all accepts (sofar @ b) bs else (sofar, False))"

lemma write_loop_chunks:
  "write_loop lz4 accepts it written =
     (case chunks_from lz4 it of (bss, ok) \<Rightarrow> case write_all accepts written bss of (w, taken) \<Rightarrow> (w, taken \<and> ok))"
  by (induction lz4 accepts it written rule: write_loop.induct, subst write_loop.simps, subst chunks_from.simps)
    (auto split: prod.splits next_chunk.splits option.splits)

lemma chunks_from_step:
  "HasNext it \<Longrightarrow> Next it = (ChunkOf h cs, it') \<Longrightarrow> Decompress lz4 h cs = Some p \<Longrightarrow> chunks_from lz4 it' = (ps, ok)
    \<Longrightarrow> chunks_from lz4 it = (p # ps, ok)"
  by (simp add: chunks_from.simps [of lz4 it])

lemma chunks_from_encoded:
  assumes "list_all2 (chunk_ok lz4) cs plains" and "length trail < 8"
  shows "chunks_from lz4 \<lparr>it_data = pre @ concat (map encode_chunk cs) @ trail, it_offset = length pre\<rparr> = (plains, True)"
  using assms(1)
proof (induction cs plains arbitrary: pre rule: list_all2_induct)
  case Nil
  then show ?case
    using assms(2) by (simp add: chunks_from.simps HasNext_def ChunkHeaderSize_def)
next
  case (Cons c cs p plains)
  obtain h bs where c: "c = (h, bs)" by fastforce
  let ?rest = "concat (map encode_chunk cs) @ trail"
  have "HasNext \<lparr>it_data = pre @ encode_chunk (h, bs) @ ?rest, it_offset = length pre\<rparr>"
    by (simp add: HasNext_def ChunkHeaderSize_def encode_chunk_def)
  moreover have "Decompress lz4 h bs = Some p" and "chunk_ok lz4 (h, bs) p" using Cons(1) by (simp_all add: chunk_ok_def c)
  moreover have "chunks_from lz4 \<lparr>it_data = pre @ encode_chunk (h, bs) @ ?rest, it_offset = length (pre @ encode_chunk (h, bs))\<rparr>
      = (plains, True)"
    using Cons.IH [of "pre @ encode_chunk c"] by (simp add: c)
  ultimately show ?case using chunks_from_step [OF _ Next_encoded] by (simp add: c)
qed

text \<open>
  C33. A xorb is read back chunk by chunk: iterating over the serialized chunks yields their decompressed bytes in order and
  ends without an error, so that the loop of \<open>extractChunks\<close> appends exactly their contents; up to seven bytes behind the last chunk are
  ignored.
\<close>

theorem xorb_roundtrip:
  assumes "list_all2 (chunk_ok lz4) cs plains" and "length trail < 8"
  shows "chunks_from lz4 (NewXorbIterator (concat (map encode_chunk cs) @ trail)) = (plains, True)
    \<and> extract_loop lz4 (NewXorbIterator (concat (map encode_chunk cs) @ trail)) result = Some (result @ concat plains)"
  using chunks_from_encoded [OF assms, of "[]"] by (simp add: NewXorbIterator_def extract_loop_chunks)

definition raw_chunk :: "byte list \<Rightarrow> ChunkHeader \<times> byte list" where
  "raw_chunk bs = (\<lparr>hdr_Version = 0, hdr_CompressedSize = of_nat (length bs), hdr_CompressionType = CompressionNone,
     hdr_UncompressedSize = 0\<rparr>, bs)"

lemma raw_chunk_ok: "length bs < 2 ^ 24 \<Longrightarrow> chunk_ok lz4 (raw_chunk bs) bs"
  by (simp add: chunk_ok_def raw_chunk_def Decompress_def)

lemma xorb_roundtrip_witness:
  "chunks_from (\<lambda>b. None) (NewXorbIterator (concat (map encode_chunk [raw_chunk [1, 2], raw_chunk [3]]) @ [0])) = ([[1, 2], [3]], True)"
  by (rule xorb_roundtrip [THEN conjunct1]) (simp_all add: raw_chunk_ok)

section \<open>Reconstruction\<close>

definition all_accepted :: "byte list \<Rightarrow> byte list \<Rightarrow> bool" where "all_accepted sofar b = True"

lemma write_all_accepted [simp]: "write_all all_accepted sofar bss = (sofar @ concat bss, True)"
  by (induction bss arbitrary: sofar) (simp_all add: all_accepted_def)

lemma extract_to_writer:
  "case extractChunks lz4 xorb r of
     Inl p \<Rightarrow> extractChunksToWriter lz4 all_accepted xorb r sofar = Inl p
   | Inr (Some bs) \<Rightarrow> extractChunksToWriter lz4 all_accepted xorb r sofar = Inr (sofar @ bs, True)
   | Inr None \<Rightarrow> \<exists>w. extractChunksToWriter lz4 all_accepted xorb r sofar = Inr (w, False)"
  by (simp add: extractChunksToWriter_def extractChunks_def extract_loop_chunks write_loop_chunks
      split: sum.split prod.split)

text \<open>A result of the writer that agrees with one of the buffer: the same panic, the same failure, the same bytes.\<close>

fun agrees :: "byte list option may_panic \<Rightarrow> (byte list \<times> bool) may_panic \<Rightarrow> bool" where
  "agrees (Inl p) w = (w = Inl p)"
| "agrees (Inr (Some bs)) w = (w = Inr (bs, True))"
| "agrees (Inr None) w = (\<exists>written. w = Inr (written, False))"

lemma terms_writer_agrees: "agrees (terms_loop W infos i ts result) (terms_to_writer W all_accepted infos i ts result)"
proof (induction ts arbitrary: i result)
  case Nil
  then show ?case by simp
next
  case (Cons t ts)
  show ?case
  proof (cases "\<exists>fs xorb. map_of infos (tm_Hash t) = Some fs \<and> fetchXorbData W i fs = Some xorb")
    case False
    then show ?thesis by (auto split: option.splits)
  next
    case True
    then obtain fs xorb where f: "map_of infos (tm_Hash t) = Some fs" "fetchXorbData W i fs = Some xorb" by blast
    show ?thesis
    proof (cases "extractChunks (xw_lz4 W) xorb (tm_Range t)")
      case (Inl p)
      with f extract_to_writer [of "xw_lz4 W" xorb "tm_Range t" result] show ?thesis by simp
    next
      case (Inr r)
      with f Cons [of "Suc i"] extract_to_writer [of "xw_lz4 W" xorb "tm_Range t" result] show ?thesis
        by (cases r) auto
    qed
  qed
qed

text \<open>
  C35. Streaming and buffering agree: a writer that takes everything receives exactly the bytes that the buffered reconstruction
  returns, and the two panic or fail in the same cases, except that the buffered one panics for an announced size that is negative or
  cannot be allocated; the streaming one does not look at it and then does what the terms say.
\<close>

theorem writer_agrees:
  "let size = sint (total_size (rc_Terms recon)) in
   if size < 0 \<or> xw_make_limit W < size
   then reconstruct W i recon = Inl SliceOutOfRange
     \<and> agrees (terms_loop W (rc_FetchInfo recon) i (rc_Terms recon) []) (reconstructToWriter W all_accepted i recon)
   else agrees (reconstruct W i recon) (reconstructToWriter W all_accepted i recon)"
  using terms_writer_agrees [of W "rc_FetchInfo recon" i "rc_Terms recon" "[]"]
  by (simp add: reconstruct_def reconstructToWriter_def Let_def)

text \<open>A term for which the server delivers chunks that decompress to \<open>piece\<close>.\<close>

definition honest_term ::
  "xet_world \<Rightarrow> (string, XetFetchInfo list) go_map \<Rightarrow> nat \<Rightarrow> ReconstructionTerm \<Rightarrow> byte list \<Rightarrow> bool" where
  "honest_term W infos i t piece \<longleftrightarrow> (\<exists>f fs xorb cs plains.
     map_of infos (tm_Hash t) = Some (f # fs) \<and> FetchXorbFromFetchInfo W i f = Some xorb
     \<and> slice_expr xorb (br_Start (tm_Range t)) (br_End (tm_Range t)) = Inr (concat (map encode_chunk cs))
     \<and> list_all2 (chunk_ok (xw_lz4 W)) cs plains \<and> piece = concat plains)"

lemma honest_extract:
  assumes "honest_term W infos i t piece"
  shows "\<exists>fs xorb. map_of infos (tm_Hash t) = Some fs \<and> fetchXorbData W i fs = Some xorb
    \<and> extractChunks (xw_lz4 W) xorb (tm_Range t) = Inr (Some piece)"
proof -
  from assms obtain f fs xorb cs plains where h: "map_of infos (tm_Hash t) = Some (f # fs)"
    "FetchXorbFromFetchInfo W i f = Some xorb"
    "slice_expr xorb (br_Start (tm_Range t)) (br_End (tm_Range t)) = Inr (concat (map encode_chunk cs))"
    "list_all2 (chunk_ok (xw_lz4 W)) cs plains" "piece = concat plains"
    unfolding honest_term_def by blast
  then have "chunks_from (xw_lz4 W) (NewXorbIterator (concat (map encode_chunk cs))) = (plains, True)"
    using chunks_from_encoded [OF h(4), of "[]" "[]"] by (simp add: NewXorbIterator_def)
  with h(3,5) have "extractChunks (xw_lz4 W) xorb (tm_Range t) = Inr (Some piece)" by (simp add: extractChunks_def extract_loop_chunks)
  with h(1,2) show ?thesis by (intro exI [of _ "f # fs"] exI [of _ xorb]) (simp add: fetchXorbData_def)
qed

lemma terms_loop_honest:
  assumes "length pieces = length ts" and "\<forall>k < length ts. honest_term W infos (i + k) (ts ! k) (pieces ! k)"
  shows "terms_loop W infos i ts result = Inr (Some (result @ concat pieces))"
  using assms
proof (induction ts arbitrary: i pieces result)
  case Nil
  then show ?case by simp
next
  case (Cons t ts)
  obtain p ps where pieces: "pieces = p # ps" using Cons.prems(1) by (cases pieces) auto
  have "honest_term W infos i t p" using Cons.prems(2) by (force simp: pieces)
  then obtain fs xorb where "map_of infos (tm_Hash t) = Some fs" "fetchXorbData W i fs = Some xorb"
    "extractChunks (xw_lz4 W) xorb (tm_Range t) = Inr (Some p)" using honest_extract by blast
  moreover have "\<forall>k < length ts. honest_term W infos (Suc i + k) (ts ! k) (ps ! k)"
    using Cons.prems(2) by (auto simp: pieces dest: spec [of _ "Suc _"])
  ultimately show ?case
    using Cons.IH [of ps "Suc i" "result @ p"] Cons.prems(1) by (simp add: pieces)
qed

text \<open>
  C34. A file is put together from its pieces: if for every term the server delivers chunks that decompress to its piece, the
  reconstruction is the concatenation of the pieces in the order of the terms.
\<close>

theorem reconstruction_complete:
  assumes "length pieces = length (rc_Terms recon)"
    and "\<forall>k < length (rc_Terms recon). honest_term W (rc_FetchInfo recon) (i + k) (rc_Terms recon ! k) (pieces ! k)"
    and "0 \<le> sint (total_size (rc_Terms recon))" and "sint (total_size (rc_Terms recon)) \<le> xw_make_limit W"
  shows "reconstruct W i recon = Inr (Some (concat pieces))"
  using terms_loop_honest [OF assms(1,2), of "[]"] assms(3,4) by (simp add: reconstruct_def Let_def)

text \<open>A server for the witnesses: every body is one raw chunk, every JSON text decodes to the same answer.\<close>

definition demo_range :: "int64 \<Rightarrow> ByteRange" where "demo_range e = \<lparr>br_Start = 0, br_End = e\<rparr>"

definition demo_recon :: "int64 \<Rightarrow> ReconstructionResponse" where
  "demo_recon e = \<lparr>rc_OffsetIntoFirstRange = 0, rc_Terms = [\<lparr>tm_Hash = ''h'', tm_UnpackedLength = 3, tm_Range = demo_range e\<rparr>],
     rc_FetchInfo = [(''h'', [\<lparr>xf_URL = ''x'', xf_URLRange = demo_range 11, xf_Range = demo_range 1\<rparr>])]\<rparr>"

definition demo_xet :: "int64 \<Rightarrow> xet_world" where
  "demo_xet e = \<lparr>xw_http = (\<lambda>i follow rq. Some \<lparr>xr_Status = 200, xr_XetHash = ''h'', xr_Location = '''',
       xr_Body = encode_chunk (raw_chunk [7, 8, 9]), xr_Clean = True\<rparr>),
     xw_decode_auth = (\<lambda>b. Some \<lparr>au_Token = ''t'', au_ExpiresAt = 1000000000000\<rparr>), xw_decode_recon = (\<lambda>b. Some (demo_recon e)),
     xw_spare = (\<lambda>i. []), xw_lz4 = (\<lambda>b. None), xw_clock = int, xw_make_limit = 1000000\<rparr>"

lemma demo_fetch:
  "FetchXorbFromFetchInfo (demo_xet e) i f = Some (encode_chunk (raw_chunk [7, 8, 9]), [])"
  by (simp add: FetchXorbFromFetchInfo_def FetchXorbRange_def demo_xet_def)

lemma demo_total [simp]: "total_size (rc_Terms (demo_recon e)) = 3"
  by (simp add: total_size_def demo_recon_def)

lemma length_raw_chunk [simp]: "length (encode_chunk (raw_chunk bs)) = 8 + length bs"
  by (simp add: encode_chunk_def raw_chunk_def)

lemma reconstruction_complete_witness: "reconstruct (demo_xet 11) 0 (demo_recon 11) = Inr (Some [7, 8, 9])"
proof -
  have "honest_term (demo_xet 11) (rc_FetchInfo (demo_recon 11)) 0 (rc_Terms (demo_recon 11) ! 0) [7, 8, 9]"
    unfolding honest_term_def
    by (rule exI, rule exI, rule exI, rule exI [of _ "[raw_chunk [7, 8, 9]]"], rule exI [of _ "[[7, 8, 9]]"])
      (auto simp: demo_fetch demo_recon_def demo_range_def slice_expr_def raw_chunk_ok)
  moreover have "length (rc_Terms (demo_recon 11)) = 1" by (simp add: demo_recon_def)
  moreover have "xw_make_limit (demo_xet 11) = 1000000" by (simp add: demo_xet_def)
  ultimately show ?thesis using reconstruction_complete [of "[[7, 8, 9]]" "demo_recon 11" "demo_xet 11" 0] by simp
qed

lemma writer_agrees_witness:
  "agrees (reconstruct (demo_xet 11) 0 (demo_recon 11)) (reconstructToWriter (demo_xet 11) all_accepted 0 (demo_recon 11))"
proof -
  have "xw_make_limit (demo_xet 11) = 1000000" by (simp add: demo_xet_def)
  then show ?thesis using writer_agrees [of "demo_recon 11" "demo_xet 11" 0] by simp
qed

text \<open>A range that ends behind the capacity of the xorb panics.\<close>

lemma range_beyond_panics:
  assumes "rc_Terms recon = t # ts" and "0 \<le> sint (total_size (rc_Terms recon))"
    and "sint (total_size (rc_Terms recon)) \<le> xw_make_limit W" and "map_of (rc_FetchInfo recon) (tm_Hash t) = Some (f # fs)"
    and "FetchXorbFromFetchInfo W i f = Some (bs, spare)"
    and "int (length bs + length spare) < sint (br_End (tm_Range t))"
  shows "reconstruct W i recon = Inl SliceOutOfRange"
  using assms by (auto simp: reconstruct_def Let_def fetchXorbData_def extractChunks_def slice_expr_def)

section \<open>Tokens\<close>

text \<open>
  A token that was fetched is reused until five minutes before it expires: whatever the server would answer then, the
  later call returns the same token and leaves the client as it is.
\<close>

theorem token_reused:
  assumes "getAuthToken W i c = (Some tok, c')" and "xc_token c = ''''" and "xc_cachedAuth c' = Some auth"
    and "xw_clock W' j + 300000000000 < au_ExpiresAt auth"
  shows "getAuthToken W' j c' = (Some tok, c')"
  using assms by (auto simp: getAuthToken_def Let_def split: option.splits if_splits)

lemma token_reused_witness:
  "getAuthToken ((demo_xet 11)\<lparr>xw_http := \<lambda>i follow rq. None\<rparr>) 5 (snd (getAuthToken (demo_xet 11) 0 (NewXetClient [])))
     = (Some ''t'', snd (getAuthToken (demo_xet 11) 0 (NewXetClient [])))"
proof -
  let ?c = "NewXetClient []"
  let ?auth = "\<lparr>au_Token = ''t'', au_ExpiresAt = 1000000000000\<rparr>"
  have "getAuthToken (demo_xet 11) 0 ?c = (Some ''t'', ?c\<lparr>xc_cachedAuth := Some ?auth\<rparr>)" and t: "xc_token ?c = ''''"
    by (simp_all add: getAuthToken_def fetchAuthToken_def demo_xet_def NewXetClient_def)
  moreover have "xw_clock ((demo_xet 11)\<lparr>xw_http := \<lambda>i follow rq. None\<rparr>) 5 = 5" by (simp add: demo_xet_def)
  ultimately show ?thesis
    using token_reused [of "demo_xet 11" 0 ?c "''t''" "?c\<lparr>xc_cachedAuth := Some ?auth\<rparr>" ?auth
        "(demo_xet 11)\<lparr>xw_http := \<lambda>i follow rq. None\<rparr>" 5] by simp
qed

section \<open>Hub URLs\<close>

lemma takeWhile_sep: "sep \<notin> set w \<Longrightarrow> takeWhile (\<lambda>c. c \<noteq> sep) (w @ sep # s) = w"
  by (induction w) auto

lemma dropWhile_sep: "sep \<notin> set w \<Longrightarrow> dropWhile (\<lambda>c. c \<noteq> sep) (w @ sep # s) = sep # s"
  by (induction w) auto

lemma SplitN_step: "sep \<notin> set w \<Longrightarrow> SplitN sep (Suc (Suc n)) (w @ sep # s) = w # SplitN sep (Suc n) s"
  by (simp add: takeWhile_sep dropWhile_sep)

lemma SplitN_last: "SplitN sep (Suc 0) s = [s]"
  by simp

lemma no_host_prefix:
  assumes "CHR ''/'' \<notin> set w" and "w \<noteq> ''hf.co''"
  shows "TrimPrefix (w @ CHR ''/'' # s) ''hf.co/'' = w @ CHR ''/'' # s"
proof -
  have "\<not> HasPrefix (w @ CHR ''/'' # s) ''hf.co/''"
  proof
    assume "HasPrefix (w @ CHR ''/'' # s) ''hf.co/''"
    then obtain r where "w @ CHR ''/'' # s = ''hf.co/'' @ r" unfolding HasPrefix_def by (metis append_take_drop_id)
    then have "w @ CHR ''/'' # s = ''hf.co'' @ CHR ''/'' # r" by simp
    then have "w = ''hf.co''" using assms(1) append_sep_inject [of "CHR ''/''" w "''hf.co''" s r] by simp
    with assms(2) show False by simp
  qed
  then show ?thesis by (simp add: TrimPrefix_def)
qed

text \<open>
  The URL that a parsed URL prints is parsed back to it, if no part before the path contains a slash and the namespace is
  not taken for the short name of the host.
\<close>

theorem url_roundtrip:
  assumes "CHR ''/'' \<notin> set (hu_Namespace u)" and "CHR ''/'' \<notin> set (hu_Repo u)" and "CHR ''/'' \<notin> set (hu_Branch u)"
    and "hu_Namespace u \<noteq> ''hf.co''"
  shows "ParseHuggingFaceURL (url_String u) = Some u"
proof -
  let ?path = "hu_Branch u @ CHR ''/'' # hu_FilePath u"
  let ?rest = "hu_Namespace u @ CHR ''/'' # hu_Repo u @ CHR ''/'' # ''resolve'' @ CHR ''/'' # ?path"
  have url: "url_String u = ''https://'' @ ''huggingface.co/'' @ ?rest" by (simp add: url_String_def)
  have "TrimPrefix (TrimPrefix (TrimPrefix (url_String u) ''https://'') ''http://'') ''huggingface.co/'' = ?rest"
    unfolding url by (simp add: TrimPrefix_def HasPrefix_def)
  then have "TrimPrefix (TrimPrefix (TrimPrefix (TrimPrefix (url_String u) ''https://'') ''http://'') ''huggingface.co/'') ''hf.co/'' = ?rest"
    using no_host_prefix [OF assms(1,4)] by simp
  moreover have "SplitN (CHR ''/'') 4 ?rest = [hu_Namespace u, hu_Repo u, ''resolve'', ?path]"
  proof -
    have four: "(4 :: nat) = Suc (Suc (Suc (Suc 0)))" and r: "CHR ''/'' \<notin> set ''resolve''" by simp_all
    show ?thesis
      by (simp only: four SplitN_step [OF assms(1)] SplitN_step [OF assms(2)] SplitN_step [OF r] SplitN_last)
  qed
  moreover have "SplitN (CHR ''/'') 2 ?path = [hu_Branch u, hu_FilePath u]"
    by (simp only: numeral_2_eq_2 SplitN_step [OF assms(3)] SplitN_last)
  moreover have "\<not> HasPrefix (url_String u) ''hf://''" unfolding url by (simp add: HasPrefix_def)
  ultimately show ?thesis by (simp add: ParseHuggingFaceURL_def Let_def)
qed

lemma url_roundtrip_witness:
  "ParseHuggingFaceURL (url_String \<lparr>hu_Namespace = ''org'', hu_Repo = ''m'', hu_Branch = ''main'', hu_FilePath = ''a/b.gguf''\<rparr>)
     = Some \<lparr>hu_Namespace = ''org'', hu_Repo = ''m'', hu_Branch = ''main'', hu_FilePath = ''a/b.gguf''\<rparr>"
  by (rule url_roundtrip) simp_all

end
