(* ===== verification/Downloads.thy ===== *)
theory Downloads
  imports Download_Manager Xet_Download
begin

text \<open>
  The download of a model, \<open>downloadFile\<close> and \<open>performDownload\<close> of \<open>internal/download/manager.go\<close>, from the moment the
  goroutine holds a slot of the semaphore. The Xet downloader is tried first and may panic; nothing recovers in that
  goroutine, so the panic is the result. The text of an error is what the environment says.
\<close>

record download_env =
  dl_storage :: storage
  dl_net :: network
  dl_xet :: xet_world
  dl_chunks :: "nat \<Rightarrow> chunk_world"
  dl_clock :: "nat \<Rightarrow> go_time"
  dl_cancelled :: "nat \<Rightarrow> bool"
  dl_fl :: float_rounding
  dl_error :: "nat \<Rightarrow> string"

section \<open>One file\<close>

text \<open>Owner and name of a repository, or the whole twice.\<close>

definition split_repo :: "string \<Rightarrow> string \<times> string" where
  "split_repo repo = (case SplitN (CHR ''/'') 2 repo of [a, b] \<Rightarrow> (a, b) | _ \<Rightarrow> (repo, repo))"

definition xet_options :: "DownloadSpec \<Rightarrow> string \<Rightarrow> string \<Rightarrow> DownloadOptions" where
  "xet_options spec filePath localPath =
     \<lparr>xo_Namespace = fst (split_repo (sp_Repo spec)), xo_Repo = snd (split_repo (sp_Repo spec)),
      xo_Branch = (if sp_Branch spec = '''' then ''main'' else sp_Branch spec), xo_FilePath = filePath,
      xo_OutputPath = localPath, xo_FileID = ''''\<rparr>"

text \<open>A fresh direct download: the file is created anew and filled from offset zero.\<close>

definition direct_download ::
  "storage \<Rightarrow> network \<Rightarrow> Config \<Rightarrow> nat \<Rightarrow> string \<Rightarrow> string \<Rightarrow> string \<Rightarrow> disk \<Rightarrow> int64 option \<times> disk" where
  "direct_download S N c i repo filePath localPath d =
     (case os_Create S i localPath d of
        None \<Rightarrow> (None, d)
      | Some d1 \<Rightarrow>
          (case ResumeDownloadFile S N c i repo filePath 0 localPath d1 of
             (None, d2) \<Rightarrow> (None, d2)
           | (Some written, d2) \<Rightarrow> (if fault S i SyncFile localPath then None else Some written, d2)))"

text \<open>Without Xet: multipart, then resume, then afresh. \<open>None\<close> is an error.\<close>

definition plain_download ::
  "download_env \<Rightarrow> Config \<Rightarrow> nat \<Rightarrow> string \<Rightarrow> string \<Rightarrow> string \<Rightarrow> disk \<Rightarrow> int64 option \<times> disk" where
  "plain_download E c i repo filePath localPath d =
     (let S = dl_storage E; N = dl_net E in
      case chunkedDownload S N c (dl_chunks E i) (i + 1) repo filePath localPath d of
        (Inr n, d1) \<Rightarrow> (Some n, d1)
      | (Inl _, d1) \<Rightarrow>
          (case tryResumeDownload S N c (i + 2) repo filePath localPath d1 of
             (Some n, d2) \<Rightarrow> (Some n, d2)
           | (None, d2) \<Rightarrow> direct_download S N c (i + 3) repo filePath localPath d2))"

definition downloadFile ::
  "download_env \<Rightarrow> Config \<Rightarrow> nat \<Rightarrow> DownloadSpec \<Rightarrow> string \<Rightarrow> string \<Rightarrow> XetClient \<Rightarrow> disk
    \<Rightarrow> (int64 option \<times> XetClient \<times> disk) may_panic" where
  "downloadFile E c i spec filePath localPath x d =
     (case xetDownload (dl_storage E) (dl_xet E) i (xet_options spec filePath localPath) x d of
        (Inl p, x1, d1) \<Rightarrow> Inl p
      | (Inr True, x1, d1) \<Rightarrow> Inr (case os_Stat (dl_storage E) i localPath d1 of Inl _ \<Rightarrow> None | Inr n \<Rightarrow> Some n, x1, d1)
      | (Inr False, x1, d1) \<Rightarrow>
          (case plain_download E c i (sp_Repo spec) filePath localPath d1 of (r, d2) \<Rightarrow> Inr (r, x1, d2)))"

section \<open>All files of a model\<close>

text \<open>What the loop carries: the status, the sizes noted for the manifest, the bytes so far, the Xet client, the disk.\<close>

record progress =
  pr_status :: DownloadStatus
  pr_sizes :: "(string, int64) go_map"
  pr_bytes :: int64
  pr_xet :: XetClient
  pr_disk :: disk

text \<open>The status with the error, and no more files.\<close>

definition fail_with :: "download_env \<Rightarrow> nat \<Rightarrow> string \<Rightarrow> DownloadStatus \<Rightarrow> DownloadStatus" where
  "fail_with E i msg s = SetError (dl_clock E i) msg s"

text \<open>One turn of the loop: \<open>Inl\<close> where the download ends here with an error.\<close>

definition file_turn ::
  "download_env \<Rightarrow> Config \<Rightarrow> DownloadSpec \<Rightarrow> string \<Rightarrow> nat \<Rightarrow> string \<Rightarrow> nat \<Rightarrow> progress
    \<Rightarrow> (progress + progress) may_panic" where
  "file_turn E c spec destDir i f left p =
     (if dl_cancelled E i then Inr (Inl (p\<lparr>pr_status := fail_with E i ''download cancelled'' (pr_status p)\<rparr>))
      else
        (let s1 = UpdateFileProgress f 0 0 PhaseDownloading (pr_status p); localPath = Join [destDir, f] in
         case os_MkdirAll (dl_storage E) i (Dir localPath) (pr_disk p) of
           (Some e, d1) \<Rightarrow>
             Inr (Inl (p\<lparr>pr_status := fail_with E i (''failed to create directory for '' @ f @ '': '' @ dl_error E i) s1,
                         pr_disk := d1\<rparr>))
         | (None, d1) \<Rightarrow>
             (case downloadFile E c i spec f localPath (pr_xet p) d1 of
                Inl panic \<Rightarrow> Inl panic
              | Inr (None, x2, d2) \<Rightarrow>
                  Inr (Inl (p\<lparr>pr_status := fail_with E i (''failed to download '' @ f @ '': '' @ dl_error E i) s1,
                              pr_xet := x2, pr_disk := d2\<rparr>))
              | Inr (Some n, x2, d2) \<Rightarrow>
                  (let bytes = pr_bytes p + n;
                       s2 = SetProgress (dl_fl E) bytes (bytes + of_nat left * 1048576)
                              (UpdateFileProgress f n n PhaseComplete s1)
                   in Inr (Inr \<lparr>pr_status = s2, pr_sizes = AList.update f n (pr_sizes p), pr_bytes = bytes,
                                pr_xet = x2, pr_disk = d2\<rparr>)))))"

fun files_loop ::
  "download_env \<Rightarrow> Config \<Rightarrow> DownloadSpec \<Rightarrow> string \<Rightarrow> nat \<Rightarrow> string list \<Rightarrow> progress
    \<Rightarrow> (progress + progress) may_panic" where
  "files_loop E c spec destDir i [] p = Inr (Inr p)"
| "files_loop E c spec destDir i (f # fs) p =
     (case file_turn E c spec destDir i f (length fs) p of
        Inr (Inr p1) \<Rightarrow> files_loop E c spec destDir (i + 10) fs p1
      | stop \<Rightarrow> stop)"

text \<open>The checksums of the metadata, for the files downloaded; a later entry of the same name wins.\<close>

definition checksums_for :: "FileInfo list \<Rightarrow> string list \<Rightarrow> (string, string) go_map" where
  "checksums_for meta files =
     (let byName = fold (\<lambda>fi m. if fi_SHA256 fi \<noteq> '''' then AList.update (fi_Name fi) (fi_SHA256 fi) m else m) meta []
      in fold (\<lambda>f m. case map_of byName f of Some h \<Rightarrow> AList.update f h m | None \<Rightarrow> m) files [])"

fun first_mismatch ::
  "storage \<Rightarrow> nat \<Rightarrow> string \<Rightarrow> (string, string) go_map \<Rightarrow> disk \<Rightarrow> string option" where
  "first_mismatch S i destDir [] d = None"
| "first_mismatch S i destDir ((f, h) # hashes) d =
     (if VerifyChecksum S i (Join [destDir, f]) h d then first_mismatch S i destDir hashes d else Some f)"

definition file_hashes :: "download_env \<Rightarrow> Config \<Rightarrow> nat \<Rightarrow> DownloadSpec \<Rightarrow> string list \<Rightarrow> (string, string) go_map" where
  "file_hashes E c i spec files =
     (case GetFileMetadata (dl_net E) c i (sp_Repo spec) of None \<Rightarrow> [] | Some meta \<Rightarrow> checksums_for meta files)"

definition finish_download ::
  "download_env \<Rightarrow> Config \<Rightarrow> DownloadSpec \<Rightarrow> string \<Rightarrow> nat \<Rightarrow> string list \<Rightarrow> progress \<Rightarrow> DownloadStatus \<times> disk" where
  "finish_download E c spec destDir i files p =
     (let S = dl_storage E; d = pr_disk p; s = pr_status p; hashes = file_hashes E c i spec files in
      case first_mismatch S i destDir hashes d of
        Some f \<Rightarrow> (fail_with E i (''SHA256 verification failed for '' @ f @ '': '' @ dl_error E i) s, d)
      | None \<Rightarrow>
          (case WriteManifest S i destDir \<lparr>man_Files = pr_sizes p, man_Checksums = hashes\<rparr> d of
             (Some e, d1) \<Rightarrow> (fail_with E i (''failed to write manifest: '' @ dl_error E i) s, d1)
           | (None, d1) \<Rightarrow> (SetComplete (dl_clock E i) (SetProgress (dl_fl E) (pr_bytes p) (pr_bytes p) s), d1)))"

definition dest_dir :: "string \<Rightarrow> DownloadSpec \<Rightarrow> string \<Rightarrow> string" where
  "dest_dir cacheDir spec modelName =
     (if sp_DestDir spec = '''' then Join [cacheDir, ''models'', ReplaceAll modelName ''/'' ''--''] else sp_DestDir spec)"

definition performDownload ::
  "download_env \<Rightarrow> Config \<Rightarrow> string \<Rightarrow> nat \<Rightarrow> string \<Rightarrow> DownloadSpec \<Rightarrow> DownloadStatus \<Rightarrow> XetClient \<Rightarrow> disk
    \<Rightarrow> (DownloadStatus \<times> disk) may_panic" where
  "performDownload E c cacheDir i modelName spec s x d =
     (if dl_cancelled E i then Inr (fail_with E i ''download cancelled'' s, d)
      else
        (let s1 = SetPhase PhaseDownloading s; destDir = dest_dir cacheDir spec modelName in
         case os_MkdirAll (dl_storage E) i destDir d of
           (Some e, d1) \<Rightarrow> Inr (fail_with E i (''failed to create destination directory: '' @ dl_error E i) s1, d1)
         | (None, d1) \<Rightarrow>
             (case resolveFiles (ListFiles (dl_net E) c i (sp_Repo spec)) spec of
                Inl _ \<Rightarrow> Inr (fail_with E i (''failed to resolve files: '' @ dl_error E i) s1, d1)
              | Inr files \<Rightarrow>
                  if files = [] then Inr (fail_with E i ''no files to download'' s1, d1)
                  else
                    (let s2 = SetProgress (dl_fl E) 0 (of_nat (length files))
                                (fold (\<lambda>f. UpdateFileProgress f 0 0 PhasePending) files s1);
                         sizes = fold (\<lambda>f. AList.update f 0) files [] in
                     case files_loop E c spec destDir (i + 1) files
                            \<lparr>pr_status = s2, pr_sizes = sizes, pr_bytes = 0, pr_xet = x, pr_disk = d1\<rparr> of
                       Inl panic \<Rightarrow> Inl panic
                     | Inr (Inl p) \<Rightarrow> Inr (pr_status p, pr_disk p)
                     | Inr (Inr p) \<Rightarrow> Inr (finish_download E c spec destDir (i + 1 + 10 * length files) files p)))))"

end
