(* ===== verification/Fetching.thy ===== *)
theory Fetching
  imports Chunked_Properties Xet_Properties Downloads "HOL-Library.Sublist"
begin

text \<open>
  The contract of the ways to fetch a file (multipart, resumed, afresh, from Xet storage), as the locale \<open>fetcher\<close>: what is on
  disk under the name of a file is always a beginning of it, success means the whole file, and nothing else is touched.
  Every way keeps the contract towards an honest hub, and so do two ways tried in turn.
\<close>

section \<open>The contract\<close>

text \<open>The paths that the download of the file at \<open>l\<close> may touch.\<close>

definition area :: "string \<Rightarrow> string set" where
  "area l = {l, l @ ''.part''} \<union> range (partPath l)"

text \<open>The disk holds nothing under \<open>l\<close> but beginnings of \<open>remote\<close>, and parts that are right or of another size.\<close>

definition usable :: "string \<Rightarrow> byte list \<Rightarrow> disk \<Rightarrow> bool" where
  "usable l remote d \<longleftrightarrow> l \<noteq> '''' \<and> Dir l \<notin> area l \<and> (\<forall>bs. file_at d l = Some bs \<longrightarrow> prefix bs remote)
     \<and> (\<forall>ch \<in> set (computeChunks DefaultChunkSize (of_nat (length remote))). part_ok l (pieces remote) d ch)"

lemma usable_frame:
  assumes "usable l r d" and "\<And>q. q \<in> area l \<Longrightarrow> file_at d' q = file_at d q"
    and "\<And>q. q \<in> area l \<Longrightarrow> q \<in> set (directories d') \<Longrightarrow> q \<in> set (directories d)"
  shows "usable l r d'"
proof -
  have "partPath l k \<in> area l" "l \<in> area l" for k by (auto simp: area_def)
  with assms show ?thesis unfolding usable_def part_ok_def by metis
qed

locale fetcher =
  fixes fetches :: "'e \<Rightarrow> string \<Rightarrow> string \<Rightarrow> disk \<Rightarrow> int64 option \<Rightarrow> disk \<Rightarrow> bool"
    and honest :: "'e \<Rightarrow> string \<Rightarrow> byte list \<Rightarrow> bool"
  assumes gets: "honest e f r \<Longrightarrow> usable l r d \<Longrightarrow> fetches e f l d (Some n) d' \<Longrightarrow>
      file_at d' l = Some r \<and> n = of_nat (length r)"
    and keeps: "honest e f r \<Longrightarrow> usable l r d \<Longrightarrow> fetches e f l d res d' \<Longrightarrow> usable l r d'"
    and frame: "fetches e f l d res d' \<Longrightarrow> q \<notin> area l \<Longrightarrow> file_at d' q = file_at d q"
    and dirs: "fetches e f l d res d' \<Longrightarrow> set (directories d') \<subseteq> insert (Dir l) (set (directories d))"
begin

lemma other_file:
  assumes "fetches e f l d res d'" and "area l \<inter> area m = {}" and "Dir l \<notin> area m"
  shows "usable m r d \<Longrightarrow> usable m r d'" and "file_at d' m = file_at d m"
proof -
  have same: "file_at d' q = file_at d q" if "q \<in> area m" for q
    using frame [OF assms(1)] assms(2) that by blast
  then show "file_at d' m = file_at d m" by (simp add: area_def)
  assume "usable m r d"
  then show "usable m r d'"
    by (rule usable_frame) (use same dirs [OF assms(1)] assms(3) in auto)
qed

lemma complete_after_retry:
  assumes "honest e f r" and "usable l r d" and "fetches e f l d None d1" and "fetches e f l d1 (Some n) d'"
  shows "file_at d' l = Some r"
  using gets [OF assms(1) keeps [OF assms(1-3)] assms(4)] by simp

end

text \<open>The first way, and the second if the first fails.\<close>

definition orelse ::
  "('e \<Rightarrow> string \<Rightarrow> string \<Rightarrow> disk \<Rightarrow> int64 option \<Rightarrow> disk \<Rightarrow> bool)
    \<Rightarrow> ('e \<Rightarrow> string \<Rightarrow> string \<Rightarrow> disk \<Rightarrow> int64 option \<Rightarrow> disk \<Rightarrow> bool)
    \<Rightarrow> 'e \<Rightarrow> string \<Rightarrow> string \<Rightarrow> disk \<Rightarrow> int64 option \<Rightarrow> disk \<Rightarrow> bool" where
  "orelse F G e f l d res d' \<longleftrightarrow> res \<noteq> None \<and> F e f l d res d' \<or> (\<exists>d1. F e f l d None d1 \<and> G e f l d1 res d')"

locale two_fetchers = one: fetcher first honest + two: fetcher second honest
  for first second :: "'e \<Rightarrow> string \<Rightarrow> string \<Rightarrow> disk \<Rightarrow> int64 option \<Rightarrow> disk \<Rightarrow> bool" and honest
begin

sublocale either: fetcher "orelse first second" honest
proof
  fix e f r l d n d'
  assume h: "honest e f r" "usable l r d" and "orelse first second e f l d (Some n) d'"
  then show "file_at d' l = Some r \<and> n = of_nat (length r)"
    by (auto simp: orelse_def dest: one.gets [OF h] two.gets [OF h(1) one.keeps [OF h]])
next
  fix e f r l d res d'
  assume h: "honest e f r" "usable l r d" and "orelse first second e f l d res d'"
  then show "usable l r d'"
    by (auto simp: orelse_def dest: one.keeps [OF h] two.keeps [OF h(1) one.keeps [OF h]])
next
  fix e f l d res d' q
  assume "orelse first second e f l d res d'" and "q \<notin> area l"
  then show "file_at d' q = file_at d q"
    unfolding orelse_def by (metis one.frame two.frame)
next
  fix e f l d res d'
  assume "orelse first second e f l d res d'"
  then show "set (directories d') \<subseteq> insert (Dir l) (set (directories d))"
    by (auto simp: orelse_def dest!: one.dirs two.dirs)
qed

end

section \<open>An honest hub\<close>

text \<open>What the answer to a range should hold.\<close>

fun part_of :: "byte_range \<Rightarrow> byte list \<Rightarrow> byte list" where
  "part_of WholeBody r = r"
| "part_of (From off) r = drop (unat off) r"
| "part_of (Between a b) r = slice (unat a) (Suc (unat b)) r"

text \<open>
  The hub serves \<open>remote\<close>: an answer with the status for the range asked for has the bytes of that range, of which a
  broken connection may cut off the end; 416 is the answer only behind the end; the length announced is right.
\<close>

definition honest_hub :: "network \<Rightarrow> string \<Rightarrow> byte list \<Rightarrow> bool" where
  "honest_hub N url remote \<longleftrightarrow> length remote + 1073741824 < 2 ^ 63
     \<and> (\<forall>i token resp. http N i \<lparr>rq_Method = ''HEAD'', rq_URL = url, rq_Token = token, rq_Range = WholeBody\<rparr> = Some resp \<longrightarrow>
          rp_Status resp = 200 \<longrightarrow> rp_ContentLength resp = '''' \<or> ParseInt64 (rp_ContentLength resp) = Some (of_nat (length remote)))
     \<and> (\<forall>i token rg resp. http N i \<lparr>rq_Method = ''GET'', rq_URL = url, rq_Token = token, rq_Range = rg\<rparr> = Some resp \<longrightarrow>
          (rp_Status resp = 200 \<longrightarrow> rg = WholeBody) \<and> (rp_Status resp = 206 \<longrightarrow> rg \<noteq> WholeBody)
          \<and> (rp_Status resp = 416 \<longrightarrow> (\<exists>off. rg = From off \<and> length remote \<le> unat off))
          \<and> (rp_Status resp = 200 \<or> rp_Status resp = 206 \<longrightarrow>
              prefix (rp_Body resp) (part_of rg remote) \<and> (rp_Clean resp \<longrightarrow> rp_Body resp = part_of rg remote)))"

lemma honest_hub_get:
  assumes "honest_hub N url remote"
    and "http N i \<lparr>rq_Method = ''GET'', rq_URL = url, rq_Token = token, rq_Range = rg\<rparr> = Some resp"
  shows "rp_Status resp = 200 \<Longrightarrow> rg = WholeBody" and "rp_Status resp = 206 \<Longrightarrow> rg \<noteq> WholeBody"
    and "rp_Status resp = 416 \<Longrightarrow> \<exists>off. rg = From off \<and> length remote \<le> unat off"
    and "rp_Status resp = 200 \<or> rp_Status resp = 206 \<Longrightarrow> prefix (rp_Body resp) (part_of rg remote)"
    and "rp_Status resp = 200 \<or> rp_Status resp = 206 \<Longrightarrow> rp_Clean resp \<Longrightarrow> rp_Body resp = part_of rg remote"
  using assms unfolding honest_hub_def by blast+

lemma honest_hub_ranges:
  assumes "honest_hub N url remote"
  shows "serves_ranges N url remote"
  unfolding serves_ranges_def
proof (intro allI impI)
  fix i token a b resp
  assume "http N i \<lparr>rq_Method = ''GET'', rq_URL = url, rq_Token = token, rq_Range = Between a b\<rparr> = Some resp"
  note h = honest_hub_get [OF assms this]
  then show "rp_Status resp \<noteq> 200 \<and> (rp_Status resp = 206 \<longrightarrow>
      (\<exists>rest. rp_Body resp @ rest = slice (unat a) (Suc (unat b)) remote \<and> (rp_Clean resp \<longrightarrow> rest = [])))"
    by (auto simp: prefix_def)
qed

lemma honest_head:
  assumes "honest_hub N (ResolveDownloadURL repo f) remote" and "headRequest N c i repo f = Some (n, True)"
  shows "n = of_nat (length remote)"
proof -
  from assms(2) obtain resp where resp: "http N i \<lparr>rq_Method = ''HEAD'', rq_URL = ResolveDownloadURL repo f,
      rq_Token = getToken N c, rq_Range = WholeBody\<rparr> = Some resp" "rp_Status resp = 200" "rp_ContentLength resp \<noteq> ''''"
    and n: "ParseInt64 (rp_ContentLength resp) = Some n"
    by (auto simp: headRequest_def NewAuthenticatedRequest_def split: option.splits if_splits)
  then have "ParseInt64 (rp_ContentLength resp) = Some (of_nat (length remote))"
    using assms(1) unfolding honest_hub_def by blast
  with n show ?thesis by simp
qed

section \<open>Fetching from the hub\<close>

type_synonym fetch_env = "download_env \<times> Config \<times> DownloadSpec"

text \<open>
  The hub serves the file, and the workers of a multipart download finish every chunk once; where it names a
  reconstruction from Xet storage, each term of it is delivered as its piece of the file, or fetching it fails.
\<close>

definition honest_xet :: "xet_world \<Rightarrow> DownloadOptions \<Rightarrow> byte list \<Rightarrow> bool" where
  "honest_xet W opts remote \<longleftrightarrow> (\<forall>i x recon x'. find_reconstruction W i opts x = (Some recon, x') \<longrightarrow>
     (\<exists>ps. length ps = length (rc_Terms recon) \<and> concat ps = remote
       \<and> (\<forall>k < length ps. honest_term W (rc_FetchInfo recon) (i + 6 + k) (rc_Terms recon ! k) (ps ! k)
            \<or> (\<forall>fs. map_of (rc_FetchInfo recon) (tm_Hash (rc_Terms recon ! k)) = Some fs \<longrightarrow> fetchXorbData W (i + 6 + k) fs = None))))"

fun honest_world :: "fetch_env \<Rightarrow> string \<Rightarrow> byte list \<Rightarrow> bool" where
  "honest_world (E, c, spec) f remote \<longleftrightarrow> honest_hub (dl_net E) (ResolveDownloadURL (sp_Repo spec) f) remote
     \<and> (\<forall>i cs. mset (cw_order (dl_chunks E i) cs) = mset cs)
     \<and> (\<forall>l. honest_xet (dl_xet E) (xet_options spec f l) remote)"

fun multipart :: "fetch_env \<Rightarrow> string \<Rightarrow> string \<Rightarrow> disk \<Rightarrow> int64 option \<Rightarrow> disk \<Rightarrow> bool" where
  "multipart (E, c, spec) f l d res d' \<longleftrightarrow> (\<exists>k i x. res = (case x of Inl _ \<Rightarrow> None | Inr n \<Rightarrow> Some n)
     \<and> chunkedDownload (dl_storage E) (dl_net E) c (dl_chunks E k) i (sp_Repo spec) f l d = (x, d'))"

fun resumed :: "fetch_env \<Rightarrow> string \<Rightarrow> string \<Rightarrow> disk \<Rightarrow> int64 option \<Rightarrow> disk \<Rightarrow> bool" where
  "resumed (E, c, spec) f l d res d' \<longleftrightarrow> (\<exists>i. tryResumeDownload (dl_storage E) (dl_net E) c i (sp_Repo spec) f l d = (res, d'))"

fun afresh :: "fetch_env \<Rightarrow> string \<Rightarrow> string \<Rightarrow> disk \<Rightarrow> int64 option \<Rightarrow> disk \<Rightarrow> bool" where
  "afresh (E, c, spec) f l d res d' \<longleftrightarrow> (\<exists>i. direct_download (dl_storage E) (dl_net E) c i (sp_Repo spec) f l d = (res, d'))"

text \<open>What a fetch does that only writes at \<open>l\<close>.\<close>

lemma write_usable:
  assumes "usable l r d" and "directories d' = directories d" and "\<And>q. q \<noteq> l \<Longrightarrow> file_at d' q = file_at d q"
    and "\<And>bs. file_at d' l = Some bs \<Longrightarrow> prefix bs r"
  shows "usable l r d'"
  using assms partPath_other(2) unfolding usable_def part_ok_def by metis

lemma directories_append [simp]: "directories (append_file p bs d) = directories d"
  by (simp add: append_file_def)

lemma file_at_append [disk_laws]:
  "file_at (append_file p bs d) q = (if q = p then Some ((case file_at d p of None \<Rightarrow> [] | Some old \<Rightarrow> old) @ bs) else file_at d q)"
  by (simp add: append_file_def disk_laws)

text \<open>One request for a range of which the file holds what comes before.\<close>

lemma ResumeDownloadFile_frame:
  assumes "ResumeDownloadFile S N c i repo f off l d = (res, d')"
  shows "directories d' = directories d" and "q \<noteq> l \<Longrightarrow> file_at d' q = file_at d q"
  using assms by (auto simp: ResumeDownloadFile_def io_Copy_def Let_def disk_laws split: option.splits if_splits)

lemma ResumeDownloadFile_honest:
  assumes "ResumeDownloadFile S N c i repo f (of_nat (length old)) l d = (res, d')"
    and "honest_hub N (ResolveDownloadURL repo f) r" and "file_at d l = Some old" and "prefix old r"
  shows "\<exists>bs. file_at d' l = Some bs \<and> prefix bs r \<and> (\<forall>n. res = Some n \<longrightarrow> bs = r \<and> of_nat (length old) + n = of_nat (length r))"
proof (cases "http N i \<lparr>rq_Method = ''GET'', rq_URL = ResolveDownloadURL repo f, rq_Token = getToken N c,
    rq_Range = if sint (of_nat (length old) :: int64) > 0 then From (of_nat (length old)) else WholeBody\<rparr>")
  case None
  then show ?thesis using assms(1,3,4) by (simp add: ResumeDownloadFile_def NewAuthenticatedRequest_def)
next
  case (Some resp)
  have "length old \<le> length r" using assms(4) by (rule prefix_length_le)
  then have small: "length old < 2 ^ 63" using assms(2) unfolding honest_hub_def by linarith
  let ?rg = "if sint (of_nat (length old) :: int64) > 0 then From (of_nat (length old)) else WholeBody"
  have rest: "part_of ?rg r = drop (length old) r"
    using sint_of_nat_small [OF small] unat_of_nat_63 [OF small] by (cases old) auto
  note h = honest_hub_get [OF assms(2) Some]
  consider "rp_Status resp = 416" | "rp_Status resp = 200 \<or> rp_Status resp = 206"
    | "rp_Status resp \<notin> {200, 206, 416}" by auto
  then show ?thesis
  proof cases
    case 1
    from h(3) [OF 1] have "length r \<le> length old"
      using unat_of_nat_63 [OF small] by (auto split: if_splits)
    with assms(4) have "old = r" by (metis prefix_length_prefix prefix_order.antisym prefix_order.refl)
    with 1 Some assms show ?thesis by (auto simp: ResumeDownloadFile_def NewAuthenticatedRequest_def)
  next
    case 2
    have pre: "prefix (old @ take k (rp_Body resp)) r" for k
    proof -
      have "prefix (take k (rp_Body resp)) (drop (length old) r)"
        using h(4) [OF 2] rest by (metis take_is_prefix prefix_order.trans)
      then show ?thesis using assms(4) by (auto simp: prefix_def)
    qed
    have full: "old @ rp_Body resp = r" if "rp_Clean resp"
      using h(5) [OF 2 that] rest assms(4) by (auto simp: prefix_def)
    show ?thesis
    proof (cases "fault S i WriteData l")
      case True
      with 2 Some assms(1,3) pre show ?thesis
        by (auto simp: ResumeDownloadFile_def NewAuthenticatedRequest_def io_Copy_def Let_def disk_laws)
    next
      case False
      then have "d' = append_file l (rp_Body resp) d" and "res = (if rp_Clean resp then Some (of_nat (length (rp_Body resp))) else None)"
        using 2 Some assms(1) by (auto simp: ResumeDownloadFile_def NewAuthenticatedRequest_def io_Copy_def Let_def)
      with full pre [of "length (rp_Body resp)"] assms(3) show ?thesis
        by (auto simp: disk_laws simp flip: of_nat_add length_append)
    qed
  next
    case 3
    with Some assms show ?thesis by (auto simp: ResumeDownloadFile_def NewAuthenticatedRequest_def)
  qed
qed

lemma fresh_honest:
  assumes "ResumeDownloadFile S N c i repo f 0 l (put_file l [] d) = (res, d')" and "honest_hub N (ResolveDownloadURL repo f) r"
  shows "\<exists>bs. file_at d' l = Some bs \<and> prefix bs r \<and> (\<forall>n. res = Some n \<longrightarrow> bs = r \<and> n = of_nat (length r))"
  using ResumeDownloadFile_honest [where old = "[]" and d = "put_file l [] d" and r = r] assms by (simp add: disk_laws)

lemma usable_content: "usable l r d \<Longrightarrow> file_at d l = Some bs \<Longrightarrow> prefix bs r"
  by (simp add: usable_def)

lemma tryResume_cases:
  assumes "tryResumeDownload S N c i repo f l d = (res, d')"
  obtains "res = None" "d' = d"
  | old r where "file_at d l = Some old" "ResumeDownloadFile S N c i repo f (of_nat (length old)) l d = (r, d')"
      "\<And>n. res = Some n \<Longrightarrow> \<exists>w. r = Some w \<and> n = of_nat (length old) + w"
proof (cases "os_Stat S i l d")
  case (Inl e)
  with assms that(1) show thesis by (simp add: tryResumeDownload_def)
next
  case (Inr size)
  show thesis
  proof (cases "size = 0 \<or> fault S i OpenFile l \<or> file_at d l = None")
    case True
    with assms Inr that(1) show thesis by (simp add: tryResumeDownload_def split: if_splits)
  next
    case False
    then obtain old where old: "file_at d l = Some old" by blast
    with Inr have size: "size = of_nat (length old)" by (auto simp: os_Stat_def split: if_splits)
    obtain r d1 where R: "ResumeDownloadFile S N c i repo f size l d = (r, d1)" by fastforce
    have "d1 = d'" and w: "\<And>n. res = Some n \<Longrightarrow> \<exists>w. r = Some w \<and> n = size + w"
      using assms Inr False old R by (auto simp: tryResumeDownload_def split: option.splits if_splits)
    with R have "ResumeDownloadFile S N c i repo f (of_nat (length old)) l d = (r, d')" by (simp add: size)
    from that(2) [OF old this] w show thesis by (simp add: size)
  qed
qed

interpretation resumed: fetcher resumed honest_world
proof
  fix e :: fetch_env and f r l d n d'
  assume h: "honest_world e f r" "usable l r d" "resumed e f l d (Some n) d'"
  obtain E c spec where e: "e = (E, c, spec)" by (metis prod_cases3)
  from h(3) obtain i where "tryResumeDownload (dl_storage E) (dl_net E) c i (sp_Repo spec) f l d = (Some n, d')" by (auto simp: e)
  then show "file_at d' l = Some r \<and> n = of_nat (length r)"
  proof (cases rule: tryResume_cases)
    case (2 old res)
    from 2(3) obtain w where w: "res = Some w" "n = of_nat (length old) + w" by blast
    from ResumeDownloadFile_honest [OF 2(2) _ 2(1) usable_content [OF h(2) 2(1)]] h(1) w show ?thesis by (auto simp: e)
  qed simp
next
  fix e :: fetch_env and f r l d res d'
  assume h: "honest_world e f r" "usable l r d" "resumed e f l d res d'"
  obtain E c spec where e: "e = (E, c, spec)" by (metis prod_cases3)
  from h(3) obtain i where "tryResumeDownload (dl_storage E) (dl_net E) c i (sp_Repo spec) f l d = (res, d')" by (auto simp: e)
  then show "usable l r d'"
  proof (cases rule: tryResume_cases)
    case 1
    with h(2) show ?thesis by simp
  next
    case (2 old res')
    from ResumeDownloadFile_honest [OF 2(2) _ 2(1) usable_content [OF h(2) 2(1)]] h(1)
    have "\<exists>bs. file_at d' l = Some bs \<and> prefix bs r" by (auto simp: e)
    then show ?thesis
      by (intro write_usable [OF h(2) ResumeDownloadFile_frame [OF 2(2)]]) auto
  qed
next
  fix e :: fetch_env and f l d res d' q
  assume "resumed e f l d res d'" and q: "q \<notin> area l"
  then obtain S N c i repo where "tryResumeDownload S N c i repo f l d = (res, d')" by (cases e) auto
  then show "file_at d' q = file_at d q"
    by (cases rule: tryResume_cases) (use q in \<open>auto simp: area_def dest: ResumeDownloadFile_frame(2)\<close>)
next
  fix e :: fetch_env and f l d res d'
  assume "resumed e f l d res d'"
  then obtain S N c i repo where "tryResumeDownload S N c i repo f l d = (res, d')" by (cases e) auto
  then show "set (directories d') \<subseteq> insert (Dir l) (set (directories d))"
    by (cases rule: tryResume_cases) (auto dest: ResumeDownloadFile_frame(1))
qed

lemma direct_cases:
  assumes "direct_download S N c i repo f l d = (res, d')"
  obtains "res = None" "d' = d"
  | r where "ResumeDownloadFile S N c i repo f 0 l (put_file l [] d) = (r, d')" "\<And>n. res = Some n \<Longrightarrow> r = Some n"
proof (cases "fault S i CreateFile l")
  case True
  with assms that(1) show thesis by (simp add: direct_download_def os_Create_def)
next
  case False
  obtain r d1 where R: "ResumeDownloadFile S N c i repo f 0 l (put_file l [] d) = (r, d1)" by fastforce
  have "d1 = d'" and "\<And>n. res = Some n \<Longrightarrow> r = Some n"
    using assms False R by (auto simp: direct_download_def os_Create_def split: option.splits if_splits)
  with R that(2) show thesis by blast
qed

interpretation afresh: fetcher afresh honest_world
proof
  fix e :: fetch_env and f r l d n d'
  assume h: "honest_world e f r" "usable l r d" "afresh e f l d (Some n) d'"
  obtain E c spec where e: "e = (E, c, spec)" by (metis prod_cases3)
  from h(3) obtain i where "direct_download (dl_storage E) (dl_net E) c i (sp_Repo spec) f l d = (Some n, d')" by (auto simp: e)
  then show "file_at d' l = Some r \<and> n = of_nat (length r)"
  proof (cases rule: direct_cases)
    case (2 res)
    have "res = Some n" using 2(2) by blast
    with fresh_honest [OF 2(1), of r] h(1) show ?thesis
      by (auto simp: e disk_laws)
  qed simp
next
  fix e :: fetch_env and f r l d res d'
  assume h: "honest_world e f r" "usable l r d" "afresh e f l d res d'"
  obtain E c spec where e: "e = (E, c, spec)" by (metis prod_cases3)
  from h(3) obtain i where "direct_download (dl_storage E) (dl_net E) c i (sp_Repo spec) f l d = (res, d')" by (auto simp: e)
  then show "usable l r d'"
  proof (cases rule: direct_cases)
    case 1
    with h(2) show ?thesis by simp
  next
    case (2 res')
    from fresh_honest [OF 2(1), of r] h(1)
    have "\<exists>bs. file_at d' l = Some bs \<and> prefix bs r" by (auto simp: e disk_laws)
    then show ?thesis
      using ResumeDownloadFile_frame [OF 2(1)] by (intro write_usable [OF h(2)]) (auto simp: disk_laws)
  qed
next
  fix e :: fetch_env and f l d res d' q
  assume "afresh e f l d res d'" and q: "q \<notin> area l"
  then obtain S N c i repo where "direct_download S N c i repo f l d = (res, d')" by (cases e) auto
  then show "file_at d' q = file_at d q"
    by (cases rule: direct_cases) (use q in \<open>auto simp: area_def disk_laws dest: ResumeDownloadFile_frame(2)\<close>)
next
  fix e :: fetch_env and f l d res d'
  assume "afresh e f l d res d'"
  then obtain S N c i repo where "direct_download S N c i repo f l d = (res, d')" by (cases e) auto
  then show "set (directories d') \<subseteq> insert (Dir l) (set (directories d))"
    by (cases rule: direct_cases) (auto dest: ResumeDownloadFile_frame(1))
qed

section \<open>Multipart\<close>

text \<open>A part is fetched without touching anything else.\<close>

definition part_frame :: "string \<Rightarrow> disk \<Rightarrow> disk \<Rightarrow> bool" where
  "part_frame l d d' \<longleftrightarrow> directories d' = directories d \<and> (\<forall>q. q \<notin> area l \<longrightarrow> file_at d' q = file_at d q)"

lemma part_frame_refl: "part_frame l d d" by (simp add: part_frame_def)

lemma part_frame_trans: "part_frame l d d1 \<Longrightarrow> part_frame l d1 d2 \<Longrightarrow> part_frame l d d2"
  by (simp add: part_frame_def)

lemma partPath_area [simp]: "partPath l k \<in> area l" "l @ ''.part'' \<in> area l" "l \<in> area l"
  by (auto simp: area_def)

lemma downloadChunk_frame:
  assumes "downloadChunk S N c i repo f l ch d = (ok, d')"
  shows "part_frame l d d'"
proof -
  have put: "part_frame l d (put_file p bs d)" if "p \<in> area l" for p bs d
    using that by (auto simp: part_frame_def disk_laws)
  have copy: "part_frame l d (append_file p bs (put_file p [] d))" if "p \<in> area l" for p bs
    using that by (auto simp: part_frame_def disk_laws)
  show ?thesis
    using assms by (auto simp: downloadChunk_def Let_def os_Create_def io_Copy_def part_frame_refl
        intro!: copy split: option.splits if_splits)
qed

lemma fetch_chunk_frame:
  assumes "fetch_chunk S N c W i repo f l ch d = (ok, d')"
  shows "part_frame l d d'"
proof -
  from assms obtain delays where
    r: "downloadChunkWithRetry S N c (cw_fl W) defaultBackoff (cw_jitter W (ch_Index ch))
        (cw_gone W (ch_Index ch)) (cw_woken W (ch_Index ch)) (i + 10 * ch_Index ch) repo f l ch d = (ok, delays, d')"
    by (auto simp: fetch_chunk_def Let_def split: prod.splits)
  show ?thesis
    using retry_loop_keeps [where P = "part_frame l d" and Q = "\<lambda>d'. True", OF _ r [unfolded downloadChunkWithRetry_def] part_frame_refl]
      part_frame_trans downloadChunk_frame by metis
qed

lemma chunks_loop_keeps:
  assumes "chunks_loop get cs d = (ok, d')" and "P d"
    and "\<And>c d ok d'. c \<in> set cs \<Longrightarrow> get c d = (ok, d') \<Longrightarrow> P d \<Longrightarrow> P d'"
  shows "P d'"
  using assms
proof (induction cs arbitrary: d)
  case Nil
  then show ?case by simp
next
  case (Cons c cs)
  obtain ok1 d1 where g: "get c d = (ok1, d1)" by fastforce
  have "P d1" using Cons.prems(3) [OF _ g] Cons.prems(2) by simp
  show ?case
  proof (cases ok1)
    case True
    then have "chunks_loop get cs d1 = (ok, d')" using Cons.prems(1) g by simp
    then show ?thesis using Cons.IH [OF _ \<open>P d1\<close>] Cons.prems(3) by (metis list.set_intros(2))
  next
    case False
    then show ?thesis using Cons.prems(1) g \<open>P d1\<close> by simp
  qed
qed

lemma append_parts_frame:
  "append_parts S i l tmp cs d = (ok, d') \<Longrightarrow> directories d' = directories d \<and> (\<forall>q. q \<noteq> tmp \<longrightarrow> file_at d' q = file_at d q)"
proof (induction S i l tmp cs d rule: append_parts.induct)
  case (2 E i l tmp c cs d)
  then show ?case by (auto simp: Let_def disk_laws split: if_splits option.splits)
qed simp

text \<open>A failed assembly leaves the file itself alone.\<close>

lemma assemble_frame:
  assumes "assembleChunks S i l cs d = (ok, d')"
  shows "part_frame l d d'" and "q \<noteq> l @ ''.part'' \<Longrightarrow> \<not> ok \<or> q \<noteq> l \<Longrightarrow> file_at d' q = file_at d q"
proof -
  let ?tmp = "l @ ''.part''"
  have "directories d' = directories d \<and> (\<forall>q. q \<noteq> ?tmp \<longrightarrow> \<not> ok \<or> q \<noteq> l \<longrightarrow> file_at d' q = file_at d q)"
  proof (cases "fault S i CreateFile ?tmp")
    case True
    with assms show ?thesis by (simp add: assembleChunks_def os_Create_def Let_def)
  next
    case False
    obtain ok2 d2 where parts: "append_parts S (i + 1) l ?tmp cs (put_file ?tmp [] d) = (ok2, d2)" by fastforce
    note fr = append_parts_frame [OF parts]
    have "d' = d2 \<and> \<not> ok \<or> d' = rename ?tmp l d2"
      using assms False parts by (auto simp: assembleChunks_def os_Create_def Let_def split: bool.splits if_splits)
    moreover have "directories (rename ?tmp l d2) = directories d2"
      by (simp add: rename_def drop_file_def split: option.splits)
    moreover have "q \<noteq> ?tmp \<Longrightarrow> q \<noteq> l \<Longrightarrow> file_at (rename ?tmp l d2) q = file_at d2 q" for q
      by (simp add: rename_def disk_laws split: option.splits)
    ultimately show ?thesis
      using fr assms False parts
      by (auto simp: disk_laws assembleChunks_def os_Create_def Let_def split: bool.splits if_splits)
  qed
  note * = this
  from * show "part_frame l d d'" unfolding part_frame_def by (metis partPath_area(2,3))
  from * show "q \<noteq> ?tmp \<Longrightarrow> \<not> ok \<or> q \<noteq> l \<Longrightarrow> file_at d' q = file_at d q" by blast
qed

lemma cleanup_frame:
  shows "part_frame l d (cleanupParts S i l cs d)"
  and "file_at (cleanupParts S i l cs d) q = file_at d q \<or> file_at (cleanupParts S i l cs d) q = None"
  and "file_at (cleanupParts S i l cs d) l = file_at d l"
proof -
  have rm: "directories (snd (os_Remove S i p d)) = directories d" for p d
    by (simp add: os_Remove_def drop_file_def split: option.splits)
  have gone: "file_at (snd (os_Remove S i p d)) q = file_at d q \<or> file_at (snd (os_Remove S i p d)) q = None" for p d q
    by (simp add: disk_laws)
  let ?fold = "fold (\<lambda>c d. snd (os_Remove S i (partPath l (ch_Index c)) d)) cs d"
  have dirs: "directories ?fold = directories d" by (induction cs arbitrary: d) (simp_all add: rm)
  have here: "file_at ?fold q = file_at d q \<or> file_at ?fold q = None" for q
  proof (induction cs arbitrary: d)
    case (Cons c cs)
    show ?case
      using Cons [of "snd (os_Remove S i (partPath l (ch_Index c)) d)"] gone [of "partPath l (ch_Index c)" d q] by auto
  qed simp
  have same: "file_at (cleanupParts S i l cs d) q = file_at d q" if "q \<notin> area l - {l}" for q
  proof (rule cleanup_keeps)
    show "q \<noteq> partPath l (ch_Index c)" for c using that partPath_area(1) partPath_other(2) by (metis DiffI singletonD)
    show "q \<noteq> l @ ''.part''" using that partPath_area(2) partPath_other(3) by (metis DiffI singletonD)
  qed
  from same dirs rm show "part_frame l d (cleanupParts S i l cs d)" by (simp add: part_frame_def cleanupParts_def)
  show "file_at (cleanupParts S i l cs d) q = file_at d q \<or> file_at (cleanupParts S i l cs d) q = None"
    unfolding cleanupParts_def using here [of q] gone [of "l @ ''.part''" ?fold q] by auto
  show "file_at (cleanupParts S i l cs d) l = file_at d l" using same by simp
qed

lemma parts_usable:
  assumes "usable l r d" and "directories d' = directories d"
    and "\<And>k. file_at d' (partPath l k) = file_at d (partPath l k) \<or> file_at d' (partPath l k) = None"
    and "\<And>bs. file_at d' l = Some bs \<Longrightarrow> prefix bs r"
  shows "usable l r d'"
  using assms unfolding usable_def part_ok_def by (metis option.distinct(1))

lemma chunk_step_usable:
  assumes "usable l r d" and ch: "ch \<in> set (computeChunks DefaultChunkSize (of_nat (length r)))"
    and step: "chunk_step l (pieces r) ch d d'"
  shows "usable l r d'"
proof -
  let ?cs = "computeChunks DefaultChunkSize (of_nat (length r))"
  have "distinct (map ch_Index ?cs)" by (simp add: computeChunks_indices)
  then have other: "c = ch \<or> ch_Index c \<noteq> ch_Index ch" if "c \<in> set ?cs" for c
    using that ch by (auto simp: distinct_map inj_on_def)
  have "part_ok l (pieces r) d' c" if c: "c \<in> set ?cs" for c
  proof (cases "c = ch")
    case True
    then show ?thesis using assms(1) ch step by (simp add: usable_def chunk_step_def)
  next
    case False
    with other [OF c] have "partPath l (ch_Index c) \<noteq> partPath l (ch_Index ch)" by (simp add: partPath_inject)
    moreover have "part_ok l (pieces r) d c" using assms(1) c by (simp add: usable_def)
    ultimately show ?thesis using step by (simp add: part_ok_def chunk_step_def)
  qed
  moreover have "file_at d' l = file_at d l" using step partPath_other(2) unfolding chunk_step_def by metis
  ultimately show ?thesis using assms(1) by (simp add: usable_def)
qed

lemma chunked_cases:
  assumes "chunkedDownload S N c W i repo f l d = (x, d')"
  obtains e where "x = Inl e" "d' = d"
  | n ok d1 where "headRequest N c i repo f = Some (n, True)" "sint MultipartThreshold \<le> sint n"
      "chunks_loop (fetch_chunk S N c W i repo f l) (cw_order W (computeChunks DefaultChunkSize n)) d = (ok, d1)"
      "\<not> ok \<and> x = Inl ChunkedFailed \<and> d' = d1
        \<or> (\<exists>d2. assembleChunks S i l (computeChunks DefaultChunkSize n) d1 = (False, d2) \<and> x = Inl ChunkedFailed \<and> d' = d2)
        \<or> (\<exists>d2. assembleChunks S i l (computeChunks DefaultChunkSize n) d1 = (True, d2) \<and> x = Inr n
             \<and> d' = cleanupParts S i l (computeChunks DefaultChunkSize n) d2)"
proof (cases "headRequest N c i repo f")
  case None
  with assms have "x = Inl ChunkedFailed" "d' = d" by (simp_all add: chunkedDownload_def)
  with that(1) show thesis by blast
next
  case (Some a)
  obtain n s where a: "a = (n, s)" by fastforce
  show thesis
  proof (cases "\<not> s \<or> sint n < sint MultipartThreshold")
    case True
    with assms Some a have "x = Inl RangeNotSupported" "d' = d" by (auto simp: chunkedDownload_def split: if_splits)
    with that(1) show thesis by blast
  next
    case False
    let ?cs = "computeChunks DefaultChunkSize n"
    obtain ok d1 where loop: "chunks_loop (fetch_chunk S N c W i repo f l) (cw_order W ?cs) d = (ok, d1)" by fastforce
    obtain ok2 d2 where asm: "assembleChunks S i l ?cs d1 = (ok2, d2)" by fastforce
    from assms have "(x, d') = (if ok then if ok2 then (Inr n, cleanupParts S i l ?cs d2) else (Inl ChunkedFailed, d2) else (Inl ChunkedFailed, d1))"
      using False by (cases ok; cases ok2) (simp_all add: chunkedDownload_def Some a loop asm Let_def)
    with False Some a loop asm that(2) [of n ok d1] show thesis by (cases ok; cases ok2) auto
  qed
qed

lemma chunked_frame:
  assumes "chunkedDownload S N c W i repo f l d = (x, d')"
  shows "part_frame l d d'"
  using assms
proof (cases rule: chunked_cases)
  case 1
  then show ?thesis by (simp add: part_frame_refl)
next
  case (2 n ok d1)
  have "part_frame l d d1"
    by (rule chunks_loop_keeps [where P = "part_frame l d", OF 2(3) part_frame_refl])
      (blast intro: part_frame_trans fetch_chunk_frame)
  with 2(4) show ?thesis by (metis part_frame_trans assemble_frame(1) cleanup_frame(1))
qed

lemma chunked_honest:
  assumes run: "chunkedDownload S N c W i repo f l d = (x, d')" and hub: "honest_hub N (ResolveDownloadURL repo f) r"
    and order: "\<And>cs. mset (cw_order W cs) = mset cs" and use: "usable l r d"
  shows "usable l r d'" and "x = Inr n \<Longrightarrow> file_at d' l = Some r \<and> n = of_nat (length r)"
proof -
  have small: "length r + 1073741824 < 2 ^ 63" using hub by (simp add: honest_hub_def)
  have fin: "file_at d' l = Some r \<and> n = of_nat (length r)" if x: "x = Inr n" for n
    using run [unfolded x]
  proof (cases rule: chunked_cases)
    case (2 m ok d1)
    then have n: "n = of_nat (length r)" using honest_head [OF hub 2(1)] by auto
    moreover have "part_ok l (pieces r) d ch" if "ch \<in> set (computeChunks DefaultChunkSize n)" for ch
      using use that by (simp add: usable_def n)
    ultimately show ?thesis
      using chunked_success [OF run [unfolded x] honest_hub_ranges [OF hub] n small order] by simp
  qed simp
  then show "x = Inr n \<Longrightarrow> file_at d' l = Some r \<and> n = of_nat (length r)" .
  from run show "usable l r d'"
  proof (cases rule: chunked_cases)
    case 1
    with use show ?thesis by simp
  next
    case (2 m ok d1)
    let ?cs = "computeChunks DefaultChunkSize m"
    have m: "m = of_nat (length r)" using honest_head [OF hub 2(1)] .
    with 2(2) have "r \<noteq> []" by (auto simp: MultipartThreshold_def)
    then have sizes: "of_nat (length (chunk_bytes ch r)) = ch_End ch - ch_Start ch + 1" if "ch \<in> set ?cs" for ch
      using chunks_partition_aux [of 1073741824 r] small that by (simp add: m DefaultChunkSize_def)
    have "usable l r d1"
    proof (rule chunks_loop_keeps [where P = "usable l r", OF 2(3) use])
      fix ch da ok db
      assume "ch \<in> set (cw_order W ?cs)" and f: "fetch_chunk S N c W i repo f l ch da = (ok, db)" and u: "usable l r da"
      then have ch: "ch \<in> set ?cs" using order by (metis set_mset_mset)
      have "chunk_step l (pieces r) ch da db"
        using fetch_chunk_ok [OF honest_hub_ranges [OF hub] f sizes [OF ch]] small by simp
      then show "usable l r db" by (rule chunk_step_usable [OF u ch [unfolded m]])
    qed
    note u1 = this
    from 2(4) consider "d' = d1" | d2 where "assembleChunks S i l ?cs d1 = (False, d2)" "d' = d2"
      | d2 where "assembleChunks S i l ?cs d1 = (True, d2)" "x = Inr m" "d' = cleanupParts S i l ?cs d2" by blast
    then show ?thesis
    proof cases
      case 1
      with u1 show ?thesis by simp
    next
      case (2 d2)
      note fr = assemble_frame [OF 2(1)]
      show ?thesis unfolding 2(2)
        by (rule parts_usable [OF u1]) (use fr partPath_other usable_content [OF u1] in \<open>auto simp: part_frame_def\<close>)
    next
      case (3 d2)
      note fr = assemble_frame [OF 3(1)]
      have "file_at d' l = Some r" using fin [OF 3(2)] by simp
      moreover have "file_at d' (partPath l k) = file_at d1 (partPath l k) \<or> file_at d' (partPath l k) = None" for k
        using cleanup_frame(2) [where q = "partPath l k" and l = l and d = d2 and S = S and i = i and cs = ?cs] fr(2) [of "partPath l k"] partPath_other(1,2) [of l k]
        by (simp add: 3(3))
      moreover have "directories d' = directories d1"
        using fr(1) cleanup_frame(1) [where l = l and d = d2 and S = S and i = i and cs = ?cs] by (simp add: part_frame_def 3(3))
      ultimately show ?thesis by (intro parts_usable [OF u1]) simp_all
    qed
  qed
qed

interpretation multipart: fetcher multipart honest_world
proof
  fix e :: fetch_env and f r l d n d'
  assume h: "honest_world e f r" "usable l r d" and m: "multipart e f l d (Some n) d'"
  obtain E c spec where e: "e = (E, c, spec)" by (metis prod_cases3)
  from m obtain k i x where "chunkedDownload (dl_storage E) (dl_net E) c (dl_chunks E k) i (sp_Repo spec) f l d = (x, d')"
    and "Some n = (case x of Inl _ \<Rightarrow> None | Inr n \<Rightarrow> Some n)"
    by (auto simp: e)
  then have "chunkedDownload (dl_storage E) (dl_net E) c (dl_chunks E k) i (sp_Repo spec) f l d = (Inr n, d')"
    by (cases x) simp_all
  from chunked_honest(2) [OF this _ _ h(2) refl] h(1) show "file_at d' l = Some r \<and> n = of_nat (length r)" by (simp add: e)
next
  fix e :: fetch_env and f r l d res d'
  assume "honest_world e f r" "usable l r d" "multipart e f l d res d'"
  then show "usable l r d'" by (cases e) (auto dest: chunked_honest(1))
next
  fix e :: fetch_env and f l d res d' q
  assume "multipart e f l d res d'" and "q \<notin> area l"
  then show "file_at d' q = file_at d q" by (cases e) (auto dest!: chunked_frame simp: part_frame_def)
next
  fix e :: fetch_env and f l d res d'
  assume "multipart e f l d res d'"
  then show "set (directories d') \<subseteq> insert (Dir l) (set (directories d))"
    by (cases e) (auto dest!: chunked_frame simp: part_frame_def)
qed

section \<open>A whole file\<close>

text \<open>Multipart, or resumed, or afresh: what is tried when a file is not in Xet storage.\<close>

interpretation late: two_fetchers resumed afresh honest_world ..

interpretation plain: two_fetchers multipart "orelse resumed afresh" honest_world ..

lemma plain_fetches:
  assumes "plain_download E c i (sp_Repo spec) f l d = (res, d')"
  shows "orelse multipart (orelse resumed afresh) (E, c, spec) f l d res d'"
proof -
  obtain x d1 where m: "chunkedDownload (dl_storage E) (dl_net E) c (dl_chunks E i) (i + 1) (sp_Repo spec) f l d = (x, d1)" by fastforce
  have mp: "multipart (E, c, spec) f l d (case x of Inl _ \<Rightarrow> None | Inr n \<Rightarrow> Some n) d1" using m by auto
  obtain y d2 where r: "tryResumeDownload (dl_storage E) (dl_net E) c (i + 2) (sp_Repo spec) f l d1 = (y, d2)" by fastforce
  show ?thesis
  proof (cases x)
    case (Inr n)
    with assms m have "d1 = d'" and "res = Some n" by (auto simp: plain_download_def Let_def)
    with mp Inr have "multipart (E, c, spec) f l d res d'" and "res = Some n" by simp_all
    then show ?thesis by (simp add: orelse_def)
  next
    case (Inl er)
    with mp have "multipart (E, c, spec) f l d None d1" by simp
    moreover have "orelse resumed afresh (E, c, spec) f l d1 res d'"
    proof (cases y)
      case None
      with r have "resumed (E, c, spec) f l d1 None d2" by auto
      moreover have "afresh (E, c, spec) f l d2 res d'"
        using assms m Inl r None by (auto simp: plain_download_def Let_def)
      ultimately show ?thesis by (auto simp: orelse_def)
    next
      case (Some n)
      with assms m Inl r have "resumed (E, c, spec) f l d1 res d'" and "res = Some n" by (auto simp: plain_download_def Let_def)
      then show ?thesis by (simp add: orelse_def)
    qed
    ultimately show ?thesis unfolding orelse_def [of multipart] by blast
  qed
qed

text \<open>From Xet storage the bytes are those of the file, if there are any.\<close>

lemma terms_loop_mixed:
  assumes "length ps = length ts" and "\<forall>k < length ts. honest_term W infos (i + k) (ts ! k) (ps ! k)
      \<or> (\<forall>fs. map_of infos (tm_Hash (ts ! k)) = Some fs \<longrightarrow> fetchXorbData W (i + k) fs = None)"
  shows "terms_loop W infos i ts result \<in> {Inr None, Inr (Some (result @ concat ps))}"
  using assms
proof (induction ts arbitrary: i ps result)
  case Nil
  then show ?case by simp
next
  case (Cons t ts)
  obtain p qs where ps: "ps = p # qs" using Cons.prems(1) by (cases ps) auto
  have here: "honest_term W infos i t p \<or> (\<forall>fs. map_of infos (tm_Hash t) = Some fs \<longrightarrow> fetchXorbData W i fs = None)"
    using Cons.prems(2) by (force simp: ps)
  have rest: "\<forall>k < length ts. honest_term W infos (Suc i + k) (ts ! k) (qs ! k)
      \<or> (\<forall>fs. map_of infos (tm_Hash (ts ! k)) = Some fs \<longrightarrow> fetchXorbData W (Suc i + k) fs = None)"
    using Cons.prems(2) by (auto simp: ps dest: spec [of _ "Suc _"])
  from here show ?case
  proof
    assume "honest_term W infos i t p"
    then obtain fs xorb where "map_of infos (tm_Hash t) = Some fs" "fetchXorbData W i fs = Some xorb"
      "extractChunks (xw_lz4 W) xorb (tm_Range t) = Inr (Some p)" using honest_extract by blast
    then show ?case using Cons.IH [OF _ rest, of "result @ p"] Cons.prems(1) by (simp add: ps)
  qed (simp split: option.splits)
qed

lemma xet_honest:
  assumes "honest_xet W opts r" and "DownloadData W i opts x = (Inr (Some bs), x')"
  shows "bs = r"
proof -
  from assms(2) obtain recon where f: "find_reconstruction W i opts x = (Some recon, x')"
    and rec: "terms_loop W (rc_FetchInfo recon) (i + 6) (rc_Terms recon) [] = Inr (Some bs)"
    by (auto simp: DownloadData_def reconstruct_def Let_def split: prod.splits option.splits if_splits)
  from assms(1) f obtain ps where ps: "length ps = length (rc_Terms recon)" "concat ps = r"
    "\<forall>k < length ps. honest_term W (rc_FetchInfo recon) (i + 6 + k) (rc_Terms recon ! k) (ps ! k)
       \<or> (\<forall>fs. map_of (rc_FetchInfo recon) (tm_Hash (rc_Terms recon ! k)) = Some fs \<longrightarrow> fetchXorbData W (i + 6 + k) fs = None)"
    unfolding honest_xet_def by blast
  from terms_loop_mixed [OF ps(1), of W "rc_FetchInfo recon" "i + 6" "[]"] ps rec show ?thesis by simp
qed

fun whole_file :: "fetch_env \<Rightarrow> string \<Rightarrow> string \<Rightarrow> disk \<Rightarrow> int64 option \<Rightarrow> disk \<Rightarrow> bool" where
  "whole_file (E, c, spec) f l d res d' \<longleftrightarrow> (\<exists>i x x'. l \<noteq> '''' \<and> downloadFile E c i spec f l x d = Inr (res, x', d'))"

lemma xet_options_path [simp]: "xo_OutputPath (xet_options spec f l) = l"
  by (simp add: xet_options_def)

text \<open>What the Xet downloader leaves: nothing changed, or a new file of which the end may be missing.\<close>

lemma xetDownload_cases:
  assumes "xetDownload S W i opts x d = (Inr ok, x', d')" and "xo_OutputPath opts = l" and "l \<noteq> ''''"
  obtains "\<not> ok" "contents d' = contents d" "set (directories d') \<subseteq> insert (Dir l) (set (directories d))"
  | bs k where "DownloadData W i opts x = (Inr (Some bs), x')" "ok \<longrightarrow> length bs \<le> k"
      "d' = put_file l (take k bs) (d\<lparr>directories := Dir l # directories d\<rparr>)"
proof -
  obtain y x1 where D: "DownloadData W i opts x = (y, x1)" by fastforce
  from assms D consider "y = Inr None" "\<not> ok" "d' = d"
    | bs where "y = Inr (Some bs)" "x1 = x'" by (auto simp: xetDownload_def split: sum.splits option.splits prod.splits if_splits)
  then show thesis
  proof cases
    case 1
    with that(1) show thesis by auto
  next
    case (2 bs)
    show thesis
    proof (cases "fault S i MkdirAll (Dir l) \<or> fault S i CreateFile l")
      case True
      with assms D 2 that(1) show thesis by (auto simp: xetDownload_def os_MkdirAll_def os_WriteFile_def split: if_splits)
    next
      case False
      show thesis
      proof (cases "fault S i WriteData l")
        case True
        with assms D 2 False that(2) [of bs "short_write S i"] show thesis
          by (auto simp: xetDownload_def os_MkdirAll_def os_WriteFile_def)
      next
        case w: False
        with assms D 2 False that(2) [of bs "length bs"] show thesis
          by (auto simp: xetDownload_def os_MkdirAll_def os_WriteFile_def)
      qed
    qed
  qed
qed

text \<open>After it the file is there, or the other ways are tried on a disk that is still usable.\<close>

lemma downloadFile_cases:
  assumes "downloadFile E c i spec f l x d = Inr (res, x', d')" and "l \<noteq> ''''"
  obtains d1 where "contents d1 = contents d" "set (directories d1) \<subseteq> insert (Dir l) (set (directories d))"
      "orelse multipart (orelse resumed afresh) (E, c, spec) f l d1 res d'"
  | bs k x1 d1 where "DownloadData (dl_xet E) i (xet_options spec f l) x = (Inr (Some bs), x1)"
      "d1 = put_file l (take k bs) (d\<lparr>directories := Dir l # directories d\<rparr>)"
      "orelse multipart (orelse resumed afresh) (E, c, spec) f l d1 res d'"
  | bs x1 where "DownloadData (dl_xet E) i (xet_options spec f l) x = (Inr (Some bs), x1)"
      "d' = put_file l bs (d\<lparr>directories := Dir l # directories d\<rparr>)"
      "\<And>n. res = Some n \<Longrightarrow> n = of_nat (length bs)"
proof -
  from assms(1) obtain ok x1 d1 where xet: "xetDownload (dl_storage E) (dl_xet E) i (xet_options spec f l) x d = (Inr ok, x1, d1)"
    by (auto simp: downloadFile_def split: prod.splits sum.splits)
  show thesis
  proof (cases ok)
    case True
    with assms(1) xet have d': "d' = d1" and res: "\<And>n. res = Some n \<Longrightarrow> os_Stat (dl_storage E) i l d1 = Inr n"
      by (auto simp: downloadFile_def split: sum.splits)
    show thesis
    proof (cases rule: xetDownload_cases [OF xet xet_options_path assms(2)])
      case 1
      with True show thesis by simp
    next
      case (2 bs k)
      with True have "d1 = put_file l bs (d\<lparr>directories := Dir l # directories d\<rparr>)" by simp
      with that(3) [OF 2(1)] d' res show thesis by (fastforce simp: os_Stat_def disk_laws split: if_splits)
    qed
  next
    case False
    with assms(1) xet have "plain_download E c i (sp_Repo spec) f l d1 = (res, d')"
      by (auto simp: downloadFile_def split: prod.splits)
    note late = plain_fetches [OF this]
    show thesis
    proof (cases rule: xetDownload_cases [OF xet xet_options_path assms(2)])
      case 1
      with late that(1) show thesis by blast
    next
      case (2 bs k)
      with late that(2) show thesis by blast
    qed
  qed
qed

lemma usable_same:
  assumes "usable l r d" and "contents d' = contents d" and "set (directories d') \<subseteq> insert (Dir l) (set (directories d))"
  shows "usable l r d'"
proof (rule usable_frame [OF assms(1)])
  show "file_at d' q = file_at d q" for q using assms(2) by (simp add: file_at_def)
  fix q
  assume "q \<in> area l" and "q \<in> set (directories d')"
  moreover have "Dir l \<notin> area l" using assms(1) by (simp add: usable_def)
  ultimately show "q \<in> set (directories d)" using assms(3) by auto
qed

lemma usable_written:
  assumes "usable l r d" and "prefix bs r"
  shows "usable l r (put_file l bs (d\<lparr>directories := Dir l # directories d\<rparr>))"
proof -
  have "usable l r (d\<lparr>directories := Dir l # directories d\<rparr>)" by (rule usable_same [OF assms(1)]) auto
  then show ?thesis by (rule write_usable) (use assms(2) in \<open>auto simp: disk_laws\<close>)
qed

lemma file_at_dirs [disk_laws]: "file_at (d\<lparr>directories := ds\<rparr>) q = file_at d q"
  by (simp add: file_at_def)

text \<open>Whatever was tried, it started from a usable disk, unless the file came whole from Xet storage.\<close>

lemma downloadFile_honest:
  assumes "honest_world (E, c, spec) f r" and "usable l r d" and "downloadFile E c i spec f l x d = Inr (res, x', d')"
  shows "(\<exists>d1. usable l r d1 \<and> orelse multipart (orelse resumed afresh) (E, c, spec) f l d1 res d')
    \<or> usable l r d' \<and> file_at d' l = Some r \<and> (\<forall>n. res = Some n \<longrightarrow> n = of_nat (length r))"
proof -
  have "l \<noteq> ''''" using assms(2) by (simp add: usable_def)
  with assms(3) show ?thesis
  proof (cases rule: downloadFile_cases)
    case (1 d1)
    with usable_same [OF assms(2) 1(1,2)] show ?thesis by blast
  next
    case (2 bs k x1 d1)
    have "bs = r" using assms(1) 2(1) by (auto intro: xet_honest)
    then have "usable l r d1" using usable_written [OF assms(2)] by (simp add: 2(2) take_is_prefix)
    with 2(3) show ?thesis by blast
  next
    case (3 bs x1)
    have "bs = r" using assms(1) 3(1) by (auto intro: xet_honest)
    then have "usable l r d'" using usable_written [OF assms(2)] by (simp add: 3(2))
    with 3 \<open>bs = r\<close> show ?thesis by (auto simp: disk_laws)
  qed
qed

lemma downloadFile_frame:
  assumes "l \<noteq> ''''" and "downloadFile E c i spec f l x d = Inr (res, x', d')"
  shows "q \<notin> area l \<Longrightarrow> file_at d' q = file_at d q"
    and "set (directories d') \<subseteq> insert (Dir l) (set (directories d))"
proof -
  from assms(2,1) have "(\<forall>q. q \<notin> area l \<longrightarrow> file_at d' q = file_at d q) \<and> set (directories d') \<subseteq> insert (Dir l) (set (directories d))"
  proof (cases rule: downloadFile_cases)
    case (1 d1)
    from plain.either.frame [OF 1(3)] plain.either.dirs [OF 1(3)] 1(1,2) show ?thesis by (auto simp: file_at_def)
  next
    case (2 bs k x1 d1)
    from plain.either.frame [OF 2(3)] plain.either.dirs [OF 2(3)] show ?thesis by (auto simp: 2(2) disk_laws)
  next
    case (3 bs x1)
    then show ?thesis by (auto simp: disk_laws)
  qed
  then show "q \<notin> area l \<Longrightarrow> file_at d' q = file_at d q"
    and "set (directories d') \<subseteq> insert (Dir l) (set (directories d))" by blast+
qed

interpretation whole_file: fetcher whole_file honest_world
proof
  fix e :: fetch_env and f r l d n d'
  assume h: "honest_world e f r" "usable l r d" and w: "whole_file e f l d (Some n) d'"
  obtain E c spec where e: "e = (E, c, spec)" by (metis prod_cases3)
  from w obtain i x x' where "downloadFile E c i spec f l x d = Inr (Some n, x', d')" by (auto simp: e)
  from downloadFile_honest [OF h(1) [unfolded e] h(2) this] show "file_at d' l = Some r \<and> n = of_nat (length r)"
    using plain.either.gets h(1) e by blast
next
  fix e :: fetch_env and f r l d res d'
  assume h: "honest_world e f r" "usable l r d" and w: "whole_file e f l d res d'"
  obtain E c spec where e: "e = (E, c, spec)" by (metis prod_cases3)
  from w obtain i x x' where "downloadFile E c i spec f l x d = Inr (res, x', d')" by (auto simp: e)
  from downloadFile_honest [OF h(1) [unfolded e] h(2) this] show "usable l r d'"
    using plain.either.keeps h(1) e by blast
next
  fix e :: fetch_env and f l d res d' q
  assume "whole_file e f l d res d'" and "q \<notin> area l"
  then show "file_at d' q = file_at d q" by (cases e) (auto dest: downloadFile_frame(1))
next
  fix e :: fetch_env and f l d res d'
  assume "whole_file e f l d res d'"
  then show "set (directories d') \<subseteq> insert (Dir l) (set (directories d))"
    by (cases e) (auto dest!: downloadFile_frame(2))
qed

end
