(* ===== verification/Download_Properties.thy ===== *)
theory Download_Properties
  imports Downloads Chunked_Properties Xet_Properties
begin

text \<open>
  The download of a model as a whole: which files are chosen, what a download that reports completion has recorded and
  verified, and two ways in which it goes wrong.
\<close>

section \<open>Choosing the files\<close>

definition wanted :: "DownloadSpec \<Rightarrow> string \<Rightarrow> bool" where
  "wanted spec f \<longleftrightarrow> f \<in> set (sp_Files spec) \<or> list_ex (\<lambda>p. matches p f) (sp_Patterns spec)"

lemma match_patterns_Inr: "match_patterns f ps = Inr b \<Longrightarrow> b \<longleftrightarrow> list_ex (\<lambda>p. matches p f) ps"
  by (induction f ps rule: match_patterns.induct) (auto simp: matches_def split: option.splits bool.splits)

lemma resolve_loop_set:
  assumes "resolve_loop spec found fs = Inr out" and "distinct found"
  shows "distinct out \<and> set out = set found \<union> {f \<in> set fs. \<not> shouldExclude f (sp_Exclude spec) \<and> wanted spec f}"
  using assms
proof (induction fs arbitrary: found)
  case Nil
  then show ?case by simp
next
  case (Cons f fs)
  consider "shouldExclude f (sp_Exclude spec)" | "\<not> shouldExclude f (sp_Exclude spec)" "f \<in> set (sp_Files spec)"
    | b where "\<not> shouldExclude f (sp_Exclude spec)" "f \<notin> set (sp_Files spec)" "match_patterns f (sp_Patterns spec) = Inr b"
    using Cons.prems(1) by (cases "match_patterns f (sp_Patterns spec)") (auto split: if_splits)
  then show ?case
  proof cases
    case 1
    then show ?thesis using Cons by auto
  next
    case 2
    then show ?thesis using Cons.prems Cons.IH [of "if f \<in> set found then found else found @ [f]"]
      by (auto simp: wanted_def)
  next
    case 3
    then show ?thesis
      using Cons.prems Cons.IH [of found] Cons.IH [of "if f \<in> set found then found else found @ [f]"] match_patterns_Inr [OF 3(3)]
      by (auto simp: wanted_def split: bool.splits)
  qed
qed

text \<open>
  C31. With files or patterns given, the files chosen are exactly those of the repository that are named or matched and not
  excluded, each once even if the listing names it twice; with neither, they are the listing without what is excluded, in its order and
  as often as it names them. A named file that the repository lacks is passed over.
\<close>

theorem resolve_chooses:
  assumes "resolveFiles (Some listing) spec = Inr files"
  shows "set files = {f \<in> fi_Name ` set listing. \<not> shouldExclude f (sp_Exclude spec)
       \<and> (wanted spec f \<or> sp_Files spec = [] \<and> sp_Patterns spec = [])}
    \<and> (if sp_Files spec = [] \<and> sp_Patterns spec = []
       then files = filter (\<lambda>f. \<not> shouldExclude f (sp_Exclude spec)) (map fi_Name listing)
       else distinct files)"
proof -
  from assms obtain found where found: "resolve_loop spec [] (map fi_Name listing) = Inr found"
    and files: "files = (if sp_Files spec = [] \<and> sp_Patterns spec = []
      then found @ filter (\<lambda>f. \<not> shouldExclude f (sp_Exclude spec)) (map fi_Name listing) else found)"
    by (auto simp: resolveFiles_def Let_def split: sum.splits)
  from resolve_loop_set [OF found] have "distinct found"
    "set found = {f \<in> fi_Name ` set listing. \<not> shouldExclude f (sp_Exclude spec) \<and> wanted spec f}" by auto
  moreover from this have "found = []" if "sp_Files spec = []" "sp_Patterns spec = []"
    using that by (simp add: wanted_def)
  ultimately show ?thesis unfolding files by (auto simp: wanted_def)
qed

lemma resolve_chooses_witness:
  "set ([''a.gguf''] :: string list) = {f \<in> fi_Name ` set [\<lparr>fi_Name = ''a.gguf'', fi_Size = 0, fi_SHA256 = ''''\<rparr>, \<lparr>fi_Name = ''b.txt'', fi_Size = 0, fi_SHA256 = ''''\<rparr>].
     \<not> shouldExclude f [] \<and> wanted (NewDownloadSpec ''r'' [WithPatterns [''*.gguf'']]) f}"
proof -
  let ?spec = "NewDownloadSpec ''r'' [WithPatterns [''*.gguf'']]"
  let ?l = "[\<lparr>fi_Name = ''a.gguf'', fi_Size = 0, fi_SHA256 = ''''\<rparr>, \<lparr>fi_Name = ''b.txt'', fi_Size = 0, fi_SHA256 = ''''\<rparr>]"
  have "resolveFiles (Some ?l) ?spec = Inr [''a.gguf'']" by code_simp
  from resolve_chooses [OF this] show ?thesis by (simp add: NewDownloadSpec_def)
qed

section \<open>What a completed download has done\<close>

lemma first_mismatch_None:
  "first_mismatch S i dir hs d = None \<longleftrightarrow> (\<forall>(f, h) \<in> set hs. VerifyChecksum S i (Join [dir, f]) h d)"
  by (induction S i dir hs d rule: first_mismatch.induct) auto

lemma dom_map_of_update: "dom (map_of (AList.update k v m)) = insert k (dom (map_of m))"
  by (auto simp: map_laws)

lemma SetProgress_phase [simp]: "ds_Phase (SetProgress fl a b s) = ds_Phase s"
  by (simp add: SetProgress_def Let_def)

lemma UpdateFileProgress_phase [simp]: "ds_Phase (UpdateFileProgress f a b ph s) = ds_Phase s"
  by (simp add: UpdateFileProgress_def)

lemma fail_with_phase [simp]: "ds_Phase (fail_with E i msg s) = PhaseFailed"
  by (simp add: fail_with_def SetError_def)

lemma file_turn_fails: "file_turn E c spec destDir i f left p = Inr (Inl p') \<Longrightarrow> ds_Phase (pr_status p') = PhaseFailed"
  by (auto simp: file_turn_def Let_def split: if_splits prod.splits option.splits sum.splits)

lemma file_turn_goes_on:
  "file_turn E c spec destDir i f left p = Inr (Inr p') \<Longrightarrow> dom (map_of (pr_sizes p')) = insert f (dom (map_of (pr_sizes p)))
     \<and> ds_Phase (pr_status p') = ds_Phase (pr_status p)"
  by (auto simp: file_turn_def Let_def map_laws split: if_splits prod.splits option.splits sum.splits)

lemma files_loop_fails: "files_loop E c spec destDir i fs p = Inr (Inl p') \<Longrightarrow> ds_Phase (pr_status p') = PhaseFailed"
  by (induction fs arbitrary: i p) (auto split: sum.splits dest: file_turn_fails)

lemma files_loop_goes_on:
  "files_loop E c spec destDir i fs p = Inr (Inr p') \<Longrightarrow> dom (map_of (pr_sizes p')) = set fs \<union> dom (map_of (pr_sizes p))
     \<and> ds_Phase (pr_status p') = ds_Phase (pr_status p)"
proof (induction fs arbitrary: i p)
  case Nil
  then show ?case by simp
next
  case (Cons f fs)
  from Cons.prems obtain p1 where "file_turn E c spec destDir i f (length fs) p = Inr (Inr p1)"
    and "files_loop E c spec destDir (i + 10) fs p1 = Inr (Inr p')"
    by (auto split: sum.splits)
  with Cons.IH [of "i + 10" p1] file_turn_goes_on [of E c spec destDir i f "length fs" p p1] show ?case by simp
qed

lemma dom_fold_sizes: "dom (map_of (fold (\<lambda>f. AList.update f (0 :: int64)) files m)) = set files \<union> dom (map_of m)"
  by (induction files arbitrary: m) (simp_all add: dom_map_of_update)

lemma finish_complete:
  assumes "finish_download E c spec dir i files p = (s', d')" and "ds_Phase s' = PhaseComplete"
  shows "first_mismatch (dl_storage E) i dir (file_hashes E c i spec files) (pr_disk p) = None
    \<and> WriteManifest (dl_storage E) i dir \<lparr>man_Files = pr_sizes p, man_Checksums = file_hashes E c i spec files\<rparr> (pr_disk p)
        = (None, d')"
  using assms by (auto simp: finish_download_def Let_def split: option.splits prod.splits)

definition has_hash :: "storage \<Rightarrow> string \<Rightarrow> string \<Rightarrow> disk \<Rightarrow> bool" where
  "has_hash S p h d \<longleftrightarrow> map_option (sha256_hex S) (file_at d p) = Some h"

lemma verified_has_hash:
  "first_mismatch S i dir hs d = None \<Longrightarrow> list_all (\<lambda>(f, h). has_hash S (Join [dir, f]) h d) hs"
  by (induction S i dir hs d rule: first_mismatch.induct)
    (auto simp: has_hash_def VerifyChecksum_def ComputeSHA256_def split: if_splits option.splits)

text \<open>What a written manifest leaves: the manifest, and every file but the manifest and the temporary file.\<close>

lemma AtomicWrite_done:
  assumes "AtomicWrite S i p data d = (None, d')"
  shows "file_at d' p = Some data \<and> (\<forall>q. q \<noteq> p \<longrightarrow> q \<noteq> temp_path S i p \<longrightarrow> file_at d' q = file_at d q)"
proof -
  obtain e d1 where ensure: "EnsureDir S i p d = (e, d1)" by fastforce
  have same: "file_at d1 q = file_at d q" for q using file_at_EnsureDir [of S i p d q] by (simp add: ensure)
  from assms ensure have "d' = put_file p data (drop_file (temp_path S i p) (put_file (temp_path S i p) data
      (put_file (temp_path S i p) [] d1)))"
    by (auto simp: AtomicWrite_def AtomicWrite_trace_def Let_def split: option.splits if_splits)
  then show ?thesis by (simp add: disk_laws same)
qed

text \<open>A download that completes ran the loop over all its files and then \<open>finish_download\<close>.\<close>

lemma performDownload_runs:
  assumes "resolveFiles (ListFiles (dl_net E) c i (sp_Repo spec)) spec = Inr files" and "files \<noteq> []"
    and "os_MkdirAll (dl_storage E) i (dest_dir cacheDir spec modelName) d = (None, d1)" and "\<not> dl_cancelled E i"
    and "s1 = SetProgress (dl_fl E) 0 (of_nat (length files))
        (fold (\<lambda>f. UpdateFileProgress f 0 0 PhasePending) files (SetPhase PhaseDownloading s))"
    and "p0 = \<lparr>pr_status = s1, pr_sizes = fold (\<lambda>f. AList.update f 0) files [], pr_bytes = 0, pr_xet = x, pr_disk = d1\<rparr>"
  shows "performDownload E c cacheDir i modelName spec s x d =
      (case files_loop E c spec (dest_dir cacheDir spec modelName) (i + 1) files p0 of
         Inl panic \<Rightarrow> Inl panic | Inr (Inl p) \<Rightarrow> Inr (pr_status p, pr_disk p)
       | Inr (Inr p) \<Rightarrow> Inr (finish_download E c spec (dest_dir cacheDir spec modelName) (i + 1 + 10 * length files) files p))"
  using assms by (simp add: performDownload_def Let_def)

lemma performDownload_complete:
  assumes "performDownload E c cacheDir i modelName spec s x d = Inr (s', d')" and "ds_Phase s' = PhaseComplete"
  obtains files p0 p where
    "resolveFiles (ListFiles (dl_net E) c i (sp_Repo spec)) spec = Inr files" "files \<noteq> []"
    "files_loop E c spec (dest_dir cacheDir spec modelName) (i + 1) files p0 = Inr (Inr p)"
    "dom (map_of (pr_sizes p0)) = set files"
    "finish_download E c spec (dest_dir cacheDir spec modelName) (i + 1 + 10 * length files) files p = (s', d')"
proof -
  obtain files d1 where files: "resolveFiles (ListFiles (dl_net E) c i (sp_Repo spec)) spec = Inr files" "files \<noteq> []"
    and mk: "os_MkdirAll (dl_storage E) i (dest_dir cacheDir spec modelName) d = (None, d1)" "\<not> dl_cancelled E i"
    using assms by (auto simp: performDownload_def Let_def split: if_splits prod.splits option.splits sum.splits)
  note run = performDownload_runs [OF files mk refl refl]
  let ?p0 = "\<lparr>pr_status = SetProgress (dl_fl E) 0 (of_nat (length files))
        (fold (\<lambda>f. UpdateFileProgress f 0 0 PhasePending) files (SetPhase PhaseDownloading s)),
      pr_sizes = fold (\<lambda>f. AList.update f 0) files [], pr_bytes = 0, pr_xet = x, pr_disk = d1\<rparr>"
  consider q where "files_loop E c spec (dest_dir cacheDir spec modelName) (i + 1) files ?p0 = Inr (Inr q)"
    | q where "files_loop E c spec (dest_dir cacheDir spec modelName) (i + 1) files ?p0 = Inr (Inl q)"
    | a where "files_loop E c spec (dest_dir cacheDir spec modelName) (i + 1) files ?p0 = Inl a"
    by (metis sum.exhaust)
  then show thesis
  proof cases
    case 1
    with run assms(1) files dom_fold_sizes [of files "[]"] that show ?thesis by simp
  next
    case 2
    with files_loop_fails [OF 2] run assms show ?thesis by simp
  next
    case 3
    with run assms(1) show ?thesis by simp
  qed
qed

text \<open>
  A download that reports completion has recorded and checked what it fetched: the files it chose are at least one, the
  manifest on disk lists exactly them, its checksums are those of the hub's metadata, and every file with a checksum
  has it on disk (unless it is the manifest itself or its temporary file).
\<close>

lemma completed_download:
  assumes "performDownload E c cacheDir i modelName spec s x d = Inr (s', d')" and "ds_Phase s' = PhaseComplete"
    and "dest_dir cacheDir spec modelName = dir" and "Join [dir, ManifestFile] = manifest"
  shows "\<exists>files m k. resolveFiles (ListFiles (dl_net E) c i (sp_Repo spec)) spec = Inr files \<and> files \<noteq> []
    \<and> file_at d' manifest = Some (json_encode (dl_storage E) m) \<and> dom (map_of (man_Files m)) = set files
    \<and> man_Checksums m = file_hashes E c k spec files
    \<and> list_all (\<lambda>(f, h). Join [dir, f] = manifest \<or> Join [dir, f] = temp_path (dl_storage E) k manifest
         \<or> has_hash (dl_storage E) (Join [dir, f]) h d') (man_Checksums m)"
proof -
  let ?S = "dl_storage E"
  obtain files p0 p where files: "resolveFiles (ListFiles (dl_net E) c i (sp_Repo spec)) spec = Inr files" "files \<noteq> []"
    and loop: "files_loop E c spec dir (i + 1) files p0 = Inr (Inr p)"
    and p0: "dom (map_of (pr_sizes p0)) = set files"
    and fin: "finish_download E c spec dir (i + 1 + 10 * length files) files p = (s', d')"
    using performDownload_complete [OF assms(1,2)] assms(3) by metis
  define k where "k = i + 1 + 10 * length files"
  let ?m = "\<lparr>man_Files = pr_sizes p, man_Checksums = file_hashes E c k spec files\<rparr>"
  from finish_complete [OF fin assms(2)] have checked: "first_mismatch ?S k dir (man_Checksums ?m) (pr_disk p) = None"
    and written: "AtomicWrite ?S k manifest (json_encode ?S ?m) (pr_disk p) = (None, d')"
    by (simp_all add: WriteManifest_def k_def assms(4))
  note kept = AtomicWrite_done [OF written]
  have "dom (map_of (man_Files ?m)) = set files" using files_loop_goes_on [OF loop] p0 by simp
  moreover have "list_all (\<lambda>(f, h). Join [dir, f] = manifest \<or> Join [dir, f] = temp_path ?S k manifest
         \<or> has_hash ?S (Join [dir, f]) h d') (man_Checksums ?m)"
    by (rule list.pred_mono_strong [OF verified_has_hash [OF checked]]) (use kept in \<open>auto simp: has_hash_def\<close>)
  ultimately show ?thesis using files kept by (intro exI [of _ files] exI [of _ ?m] exI [of _ k]) simp
qed

text \<open>
  C30. A download that reports completion has recorded and checked what it fetched: the files it chose are at least one, the
  manifest on disk lists exactly them, its checksums are those of the hub's metadata, and every file with a checksum
  has it on disk (unless it is the manifest itself or its temporary file).
\<close>

theorem completed_download_checked:
  assumes "performDownload E c cacheDir i modelName spec s x d = Inr (s', d')" and "ds_Phase s' = PhaseComplete"
    and "dest_dir cacheDir spec modelName = dir" and "Join [dir, ManifestFile] = manifest"
  shows "\<exists>files m k. resolveFiles (ListFiles (dl_net E) c i (sp_Repo spec)) spec = Inr files \<and> files \<noteq> []
    \<and> file_at d' manifest = Some (json_encode (dl_storage E) m) \<and> dom (map_of (man_Files m)) = set files
    \<and> man_Checksums m = file_hashes E c k spec files
    \<and> list_all (\<lambda>(f, h). Join [dir, f] = manifest \<or> Join [dir, f] = temp_path (dl_storage E) k manifest
         \<or> has_hash (dl_storage E) (Join [dir, f]) h d') (man_Checksums m)"
  using completed_download [OF assms] .

text \<open>
  A world for the witnesses: no Xet, one file \<open>a.bin\<close>, \<open>HEAD\<close> is refused and \<open>GET\<close> answers \<open>status\<close> with two bytes;
  the digest is always the one of the metadata or always another.
\<close>

definition demo_hub :: "nat \<Rightarrow> network" where
  "demo_hub status = \<lparr>http = (\<lambda>i rq.
       if rq_Method rq = ''HEAD'' then None
       else Some \<lparr>rp_Status = (if rq_URL rq = ''https://huggingface.co/api/models/r'' then 200 else status), rp_ContentLength = '''',
         rp_AcceptRanges = '''', rp_Body = [7, 7], rp_Clean = True\<rparr>),
     hub_files = (\<lambda>i token repo. Some [''a.bin'']),
     decode_siblings = (\<lambda>b. Some [(''a.bin'', Some \<lparr>lfs_SHA256 = ''77'', lfs_Size = 2\<rparr>)]), getenv = (\<lambda>v. '''')\<rparr>"

definition demo_env :: "nat \<Rightarrow> string \<Rightarrow> download_env" where
  "demo_env status digest = \<lparr>dl_storage = demo_storage\<lparr>sha256_hex := \<lambda>b. digest\<rparr>, dl_net = demo_hub status,
     dl_xet = (demo_xet 11)\<lparr>xw_http := \<lambda>i follow rq. None\<rparr>, dl_chunks = (\<lambda>i. in_order), dl_clock = int,
     dl_cancelled = (\<lambda>i. False), dl_fl = id, dl_error = (\<lambda>i. ''boom'')\<rparr>"

definition demo_pending :: DownloadStatus where
  "demo_pending = \<lparr>ds_ModelName = ''m'', ds_Phase = PhasePending, ds_Progress = 0, ds_BytesTotal = 0, ds_BytesDone = 0,
     ds_Files = [], ds_StartedAt = 0, ds_CompletedAt = None, ds_Error = '''', ds_Cancel = Some False\<rparr>"

definition demo_run :: "(DownloadStatus \<times> disk) may_panic" where
  "demo_run = performDownload (demo_env 200 ''77'') no_config ''/c'' 0 ''m'' (NewDownloadSpec ''r'' []) demo_pending
     (NewXetClient []) empty_disk"

lemma demo_run_completes: "case demo_run of Inl p \<Rightarrow> False | Inr (s, d) \<Rightarrow> ds_Phase s = PhaseComplete"
  by code_simp

lemma completed_download_checked_witness:
  "\<exists>s' d' files m k. demo_run = Inr (s', d')
    \<and> resolveFiles (ListFiles (demo_hub 200) no_config 0 ''r'') (NewDownloadSpec ''r'' []) = Inr files
    \<and> file_at d' ''/c/models/m/.manifest'' = Some (json_encode demo_storage m)
    \<and> dom (map_of (man_Files m)) = set files \<and> man_Checksums m = file_hashes (demo_env 200 ''77'') no_config k (NewDownloadSpec ''r'' []) files"
proof -
  obtain s' d' where run: "demo_run = Inr (s', d')" and ok: "ds_Phase s' = PhaseComplete"
    using demo_run_completes by (auto split: sum.splits)
  have dir: "dest_dir ''/c'' (NewDownloadSpec ''r'' []) ''m'' = ''/c/models/m''"
    and man: "Join [''/c/models/m'', ManifestFile] = ''/c/models/m/.manifest''"
    and env: "dl_net (demo_env 200 ''77'') = demo_hub 200" "sp_Repo (NewDownloadSpec ''r'' []) = ''r''"
      "json_encode (dl_storage (demo_env 200 ''77'')) = json_encode demo_storage"
    by (code_simp, code_simp, simp_all add: demo_env_def NewDownloadSpec_def)
  from completed_download_checked [OF run [unfolded demo_run_def] ok dir man] run show ?thesis
    by (simp only: env) blast
qed

section \<open>A file that can never be repaired\<close>

text \<open>
  A model of one file \<open>f\<close>, wanted under \<open>p\<close>, whose content \<open>old\<close> on disk has not the digest the hub tells. Nothing fails
  locally; the file is not on Xet, too small for the multipart download or served without ranges, and the server answers
  a request for what comes after \<open>old\<close> with 416, as it does for a file that is not longer.
\<close>

definition wrong_file ::
  "download_env \<Rightarrow> Config \<Rightarrow> DownloadSpec \<Rightarrow> string \<Rightarrow> string \<Rightarrow> string \<Rightarrow> byte list \<Rightarrow> bool" where
  "wrong_file E c spec dir f p old \<longleftrightarrow> Join [dir, f] = p \<and> old \<noteq> [] \<and> length old < 2 ^ 63
     \<and> (\<forall>i op q. \<not> fault (dl_storage E) i op q) \<and> (\<forall>i. \<not> dl_cancelled E i)
     \<and> (\<forall>i. resolveFiles (ListFiles (dl_net E) c i (sp_Repo spec)) spec = Inr [f])
     \<and> (\<forall>i x. fst (DownloadData (dl_xet E) i (xet_options spec f p) x) = Inr None)
     \<and> (\<forall>i. headRequest (dl_net E) c i (sp_Repo spec) f = None)
     \<and> (\<forall>i. \<exists>resp. http (dl_net E) i \<lparr>rq_Method = ''GET'', rq_URL = ResolveDownloadURL (sp_Repo spec) f,
            rq_Token = getToken (dl_net E) c, rq_Range = From (of_nat (length old))\<rparr> = Some resp \<and> rp_Status resp = 416)
     \<and> (\<forall>i. \<exists>h. file_hashes E c i spec [f] = [(f, h)] \<and> h \<noteq> sha256_hex (dl_storage E) old)"

lemma wrong_file_kept:
  assumes "wrong_file E c spec dir f p old" and "file_at d p = Some old"
  obtains x' where "downloadFile E c i spec f p x d = Inr (Some (of_nat (length old)), x', d)"
proof -
  have small: "length old < 2 ^ 63" "old \<noteq> []" and ok: "\<And>i op q. \<not> fault (dl_storage E) i op q"
    and xet: "fst (DownloadData (dl_xet E) i (xet_options spec f p) x) = Inr None"
    and head: "headRequest (dl_net E) c (i + 1) (sp_Repo spec) f = None"
    using assms(1) by (auto simp: wrong_file_def)
  obtain resp where resp: "http (dl_net E) (i + 2) \<lparr>rq_Method = ''GET'', rq_URL = ResolveDownloadURL (sp_Repo spec) f,
            rq_Token = getToken (dl_net E) c, rq_Range = From (of_nat (length old))\<rparr> = Some resp" "rp_Status resp = 416"
    using assms(1) unfolding wrong_file_def by blast
  obtain x' where x': "DownloadData (dl_xet E) i (xet_options spec f p) x = (Inr None, x')"
    using xet by (cases "DownloadData (dl_xet E) i (xet_options spec f p) x") simp
  have pos: "0 < sint (of_nat (length old) :: int64)" using small by (simp add: sint_nat)
  then have ne: "of_nat (length old) \<noteq> (0 :: int64)" by auto
  have "tryResumeDownload (dl_storage E) (dl_net E) c (i + 2) (sp_Repo spec) f p d = (Some (of_nat (length old)), d)"
    using resp ok pos ne assms(2)
    by (simp add: tryResumeDownload_def ResumeDownloadFile_def os_Stat_def NewAuthenticatedRequest_def)
  then have "plain_download E c i (sp_Repo spec) f p d = (Some (of_nat (length old)), d)"
    using head by (simp add: plain_download_def chunkedDownload_def Let_def)
  then show thesis
    using x' by (intro that [of x']) (simp add: downloadFile_def xetDownload_def)
qed

text \<open>
  Once the wrong file is there, every further download of the model ends with the phase \<open>PhaseFailed\<close> and leaves the file
  as it is, so that no retry ever repairs it.
\<close>

theorem corrupt_file_kept:
  assumes "wrong_file E c spec (dest_dir cacheDir spec modelName) f p old" and "file_at d p = Some old"
  shows "\<exists>s' d'. performDownload E c cacheDir i modelName spec s x d = Inr (s', d')
    \<and> ds_Phase s' = PhaseFailed \<and> file_at d' p = Some old"
proof -
  let ?dir = "dest_dir cacheDir spec modelName" and ?S = "dl_storage E"
  have p: "Join [?dir, f] = p" and ok: "\<And>i op q. \<not> fault ?S i op q" "\<And>i. \<not> dl_cancelled E i"
    and one: "resolveFiles (ListFiles (dl_net E) c i (sp_Repo spec)) spec = Inr [f]"
    using assms(1) by (auto simp: wrong_file_def)
  obtain d1 where mk: "os_MkdirAll ?S i ?dir d = (None, d1)" and d1: "file_at d1 p = Some old"
    using ok assms(2) by (auto simp: os_MkdirAll_def file_at_def)
  obtain d2 where mk2: "os_MkdirAll ?S (Suc i) (Dir p) d1 = (None, d2)" and d2: "file_at d2 p = Some old"
    using ok d1 by (auto simp: os_MkdirAll_def file_at_def)
  obtain x' where get: "downloadFile E c (Suc i) spec f p x d2 = Inr (Some (of_nat (length old)), x', d2)"
    using wrong_file_kept [OF assms(1) d2] by blast
  obtain h where h: "file_hashes E c (i + 1 + 10 * length [f]) spec [f] = [(f, h)]" "h \<noteq> sha256_hex ?S old"
    using assms(1) unfolding wrong_file_def by blast
  have finish: "\<exists>s' d'. finish_download E c spec ?dir (i + 1 + 10 * length [f]) [f] q = (s', d') \<and> ds_Phase s' = PhaseFailed
      \<and> file_at d' p = Some old" if "pr_disk q = d2" for q
    using h d2 that p by (auto simp: finish_download_def Let_def VerifyChecksum_def ComputeSHA256_def ok)
  show ?thesis
    using performDownload_runs [OF one _ mk ok(2) refl refl, of s x] finish
    by (auto simp: file_turn_def Let_def p mk2 get ok)
qed

lemma corrupt_file_kept_witness:
  "\<exists>s' d'. performDownload (demo_env 416 ''00'') no_config ''/c'' 0 ''m'' (NewDownloadSpec ''r'' []) demo_pending (NewXetClient [])
       (put_file ''/c/models/m/a.bin'' [1] empty_disk) = Inr (s', d') \<and> ds_Phase s' = PhaseFailed
    \<and> file_at d' ''/c/models/m/a.bin'' = Some [1]"
proof -
  let ?spec = "NewDownloadSpec ''r'' []"
  have dir: "dest_dir ''/c'' ?spec ''m'' = ''/c/models/m''" and p: "Join [''/c/models/m'', ''a.bin''] = ''/c/models/m/a.bin''"
    by code_simp+
  have "wrong_file (demo_env 416 ''00'') no_config ?spec (dest_dir ''/c'' ?spec ''m'') ''a.bin'' ''/c/models/m/a.bin'' [1]"
    unfolding wrong_file_def dir p
    by (simp add: demo_env_def demo_hub_def ListFiles_def NewDownloadSpec_def resolveFiles_def shouldExclude_def headRequest_def
        NewAuthenticatedRequest_def ResolveDownloadURL_def file_hashes_def GetFileMetadata_def checksums_for_def demo_storage_def
        DownloadData_def find_reconstruction_def xet_options_def ResolveFileID_def Let_def split: prod.splits)
  from corrupt_file_kept [OF this, of "put_file ''/c/models/m/a.bin'' [1] empty_disk"] show ?thesis
    by (simp add: disk_laws)
qed

section \<open>A panic that nothing recovers\<close>

text \<open>
  Where the hub's answer for the first file names a range that ends behind the xorb it sends, the download panics. The
  goroutine has no \<open>recover\<close>, so the panic is not an error of that download but the end of the controller process.
\<close>

theorem reconstruction_crashes:
  assumes "resolveFiles (ListFiles (dl_net E) c i (sp_Repo spec)) spec = Inr (f # fs)"
    and "\<not> dl_cancelled E i" and "\<not> dl_cancelled E (i + 1)" and "dest_dir cacheDir spec modelName = dir"
    and "\<not> fault (dl_storage E) i MkdirAll dir" and "\<not> fault (dl_storage E) (i + 1) MkdirAll (Dir (Join [dir, f]))"
    and "find_reconstruction (dl_xet E) (i + 1) (xet_options spec f (Join [dir, f])) x = (Some recon, x1)"
    and "rc_Terms recon = t # ts" and "map_of (rc_FetchInfo recon) (tm_Hash t) = Some (info # infos)"
    and "0 \<le> sint (total_size (rc_Terms recon))" and "sint (total_size (rc_Terms recon)) \<le> xw_make_limit (dl_xet E)"
    and "FetchXorbFromFetchInfo (dl_xet E) (i + 7) info = Some (bs, spare)"
    and "int (length bs + length spare) < sint (br_End (tm_Range t))"
  shows "performDownload E c cacheDir i modelName spec s x d = Inl SliceOutOfRange"
proof -
  have "reconstruct (dl_xet E) (i + 1 + 6) recon = Inl SliceOutOfRange"
    by (rule range_beyond_panics [OF assms(8,10,11,9)]) (use assms(12,13) in \<open>simp_all add: add.commute\<close>)
  then have "downloadFile E c (i + 1) spec f (Join [dir, f]) x d' = Inl SliceOutOfRange" for d'
    using assms(7) by (simp add: downloadFile_def xetDownload_def DownloadData_def)
  then show ?thesis
    using assms(1-6) by (simp add: performDownload_def Let_def os_MkdirAll_def file_turn_def)
qed

lemma reconstruction_crashes_witness:
  "performDownload ((demo_env 200 ''77'')\<lparr>dl_xet := demo_xet 99\<rparr>) no_config ''/c'' 0 ''m'' (NewDownloadSpec ''r'' []) demo_pending
     (NewXetClient []) empty_disk = Inl SliceOutOfRange"
proof -
  let ?E = "(demo_env 200 ''77'')\<lparr>dl_xet := demo_xet 99\<rparr>" and ?spec = "NewDownloadSpec ''r'' []"
  have dir: "dest_dir ''/c'' ?spec ''m'' = ''/c/models/m''" by code_simp
  have rs: "resolveFiles (ListFiles (dl_net ?E) no_config 0 (sp_Repo ?spec)) ?spec = Inr [''a.bin'']" by code_simp
  obtain x1 where fr: "find_reconstruction (dl_xet ?E) (0 + 1) (xet_options ?spec ''a.bin'' (Join [''/c/models/m'', ''a.bin''])) (NewXetClient [])
      = (Some (demo_recon 99), x1)"
    by (simp add: find_reconstruction_def xet_options_def ResolveFileID_def GetReconstruction_def getAuthToken_def fetchAuthToken_def
        demo_xet_def NewXetClient_def Let_def)
  show ?thesis
    by (rule reconstruction_crashes [OF rs _ _ dir _ _ fr, of "\<lparr>tm_Hash = ''h'', tm_UnpackedLength = 3, tm_Range = demo_range 99\<rparr>" "[]"
          "\<lparr>xf_URL = ''x'', xf_URLRange = demo_range 11, xf_Range = demo_range 1\<rparr>" "[]"
          "encode_chunk (raw_chunk [7, 8, 9])" "[]"])
      (simp_all add: demo_env_def FetchXorbFromFetchInfo_def FetchXorbRange_def demo_storage_simps demo_recon_def demo_xet_def
        demo_range_def total_size_def)
qed

end
