(* ===== verification/Honest_Download.thy ===== *)
theory Honest_Download
  imports Fetching Download_Properties
begin

text \<open>
  The download of a model from an honest hub, all layers together: whatever fails on the way and however often it is tried
  again, the files on disk are beginnings of the remote ones, and a download that completes leaves exactly these.
\<close>

section \<open>Paths that do not collide\<close>

definition manifest_path :: "string \<Rightarrow> string" where "manifest_path dir = Join [dir, ManifestFile]"

text \<open>No file of the model is a part of another, the manifest or one of the directories.\<close>

definition separate :: "storage \<Rightarrow> string \<Rightarrow> string list \<Rightarrow> bool" where
  "separate S dir files \<longleftrightarrow> (\<forall>f \<in> set files. dir \<notin> area (Join [dir, f])
     \<and> manifest_path dir \<notin> area (Join [dir, f]) \<and> Dir (manifest_path dir) \<notin> area (Join [dir, f])
     \<and> (\<forall>i. temp_path S i (manifest_path dir) \<notin> area (Join [dir, f]))
     \<and> (\<forall>g \<in> set files. Dir (Join [dir, g]) \<notin> area (Join [dir, f])
          \<and> (g \<noteq> f \<longrightarrow> area (Join [dir, g]) \<inter> area (Join [dir, f]) = {})))"

definition all_usable :: "string \<Rightarrow> (string \<Rightarrow> byte list) \<Rightarrow> string list \<Rightarrow> disk \<Rightarrow> bool" where
  "all_usable dir remote files d \<longleftrightarrow> (\<forall>f \<in> set files. usable (Join [dir, f]) (remote f) d)"

text \<open>A change outside the areas, and a directory that is none of their paths.\<close>

lemma all_usable_frame:
  assumes "all_usable dir remote files d"
    and "\<And>f q. f \<in> set files \<Longrightarrow> q \<in> area (Join [dir, f]) \<Longrightarrow> file_at d' q = file_at d q"
    and "set (directories d') \<subseteq> insert p (set (directories d))" and "\<And>f. f \<in> set files \<Longrightarrow> p \<notin> area (Join [dir, f])"
  shows "all_usable dir remote files d'"
  unfolding all_usable_def
proof
  fix f assume f: "f \<in> set files"
  with assms(1) have "usable (Join [dir, f]) (remote f) d" by (simp add: all_usable_def)
  then show "usable (Join [dir, f]) (remote f) d'"
    by (rule usable_frame) (use assms(2-4) f in auto)
qed

lemma Mkdir_directories: "set (directories (snd (os_MkdirAll S i p d))) \<subseteq> insert p (set (directories d))"
  by (auto simp: os_MkdirAll_def)

lemma all_usable_Mkdir:
  assumes "all_usable dir remote files d" and "os_MkdirAll S i p d = (e, d')" and "\<And>f. f \<in> set files \<Longrightarrow> p \<notin> area (Join [dir, f])"
  shows "all_usable dir remote files d'"
  by (rule all_usable_frame [OF assms(1) _ _ assms(3)])
    (use file_at_Mkdir [of S i p d] Mkdir_directories [of S i p d] in \<open>simp_all add: assms(2)\<close>)

lemma AtomicWrite_frame:
  assumes "AtomicWrite S i p data d = (e, d')"
  shows "q \<noteq> p \<Longrightarrow> q \<noteq> temp_path S i p \<Longrightarrow> file_at d' q = file_at d q"
    and "set (directories d') \<subseteq> insert (Dir p) (set (directories d))"
proof -
  obtain e1 d1 where en: "EnsureDir S i p d = (e1, d1)" by fastforce
  have d1: "file_at d1 q = file_at d q" "set (directories d1) \<subseteq> insert (Dir p) (set (directories d))" for q
    using file_at_EnsureDir [of S i p d q] Mkdir_directories [of S i "Dir p" d] en
    by (auto simp: EnsureDir_def Let_def split: if_splits)
  have rm: "directories (snd (os_Remove S i p d)) = directories d" for p d
    by (simp add: os_Remove_def drop_file_def split: option.splits)
  have drop: "directories (drop_file p d) = directories d" for p d by (simp add: drop_file_def)
  from assms en have "directories d' = directories d1 \<and> (\<forall>q. q \<noteq> p \<longrightarrow> q \<noteq> temp_path S i p \<longrightarrow> file_at d' q = file_at d1 q)"
    by (auto simp: AtomicWrite_def AtomicWrite_trace_def Let_def abandon_def disk_laws rm drop split: option.splits if_splits)
  with d1 show "q \<noteq> p \<Longrightarrow> q \<noteq> temp_path S i p \<Longrightarrow> file_at d' q = file_at d q"
    and "set (directories d') \<subseteq> insert (Dir p) (set (directories d))" by simp_all
qed

section \<open>One file after the other\<close>

definition disk_after :: "progress + progress \<Rightarrow> disk" where
  "disk_after y = (case y of Inl p \<Rightarrow> pr_disk p | Inr p \<Rightarrow> pr_disk p)"

lemma file_turn_fetches:
  assumes "file_turn E c spec dir i f left p = Inr y"
  obtains "disk_after y = pr_disk p" "\<And>q. y \<noteq> Inr q"
  | e d1 where "os_MkdirAll (dl_storage E) i (Dir (Join [dir, f])) (pr_disk p) = (e, d1)"
      "disk_after y = d1" "\<And>q. y \<noteq> Inr q"
  | d1 x x' res where "os_MkdirAll (dl_storage E) i (Dir (Join [dir, f])) (pr_disk p) = (None, d1)"
      "downloadFile E c i spec f (Join [dir, f]) x d1 = Inr (res, x', disk_after y)" "\<And>q. y = Inr q \<Longrightarrow> \<exists>n. res = Some n \<and> pr_sizes q = AList.update f n (pr_sizes p)"
proof (cases "dl_cancelled E i")
  case True
  with assms that(1) show thesis by (auto simp: file_turn_def disk_after_def)
next
  case False
  obtain e d1 where mk: "os_MkdirAll (dl_storage E) i (Dir (Join [dir, f])) (pr_disk p) = (e, d1)" by fastforce
  show thesis
  proof (cases e)
    case (Some er)
    with assms False mk have y: "\<exists>q. y = Inl q \<and> pr_disk q = d1" by (auto simp: file_turn_def Let_def)
    show thesis by (rule that(2) [OF mk]) (use y in \<open>auto simp: disk_after_def\<close>)
  next
    case None
    then obtain res x' d2 where run: "downloadFile E c i spec f (Join [dir, f]) (pr_xet p) d1 = Inr (res, x', d2)"
      using assms False mk by (auto simp: file_turn_def Let_def split: sum.splits)
    have "disk_after y = d2 \<and> (\<forall>q. y = Inr q \<longrightarrow> (\<exists>n. res = Some n \<and> pr_sizes q = AList.update f n (pr_sizes p)))"
      using assms False mk None run by (cases res) (auto simp: file_turn_def Let_def disk_after_def)
    then show thesis using that(3) [OF mk [unfolded None], of _ res x'] run by auto
  qed
qed

lemma file_turn_honest:
  assumes turn: "file_turn E c spec dir i f left p = Inr y" and f: "f \<in> set files" and sep: "separate (dl_storage E) dir files"
    and hon: "honest_world (E, c, spec) f (remote f)" and use: "all_usable dir remote files (pr_disk p)"
  shows "all_usable dir remote files (disk_after y)
    \<and> (\<forall>g \<in> set files. g \<noteq> f \<longrightarrow> file_at (disk_after y) (Join [dir, g]) = file_at (pr_disk p) (Join [dir, g]))
    \<and> (\<forall>q. y = Inr q \<longrightarrow> file_at (disk_after y) (Join [dir, f]) = Some (remote f)
          \<and> pr_sizes q = AList.update f (of_nat (length (remote f))) (pr_sizes p))"
proof -
  have away: "Dir (Join [dir, f]) \<notin> area (Join [dir, g])" if "g \<in> set files" for g
    using sep f that by (simp add: separate_def)
  have disj: "area (Join [dir, f]) \<inter> area (Join [dir, g]) = {}" if "g \<in> set files" "g \<noteq> f" for g
    using sep f that unfolding separate_def by blast
  from turn show ?thesis
  proof (cases rule: file_turn_fetches)
    case 1
    with use show ?thesis by auto
  next
    case (2 e d1)
    with all_usable_Mkdir [OF use 2(1) away] file_at_Mkdir [of "dl_storage E" i "Dir (Join [dir, f])" "pr_disk p"] show ?thesis by auto
  next
    case (3 d1 x x' res)
    have u1: "all_usable dir remote files d1" by (rule all_usable_Mkdir [OF use 3(1) away])
    then have uf: "usable (Join [dir, f]) (remote f) d1" using f by (simp add: all_usable_def)
    then have w: "whole_file (E, c, spec) f (Join [dir, f]) d1 res (disk_after y)"
      using 3(2) by (auto simp: usable_def)
    have "usable (Join [dir, g]) (remote g) (disk_after y)" if "g \<in> set files" for g
    proof (cases "g = f")
      case True
      then show ?thesis using whole_file.keeps [OF hon uf w] by simp
    next
      case False
      then show ?thesis
        using whole_file.other_file(1) [OF w disj [OF that] away [OF that]] u1 that by (simp add: all_usable_def)
    qed
    moreover have "file_at (disk_after y) (Join [dir, g]) = file_at (pr_disk p) (Join [dir, g])" if "g \<in> set files" "g \<noteq> f" for g
      using whole_file.other_file(2) [OF w disj [OF that] away [OF that(1)]] 3(1)
        file_at_Mkdir [of "dl_storage E" i "Dir (Join [dir, f])" "pr_disk p"] by simp
    moreover have "file_at (disk_after y) (Join [dir, f]) = Some (remote f)
        \<and> pr_sizes q = AList.update f (of_nat (length (remote f))) (pr_sizes p)" if "y = Inr q" for q
    proof -
      from 3(3) [OF that] obtain n where n: "res = Some n" "pr_sizes q = AList.update f n (pr_sizes p)" by auto
      with whole_file.gets [OF hon uf] w show ?thesis by blast
    qed
    ultimately show ?thesis by (simp add: all_usable_def)
  qed
qed

lemma files_loop_honest:
  assumes "files_loop E c spec dir i fs p = Inr y" and "set fs \<subseteq> set files" and "separate (dl_storage E) dir files"
    and "\<forall>f \<in> set files. honest_world (E, c, spec) f (remote f)" and "all_usable dir remote files (pr_disk p)"
  shows "all_usable dir remote files (disk_after y)
    \<and> (\<forall>q. y = Inr q \<longrightarrow> (\<forall>f \<in> set files. f \<in> set fs \<or> file_at (pr_disk p) (Join [dir, f]) = Some (remote f)
          \<longrightarrow> file_at (disk_after y) (Join [dir, f]) = Some (remote f)))"
  using assms(1,2,5)
proof (induction fs arbitrary: i p)
  case Nil
  then show ?case by (auto simp: disk_after_def)
next
  case (Cons f fs)
  from Cons.prems(1) obtain z where turn: "file_turn E c spec dir i f (length fs) p = Inr z"
    and rest: "case z of Inl q \<Rightarrow> y = z | Inr q \<Rightarrow> files_loop E c spec dir (i + 10) fs q = Inr y"
    by (auto split: sum.splits)
  from Cons.prems(2) have f: "f \<in> set files" by simp
  with assms(4) have "honest_world (E, c, spec) f (remote f)" by blast
  note step = file_turn_honest [OF turn f assms(3) this Cons.prems(3)]
  show ?case
  proof (cases z)
    case (Inl q)
    with step rest show ?thesis by auto
  next
    case (Inr q)
    then have q: "disk_after z = pr_disk q" by (simp add: disk_after_def)
    from rest Inr have "files_loop E c spec dir (i + 10) fs q = Inr y" by simp
    from Cons.IH [OF this] Cons.prems(2) step q Inr show ?thesis by auto
  qed
qed

text \<open>The sizes noted for the manifest are those of the remote files.\<close>

lemma files_loop_sizes:
  assumes "files_loop E c spec dir i fs p = Inr (Inr q)" and "set fs \<subseteq> set files" and "separate (dl_storage E) dir files"
    and "\<forall>f \<in> set files. honest_world (E, c, spec) f (remote f)" and "all_usable dir remote files (pr_disk p)"
    and "keys_distinct (pr_sizes p)"
  shows "keys_distinct (pr_sizes q) \<and> (\<forall>f. map_of (pr_sizes q) f
    = (if f \<in> set fs then Some (of_nat (length (remote f))) else map_of (pr_sizes p) f))"
  using assms(1,2,5,6)
proof (induction fs arbitrary: i p)
  case Nil
  then show ?case by simp
next
  case (Cons f fs)
  from Cons.prems(1) obtain p1 where turn: "file_turn E c spec dir i f (length fs) p = Inr (Inr p1)"
    and rest: "files_loop E c spec dir (i + 10) fs p1 = Inr (Inr q)"
    by (auto split: sum.splits)
  from Cons.prems(2) have f: "f \<in> set files" by simp
  with assms(4) have "honest_world (E, c, spec) f (remote f)" by blast
  note step = file_turn_honest [OF turn f assms(3) this Cons.prems(3)]
  then have "all_usable dir remote files (pr_disk p1)"
    and sizes: "pr_sizes p1 = AList.update f (of_nat (length (remote f))) (pr_sizes p)" by (simp_all add: disk_after_def)
  moreover from sizes Cons.prems(4) have "keys_distinct (pr_sizes p1)" by (simp add: keys_distinct_update)
  ultimately show ?case using Cons.IH [OF rest] Cons.prems(2) by (auto simp: map_laws)
qed

section \<open>The whole download\<close>

lemma finish_frame:
  assumes "finish_download E c spec dir i files p = (s', d')" and "separate (dl_storage E) dir files" and "f \<in> set files"
    and "q \<in> area (Join [dir, f])"
  shows "file_at d' q = file_at (pr_disk p) q"
    and "set (directories d') \<subseteq> insert (Dir (manifest_path dir)) (set (directories (pr_disk p)))"
proof -
  have sep: "q \<noteq> manifest_path dir" "q \<noteq> temp_path (dl_storage E) i (manifest_path dir)"
    using assms(2-4) by (auto simp: separate_def)
  from assms(1) consider "d' = pr_disk p"
    | m e where "AtomicWrite (dl_storage E) i (manifest_path dir) m (pr_disk p) = (e, d')"
    by (auto simp: finish_download_def Let_def WriteManifest_def manifest_path_def split: option.splits prod.splits)
  then have "file_at d' q = file_at (pr_disk p) q
    \<and> set (directories d') \<subseteq> insert (Dir (manifest_path dir)) (set (directories (pr_disk p)))"
  proof cases
    case (2 m e)
    from AtomicWrite_frame(1) [OF 2 sep] AtomicWrite_frame(2) [OF 2] show ?thesis by simp
  qed auto
  then show "file_at d' q = file_at (pr_disk p) q"
    and "set (directories d') \<subseteq> insert (Dir (manifest_path dir)) (set (directories (pr_disk p)))" by simp_all
qed

lemma performDownload_stages:
  assumes "performDownload E c cacheDir i modelName spec s x d = Inr (s', d')"
    and "resolveFiles (ListFiles (dl_net E) c i (sp_Repo spec)) spec = Inr files" and "dest_dir cacheDir spec modelName = dir"
  obtains "d' = d" "ds_Phase s' = PhaseFailed"
  | e d1 where "os_MkdirAll (dl_storage E) i dir d = (e, d1)" "d' = d1" "ds_Phase s' = PhaseFailed"
  | d1 p0 p where "os_MkdirAll (dl_storage E) i dir d = (None, d1)" "pr_disk p0 = d1"
      "files_loop E c spec dir (i + 1) files p0 = Inr (Inl p)" "d' = pr_disk p" "ds_Phase s' = PhaseFailed"
  | d1 p0 p k where "os_MkdirAll (dl_storage E) i dir d = (None, d1)" "pr_disk p0 = d1"
      "files_loop E c spec dir (i + 1) files p0 = Inr (Inr p)" "finish_download E c spec dir k files p = (s', d')"
      "pr_sizes p0 = fold (\<lambda>f. AList.update f 0) files []"
proof -
  obtain e d1 where mk: "os_MkdirAll (dl_storage E) i dir d = (e, d1)" by fastforce
  consider "dl_cancelled E i" | "\<not> dl_cancelled E i" "e \<noteq> None \<or> files = []" | "\<not> dl_cancelled E i" "e = None" "files \<noteq> []"
    by blast
  then show thesis
  proof cases
    case 1
    with assms(1) that(1) show thesis by (auto simp: performDownload_def)
  next
    case 2
    with assms mk that(2) show thesis by (cases e) (auto simp: performDownload_def Let_def)
  next
    case 3
    note run = performDownload_runs [OF assms(2) 3(3) _ 3(1) refl refl, of cacheDir modelName d d1 s x, unfolded assms(3)]
    let ?p0 = "\<lparr>pr_status = SetProgress (dl_fl E) 0 (of_nat (length files))
        (fold (\<lambda>f. UpdateFileProgress f 0 0 PhasePending) files (SetPhase PhaseDownloading s)),
      pr_sizes = fold (\<lambda>f. AList.update f 0) files [], pr_bytes = 0, pr_xet = x, pr_disk = d1\<rparr>"
    from mk 3(2) have mk1: "os_MkdirAll (dl_storage E) i dir d = (None, d1)" by simp
    obtain y where y: "files_loop E c spec dir (i + 1) files ?p0 = Inr y"
      using run [OF mk1] assms(1) by (cases "files_loop E c spec dir (i + 1) files ?p0") auto
    show thesis
    proof (cases y)
      case (Inl p)
      with run [OF mk1] assms(1) y files_loop_fails that(3) [OF mk1, of ?p0 p] show thesis by simp
    next
      case (Inr p)
      with run [OF mk1] assms(1) y that(4) [OF mk1, of ?p0 p] show thesis by simp
    qed
  qed
qed

text \<open>The stages put together.\<close>

lemma honest_download:
  assumes "performDownload E c cacheDir i modelName spec s x d = Inr (s', d')"
    and "resolveFiles (ListFiles (dl_net E) c i (sp_Repo spec)) spec = Inr files" and "dest_dir cacheDir spec modelName = dir"
    and "separate (dl_storage E) dir files" and "\<forall>f \<in> set files. honest_world (E, c, spec) f (remote f)"
    and "all_usable dir remote files d"
  shows "all_usable dir remote files d'
    \<and> (ds_Phase s' = PhaseComplete \<longrightarrow> (\<forall>f \<in> set files. file_at d' (Join [dir, f]) = Some (remote f)))"
proof -
  have mk: "all_usable dir remote files d1" if "os_MkdirAll (dl_storage E) i dir d = (e, d1)" for e d1
    by (rule all_usable_Mkdir [OF assms(6) that]) (use assms(4) in \<open>auto simp: separate_def\<close>)
  from assms(1-3) show ?thesis
  proof (cases rule: performDownload_stages)
    case 1
    with assms(6) show ?thesis by simp
  next
    case (2 e d1)
    with mk show ?thesis by simp
  next
    case (3 d1 p0 p)
    with files_loop_honest [OF 3(3) order_refl assms(4,5)] mk [OF 3(1)] show ?thesis by (simp add: disk_after_def)
  next
    case (4 d1 p0 p k)
    have loop: "all_usable dir remote files (pr_disk p)" "\<forall>f \<in> set files. file_at (pr_disk p) (Join [dir, f]) = Some (remote f)"
      using files_loop_honest [OF 4(3) order_refl assms(4,5)] mk [OF 4(1)] 4(2) by (simp_all add: disk_after_def)
    note fin = finish_frame [OF 4(4) assms(4)]
    have "all_usable dir remote files d'"
    proof (cases files)
      case Nil
      then show ?thesis by (simp add: all_usable_def)
    next
      case (Cons g gs)
      show ?thesis
        by (rule all_usable_frame [OF loop(1) fin(1) fin(2), where q1 = "Join [dir, g]" and f1 = g])
          (use assms(4) Cons in \<open>auto simp: separate_def\<close>)
    qed
    moreover have "file_at d' (Join [dir, f]) = Some (remote f)" if "f \<in> set files" for f
      using fin(1) [OF that partPath_area(3)] loop(2) that by simp
    ultimately show ?thesis by simp
  qed
qed

text \<open>
  C8. Whatever fails on the way, a download from an honest hub leaves every chosen file absent or a beginning of the remote one,
  so that the next download can go on from there; and if it completes, every chosen file is exactly the remote one. What was there
  before under the chosen names is a beginning of the remote file (or a right part of it), and no chosen file lies in the way of
  another, of the manifest or of a directory.
\<close>

theorem honest_download_whole:
  assumes "performDownload E c cacheDir i modelName spec s x d = Inr (s', d')"
    and "resolveFiles (ListFiles (dl_net E) c i (sp_Repo spec)) spec = Inr files" and "dest_dir cacheDir spec modelName = dir"
    and "separate (dl_storage E) dir files" and "\<forall>f \<in> set files. honest_world (E, c, spec) f (remote f)"
    and "all_usable dir remote files d"
  shows "all_usable dir remote files d'
    \<and> (ds_Phase s' = PhaseComplete \<longrightarrow> (\<forall>f \<in> set files. file_at d' (Join [dir, f]) = Some (remote f)))"
  using honest_download [OF assms] .

text \<open>An honest hub with one file of two bytes, and a first byte of it left from an earlier attempt.\<close>

definition ranged_hub :: network where
  "ranged_hub = (demo_hub 200)\<lparr>http := \<lambda>i rq. if rq_Method rq = ''HEAD'' then None
     else if rq_URL rq = ''https://huggingface.co/api/models/r'' then http (demo_hub 200) i rq
     else Some \<lparr>rp_Status = (case rq_Range rq of WholeBody \<Rightarrow> 200 | From off \<Rightarrow> if 2 \<le> unat off then 416 else 206 | _ \<Rightarrow> 206),
       rp_ContentLength = '''', rp_AcceptRanges = '''', rp_Body = part_of (rq_Range rq) [7, 7], rp_Clean = True\<rparr>\<rparr>"

definition ranged_env :: download_env where
  "ranged_env = (demo_env 200 ''77'')\<lparr>dl_net := ranged_hub\<rparr>"

definition begun_disk :: disk where "begun_disk = put_file ''/c/models/m/a.bin'' [7] empty_disk"

definition ranged_run :: "(DownloadStatus \<times> disk) may_panic" where
  "ranged_run = performDownload ranged_env no_config ''/c'' 0 ''m'' (NewDownloadSpec ''r'' []) demo_pending (NewXetClient []) begun_disk"

lemma ranged_run_completes: "case ranged_run of Inl p \<Rightarrow> False | Inr (s, d) \<Rightarrow> ds_Phase s = PhaseComplete"
  by code_simp

lemma ranged_world: "honest_world (ranged_env, no_config, NewDownloadSpec ''r'' []) ''a.bin'' [7, 7]"
proof -
  have "honest_hub ranged_hub (ResolveDownloadURL ''r'' ''a.bin'') [7, 7]"
    unfolding honest_hub_def ranged_hub_def demo_hub_def
    by (auto simp: ResolveDownloadURL_def split: byte_range.splits if_splits)
  moreover have "honest_xet (dl_xet ranged_env) (xet_options (NewDownloadSpec ''r'' []) ''a.bin'' l) [7, 7]" for l
    by (simp add: honest_xet_def ranged_env_def demo_env_def find_reconstruction_def xet_options_def ResolveFileID_def Let_def
        split: prod.splits)
  ultimately show ?thesis by (simp add: ranged_env_def demo_env_def in_order_def NewDownloadSpec_def)
qed

lemma begun_usable: "usable ''/c/models/m/a.bin'' [7, 7] begun_disk"
proof -
  have "Dir ''/c/models/m/a.bin'' = ''/c/models/m''" by code_simp
  moreover have "file_at empty_disk q = None" "directories empty_disk = []" for q by (simp_all add: empty_disk_def file_at_def)
  ultimately show ?thesis
    by (auto simp: usable_def begun_disk_def part_ok_def disk_laws area_def partPath_def)
qed

lemma ranged_paths: "Join [''/c/models/m'', ''a.bin''] = ''/c/models/m/a.bin''"
  "manifest_path ''/c/models/m'' = ''/c/models/m/.manifest''" "Dir ''/c/models/m/.manifest'' = ''/c/models/m''"
  "Dir ''/c/models/m/a.bin'' = ''/c/models/m''" "Join [''/c/models/m'', ''.tmp-download-1''] = ''/c/models/m/.tmp-download-1''"
  by code_simp+

lemma ranged_dir: "dest_dir ''/c'' (NewDownloadSpec ''r'' []) ''m'' = ''/c/models/m''" by code_simp

lemma ranged_files: "resolveFiles (ListFiles (dl_net ranged_env) no_config 0 (sp_Repo (NewDownloadSpec ''r'' []))) (NewDownloadSpec ''r'' [])
    = Inr [''a.bin'']"
  by code_simp

lemma ranged_separate: "separate (dl_storage ranged_env) ''/c/models/m'' [''a.bin'']"
proof -
  have "temp_path (dl_storage ranged_env) i ''/c/models/m/.manifest'' = ''/c/models/m/.tmp-download-1''" for i
    by (simp add: temp_path_def ranged_paths ranged_env_def demo_env_def demo_storage_def)
  then show ?thesis by (auto simp: separate_def ranged_paths area_def partPath_def)
qed

lemma ranged_usable: "all_usable ''/c/models/m'' (\<lambda>f. [7, 7]) [''a.bin''] begun_disk"
  using begun_usable by (simp add: all_usable_def ranged_paths)

lemma honest_download_whole_witness:
  "\<exists>s' d'. ranged_run = Inr (s', d') \<and> file_at d' ''/c/models/m/a.bin'' = Some [7, 7]"
proof -
  obtain s' d' where run: "ranged_run = Inr (s', d')" and ok: "ds_Phase s' = PhaseComplete"
    using ranged_run_completes by (auto split: sum.splits)
  show ?thesis
    using honest_download_whole [OF run [unfolded ranged_run_def] ranged_files ranged_dir ranged_separate _ ranged_usable]
      ranged_world run ok ranged_paths(1) by auto
qed

end
