(* ===== verification/Verified_Download.thy ===== *)
theory Verified_Download
  imports Honest_Download
begin

text \<open>
  The download and the verification together: what a completed download from an honest hub leaves, with the marker that the
  controller then writes, passes the check that every later \<open>handleDownload\<close> makes, so that nothing is downloaded again, unless the
  hub's own GGUF files do not pass it.
\<close>

lemma keys_distinct_sizes: "keys_distinct m \<Longrightarrow> keys_distinct (fold (\<lambda>f. AList.update f (0 :: int64)) files m)"
  by (induction files arbitrary: m) simp_all

text \<open>The files with their sizes, as a manifest lists them.\<close>

definition listing :: "(string \<Rightarrow> byte list) \<Rightarrow> string list \<Rightarrow> (string \<times> int64) set" where
  "listing remote files = (\<lambda>f. (f, of_nat (length (remote f)))) ` set files"

definition marker_path :: "string \<Rightarrow> string" where "marker_path dir = Join [dir, ReadyMarkerFile]"

text \<open>The marker and its temporary file are none of the files of the model and not the manifest.\<close>

definition marker_apart :: "storage \<Rightarrow> nat \<Rightarrow> string \<Rightarrow> string list \<Rightarrow> bool" where
  "marker_apart S k dir files \<longleftrightarrow> (\<forall>q \<in> {marker_path dir, temp_path S k (marker_path dir)}.
     q \<noteq> manifest_path dir \<and> (\<forall>f \<in> set files. q \<noteq> Join [dir, f]))"

lemma completed_manifest:
  assumes "performDownload E c cacheDir i modelName spec s x d = Inr (s', d')" and "ds_Phase s' = PhaseComplete"
    and "resolveFiles (ListFiles (dl_net E) c i (sp_Repo spec)) spec = Inr files" and "dest_dir cacheDir spec modelName = dir"
    and "separate (dl_storage E) dir files" and "\<forall>f \<in> set files. honest_world (E, c, spec) f (remote f)"
    and "all_usable dir remote files d"
  obtains m where "file_at d' (manifest_path dir) = Some (json_encode (dl_storage E) m)"
    "set (man_Files m) = listing remote files"
    "\<And>f. f \<in> set files \<Longrightarrow> file_at d' (Join [dir, f]) = Some (remote f)"
proof -
  have files: "file_at d' (Join [dir, f]) = Some (remote f)" if "f \<in> set files" for f
    using honest_download [OF assms(1,3-7)] assms(2) that by blast
  have mk: "all_usable dir remote files d1" if "os_MkdirAll (dl_storage E) i dir d = (e, d1)" for e d1
    by (rule all_usable_Mkdir [OF assms(7) that]) (use assms(5) in \<open>auto simp: separate_def\<close>)
  from assms(1,3,4) show thesis
  proof (cases rule: performDownload_stages)
    case (4 d1 p0 p k)
    let ?m = "\<lparr>man_Files = pr_sizes p, man_Checksums = file_hashes E c k spec files\<rparr>"
    have "keys_distinct (pr_sizes p0)" unfolding 4(5) by (rule keys_distinct_sizes) simp
    moreover have "all_usable dir remote files (pr_disk p0)" using mk [OF 4(1)] 4(2) by simp
    ultimately have sizes: "keys_distinct (pr_sizes p)" "\<And>f. map_of (pr_sizes p) f
        = (if f \<in> set files then Some (of_nat (length (remote f))) else map_of (pr_sizes p0) f)"
      using files_loop_sizes [OF 4(3) order_refl assms(5,6)] by blast+
    have none: "map_of (fold (\<lambda>f. AList.update f (0 :: int64)) fs m) f = None"
      if "f \<notin> set fs" "map_of m f = None" for f fs m
      using that by (induction fs arbitrary: m) (simp_all add: map_laws)
    have "set (pr_sizes p) = listing remote files"
    proof (intro set_eqI iffI)
      fix x assume "x \<in> set (pr_sizes p)"
      moreover obtain f n where x: "x = (f, n)" by fastforce
      ultimately have "map_of (pr_sizes p) f = Some n" using map_of_is_SomeI [OF sizes(1)] by simp
      with x sizes(2) [of f] none [of f files "[]"] 4(5) show "x \<in> listing remote files"
        by (auto simp: listing_def split: if_splits)
    next
      fix x assume "x \<in> listing remote files"
      then show "x \<in> set (pr_sizes p)" using sizes(2) by (auto simp: listing_def intro!: map_of_SomeD)
    qed
    moreover from finish_complete [OF 4(4) assms(2)] have
      "AtomicWrite (dl_storage E) k (manifest_path dir) (json_encode (dl_storage E) ?m) (pr_disk p) = (None, d')"
      by (simp add: WriteManifest_def manifest_path_def)
    from AtomicWrite_done [OF this] have "file_at d' (manifest_path dir) = Some (json_encode (dl_storage E) ?m)" by blast
    ultimately show thesis using that [of ?m] files by simp
  qed (use assms(2) in simp_all)
qed

text \<open>The JSON text of a manifest with these entries decodes to one with the same entries, in whatever order.\<close>

definition reads_back :: "storage \<Rightarrow> (string \<times> int64) set \<Rightarrow> bool" where
  "reads_back S entries \<longleftrightarrow> (\<forall>m. set (man_Files m) = entries \<longrightarrow>
     (\<exists>m'. json_decode S (json_encode S m) = Some m' \<and> set (man_Files m') = entries))"

text \<open>Every GGUF file of the hub passes the header check; nothing in the download looks at it.\<close>

definition gguf_accepted :: "(string \<Rightarrow> byte list) \<Rightarrow> string list \<Rightarrow> bool" where
  "gguf_accepted remote files \<longleftrightarrow>
     (\<forall>f \<in> set files. Ext f = ''.gguf'' \<longrightarrow> validateGGUFHeader (remote f) (of_nat (length (remote f))) = None)"

text \<open>
  C9. The check of a completed download is decided by the hub's GGUF files alone: after a completed download from an honest hub and the
  marker that the controller writes, if no system call of the check fails, \<open>CheckAndVerifyReadyMarkerDetailed\<close> (which every later
  \<open>handleDownload\<close> makes) finds the model verified and changes nothing on disk exactly if every chosen \<open>.gguf\<close> file of the hub passes
  \<open>validateGGUFHeader\<close>; otherwise it removes the whole directory, which \<open>handleDownload\<close> then downloads again. Files already there at the
  start are beginnings of the remote ones, no chosen file lies in the way of another or of the manifest, the JSON text of the manifest is read back with its entries, and the marker and its temporary
  file are none of the files of the model.
\<close>

theorem completed_download_verifies:
  assumes "performDownload E c cacheDir i modelName spec s x d = Inr (s', d')" and "ds_Phase s' = PhaseComplete"
    and "resolveFiles (ListFiles (dl_net E) c i (sp_Repo spec)) spec = Inr files" and "dest_dir cacheDir spec modelName = dir"
    and "separate (dl_storage E) dir files" and "\<forall>f \<in> set files. honest_world (E, c, spec) f (remote f)"
    and "all_usable dir remote files d"
    and "WriteReadyMarker (dl_storage E) k dir d' = (None, d'')" and "marker_apart (dl_storage E) k dir files"
    and "reads_back (dl_storage E) (listing remote files)"
    and "\<And>op p. \<not> fault (dl_storage E) j op p"
  shows "if gguf_accepted remote files
    then CheckAndVerifyReadyMarkerDetailed (dl_storage E) j dir d'' = (\<lparr>MarkerExists = True, Verified = True, VerifyError = None\<rparr>, d'')
    else \<exists>e d3. CheckAndVerifyReadyMarkerDetailed (dl_storage E) j dir d''
        = (\<lparr>MarkerExists = True, Verified = False, VerifyError = Some e\<rparr>, d3)
      \<and> (\<forall>p. under dir p \<longrightarrow> file_at d3 p = None)"
proof -
  let ?S = "dl_storage E"
  obtain m where man: "file_at d' (manifest_path dir) = Some (json_encode ?S m)"
    and sizes: "set (man_Files m) = listing remote files"
    and files: "\<And>f. f \<in> set files \<Longrightarrow> file_at d' (Join [dir, f]) = Some (remote f)"
    using completed_manifest [OF assms(1-7)] by metis
  from assms(8) have "AtomicWrite ?S k (marker_path dir) [] d' = (None, d'')" by (simp add: WriteReadyMarker_def marker_path_def)
  note w = AtomicWrite_done [OF this]
  have "file_at d'' (manifest_path dir) = Some (json_encode ?S m)"
    using w man assms(9) unfolding marker_apart_def by (metis insertI1 insertI2)
  moreover obtain m' where "json_decode ?S (json_encode ?S m) = Some m'" and sizes': "set (man_Files m') = listing remote files"
    using assms(10) sizes unfolding reads_back_def by blast
  ultimately have read: "ReadManifest ?S j dir d'' = Inr m'"
    using assms(11) by (simp add: ReadManifest_def os_ReadFile_def manifest_path_def)
  have kept: "file_at d'' (Join [dir, f]) = Some (remote f)" if "f \<in> set files" for f
    using w files [OF that] assms(9) that unfolding marker_apart_def by (metis insertI1 insertI2)
  have matches: "matches_manifest ?S dir d'' m' \<longleftrightarrow> gguf_accepted remote files"
    unfolding matches_manifest_def list_all_iff sizes' gguf_accepted_def using kept
    by (auto simp: listing_def matches_entry_def)
  have marker: "CheckReadyMarker ?S j dir d''"
    using w assms(11) by (simp add: CheckReadyMarker_def os_Stat_def marker_path_def)
  show ?thesis
  proof (cases "gguf_accepted remote files")
    case True
    with VerifyFiles_complete [OF read _ assms(11)] matches have "VerifyFiles ?S j dir d'' = None" by simp
    with True marker show ?thesis by (simp add: CheckAndVerifyReadyMarkerDetailed_def)
  next
    case False
    then have "VerifyFiles ?S j dir d'' \<noteq> None" using VerifyFiles_None read matches by (metis sum.inject(2))
    with False marker assms(11) show ?thesis by (auto simp: CheckAndVerifyReadyMarkerDetailed_def disk_laws)
  qed
qed

lemma completed_download_verifies_witness:
  "\<exists>s' d' d''. ranged_run = Inr (s', d') \<and> WriteReadyMarker (dl_storage ranged_env) 0 ''/c/models/m'' d' = (None, d'')
    \<and> CheckAndVerifyReadyMarkerDetailed (dl_storage ranged_env) 0 ''/c/models/m'' d''
        = (\<lparr>MarkerExists = True, Verified = True, VerifyError = None\<rparr>, d'')"
proof -
  let ?spec = "NewDownloadSpec ''r'' []" and ?S = "dl_storage ranged_env" and ?dir = "''/c/models/m''"
  obtain s' d' where run: "ranged_run = Inr (s', d')" and ok: "ds_Phase s' = PhaseComplete"
    using ranged_run_completes by (auto split: sum.splits)
  obtain e d'' where w: "WriteReadyMarker ?S 0 ?dir d' = (e, d'')" by fastforce
  have fine: "\<not> fault ?S j op p" for j op p by (simp add: ranged_env_def demo_env_def demo_storage_def)
  have e: "e = None"
    using w by (auto simp: WriteReadyMarker_def AtomicWrite_def AtomicWrite_trace_def EnsureDir_def os_MkdirAll_def fine Let_def
        split: if_splits)
  have p: "Join [?dir, ''a.bin''] = ''/c/models/m/a.bin''" "marker_path ?dir = ''/c/models/m/.ready''"
    "Dir ''/c/models/m/.ready'' = ?dir" "Join [?dir, ''.tmp-download-1''] = ''/c/models/m/.tmp-download-1''" by code_simp+
  have ext: "Ext ''a.bin'' = ''.bin''" by code_simp
  have tmp: "temp_path ?S 0 ''/c/models/m/.ready'' = ''/c/models/m/.tmp-download-1''"
    by (simp add: temp_path_def p ranged_env_def demo_env_def demo_storage_def)
  have apart: "marker_apart ?S 0 ?dir [''a.bin'']"
    by (simp add: marker_apart_def p tmp ranged_paths)
  have rb: "reads_back ?S (listing (\<lambda>f. [7, 7]) [''a.bin''])"
    by (simp add: reads_back_def listing_def ranged_env_def demo_env_def demo_storage_def)
  have accepted: "gguf_accepted (\<lambda>f. [7, 7]) [''a.bin'']" by (simp add: gguf_accepted_def ext)
  have "CheckAndVerifyReadyMarkerDetailed ?S 0 ?dir d'' = (\<lparr>MarkerExists = True, Verified = True, VerifyError = None\<rparr>, d'')"
    using completed_download_verifies [OF run [unfolded ranged_run_def] ok ranged_files ranged_dir ranged_separate _ ranged_usable
        w [unfolded e] apart rb fine] accepted ranged_world by simp
  with run w e show ?thesis by blast
qed

end
