(* ===== verification/Cache_Properties.thy ===== *)
theory Cache_Properties
  imports Cache
begin

text \<open>
  What a cleanup of the cache removes and keeps: only directories that no listed model names and that were not used for the
  TTL; a model that was touched within the TTL stays; a model of another namespace does not count as active.
\<close>

section \<open>The loop\<close>

lemma cleanup_loop_other:
  "name \<notin> fst ` set rest \<Longrightarrow> map_of (cleanup_loop W i m active rest es) name = map_of es name"
  by (induction W i m active rest es rule: cleanup_loop.induct)
    (auto simp: remove_model_def map_laws split: option.splits)

text \<open>What becomes of one entry: its fate is decided at one moment of the loop.\<close>

lemma cleanup_loop_entry:
  assumes "keys_distinct rest" and "map_of rest name = Some e"
  obtains k es1 where "k \<ge> i" and "map_of es1 name = map_of es name"
    and "map_of (cleanup_loop W i m active rest es) name = map_of
      (case e of PlainFile \<Rightarrow> es1 | ModelDir dir \<Rightarrow> if removable W k m active name dir then remove_model W k m name dir es1 else es1) name"
  using assms
proof (induction rest arbitrary: i es thesis)
  case Nil
  then show ?case by simp
next
  case (Cons x rest)
  obtain n e' where x: "x = (n, e')" by fastforce
  let ?es1 = "case e' of PlainFile \<Rightarrow> es | ModelDir dir \<Rightarrow> if removable W i m active n dir then remove_model W i m n dir es else es"
  have step: "cleanup_loop W i m active (x # rest) es = cleanup_loop W (i + 1) m active rest ?es1"
    by (cases e') (simp_all add: x)
  show ?case
  proof (cases "n = name")
    case True
    with Cons.prems have "name \<notin> fst ` set rest" and e': "e' = e" by (auto simp: x)
    then have "map_of (cleanup_loop W i m active (x # rest) es) name = map_of ?es1 name"
      unfolding step by (intro cleanup_loop_other)
    from this [unfolded True e'] show ?thesis by (intro Cons.prems(1) [of i es]) simp_all
  next
    case False
    have same: "map_of ?es1 name = map_of es name"
      using False by (auto simp: remove_model_def map_laws split: cache_entry.splits option.splits)
    from Cons.prems False have "keys_distinct rest" "map_of rest name = Some e" by (auto simp: x)
    from Cons.IH [OF _ this, of "i + 1" ?es1] obtain k es1 where "k \<ge> i + 1" "map_of es1 name = map_of ?es1 name"
      "map_of (cleanup_loop W (i + 1) m active rest ?es1) name = map_of
      (case e of PlainFile \<Rightarrow> es1 | ModelDir dir \<Rightarrow> if removable W k m active name dir then remove_model W k m name dir es1 else es1) name"
      by blast
    then show ?thesis using Cons.prems(1) [of k es1] same unfolding step by simp
  qed
qed

text \<open>What a successful cleanup listed and did.\<close>

lemma cleanup_None:
  assumes "cleanup W i m (Some es) = (None, m', fs')"
  obtains models where "cc_list W i (cm_namespace m) = Some models"
    and "fs' = Some (cleanup_loop W (i + 2) (m\<lparr>cm_lastCleanup := cc_clock W i\<rparr>) (im_Name ` set models) es es)"
  using assms by (auto simp: cleanup_def scan_cache_def Let_def split: option.splits if_splits)

lemma removable_upd [simp]: "removable W k (m\<lparr>cm_lastCleanup := t\<rparr>) active n dir = removable W k m active n dir"
  by (simp add: removable_def)

section \<open>What is removed\<close>

lemma only_expired:
  assumes "cleanup W i m (Some es) = (r, m', fs')" and "keys_distinct es" and "entry_at fs' name \<noteq> map_of es name"
  obtains models dir k where "r = None" "cc_list W i (cm_namespace m) = Some models" "map_of es name = Some (ModelDir dir)"
    "k \<ge> i" "removable W k m (im_Name ` set models) name dir"
proof -
  have r: "r = None"
    using assms by (auto simp: cleanup_def scan_cache_def entry_at_def Let_def split: option.splits if_splits)
  obtain models where models: "cc_list W i (cm_namespace m) = Some models"
    and fs': "fs' = Some (cleanup_loop W (i + 2) (m\<lparr>cm_lastCleanup := cc_clock W i\<rparr>) (im_Name ` set models) es es)"
    using cleanup_None [OF assms(1) [unfolded r]] .
  have "map_of es name \<noteq> None"
  proof
    assume none: "map_of es name = None"
    then have "name \<notin> fst ` set es" by (simp add: map_of_eq_None_iff)
    from cleanup_loop_other [OF this] assms(3) show False by (simp add: fs' entry_at_def)
  qed
  then obtain e where e: "map_of es name = Some e" by auto
  let ?m = "m\<lparr>cm_lastCleanup := cc_clock W i\<rparr>" and ?active = "im_Name ` set models"
  obtain k es1 where k: "k \<ge> i + 2" "map_of es1 name = map_of es name"
    and fate: "map_of (cleanup_loop W (i + 2) ?m ?active es es) name = map_of (case e of PlainFile \<Rightarrow> es1 | ModelDir dir \<Rightarrow>
        if removable W k ?m ?active name dir then remove_model W k ?m name dir es1 else es1) name"
    by (rule cleanup_loop_entry [OF assms(2) e])
  have "map_of (cleanup_loop W (i + 2) ?m ?active es es) name \<noteq> map_of es name" using assms(3) by (simp add: fs' entry_at_def)
  with fate k obtain dir where "e = ModelDir dir" "removable W k m ?active name dir"
    by (auto split: cache_entry.splits if_splits)
  with that [OF r models, of dir k] e k show thesis by simp
qed

text \<open>
  C36. A cleanup changes nothing but directories whose name no model of the manager's namespace has and whose last use, at the
  moment the loop looks at them, is known and longer ago than the TTL; if it fails it changes nothing at all.
\<close>

theorem cleanup_removes_only_expired:
  assumes "cleanup W i m (Some es) = (r, m', fs')" and "keys_distinct es" and "entry_at fs' name \<noteq> map_of es name"
  shows "r = None \<and> (\<exists>models dir k. cc_list W i (cm_namespace m) = Some models \<and> name \<notin> im_Name ` set models
    \<and> map_of es name = Some (ModelDir dir) \<and> k \<ge> i
    \<and> getLastAccessTime W k (Join [cm_cacheDir m, name]) dir \<noteq> zero_time
    \<and> cc_clock W k - getLastAccessTime W k (Join [cm_cacheDir m, name]) dir > cm_ttl m)"
proof -
  obtain models dir k where "r = None" "cc_list W i (cm_namespace m) = Some models" "map_of es name = Some (ModelDir dir)"
    "k \<ge> i" "removable W k m (im_Name ` set models) name dir"
    using only_expired [OF assms] .
  then show ?thesis by (intro conjI exI [of _ models] exI [of _ dir] exI [of _ k]) (simp_all add: removable_def Let_def)
qed

text \<open>Conversely: without failures, a directory that is not active and expired from the start of the cleanup on is gone.\<close>

lemma expired_is_removed:
  assumes "cc_list W i (cm_namespace m) = Some models" and "name \<notin> im_Name ` set models"
    and "keys_distinct es" and "map_of es name = Some (ModelDir dir)"
    and "list_all (\<lambda>(op, p). \<forall>k. \<not> cc_fault W k op p) [(Stat, Join [Join [cm_cacheDir m, name], ''.last-used'']),
       (Stat, Join [cm_cacheDir m, name]), (RemoveAll, Join [cm_cacheDir m, name])]"
    and "\<not> cc_readdir_fault W (i + 1)" and "mono (cc_clock W)"
    and "t = (case map_of (cd_files dir) ''.last-used'' of Some f \<Rightarrow> cf_mtime f | None \<Rightarrow> cd_mtime dir)"
    and "t \<noteq> zero_time" and "cc_clock W i - t > cm_ttl m"
  shows "\<exists>m' fs'. cleanup W i m (Some es) = (None, m', fs') \<and> entry_at fs' name = None"
proof -
  let ?m = "m\<lparr>cm_lastCleanup := cc_clock W i\<rparr>"
  have run: "cleanup W i m (Some es) = (None, ?m, Some (cleanup_loop W (i + 2) ?m (im_Name ` set models) es es))"
    using assms(1,6) by (simp add: cleanup_def scan_cache_def Let_def)
  obtain k es1 where k: "k \<ge> i + 2"
    and fate: "map_of (cleanup_loop W (i + 2) ?m (im_Name ` set models) es es) name = map_of (case ModelDir dir of PlainFile \<Rightarrow> es1
      | ModelDir dir \<Rightarrow> if removable W k ?m (im_Name ` set models) name dir then remove_model W k ?m name dir es1 else es1) name"
    by (rule cleanup_loop_entry [OF assms(3,4)])
  have "cc_clock W i \<le> cc_clock W k" using k assms(7) by (auto intro: monoD)
  then have "removable W k m (im_Name ` set models) name dir"
    using assms(2,5,8-10) by (auto simp: removable_def getLastAccessTime_def Let_def split: option.splits)
  then have "entry_at (Some (cleanup_loop W (i + 2) ?m (im_Name ` set models) es es)) name = None"
    using fate assms(5) by (simp add: entry_at_def remove_model_def map_laws)
  with run show ?thesis by blast
qed

text \<open>
  A model of another namespace is not active for the cleanup, which lists only its own: once its directory has not changed
  for the TTL, the cleanup deletes the files from under its pod, although its \<open>InferenceModel\<close> exists.
\<close>

theorem other_namespace_removed:
  assumes "im_Namespace model \<noteq> cm_namespace m" and "model \<in> set cluster"
    and "cc_list W i (cm_namespace m) = Some (filter (\<lambda>x. im_Namespace x = cm_namespace m) cluster)"
    and "list_all (\<lambda>x. im_Name x = im_Name model \<longrightarrow> im_Namespace x \<noteq> cm_namespace m) cluster"
    and "keys_distinct es" and "map_of es (im_Name model) = Some (ModelDir dir)"
    and "list_all (\<lambda>(op, p). \<forall>k. \<not> cc_fault W k op p)
       [(Stat, Join [Join [cm_cacheDir m, im_Name model], ''.last-used'']),
        (Stat, Join [cm_cacheDir m, im_Name model]), (RemoveAll, Join [cm_cacheDir m, im_Name model])]"
    and "\<not> cc_readdir_fault W (i + 1)" and "mono (cc_clock W)"
    and "map_of (cd_files dir) ''.last-used'' = None" and "cd_mtime dir \<noteq> zero_time"
    and "cc_clock W i - cd_mtime dir > cm_ttl m"
  shows "\<exists>m' fs'. cleanup W i m (Some es) = (None, m', fs') \<and> entry_at fs' (im_Name model) = None"
  by (rule expired_is_removed [OF assms(3) _ assms(5-9), where t = "cd_mtime dir"])
    (use assms(4,10-12) in \<open>auto simp: list_all_iff\<close>)

section \<open>Touched models\<close>

lemma touched_entry:
  assumes "TouchModel W j name m fs = (True, Some es)"
  obtains dir where "map_of es name = Some (ModelDir (put_marker (cc_clock W (j + 1)) dir))"
  using assms that
  by (auto simp: TouchModel_def Let_def map_laws split: if_splits option.splits cache_entry.splits)

lemma touched_keys:
  assumes "TouchModel W j name m (Some es0) = (True, Some es)" and "keys_distinct es0"
  shows "keys_distinct es"
  using assms by (auto simp: TouchModel_def make_dir_def Let_def split: if_splits option.splits cache_entry.splits)

text \<open>
  A model that was touched is kept by every cleanup that ends within the TTL, also if no \<open>InferenceModel\<close> has its name, as
  long as the marker can be read.
\<close>

theorem touched_model_kept:
  assumes "TouchModel W j name m (Some es0) = (True, Some es)" and "keys_distinct es0"
    and "\<forall>k \<ge> i. cc_clock W k - cc_clock W (j + 1) \<le> cm_ttl m"
    and "\<forall>k. \<not> cc_fault W k Stat (Join [Join [cm_cacheDir m, name], ''.last-used''])"
  shows "entry_at (snd (snd (cleanup W i m (Some es)))) name = map_of es name \<and> map_of es name \<noteq> None"
proof -
  obtain dir where dir: "map_of es name = Some (ModelDir (put_marker (cc_clock W (j + 1)) dir))"
    using touched_entry [OF assms(1)] .
  obtain r m' fs' where run: "cleanup W i m (Some es) = (r, m', fs')" by (metis prod_cases3)
  have "entry_at fs' name = map_of es name"
  proof (rule ccontr)
    assume ne: "entry_at fs' name \<noteq> map_of es name"
    obtain models dir' k where "r = None" "cc_list W i (cm_namespace m) = Some models"
      and d: "map_of es name = Some (ModelDir dir')" "k \<ge> i" "removable W k m (im_Name ` set models) name dir'"
      using only_expired [OF run touched_keys [OF assms(1,2)] ne] .
    have "getLastAccessTime W k (Join [cm_cacheDir m, name]) dir' = cc_clock W (j + 1)"
      using d(1) dir assms(4) by (auto simp: getLastAccessTime_def put_marker_def map_laws split: option.splits)
    with d assms(3) show False by (auto simp: removable_def Let_def)
  qed
  with run dir show ?thesis by simp
qed

section \<open>A cache for the witnesses\<close>

definition demo_cache_manager :: CacheManager where
  "demo_cache_manager = NewCacheManager [WithCacheManagerDir ''/models'', WithTTL 100, WithNamespace ''inference'']"

definition demo_dir :: cache_dir where "demo_dir = \<lparr>cd_mtime = 5, cd_files = []\<rparr>"

definition demo_cache :: "InferenceModel list \<Rightarrow> cache_world" where
  "demo_cache cluster = \<lparr>cc_fault = (\<lambda>k op p. False), cc_readdir_fault = (\<lambda>k. False), cc_walk_fault = (\<lambda>k p. False),
     cc_chtimes_fault = (\<lambda>k. False), cc_survivor = (\<lambda>k d. None), cc_clock = (\<lambda>k. 1000 + int k),
     cc_list = (\<lambda>k ns. Some (filter (\<lambda>x. im_Namespace x = ns) cluster))\<rparr>"

lemma demo_manager_simps [simp]:
  "cm_namespace demo_cache_manager = ''inference''" "cm_ttl demo_cache_manager = 100"
  by (simp_all add: demo_cache_manager_def NewCacheManager_def)

lemma cleanup_removes_only_expired_witness:
  "\<exists>models dir k. cc_list (demo_cache []) 0 ''inference'' = Some models \<and> ''old'' \<notin> im_Name ` set models
    \<and> map_of [(''old'', ModelDir demo_dir)] ''old'' = Some (ModelDir dir) \<and> k \<ge> 0
    \<and> cc_clock (demo_cache []) k - getLastAccessTime (demo_cache []) k (Join [''/models'', ''old'']) dir > 100"
proof -
  let ?W = "demo_cache []" and ?m = demo_cache_manager and ?es = "[(''old'', ModelDir demo_dir)]"
  have dir: "cm_cacheDir ?m = ''/models''" by (simp add: demo_cache_manager_def NewCacheManager_def)
  have run: "cleanup ?W 0 ?m (Some ?es) = (fst (cleanup ?W 0 ?m (Some ?es)), fst (snd (cleanup ?W 0 ?m (Some ?es))), Some [])"
    by (simp add: cleanup_def scan_cache_def demo_cache_def removable_def getLastAccessTime_def demo_dir_def remove_model_def
        zero_time_def Let_def)
  from cleanup_removes_only_expired [OF run, of "''old''"] show ?thesis by (auto simp: entry_at_def dir)
qed

lemma touched_model_kept_witness:
  "entry_at (snd (snd (cleanup ((demo_cache [])\<lparr>cc_clock := \<lambda>k. 1000\<rparr>) 9 demo_cache_manager
     (snd (TouchModel ((demo_cache [])\<lparr>cc_clock := \<lambda>k. 1000\<rparr>) 3 ''old'' demo_cache_manager
       (Some [(''old'', ModelDir demo_dir)])))))) ''old'' \<noteq> None"
proof -
  let ?W = "(demo_cache [])\<lparr>cc_clock := \<lambda>k. 1000\<rparr>" and ?m = demo_cache_manager and ?es = "[(''old'', ModelDir demo_dir)]"
  have "\<exists>es. TouchModel ?W 3 ''old'' ?m (Some ?es) = (True, Some es)"
    by (simp add: TouchModel_def make_dir_def entry_at_def demo_cache_def demo_dir_def put_marker_def Let_def)
  then obtain es where t: "TouchModel ?W 3 ''old'' ?m (Some ?es) = (True, Some es)" ..
  have "entry_at (snd (snd (cleanup ?W 9 ?m (Some es)))) ''old'' = map_of es ''old'' \<and> map_of es ''old'' \<noteq> None"
    by (rule touched_model_kept [OF t]) (simp_all add: demo_cache_def)
  with t show ?thesis by simp
qed

lemma other_namespace_removed_witness:
  "\<exists>m' fs'. cleanup (demo_cache [demo_model ''m'' ''1Gi'']) 0 demo_cache_manager (Some [(''m'', ModelDir demo_dir)]) = (None, m', fs')
    \<and> entry_at fs' (im_Name (demo_model ''m'' ''1Gi'')) = None"
  by (rule other_namespace_removed [where model = "demo_model ''m'' ''1Gi''" and cluster = "[demo_model ''m'' ''1Gi'']"
        and dir = demo_dir])
    (simp_all add: demo_cache_def demo_model_def demo_dir_def zero_time_def mono_def)

end
