(* ===== verification/Parallel_Download.thy ===== *)
theory Parallel_Download
  imports Download_Manager Xet_Download Progress
begin

text \<open>
  The parallel downloader beside the manager: \<open>internal/download/detector.go\<close>, \<open>stream.go\<close>, \<open>multi_file.go\<close>, the rest of
  \<open>resolver.go\<close> and the file downloads of \<open>internal/huggingface/client.go\<close>. The Hub library's own download is a parameter;
  the files are worked on concurrently, in the order \<open>pe_order\<close> in which they end. Progress shown while a file is being
  fetched is left out, as in the manager.
\<close>

record parallel_env =
  pe_storage :: storage
  pe_net :: network
  pe_xet :: xet_world
  pe_hub_download :: "nat \<Rightarrow> string \<Rightarrow> string \<Rightarrow> string \<Rightarrow> disk \<Rightarrow> string option \<times> disk" \<comment> \<open>token, repository, file\<close>
  pe_cancelled :: "nat \<Rightarrow> bool"
  pe_order :: "string list \<Rightarrow> string list"

section \<open>Storage detection\<close>

datatype StorageType = StorageTypeUnknown | StorageTypeXet | StorageTypeLFS

record DetectionResult =
  dr_Type :: StorageType
  dr_FileID :: string

record Detector =
  dt_token :: string
  dt_cache :: "(string, DetectionResult \<times> go_time) go_map"
  dt_cacheTTL :: duration

datatype DetectorOption = WithDetectorToken string | WithDetectorCacheTTL duration

fun apply_detector_option :: "DetectorOption \<Rightarrow> Detector \<Rightarrow> Detector" where
  "apply_detector_option (WithDetectorToken t) D = D\<lparr>dt_token := t\<rparr>"
| "apply_detector_option (WithDetectorCacheTTL ttl) D = D\<lparr>dt_cacheTTL := ttl\<rparr>"

definition NewDetector :: "DetectorOption list \<Rightarrow> Detector" where
  "NewDetector opts = fold apply_detector_option opts \<lparr>dt_token = '''', dt_cache = [], dt_cacheTTL = 5 * 60 * 1000000000\<rparr>"

definition getCached :: "go_time \<Rightarrow> string \<Rightarrow> Detector \<Rightarrow> DetectionResult option" where
  "getCached now key D =
     (case map_of (dt_cache D) key of
        None \<Rightarrow> None
      | Some (result, t) \<Rightarrow> if time_Sub now t > dt_cacheTTL D then None else Some result)"

definition setCached :: "go_time \<Rightarrow> string \<Rightarrow> DetectionResult \<Rightarrow> Detector \<Rightarrow> Detector" where
  "setCached now key result D = D\<lparr>dt_cache := AList.update key (result, now) (dt_cache D)\<rparr>"

definition cache_key :: "string \<Rightarrow> string \<Rightarrow> string \<Rightarrow> string" where
  "cache_key repo branch file = repo @ ''/'' @ branch @ ''/'' @ file"

definition Detect :: "xet_world \<Rightarrow> nat \<Rightarrow> string \<Rightarrow> string \<Rightarrow> string \<Rightarrow> Detector \<Rightarrow> DetectionResult option \<times> Detector" where
  "Detect W i repo branch file D =
     (let key = cache_key repo branch file in
      case getCached (xw_clock W i) key D of
        Some result \<Rightarrow> (Some result, D)
      | None \<Rightarrow>
          (case xw_http W (i + 1) False (xet_request ''HEAD''
                  (''https://huggingface.co/'' @ repo @ ''/resolve/'' @ branch @ ''/'' @ file) (dt_token D) WholeBody) of
             None \<Rightarrow> (None, D)
           | Some resp \<Rightarrow>
               (let result = (if xr_XetHash resp \<noteq> '''' then \<lparr>dr_Type = StorageTypeXet, dr_FileID = xr_XetHash resp\<rparr>
                              else \<lparr>dr_Type = StorageTypeLFS, dr_FileID = ''''\<rparr>)
                in (Some result, setCached (xw_clock W (i + 1)) key result D))))"

text \<open>The files in the order their answers come in: the results of all, and those that failed.\<close>

fun DetectMultiple ::
  "xet_world \<Rightarrow> nat \<Rightarrow> string \<Rightarrow> string \<Rightarrow> string list \<Rightarrow> (string, DetectionResult) go_map \<Rightarrow> string list \<Rightarrow> Detector
    \<Rightarrow> (string, DetectionResult) go_map \<times> string list \<times> Detector" where
  "DetectMultiple W i repo branch [] results errors D = (results, errors, D)"
| "DetectMultiple W i repo branch (f # fs) results errors D =
     (case Detect W i repo branch f D of
        (None, D1) \<Rightarrow> DetectMultiple W (i + 2) repo branch fs
            (AList.update f \<lparr>dr_Type = StorageTypeUnknown, dr_FileID = ''''\<rparr> results) (f # errors) D1
      | (Some r, D1) \<Rightarrow> DetectMultiple W (i + 2) repo branch fs (AList.update f r results) errors D1)"

section \<open>Downloads through the Hub library\<close>

definition repo_DownloadFile :: "parallel_env \<Rightarrow> Config \<Rightarrow> nat \<Rightarrow> string \<Rightarrow> string \<Rightarrow> disk \<Rightarrow> string option \<times> disk" where
  "repo_DownloadFile E c i repo file d = pe_hub_download E i (getToken (pe_net E) c) repo file d"

fun repo_DownloadFiles ::
  "parallel_env \<Rightarrow> Config \<Rightarrow> nat \<Rightarrow> string \<Rightarrow> string list \<Rightarrow> (string, string) go_map \<Rightarrow> disk
    \<Rightarrow> (string, string) go_map option \<times> disk" where
  "repo_DownloadFiles E c i repo [] results d = (Some results, d)"
| "repo_DownloadFiles E c i repo (f # fs) results d =
     (case repo_DownloadFile E c i repo f d of
        (None, d1) \<Rightarrow> (None, d1)
      | (Some p, d1) \<Rightarrow> repo_DownloadFiles E c (i + 1) repo fs (AList.update f p results) d1)"

definition ResolveModelPath :: "parallel_env \<Rightarrow> Config \<Rightarrow> nat \<Rightarrow> string \<Rightarrow> string \<Rightarrow> disk \<Rightarrow> string option \<times> disk" where
  "ResolveModelPath E c i repo file d = repo_DownloadFile E c i repo file d"

text \<open>The files that match a pattern; \<open>Inl\<close> is a malformed pattern.\<close>

fun files_matching :: "string list \<Rightarrow> string list \<Rightarrow> string + string list" where
  "files_matching patterns [] = Inr []"
| "files_matching patterns (f # fs) =
     (case match_patterns f patterns of
        Inl p \<Rightarrow> Inl p
      | Inr b \<Rightarrow> (case files_matching patterns fs of Inl p \<Rightarrow> Inl p | Inr rest \<Rightarrow> Inr (if b then f # rest else rest)))"

definition DownloadModel ::
  "parallel_env \<Rightarrow> Config \<Rightarrow> nat \<Rightarrow> string \<Rightarrow> string list \<Rightarrow> disk \<Rightarrow> (string, string) go_map option \<times> disk" where
  "DownloadModel E c i repo patterns d =
     (case ListFiles (pe_net E) c i repo of
        None \<Rightarrow> (None, d)
      | Some files \<Rightarrow>
          (case files_matching patterns (map fi_Name files) of
             Inl p \<Rightarrow> (None, d)
           | Inr fs \<Rightarrow> if fs = [] then (None, d) else repo_DownloadFiles E c (i + 1) repo fs [] d))"

section \<open>Streaming\<close>

text \<open>The progress writer: what a write of \<open>n\<close> bytes at a moment does, and whether it reports.\<close>

record progressWriter =
  pw_total :: int64
  pw_written :: int64
  pw_lastUpdate :: go_time

definition pw_Write :: "go_time \<Rightarrow> go_time \<Rightarrow> nat \<Rightarrow> progressWriter \<Rightarrow> (int64 \<times> int64) option \<times> progressWriter" where
  "pw_Write now1 now2 n pw =
     (let pw1 = pw\<lparr>pw_written := pw_written pw + of_nat n\<rparr> in
      if time_Sub now1 (pw_lastUpdate pw) > 1000000000
      then (Some (pw_written pw1, pw_total pw1), pw1\<lparr>pw_lastUpdate := now2\<rparr>) else (None, pw1))"

definition parseRepo :: "string \<Rightarrow> (string \<times> string) option" where
  "parseRepo repoID = (case SplitN (CHR ''/'') 2 repoID of [a, b] \<Rightarrow> Some (a, b) | _ \<Rightarrow> None)"

text \<open>Whether the file was downloaded; the library's file is copied to the destination.\<close>

definition DownloadLFS ::
  "parallel_env \<Rightarrow> Config \<Rightarrow> nat \<Rightarrow> string \<Rightarrow> string \<Rightarrow> string \<Rightarrow> disk \<Rightarrow> bool \<times> disk" where
  "DownloadLFS E c i repo file destPath d =
     (let S = pe_storage E in
      case EnsureDir S i destPath d of
        (Some e, d1) \<Rightarrow> (False, d1)
      | (None, d1) \<Rightarrow>
          (case ListFiles (pe_net E) c i repo of
             None \<Rightarrow> (False, d1)
           | Some files \<Rightarrow>
               (let totalSize = (case filter (\<lambda>f. fi_Name f = file) files of [] \<Rightarrow> 0 | f # _ \<Rightarrow> fi_Size f) in
                case repo_DownloadFile E c (i + 1) repo file d1 of
                  (None, d2) \<Rightarrow> (False, d2)
                | (Some localPath, d2) \<Rightarrow>
                    if fault S i OpenFile localPath \<or> file_at d2 localPath = None then (False, d2)
                    else if totalSize = 0 \<and> fault S i Stat localPath then (False, d2)
                    else case os_Create S i destPath d2 of
                      None \<Rightarrow> (False, d2)
                    | Some d3 \<Rightarrow>
                        (let bs = (case file_at d3 localPath of None \<Rightarrow> [] | Some bs \<Rightarrow> bs) in
                         if fault S i WriteData destPath \<or> fault S i ReadFile localPath
                         then (False, append_file destPath (take (short_write S i) bs) d3)
                         else (\<not> fault S i SyncFile destPath, append_file destPath bs d3)))))"

text \<open>
  Over Xet: the reconstruction is asked for twice, once for the size and once by \<open>DownloadToWriter\<close>. What was written
  before a failure stays.
\<close>

definition DownloadXet ::
  "parallel_env \<Rightarrow> nat \<Rightarrow> string \<Rightarrow> string \<Rightarrow> string \<Rightarrow> string \<Rightarrow> XetClient \<Rightarrow> disk \<Rightarrow> (bool \<times> XetClient \<times> disk) may_panic" where
  "DownloadXet E i repo branch file destPath x d =
     (let S = pe_storage E; W = pe_xet E; br = (if branch = '''' then ''main'' else branch) in
      case parseRepo repo of
        None \<Rightarrow> Inr (False, x, d)
      | Some (namespace, repoName) \<Rightarrow>
          (case EnsureDir S i destPath d of
             (Some e, d1) \<Rightarrow> Inr (False, x, d1)
           | (None, d1) \<Rightarrow>
               (case ResolveFileID W i namespace repoName br file x of
                  (None, x1) \<Rightarrow> Inr (False, x1, d1)
                | (Some fileID, x1) \<Rightarrow>
                    (case GetReconstruction W (i + 4) fileID x1 of
                       (None, x2) \<Rightarrow> Inr (False, x2, d1)
                     | (Some recon, x2) \<Rightarrow>
                         (case os_Create S i destPath d1 of
                            None \<Rightarrow> Inr (False, x2, d1)
                          | Some d2 \<Rightarrow>
                              (case DownloadToWriter W (\<lambda>sofar b. \<not> fault S i WriteData destPath) (i + 6)
                                      \<lparr>xo_Namespace = namespace, xo_Repo = repoName, xo_Branch = br, xo_FilePath = file,
                                       xo_OutputPath = '''', xo_FileID = fileID\<rparr> x2 of
                                 (Inl p, x3) \<Rightarrow> Inl p
                               | (Inr (written, ok), x3) \<Rightarrow>
                                   Inr (ok \<and> \<not> fault S i SyncFile destPath, x3, append_file destPath written d2)))))))"

section \<open>Several files\<close>

record parallel_state =
  ps_status :: DownloadStatus
  ps_detector :: Detector
  ps_xet :: XetClient
  ps_disk :: disk

definition set_file :: "string \<Rightarrow> DownloadPhase \<Rightarrow> parallel_state \<Rightarrow> parallel_state" where
  "set_file f ph s = s\<lparr>ps_status := UpdateFileProgress f 0 0 ph (ps_status s)\<rparr>"

text \<open>Whether the file is complete.\<close>

definition downloadSingleFile ::
  "parallel_env \<Rightarrow> Config \<Rightarrow> nat \<Rightarrow> DownloadSpec \<Rightarrow> string \<Rightarrow> parallel_state \<Rightarrow> (bool \<times> parallel_state) may_panic" where
  "downloadSingleFile E c i spec filename s =
     (let destPath = Join [sp_DestDir spec, filename] in
      case Detect (pe_xet E) i (sp_Repo spec) (sp_Branch spec) filename (ps_detector s) of
        (None, D) \<Rightarrow> Inr (False, set_file filename PhaseFailed (s\<lparr>ps_detector := D\<rparr>))
      | (Some detection, D) \<Rightarrow>
          (let s1 = set_file filename PhaseDownloading (s\<lparr>ps_detector := D\<rparr>);
               finish = (\<lambda>ok s. (ok, set_file filename (if ok then PhaseComplete else PhaseFailed) s)) in
           if dr_Type detection = StorageTypeXet then
             (case DownloadXet E (i + 2) (sp_Repo spec) (sp_Branch spec) filename destPath (ps_xet s1) (ps_disk s1) of
                Inl p \<Rightarrow> Inl p
              | Inr (ok, x, d) \<Rightarrow> Inr (finish ok (s1\<lparr>ps_xet := x, ps_disk := d\<rparr>)))
           else
             (case DownloadLFS E c (i + 2) (sp_Repo spec) filename destPath (ps_disk s1) of
                (ok, d) \<Rightarrow> Inr (finish ok (s1\<lparr>ps_disk := d\<rparr>)))))"

text \<open>The goroutines one after the other, in the order in which they end: whether all succeeded.\<close>

fun parallel_loop ::
  "parallel_env \<Rightarrow> Config \<Rightarrow> nat \<Rightarrow> DownloadSpec \<Rightarrow> string list \<Rightarrow> parallel_state \<Rightarrow> (bool \<times> parallel_state) may_panic" where
  "parallel_loop E c i spec [] s = Inr (True, s)"
| "parallel_loop E c i spec (f # fs) s =
     (case (if pe_cancelled E i then Inr (False, set_file f PhaseFailed s) else downloadSingleFile E c i spec f s) of
        Inl p \<Rightarrow> Inl p
      | Inr (ok, s1) \<Rightarrow>
          (case parallel_loop E c (i + 20) spec fs s1 of Inl p \<Rightarrow> Inl p | Inr (oks, s2) \<Rightarrow> Inr (ok \<and> oks, s2)))"

definition initFileStatus :: "string list \<Rightarrow> DownloadStatus \<Rightarrow> DownloadStatus" where
  "initFileStatus files status = fold (\<lambda>f. UpdateFileProgress f 0 0 PhasePending) files status"

text \<open>
  Before a goroutine is started the context is looked at; if it is done the call returns an error at once, while those that
  were started go on. The state is the one when they have ended.
\<close>

definition DownloadAll ::
  "parallel_env \<Rightarrow> Config \<Rightarrow> nat \<Rightarrow> DownloadSpec \<Rightarrow> parallel_state \<Rightarrow> (bool \<times> parallel_state) may_panic" where
  "DownloadAll E c i spec s =
     (case Resolve (ListFiles (pe_net E) c i (sp_Repo spec)) spec of
        None \<Rightarrow> Inr (False, s)
      | Some files \<Rightarrow>
          if files = [] then Inr (False, s)
          else
            (let s1 = s\<lparr>ps_status := initFileStatus files (ps_status s)\<rparr>;
                 started = map fst (takeWhile (\<lambda>(f, k). \<not> pe_cancelled E k) (zip files [i + 1..<i + 1 + length files]));
                 all = (length started = length files) in
             case parallel_loop E c (i + 1 + length files) spec (pe_order E started) s1 of
               Inl p \<Rightarrow> Inl p
             | Inr (ok, s2) \<Rightarrow> Inr (all \<and> ok, s2)))"

definition multi_DownloadFiles ::
  "parallel_env \<Rightarrow> Config \<Rightarrow> nat \<Rightarrow> string \<Rightarrow> string \<Rightarrow> string \<Rightarrow> string list \<Rightarrow> parallel_state
    \<Rightarrow> (bool \<times> parallel_state) may_panic" where
  "multi_DownloadFiles E c i repo branch destDir files s = DownloadAll E c i
     \<lparr>sp_Repo = repo, sp_Branch = branch, sp_Files = files, sp_Patterns = [], sp_Exclude = [], sp_DestDir = destDir\<rparr> s"

definition DownloadWithDetector ::
  "parallel_env \<Rightarrow> Config \<Rightarrow> nat \<Rightarrow> DownloadSpec \<Rightarrow> Detector \<Rightarrow> parallel_state \<Rightarrow> (bool \<times> parallel_state) may_panic" where
  "DownloadWithDetector E c i spec detector s =
     (case DownloadAll E c i spec (s\<lparr>ps_detector := detector\<rparr>) of
        Inl p \<Rightarrow> Inl p
      | Inr (ok, s1) \<Rightarrow> Inr (ok, s1\<lparr>ps_detector := ps_detector s\<rparr>))"

section \<open>Resolution with sizes\<close>

record resolved_file =
  rf_Path :: string
  rf_Size :: int64
  rf_IsLFS :: bool

definition ResolveWithInfo :: "network \<Rightarrow> Config \<Rightarrow> nat \<Rightarrow> DownloadSpec \<Rightarrow> resolved_file list option" where
  "ResolveWithInfo N c i spec =
     (case Resolve (ListFiles N c i (sp_Repo spec)) spec of
        None \<Rightarrow> None
      | Some paths \<Rightarrow>
          map_option (\<lambda>allFiles.
            (let fileMap = fold (\<lambda>f. AList.update (fi_Name f) f) allFiles [] in
             map (\<lambda>p. case map_of fileMap p of
                 None \<Rightarrow> \<lparr>rf_Path = p, rf_Size = 0, rf_IsLFS = False\<rparr>
               | Some f \<Rightarrow> \<lparr>rf_Path = p, rf_Size = fi_Size f, rf_IsLFS = sint (fi_Size f) > 10 * 1024 * 1024\<rparr>) paths))
            (ListFiles N c (i + 1) (sp_Repo spec)))"

end
