(* ===== verification/Parallel_Properties.thy ===== *)
theory Parallel_Properties
  imports Parallel_Download Xet_Properties Chunked_Properties
begin

text \<open>
  The parallel downloader: which files its resolver chooses, that success means every file is complete, and that a storage
  type once detected, rightly or not, is kept for the time to live of the cache.
\<close>

section \<open>The resolver\<close>

definition string_key :: "string \<Rightarrow> nat list" where "string_key = map of_char"

text \<open>
  The resolver of the parallel downloader returns, in increasing order and each once, the files that are named or match a
  pattern (all of them if neither is given) and match no exclusion. Unlike the manager it also returns a named file that the
  repository does not have.
\<close>

theorem parallel_resolver:
  assumes "Resolve (Some listing) spec = Some files"
  shows "set files = {f. (f \<in> set (sp_Files spec)
        \<or> f \<in> fi_Name ` set listing \<and> (list_ex (\<lambda>p. matches p f) (sp_Patterns spec) \<or> sp_Files spec = [] \<and> sp_Patterns spec = []))
      \<and> \<not> list_ex (\<lambda>x. matches x f) (sp_Exclude spec)}
    \<and> sorted (map string_key files) \<and> distinct files"
  using assms by (auto simp: Resolve_def Let_def string_key_def)

lemma parallel_resolver_witness:
  "Resolve (Some [\<lparr>fi_Name = ''b'', fi_Size = 0, fi_SHA256 = ''''\<rparr>]) (NewDownloadSpec ''r'' [WithFiles [''c'', ''a'']]) = Some [''a'', ''c'']
    \<and> sorted (map string_key [''a'', ''c''])"
proof -
  have r: "Resolve (Some [\<lparr>fi_Name = ''b'', fi_Size = 0, fi_SHA256 = ''''\<rparr>]) (NewDownloadSpec ''r'' [WithFiles [''c'', ''a'']]) = Some [''a'', ''c'']"
    by code_simp
  from r parallel_resolver [OF r] show ?thesis by blast
qed

text \<open>The listing carries no sizes, so the resolver with sizes never knows one and calls no file large.\<close>

lemma resolved_sizes_unknown:
  assumes "ResolveWithInfo N c i spec = Some infos" and "r \<in> set infos"
  shows "rf_Size r = 0 \<and> \<not> rf_IsLFS r"
proof -
  from assms obtain paths names where r: "r \<in> set (map (\<lambda>p. case map_of (fold (\<lambda>f. AList.update (fi_Name f) f)
        (map (\<lambda>n. \<lparr>fi_Name = n, fi_Size = 0, fi_SHA256 = ''''\<rparr>) names) []) p of
          None \<Rightarrow> \<lparr>rf_Path = p, rf_Size = 0, rf_IsLFS = False\<rparr>
        | Some f \<Rightarrow> \<lparr>rf_Path = p, rf_Size = fi_Size f, rf_IsLFS = sint (fi_Size f) > 10 * 1024 * 1024\<rparr>) paths)"
    by (auto simp: ResolveWithInfo_def ListFiles_def Let_def split: option.splits)
  have "map_of (fold (\<lambda>f. AList.update (fi_Name f) f) (map (\<lambda>n. \<lparr>fi_Name = n, fi_Size = 0, fi_SHA256 = ''''\<rparr>) names) m) p = Some f
      \<Longrightarrow> fi_Size f = 0 \<or> map_of m p = Some f" for m p f
    by (induction names arbitrary: m) (fastforce simp: map_laws split: if_splits)+
  from this [of "[]"] r show ?thesis by (auto split: option.splits)
qed

section \<open>Detection\<close>

text \<open>
  An answer without the header counts as plain storage whatever its status, an error of the server included, and until the
  cache entry expires every further detection of the file says so without asking again.
\<close>

theorem failed_detection_sticks:
  assumes "getCached (xw_clock W i) (cache_key repo branch file) D = None"
    and "xw_http W (i + 1) False (xet_request ''HEAD'' (''https://huggingface.co/'' @ repo @ ''/resolve/'' @ branch @ ''/'' @ file)
           (dt_token D) WholeBody) = Some resp"
    and "xr_XetHash resp = ''''" and "xr_Status resp \<ge> 400"
    and "Detect W i repo branch file D = (r, D')"
    and "time_Sub (xw_clock W' j) (xw_clock W (i + 1)) \<le> dt_cacheTTL D"
  shows "r = Some \<lparr>dr_Type = StorageTypeLFS, dr_FileID = ''''\<rparr> \<and> Detect W' j repo branch file D' = (r, D')"
  using assms by (auto simp: Detect_def getCached_def setCached_def Let_def map_laws split: option.splits)

lemma failed_detection_sticks_witness:
  "Detect (demo_xet 11) 3 ''o/r'' ''main'' ''f''
     (snd (Detect ((demo_xet 11)\<lparr>xw_http := \<lambda>i follow rq. Some \<lparr>xr_Status = 503, xr_XetHash = '''', xr_Location = '''', xr_Body = [],
        xr_Clean = True\<rparr>\<rparr>) 0 ''o/r'' ''main'' ''f'' (NewDetector [])))
   = (Some \<lparr>dr_Type = StorageTypeLFS, dr_FileID = ''''\<rparr>,
      snd (Detect ((demo_xet 11)\<lparr>xw_http := \<lambda>i follow rq. Some \<lparr>xr_Status = 503, xr_XetHash = '''', xr_Location = '''', xr_Body = [],
        xr_Clean = True\<rparr>\<rparr>) 0 ''o/r'' ''main'' ''f'' (NewDetector [])))"
proof -
  let ?resp = "\<lparr>xr_Status = 503, xr_XetHash = '''', xr_Location = '''', xr_Body = [], xr_Clean = True\<rparr> :: xet_reply"
  let ?W = "(demo_xet 11)\<lparr>xw_http := \<lambda>i follow rq. Some ?resp\<rparr>" and ?D = "NewDetector []"
  have "getCached (xw_clock ?W 0) (cache_key ''o/r'' ''main'' ''f'') ?D = None" by (simp add: getCached_def NewDetector_def)
  moreover have "time_Sub (xw_clock (demo_xet 11) 3) (xw_clock ?W (0 + 1)) \<le> dt_cacheTTL ?D"
    by (simp add: demo_xet_def time_Sub_def NewDetector_def)
  moreover obtain r D' where d: "Detect ?W 0 ''o/r'' ''main'' ''f'' ?D = (r, D')" by fastforce
  ultimately show ?thesis
    using failed_detection_sticks [of ?W 0 "''o/r''" "''main''" "''f''" ?D ?resp r D' "demo_xet 11" 3] by simp
qed

section \<open>Downloading all files\<close>

text \<open>The phase in which a status shows a file.\<close>

definition phase_of :: "string \<Rightarrow> DownloadStatus \<Rightarrow> DownloadPhase option" where
  "phase_of f s = map_option fst_Phase (find (\<lambda>x. fst_Path x = f) (ds_Files s))"

lemma find_update_file:
  "find (\<lambda>x. fst_Path x = g) (update_file f bd bt ph fs) =
     (if g = f then Some (case find (\<lambda>x. fst_Path x = f) fs of
          None \<Rightarrow> \<lparr>fst_Path = f, fst_Phase = ph, fst_BytesDone = bd, fst_BytesTotal = bt\<rparr>
        | Some x \<Rightarrow> x\<lparr>fst_BytesDone := bd, fst_BytesTotal := bt, fst_Phase := ph\<rparr>)
      else find (\<lambda>x. fst_Path x = g) fs)"
  by (induction fs) auto

lemma phase_of_update [simp]: "phase_of g (UpdateFileProgress f bd bt ph s) = (if g = f then Some ph else phase_of g s)"
  by (auto simp: phase_of_def UpdateFileProgress_def find_update_file split: option.splits)

lemma phase_of_set_file [simp]: "phase_of g (ps_status (set_file f ph s)) = (if g = f then Some ph else phase_of g (ps_status s))"
  by (simp add: set_file_def)

lemma single_file_phases:
  assumes "downloadSingleFile E c i spec f s = Inr (ok, s')"
  shows "phase_of f (ps_status s') = Some (if ok then PhaseComplete else PhaseFailed)
    \<and> (g \<noteq> f \<longrightarrow> phase_of g (ps_status s') = phase_of g (ps_status s))"
  using assms by (auto simp: downloadSingleFile_def Let_def split: option.splits prod.splits if_splits sum.splits)

lemma parallel_loop_phases:
  assumes "parallel_loop E c i spec fs s = Inr (True, s')"
  shows "phase_of g (ps_status s') = (if g \<in> set fs then Some PhaseComplete else phase_of g (ps_status s))"
  using assms
proof (induction fs arbitrary: i s)
  case Nil
  then show ?case by simp
next
  case (Cons f fs)
  then obtain s1 where one: "downloadSingleFile E c i spec f s = Inr (True, s1)"
    and rest: "parallel_loop E c (i + 20) spec fs s1 = Inr (True, s')"
    by (auto split: if_splits sum.splits prod.splits)
  from Cons.IH [OF rest] single_file_phases [OF one, of g] show ?case by auto
qed

lemma takeWhile_whole: "length (takeWhile P xs) = length xs \<Longrightarrow> takeWhile P xs = xs"
  by (metis order_refl take_all takeWhile_eq_take)

text \<open>
  When the parallel download reports success, it chose at least one file, and the status shows every file it chose as complete,
  in whatever order the files were finished.
\<close>

theorem parallel_all_complete:
  assumes "DownloadAll E c i spec s = Inr (True, s')" and "\<forall>fs. set (pe_order E fs) = set fs"
  shows "\<exists>files. Resolve (ListFiles (pe_net E) c i (sp_Repo spec)) spec = Some files \<and> files \<noteq> []
    \<and> list_all (\<lambda>f. phase_of f (ps_status s') = Some PhaseComplete) files"
proof -
  obtain files where files: "Resolve (ListFiles (pe_net E) c i (sp_Repo spec)) spec = Some files" "files \<noteq> []"
    using assms(1) by (auto simp: DownloadAll_def split: option.splits if_splits)
  let ?go = "takeWhile (\<lambda>(f, k). \<not> pe_cancelled E k) (zip files [i + 1..<i + 1 + length files])"
  let ?s1 = "s\<lparr>ps_status := initFileStatus files (ps_status s)\<rparr>"
  have n: "length (map fst ?go) = length files"
    and loop: "parallel_loop E c (i + 1 + length files) spec (pe_order E (map fst ?go)) ?s1 = Inr (True, s')"
    using assms(1) files by (auto simp: DownloadAll_def Let_def simp del: upt_Suc split: sum.splits prod.splits)
  have go: "?go = zip files [i + 1..<i + 1 + length files]"
    by (rule takeWhile_whole) (use n in \<open>simp del: upt_Suc\<close>)
  have "map fst ?go = files" unfolding go by (simp del: upt_Suc)
  with assms(2) have "set (pe_order E (map fst ?go)) = set files" by simp
  with parallel_loop_phases [OF loop] have "list_all (\<lambda>f. phase_of f (ps_status s') = Some PhaseComplete) files"
    by (simp add: list_all_iff)
  with files show ?thesis by blast
qed

definition demo_parallel :: parallel_env where
  "demo_parallel = \<lparr>pe_storage = demo_storage,
     pe_net = \<lparr>http = (\<lambda>i rq. None), hub_files = (\<lambda>i token repo. Some [''a.bin'']), decode_siblings = (\<lambda>b. None), getenv = (\<lambda>v. '''')\<rparr>,
     pe_xet = (demo_xet 11)\<lparr>xw_http := \<lambda>i follow rq. Some \<lparr>xr_Status = 200, xr_XetHash = '''', xr_Location = '''', xr_Body = [],
        xr_Clean = True\<rparr>\<rparr>,
     pe_hub_download = (\<lambda>i token repo f d. (Some ''/hub/f'', put_file ''/hub/f'' [7] d)),
     pe_cancelled = (\<lambda>k. False), pe_order = (\<lambda>fs. fs)\<rparr>"

definition demo_parallel_state :: parallel_state where
  "demo_parallel_state = \<lparr>ps_status = \<lparr>ds_ModelName = ''m'', ds_Phase = PhaseDownloading, ds_Progress = 0, ds_BytesTotal = 0,
       ds_BytesDone = 0, ds_Files = [], ds_StartedAt = 0, ds_CompletedAt = None, ds_Error = '''', ds_Cancel = None\<rparr>,
     ps_detector = NewDetector [], ps_xet = NewXetClient [], ps_disk = empty_disk\<rparr>"

definition demo_parallel_run :: "(bool \<times> parallel_state) may_panic" where
  "demo_parallel_run = DownloadAll demo_parallel no_config 0 (NewDownloadSpec ''r'' [WithDestDir ''/m'']) demo_parallel_state"

lemma demo_parallel_ok: "case demo_parallel_run of Inl p \<Rightarrow> False | Inr (ok, s) \<Rightarrow> ok"
  by code_simp

lemma parallel_all_complete_witness:
  "\<exists>s' files. demo_parallel_run = Inr (True, s') \<and> files \<noteq> [] \<and> list_all (\<lambda>f. phase_of f (ps_status s') = Some PhaseComplete) files"
proof -
  obtain s' where run: "demo_parallel_run = Inr (True, s')"
    using demo_parallel_ok by (auto split: sum.splits prod.splits)
  from parallel_all_complete [OF run [unfolded demo_parallel_run_def]] show ?thesis
    using run by (auto simp: demo_parallel_def)
qed

end
