(* ===== verification/Status_Updater.thy ===== *)
theory Status_Updater
  imports Progress
begin

text \<open>
  The status updater, \<open>internal/download/status_updater.go\<close>: it copies the progress of a download into the status of the
  \<open>InferenceModel\<close>, at most once per interval, and prints messages for people. The texts that Go's \<open>fmt\<close> and
  \<open>time.Duration.String\<close> produce are computed.
\<close>

section \<open>Printing\<close>

text \<open>\<open>%.kf\<close>: rounded to \<open>k\<close> digits, halves to the even digit.\<close>

definition round_half_even :: "rat \<Rightarrow> int" where
  "round_half_even r =
     (let f = \<lfloor>r\<rfloor>; x = r - of_int f in
      if x < 1 / 2 then f else if x > 1 / 2 then f + 1 else if even f then f else f + 1)"

definition pad_zeros :: "nat \<Rightarrow> string \<Rightarrow> string" where
  "pad_zeros k s = replicate (k - length s) (CHR ''0'') @ s"

definition format_fixed :: "nat \<Rightarrow> rat \<Rightarrow> string" where
  "format_fixed k r =
     (let n = round_half_even (abs r * 10 ^ k) in
      (if r < 0 then ''-'' else '''') @ show_int (n div 10 ^ k) @ ''.'' @ pad_zeros k (show_int (n mod 10 ^ k)))"

text \<open>\<open>time.Duration.String\<close>; the micro sign is the two bytes of its UTF-8 form.\<close>

definition fraction_text :: "nat \<Rightarrow> int \<Rightarrow> string" where
  "fraction_text prec v =
     (let ds = rev (dropWhile (\<lambda>c. c = CHR ''0'') (rev (pad_zeros prec (show_int (v mod 10 ^ prec)))))
      in if ds = '''' then '''' else ''.'' @ ds)"

definition Duration_String :: "duration \<Rightarrow> string" where
  "Duration_String d =
     (let u = abs d; sign = (if d < 0 then ''-'' else '''') in
      if u = 0 then ''0s''
      else if u < 1000 then sign @ show_int u @ ''ns''
      else if u < 1000000 then sign @ show_int (u div 1000) @ fraction_text 3 u @ [char_of (194 :: nat), char_of (181 :: nat)] @ ''s''
      else if u < 1000000000 then sign @ show_int (u div 1000000) @ fraction_text 6 u @ ''ms''
      else
        (let s = u div 1000000000; m = s div 60; h = m div 60 in
         sign @ (if h > 0 then show_int h @ ''h'' else '''') @ (if m > 0 then show_int (m mod 60) @ ''m'' else '''')
           @ show_int (s mod 60) @ fraction_text 9 u @ ''s''))"

definition download_formatDuration :: "float_rounding \<Rightarrow> duration \<Rightarrow> string" where
  "download_formatDuration fl d =
     (if d \<le> 0 then ''calculating...''
      else
        (let seconds = sint (to_int64 (Seconds fl d)); minutes = seconds div 60; hours = minutes div 60 in
         if seconds < 60 then show_int seconds @ ''s''
         else if minutes < 60 then show_int minutes @ ''m '' @ show_int (seconds mod 60) @ ''s''
         else show_int hours @ ''h '' @ show_int (minutes mod 60) @ ''m''))"

definition megabytes :: "float_rounding \<Rightarrow> int64 \<Rightarrow> rat" where
  "megabytes fl n = fl (fl (int64_float fl n / 1024) / 1024)"

definition formatDownloadMessage :: "float_rounding \<Rightarrow> ProgressSnapshot \<Rightarrow> string" where
  "formatDownloadMessage fl sn =
     (let completedMB = format_fixed 1 (megabytes fl (sn_BytesCompleted sn)); totalMB = format_fixed 1 (megabytes fl (sn_BytesTotal sn));
          done_part = ''Downloading: '' @ completedMB @ ''/'' @ totalMB @ '' MB ('' @ format_fixed 1 (sn_Percentage sn) @ ''%)'' in
      if sn_BytesTotal sn = 0 then ''Preparing download...''
      else if sn_Percentage sn \<ge> 100 then ''Download complete: '' @ totalMB @ '' MB''
      else if sint (sn_Speed sn) > 0
      then done_part @ '' at '' @ format_fixed 2 (megabytes fl (sn_Speed sn)) @ '' MB/s, ETA: '' @ download_formatDuration fl (sn_ETA sn)
      else done_part)"

section \<open>The updater\<close>

record StatusUpdater =
  up_lastUpdate :: "(string, go_time) go_map"
  up_minInterval :: duration

record updater_env =
  ue_get :: "nat \<Rightarrow> string \<Rightarrow> string \<Rightarrow> InferenceModel option" \<comment> \<open>by name and namespace\<close>
  ue_update :: "nat \<Rightarrow> InferenceModel \<Rightarrow> bool"
  ue_clock :: "nat \<Rightarrow> go_time"
  ue_fl :: float_rounding

definition NewStatusUpdater :: "duration \<Rightarrow> StatusUpdater" where
  "NewStatusUpdater minInterval =
     \<lparr>up_lastUpdate = [], up_minInterval = (if minInterval \<le> 0 then 5 * 1000000000 else minInterval)\<rparr>"

fun convertPhase :: "DownloadPhase \<Rightarrow> string" where
  "convertPhase PhasePending = DownloadPhasePending"
| "convertPhase PhaseDownloading = DownloadPhaseDownloading"
| "convertPhase PhaseComplete = DownloadPhaseComplete"
| "convertPhase PhaseFailed = DownloadPhaseFailed"

text \<open>The text of a phase as \<open>status.go\<close> declares it; the empty phase of a new file has no text.\<close>

definition phase_text :: "DownloadPhase option \<Rightarrow> string" where
  "phase_text ph = (case ph of None \<Rightarrow> '''' | Some PhasePending \<Rightarrow> ''Pending'' | Some PhaseDownloading \<Rightarrow> ''Downloading''
     | Some PhaseComplete \<Rightarrow> ''Complete'' | Some PhaseFailed \<Rightarrow> ''Failed'')"

definition fill_status :: "float_rounding \<Rightarrow> DownloadStatus \<Rightarrow> ProgressSnapshot \<Rightarrow> InferenceModel \<Rightarrow> InferenceModel" where
  "fill_status fl status sn model =
     (let st = Status model in
      model\<lparr>Status := st\<lparr>DownloadPhase := convertPhase (ds_Phase status),
        DownloadProgress := ucast (to_int64 (sn_Percentage sn)),
        DownloadBytesTotal := sn_BytesTotal sn, DownloadBytesDone := sn_BytesCompleted sn,
        DownloadSpeed := sn_Speed sn, DownloadETA := Duration_String (sn_ETA sn),
        DownloadMessage := formatDownloadMessage fl sn,
        DownloadFiles := map (\<lambda>f. \<lparr>fds_Path = fs_Path f, fds_Phase = phase_text (fs_Phase f), fds_BytesDone = fs_Completed f,
            fds_BytesTotal = fs_Total f\<rparr>) (sn_Files sn),
        DownloadStartedAt := (if ds_StartedAt status \<noteq> zero_time then Some (ds_StartedAt status) else DownloadStartedAt st),
        DownloadCompletedAt := (case ds_CompletedAt status of Some t \<Rightarrow> Some t | None \<Rightarrow> DownloadCompletedAt st),
        DownloadError := (if ds_Error status \<noteq> '''' then ds_Error status else DownloadError st)\<rparr>\<rparr>)"

text \<open>Reading the model, filling its status and writing it: the model that was sent, if any, and whether all went well.\<close>

definition push_status ::
  "updater_env \<Rightarrow> nat \<Rightarrow> string \<Rightarrow> string \<Rightarrow> DownloadStatus \<Rightarrow> ProgressSnapshot \<Rightarrow> InferenceModel option \<times> bool" where
  "push_status E i modelName namespace status sn =
     (case ue_get E i modelName namespace of
        None \<Rightarrow> (None, False)
      | Some model \<Rightarrow> (let m = fill_status (ue_fl E) status sn model in (Some m, ue_update E i m)))"

text \<open>The answer is \<open>None\<close> where the update is skipped because the last one was too recent.\<close>

definition UpdateStatus ::
  "updater_env \<Rightarrow> nat \<Rightarrow> string \<Rightarrow> string \<Rightarrow> DownloadStatus \<Rightarrow> ProgressSnapshot \<Rightarrow> StatusUpdater
    \<Rightarrow> (InferenceModel option \<times> bool) option \<times> StatusUpdater" where
  "UpdateStatus E i modelName namespace status sn u =
     (let go = (Some (push_status E (i + 2) modelName namespace status sn),
                u\<lparr>up_lastUpdate := AList.update modelName (ue_clock E (i + 1)) (up_lastUpdate u)\<rparr>) in
      case map_of (up_lastUpdate u) modelName of
        Some t \<Rightarrow> if time_Sub (ue_clock E i) t < up_minInterval u then (None, u) else go
      | None \<Rightarrow> go)"

definition UpdateStatusForce ::
  "updater_env \<Rightarrow> nat \<Rightarrow> string \<Rightarrow> string \<Rightarrow> DownloadStatus \<Rightarrow> ProgressSnapshot \<Rightarrow> StatusUpdater
    \<Rightarrow> (InferenceModel option \<times> bool) \<times> StatusUpdater" where
  "UpdateStatusForce E i modelName namespace status sn u =
     (push_status E (i + 1) modelName namespace status sn,
      u\<lparr>up_lastUpdate := AList.update modelName (ue_clock E i) (up_lastUpdate u)\<rparr>)"

definition ClearThrottle :: "string \<Rightarrow> StatusUpdater \<Rightarrow> StatusUpdater" where
  "ClearThrottle modelName u = u\<lparr>up_lastUpdate := AList.delete modelName (up_lastUpdate u)\<rparr>"

definition SetMinInterval :: "duration \<Rightarrow> StatusUpdater \<Rightarrow> StatusUpdater" where
  "SetMinInterval interval u = u\<lparr>up_minInterval := interval\<rparr>"

section \<open>The throttle\<close>

text \<open>
  All operations, by whatever goroutines. Each touches the updater only while it holds the mutex, so that a history is the sequence of
  their locked parts; the \<open>Get\<close> and \<open>Update\<close> of a call come later, at moments that the throttle does not know.
\<close>

datatype updater_op =
    Reports nat string string DownloadStatus ProgressSnapshot \<comment> \<open>\<open>UpdateStatus\<close> at a moment\<close>
  | Forces nat string string DownloadStatus ProgressSnapshot \<comment> \<open>\<open>UpdateStatusForce\<close>\<close>
  | Clears string
  | SetsInterval duration

text \<open>What an operation leaves behind for one name: an update let through, with its stamp and the interval in force, or a cleared throttle.\<close>

datatype mark = LetThrough go_time duration | Forced go_time | Cleared

fun updater_run :: "updater_env \<Rightarrow> string \<Rightarrow> updater_op \<Rightarrow> StatusUpdater \<Rightarrow> mark list \<times> StatusUpdater" where
  "updater_run E name (Reports i n ns st sn) u =
     (case UpdateStatus E i n ns st sn u of
        (None, u1) \<Rightarrow> ([], u1)
      | (Some r, u1) \<Rightarrow> (if n = name then [LetThrough (ue_clock E (i + 1)) (up_minInterval u)] else [], u1))"
| "updater_run E name (Forces i n ns st sn) u =
     (if n = name then [Forced (ue_clock E i)] else [], snd (UpdateStatusForce E i n ns st sn u))"
| "updater_run E name (Clears n) u = (if n = name then [Cleared] else [], ClearThrottle n u)"
| "updater_run E name (SetsInterval d) u = ([], SetMinInterval d u)"

fun marks :: "updater_env \<Rightarrow> string \<Rightarrow> updater_op list \<Rightarrow> StatusUpdater \<Rightarrow> mark list" where
  "marks E name [] u = []"
| "marks E name (op # ops) u = (case updater_run E name op u of (ms, u1) \<Rightarrow> ms @ marks E name ops u1)"

text \<open>An update is let through only if the one before it, throttled or forced, lies the interval in force back, or was cleared.\<close>

fun stamp_of :: "mark \<Rightarrow> go_time option" where
  "stamp_of (LetThrough t gap) = Some t"
| "stamp_of (Forced t) = Some t"
| "stamp_of Cleared = None"

fun after_mark :: "go_time option \<Rightarrow> mark list \<Rightarrow> bool" where
  "after_mark earlier [] \<longleftrightarrow> True"
| "after_mark earlier (m # ms) \<longleftrightarrow>
     (case (earlier, m) of (Some t0, LetThrough t gap) \<Rightarrow> time_Sub t t0 \<ge> gap | _ \<Rightarrow> True) \<and> after_mark (stamp_of m) ms"

lemma UpdateStatus_cases:
  assumes "UpdateStatus E i n ns st sn u = (r, u')"
  obtains "r = None" "u' = u" | "r \<noteq> None"
    "u' = u\<lparr>up_lastUpdate := AList.update n (ue_clock E (i + 1)) (up_lastUpdate u)\<rparr>"
    "\<And>t. map_of (up_lastUpdate u) n = Some t \<Longrightarrow> time_Sub (ue_clock E i) t \<ge> up_minInterval u"
  using assms by (auto simp: UpdateStatus_def Let_def split: option.splits if_splits)

text \<open>The map holds the stamp of the last mark, whatever the operation.\<close>

lemma updater_run_marks:
  assumes "mono (ue_clock E)" and "updater_run E name op u = (ms, u')"
  shows "after_mark (map_of (up_lastUpdate u) name) ms
    \<and> map_of (up_lastUpdate u') name = (if ms = [] then map_of (up_lastUpdate u) name else stamp_of (last ms))"
proof (cases op)
  case (Reports i n ns st sn)
  obtain r u1 where run: "UpdateStatus E i n ns st sn u = (r, u1)" by fastforce
  then show ?thesis
  proof (cases rule: UpdateStatus_cases)
    case 1
    with run Reports assms(2) show ?thesis by auto
  next
    case 2
    have "ue_clock E i \<le> ue_clock E (i + 1)" using assms(1) by (simp add: monoD)
    then have "time_Sub (ue_clock E i) t \<le> time_Sub (ue_clock E (i + 1)) t" for t by (auto simp: time_Sub_def)
    with 2(3) have "map_of (up_lastUpdate u) n = Some t \<Longrightarrow> time_Sub (ue_clock E (i + 1)) t \<ge> up_minInterval u" for t
      using order_trans by blast
    with run Reports assms(2) 2(1,2) show ?thesis by (auto simp: map_laws split: if_splits option.splits)
  qed
qed (use assms(2) in \<open>auto simp: UpdateStatusForce_def ClearThrottle_def SetMinInterval_def map_laws split: option.split\<close>)

lemma after_mark_append:
  "after_mark e (ms @ ns) \<longleftrightarrow> after_mark e ms \<and> after_mark (if ms = [] then e else stamp_of (last ms)) ns"
  by (induction ms arbitrary: e) auto

lemma marks_spaced:
  assumes "mono (ue_clock E)"
  shows "after_mark (map_of (up_lastUpdate u) name) (marks E name ops u)"
proof (induction ops arbitrary: u)
  case Nil
  then show ?case by simp
next
  case (Cons op ops)
  obtain ms u1 where run: "updater_run E name op u = (ms, u1)" by fastforce
  from updater_run_marks [OF assms run] Cons.IH [of u1] show ?case
    by (simp add: run after_mark_append)
qed

text \<open>
  C39. The throttle lets updates of one name through at least the interval in force apart: in every history of the updater's
  operations, in whatever order and by whatever goroutines, each \<open>UpdateStatus\<close> that is let through lies at least the interval set at
  that moment after the update before it, be that one throttled or forced, unless the throttle of the name was cleared in between; as
  long as the clock does not go back. The moments are the stamps taken under the mutex; the calls of the API server follow after it
  was released. Differences of times are Go's, which saturate.
\<close>

theorem updates_throttled:
  assumes "mono (ue_clock E)"
  shows "after_mark None (marks E name ops (NewStatusUpdater d))"
  using marks_spaced [OF assms, of "NewStatusUpdater d" name ops] by (simp add: NewStatusUpdater_def)

text \<open>
  Models of the same name in different namespaces share the throttle, and a failed update counts like one that succeeded: the
  progress of the second one is dropped.
\<close>

lemma throttle_shared:
  assumes "ue_clock E (j + 0) - ue_clock E (i + 1) < up_minInterval u" and "ue_clock E j - ue_clock E (i + 1) \<ge> - (2 ^ 63)"
    and "up_minInterval u < 2 ^ 63"
  shows "fst (UpdateStatus E j name ns' st' sn' (snd (UpdateStatusForce E (i + 1) name ns st sn u))) = None"
  using assms by (simp add: UpdateStatus_def UpdateStatusForce_def time_Sub_def map_laws Let_def)

definition counting_env :: updater_env where
  "counting_env = \<lparr>ue_get = \<lambda>i n ns. None, ue_update = \<lambda>i m. True, ue_clock = (\<lambda>i. int i * 1000000000), ue_fl = id\<rparr>"

lemma updates_throttled_witness:
  "\<forall>ops. after_mark None (marks counting_env ''m'' ops (NewStatusUpdater 0))"
proof -
  have "mono (ue_clock counting_env)" by (simp add: counting_env_def mono_def)
  from updates_throttled [OF this, of "''m''" _ 0] show ?thesis by blast
qed

text \<open>Reports at the seconds 0, 3, 7 and 8 and a cleared throttle in between: two are dropped, and the last one is let through at once.\<close>

lemma marks_example:
  "marks counting_env ''m'' (map (\<lambda>i. Reports i ''m'' ''ns'' st sn) [0, 3, 7, 8] @ [Clears ''m'', Reports 9 ''m'' ''ns'' st sn]) (NewStatusUpdater 0)
   = [LetThrough 1000000000 5000000000, LetThrough 8000000000 5000000000, Cleared, LetThrough 10000000000 5000000000]"
  by (simp add: counting_env_def UpdateStatus_def NewStatusUpdater_def ClearThrottle_def time_Sub_def Let_def map_laws)

end
