(* ===== verification/Server_Setup.thy ===== *)
theory Server_Setup
  imports Proxy_Handler Metrics Chunked
begin

text \<open>
  The rest of the proxy: its configuration in \<open>cmd/main.go\<close> and the options of \<open>internal/proxy/server.go\<close>, the routes, the
  list of models and the static files of the web UI (\<open>webui.go\<close>). The embedded files are a function of their path; routing
  itself is the HTTP library's.
\<close>

section \<open>Configuration\<close>

record settings =
  st_Addr :: string
  st_Namespace :: string
  st_ScaleUpTimeout :: duration
  st_ReadyCheckDelay :: duration
  st_Metrics :: bool
  st_Registry :: bool
  st_MaxModelMemory :: string
  st_MaxMemoryBytes :: int64
  st_EvictionMinIdle :: duration
  st_DefaultModel :: string

datatype ServerOption = WithServerNamespace string | WithScaleUpTimeout duration | WithReadyCheckDelay duration
  | WithMetrics | WithRegistry | WithMaxModelMemory string | WithEvictionMinIdle duration | WithDefaultModel string

fun apply_server_option :: "'q quantity_api \<Rightarrow> ServerOption \<Rightarrow> settings \<Rightarrow> settings" where
  "apply_server_option Q (WithServerNamespace n) s = s\<lparr>st_Namespace := n\<rparr>"
| "apply_server_option Q (WithScaleUpTimeout d) s = s\<lparr>st_ScaleUpTimeout := d\<rparr>"
| "apply_server_option Q (WithReadyCheckDelay d) s = s\<lparr>st_ReadyCheckDelay := d\<rparr>"
| "apply_server_option Q WithMetrics s = s\<lparr>st_Metrics := True\<rparr>"
| "apply_server_option Q WithRegistry s = s\<lparr>st_Registry := True\<rparr>"
| "apply_server_option Q (WithMaxModelMemory m) s =
     (let s1 = s\<lparr>st_MaxModelMemory := m\<rparr> in
      case ParseQuantity Q m of None \<Rightarrow> s1 | Some q \<Rightarrow> s1\<lparr>st_MaxMemoryBytes := Value Q q\<rparr>)"
| "apply_server_option Q (WithEvictionMinIdle d) s = s\<lparr>st_EvictionMinIdle := d\<rparr>"
| "apply_server_option Q (WithDefaultModel m) s = s\<lparr>st_DefaultModel := m\<rparr>"

definition NewServer :: "'q quantity_api \<Rightarrow> string \<Rightarrow> ServerOption list \<Rightarrow> settings" where
  "NewServer Q addr opts = fold (apply_server_option Q) opts
     \<lparr>st_Addr = addr, st_Namespace = ''default'', st_ScaleUpTimeout = 5 * 60 * 1000000000, st_ReadyCheckDelay = 2 * 1000000000,
      st_Metrics = False, st_Registry = False, st_MaxModelMemory = '''', st_MaxMemoryBytes = 0, st_EvictionMinIdle = 0,
      st_DefaultModel = ''''\<rparr>"

text \<open>What the request handlers read of it.\<close>

definition handler_config :: "settings \<Rightarrow> config" where
  "handler_config s = \<lparr>MaxMemoryBytes = st_MaxMemoryBytes s, EvictionMinIdle = st_EvictionMinIdle s,
     ServerNamespace = st_Namespace s, DefaultModel = st_DefaultModel s\<rparr>"

definition getEnvWithDefault :: "(string \<Rightarrow> string) \<Rightarrow> string \<Rightarrow> string \<Rightarrow> string" where
  "getEnvWithDefault env key defaultValue = (if env key \<noteq> '''' then env key else defaultValue)"

text \<open>The flags and the environment of the process; \<open>fl\<close> rounds in \<open>time.ParseDuration\<close>.\<close>

definition main_server ::
  "'q quantity_api \<Rightarrow> rounding \<Rightarrow> (string \<Rightarrow> string) \<Rightarrow> string \<Rightarrow> string \<Rightarrow> string \<Rightarrow> settings" where
  "main_server Q fl env proxyAddr proxyNamespace defaultModel =
     (let maxModelMemory = getEnvWithDefault env ''MAX_MODEL_MEMORY'' ''96Gi'';
          minIdle = (case ParseDuration fl (getEnvWithDefault env ''EVICTION_MIN_IDLE'' ''0s'') of None \<Rightarrow> 0 | Some d \<Rightarrow> d) in
      NewServer Q proxyAddr [WithServerNamespace proxyNamespace, WithMetrics, WithRegistry, WithMaxModelMemory maxModelMemory,
        WithEvictionMinIdle minIdle, WithDefaultModel defaultModel])"

section \<open>Routes\<close>

datatype endpoint = Healthz | Readyz | MetricsPage | IndexPage | StaticPage | PropsPage | SlotsPage | Passthrough string
  | MultipartPassthrough string | ListModels

definition setupRoutes :: "(string \<times> string \<times> endpoint) list" where
  "setupRoutes =
     [(''GET'', ''/healthz'', Healthz), (''GET'', ''/readyz'', Readyz), (''GET'', ''/metrics'', MetricsPage),
      (''GET'', ''/'', IndexPage), (''GET'', ''/ui'', IndexPage), (''GET'', ''/ui/*filepath'', StaticPage),
      (''GET'', ''/bundle.js'', StaticPage), (''GET'', ''/bundle.css'', StaticPage), (''GET'', ''/loading.html'', StaticPage),
      (''GET'', ''/props'', PropsPage), (''GET'', ''/slots'', SlotsPage),
      (''POST'', ''/v1/chat/completions'', Passthrough ''/v1/chat/completions''),
      (''POST'', ''/v1/completions'', Passthrough ''/v1/completions''),
      (''POST'', ''/v1/embeddings'', Passthrough ''/v1/embeddings''),
      (''POST'', ''/v1/audio/transcriptions'', MultipartPassthrough ''/v1/audio/transcriptions''),
      (''GET'', ''/v1/models'', ListModels)]"

section \<open>The list of models\<close>

record ModelInfo =
  mi_ID :: string
  mi_Model :: string
  mi_Object :: string
  mi_Created :: int
  mi_OwnedBy :: string

text \<open>The slice of the answer; \<open>None\<close> is a nil slice, which JSON writes as \<open>null\<close>.\<close>

datatype models_answer = ModelsResponse string "ModelInfo list option" | ListFailed500

definition listAllInferenceModels :: "config \<Rightarrow> 'q cluster \<Rightarrow> nat \<Rightarrow> api_error + InferenceModel list" where
  "listAllInferenceModels cfg E i = model_list E i (ServerNamespace cfg)"

definition listModelsHandler :: "config \<Rightarrow> 'q cluster \<Rightarrow> nat \<Rightarrow> models_answer" where
  "listModelsHandler cfg E i =
     (case listAllInferenceModels cfg E i of
        Inl e \<Rightarrow> ListFailed500
      | Inr items \<Rightarrow>
          ModelsResponse ''list''
            (if items = [] then None
             else Some (map (\<lambda>m. \<lparr>mi_ID = ModelName (Spec m), mi_Model = ModelName (Spec m), mi_Object = ''model'',
                 mi_Created = im_CreationTimestamp m div 1000000000, mi_OwnedBy = ''eh-ops''\<rparr>) items)))"

section \<open>Static files\<close>

text \<open>\<open>path.Base\<close> and the paths that \<open>fs.ValidPath\<close> accepts, without which an embedded file cannot be opened.\<close>

definition path_Base :: "string \<Rightarrow> string" where
  "path_Base p =
     (if p = '''' then ''.''
      else let stripped = rev (dropWhile (\<lambda>c. c = CHR ''/'') (rev p));
               base = rev (takeWhile (\<lambda>c. c \<noteq> CHR ''/'') (rev stripped))
           in if base = '''' then ''/'' else base)"

definition ValidPath :: "string \<Rightarrow> bool" where
  "ValidPath p = (p = ''.'' \<or> list_all (\<lambda>e. e \<noteq> '''' \<and> e \<noteq> ''.'' \<and> e \<noteq> ''..'') (split_on (CHR ''/'') p))"

definition embedded_Open :: "(string \<Rightarrow> byte list option) \<Rightarrow> string \<Rightarrow> byte list option" where
  "embedded_Open files p = (if ValidPath p then files p else None)"

definition contentType :: "string \<Rightarrow> string" where
  "contentType f =
     (let e = Ext f in
      if e = ''.js'' then ''application/javascript''
      else if e = ''.css'' then ''text/css''
      else if e = ''.html'' then ''text/html; charset=utf-8''
      else if e = ''.json'' then ''application/json''
      else if e = ''.png'' then ''image/png''
      else if e = ''.svg'' then ''image/svg+xml''
      else if e = ''.ico'' then ''image/x-icon''
      else ''application/octet-stream'')"

datatype page = PageError nat string | Page string "byte list"

definition HandleIndex :: "(string \<Rightarrow> byte list option) \<Rightarrow> bool \<Rightarrow> page" where
  "HandleIndex files statFails =
     (case embedded_Open files ''webui/index.html'' of
        None \<Rightarrow> PageError 500 ''Failed to load UI''
      | Some bs \<Rightarrow> if statFails then PageError 500 ''Failed to read file info'' else Page ''text/html; charset=utf-8'' bs)"

definition HandleStatic :: "(string \<Rightarrow> byte list option) \<Rightarrow> bool \<Rightarrow> string \<Rightarrow> string \<Rightarrow> page" where
  "HandleStatic files statFails param urlPath =
     (let f = path_Base (TrimPrefix (if param = '''' then urlPath else param) ''/'') in
      if f = ''.'' \<or> f = ''..'' then PageError 400 ''Invalid path''
      else case embedded_Open files (''webui/'' @ f) of
        None \<Rightarrow> PageError 404 ''File not found''
      | Some bs \<Rightarrow> if statFails then PageError 500 ''Failed to read file'' else Page (contentType f) bs)"

section \<open>What it guarantees\<close>

lemma path_Base_no_slash: "path_Base p = ''/'' \<or> CHR ''/'' \<notin> set (path_Base p)"
  by (auto simp: path_Base_def Let_def dest: set_takeWhileD)

text \<open>
  C40. Whatever path is asked for, the static handler serves only files that lie directly in the directory of the web UI.
\<close>

theorem static_stays_inside:
  assumes "HandleStatic files statFails param urlPath = Page ct bs"
  shows "\<exists>f. files (''webui/'' @ f) = Some bs \<and> f \<noteq> '''' \<and> f \<noteq> ''.'' \<and> f \<noteq> ''..'' \<and> CHR ''/'' \<notin> set f"
proof -
  define f where "f = path_Base (TrimPrefix (if param = '''' then urlPath else param) ''/'')"
  from assms have f: "f \<noteq> ''.''" "f \<noteq> ''..''" and "embedded_Open files (''webui/'' @ f) = Some bs"
    unfolding HandleStatic_def Let_def f_def [symmetric] by (auto split: if_splits option.splits)
  then have valid: "ValidPath (''webui/'' @ f)" and found: "files (''webui/'' @ f) = Some bs"
    unfolding embedded_Open_def by (simp_all split: if_splits)
  have "split_on (CHR ''/'') (''webui/'' @ f) = ''webui'' # split_on (CHR ''/'') f"
    using split_on_append [of "CHR ''/''" "''webui''" f] by simp
  with valid have "list_all (\<lambda>e. e \<noteq> '''') (split_on (CHR ''/'') f)"
    by (auto simp: ValidPath_def list_all_iff)
  then have "f \<noteq> ''/''" "f \<noteq> ''''" by auto
  moreover have "f = ''/'' \<or> CHR ''/'' \<notin> set f" unfolding f_def by (rule path_Base_no_slash)
  ultimately show ?thesis using f found by blast
qed

lemma static_stays_inside_witness:
  "HandleStatic (\<lambda>p. if p = ''webui/a.css'' then Some [1] else None) False ''/../x/a.css'' '''' = Page ''text/css'' [1]
   \<and> (\<exists>f. (if ''webui/'' @ f = ''webui/a.css'' then Some [1 :: byte] else None) = Some [1])"
proof -
  have r: "HandleStatic (\<lambda>p. if p = ''webui/a.css'' then Some [1] else None) False ''/../x/a.css'' '''' = Page ''text/css'' [1]"
    by code_simp
  from r static_stays_inside [OF r] show ?thesis by blast
qed

text \<open>
  A limit that does not parse as a quantity is no limit at all: the server starts, and every check of the global limit passes.
\<close>

theorem unparsable_limit_disables_check:
  assumes "ParseQuantity Q (getEnvWithDefault env ''MAX_MODEL_MEMORY'' ''96Gi'') = None"
  shows "checkGlobalLimit (handler_config (main_server Q fl env addr ns dm)) E i model s = Returns None s"
  using assms by (simp add: checkGlobalLimit_def handler_config_def main_server_def NewServer_def Let_def)

lemma unparsable_limit_disables_check_witness:
  "\<forall>E (s :: int server). checkGlobalLimit (handler_config (main_server \<lparr>ParseQuantity = \<lambda>t. None, Value = \<lambda>q. 0\<rparr> id (\<lambda>v. ''96 Gi'') ''a'' ''n'' ''''))
     E 0 (demo_model ''m'' ''1Gi'') s = Returns None s"
  by (intro allI, rule unparsable_limit_disables_check) simp

text \<open>With no models the list is \<open>null\<close>, not an empty array.\<close>

lemma no_models_is_null:
  "model_list E i (ServerNamespace cfg) = Inr [] \<Longrightarrow> listModelsHandler cfg E i = ModelsResponse ''list'' None"
  by (simp add: listModelsHandler_def listAllInferenceModels_def)

end
