(* ===== verification/Props.thy ===== *)
theory Props
  imports Proxy_Admission Chunked
begin

text \<open>
  The server properties for the llama.cpp web UI, \<open>internal/proxy/props.go\<close>: constants, but for the model's path, its context
  size and whether it is loaded. A float is the decimal fraction that is written in the source.
\<close>

section \<open>The answer\<close>

record Params =
  pm_NPredict :: int
  pm_Seed :: int
  pm_Temperature :: rat
  pm_DynatempRange :: rat
  pm_DynatempExponent :: rat
  pm_TopK :: int
  pm_TopP :: rat
  pm_MinP :: rat
  pm_TopNSigma :: rat
  pm_XtcProbability :: rat
  pm_XtcThreshold :: rat
  pm_TypP :: rat
  pm_RepeatLastN :: int
  pm_RepeatPenalty :: rat
  pm_PresencePenalty :: rat
  pm_FrequencyPenalty :: rat
  pm_DryMultiplier :: rat
  pm_DryBase :: rat
  pm_DryAllowedLength :: int
  pm_DryPenaltyLastN :: int
  pm_DrySequenceBreakers :: "string list"
  pm_Mirostat :: int
  pm_MirostatTau :: rat
  pm_MirostatEta :: rat
  pm_Stop :: "string list"
  pm_MaxTokens :: int
  pm_NKeep :: int
  pm_NDiscard :: int
  pm_IgnoreEos :: bool
  pm_Stream :: bool
  pm_LogitBias :: "rat list list"
  pm_NProbs :: int
  pm_MinKeep :: int
  pm_Grammar :: string
  pm_GrammarLazy :: bool
  pm_GrammarTriggers :: "string list"
  pm_PreservedTokens :: "int list"
  pm_ChatFormat :: string
  pm_ReasoningFormat :: string
  pm_ReasoningInContent :: bool
  pm_GenerationPrompt :: string
  pm_Samplers :: "string list"
  pm_BackendSampling :: bool
  pm_TimingsPerToken :: bool
  pm_PostSamplingProbs :: bool

record NextToken =
  nt_HasNextToken :: bool
  nt_HasNewLine :: bool
  nt_NRemain :: int
  nt_NDecoded :: int
  nt_StoppingWord :: string

record Modalities =
  md_Vision :: bool
  md_Audio :: bool

record GenerationSettings =
  gs_ID :: int
  gs_IDTask :: int
  gs_NCtx :: int
  gs_Speculative :: bool
  gs_IsProcessing :: bool
  gs_Params :: Params
  gs_Prompt :: string
  gs_NextToken :: NextToken

record PropsResponse =
  pp_DefaultGenerationSettings :: GenerationSettings
  pp_TotalSlots :: int
  pp_ModelPath :: string
  pp_Role :: string
  pp_Modalities :: Modalities
  pp_ChatTemplate :: string
  pp_BosToken :: string
  pp_EosToken :: string
  pp_BuildInfo :: string

definition DefaultParams :: Params where
  "DefaultParams =
     \<lparr>pm_NPredict = - 1, pm_Seed = - 1, pm_Temperature = 7 / 10, pm_DynatempRange = 0, pm_DynatempExponent = 1,
      pm_TopK = 40, pm_TopP = 9 / 10, pm_MinP = 1 / 20, pm_TopNSigma = - 1, pm_XtcProbability = 0,
      pm_XtcThreshold = 1 / 10, pm_TypP = 1, pm_RepeatLastN = 64, pm_RepeatPenalty = 1, pm_PresencePenalty = 0,
      pm_FrequencyPenalty = 0, pm_DryMultiplier = 0, pm_DryBase = 7 / 4, pm_DryAllowedLength = 2,
      pm_DryPenaltyLastN = - 1, pm_DrySequenceBreakers = [[CHR 0x0A], [CHR 0x22], [CHR 0x27]], pm_Mirostat = 0,
      pm_MirostatTau = 5, pm_MirostatEta = 1 / 10, pm_Stop = [], pm_MaxTokens = - 1, pm_NKeep = 0, pm_NDiscard = 0,
      pm_IgnoreEos = False, pm_Stream = True, pm_LogitBias = [], pm_NProbs = 0, pm_MinKeep = 1, pm_Grammar = '''',
      pm_GrammarLazy = False, pm_GrammarTriggers = [], pm_PreservedTokens = [], pm_ChatFormat = ''chatml'',
      pm_ReasoningFormat = ''none'', pm_ReasoningInContent = False, pm_GenerationPrompt = '''',
      pm_Samplers = [''top_k'', ''typ_p'', ''top_p'', ''min_p'', ''temperature''], pm_BackendSampling = False,
      pm_TimingsPerToken = False, pm_PostSamplingProbs = False\<rparr>"

definition DefaultNextToken :: NextToken where
  "DefaultNextToken =
     \<lparr>nt_HasNextToken = False, nt_HasNewLine = False, nt_NRemain = 0, nt_NDecoded = 0, nt_StoppingWord = ''''\<rparr>"

definition DefaultModalities :: Modalities where
  "DefaultModalities =
     \<lparr>md_Vision = False, md_Audio = False\<rparr>"

definition DefaultGenerationSettings :: GenerationSettings where
  "DefaultGenerationSettings =
     \<lparr>gs_ID = 0, gs_IDTask = 0, gs_NCtx = 8192, gs_Speculative = False, gs_IsProcessing = False,
      gs_Params = DefaultParams, gs_Prompt = '''', gs_NextToken = DefaultNextToken\<rparr>"

definition DefaultProps :: PropsResponse where
  "DefaultProps =
     \<lparr>pp_DefaultGenerationSettings = DefaultGenerationSettings, pp_TotalSlots = 0,
      pp_ModelPath = ''openyourmind-qwen3-6-35b-a3b-q4km'', pp_Role = ''model'', pp_Modalities = DefaultModalities,
      pp_ChatTemplate = ''chatml'', pp_BosToken = ''<|endoftext|>'', pp_EosToken = ''<|endoftext|>'',
      pp_BuildInfo = ''inference-budget-controller v0.1.0''\<rparr>"

section \<open>The handler\<close>

definition set_settings :: "(GenerationSettings \<Rightarrow> GenerationSettings) \<Rightarrow> PropsResponse \<Rightarrow> PropsResponse" where
  "set_settings f p = p\<lparr>pp_DefaultGenerationSettings := f (pp_DefaultGenerationSettings p)\<rparr>"

definition loaded :: "InferenceModel \<Rightarrow> bool" where
  "loaded m = (Ready (Status m) \<and> sint (Replicas (Status m)) > 0)"

text \<open>Both branches of the handler take the same fields from the model, if there is one. \<open>strconv.Atoi\<close> is that of an \<open>int64\<close>.\<close>

definition props_of_model :: "InferenceModel \<Rightarrow> PropsResponse \<Rightarrow> PropsResponse" where
  "props_of_model m p =
     (let p1 = (if loaded m then set_settings (\<lambda>s. s\<lparr>gs_ID := 1\<rparr>) p else p) in
      case src_HuggingFace (Source (Spec m)) of
        None \<Rightarrow> p1
      | Some hf \<Rightarrow>
          (case (if hf_ContextSize hf = '''' then None else ParseInt64 (hf_ContextSize hf)) of
             None \<Rightarrow> p1
           | Some n \<Rightarrow> set_settings (\<lambda>s. s\<lparr>gs_NCtx := sint n\<rparr>) p1))"

text \<open>\<open>lookup\<close> gets a model by the server's namespace and name; \<open>None\<close> where there is no Kubernetes client.\<close>

definition propsHandler ::
  "config \<Rightarrow> (string \<Rightarrow> string \<Rightarrow> InferenceModel option) option \<Rightarrow> string \<Rightarrow> PropsResponse" where
  "propsHandler cfg lookup modelName =
     (let name = (if modelName \<noteq> '''' then modelName else DefaultModel cfg); p = DefaultProps\<lparr>pp_ModelPath := name\<rparr> in
      case (if name = '''' then None else case lookup of None \<Rightarrow> None | Some get \<Rightarrow> get (ServerNamespace cfg) name) of
        None \<Rightarrow> p
      | Some m \<Rightarrow> props_of_model m p)"

text \<open>There are no slots.\<close>

definition slotsHandler :: "string list" where "slotsHandler = []"

text \<open>The answer names the model that was asked for, and calls it loaded exactly if it is ready with a replica.\<close>

lemma set_settings_simps [simp]:
  "pp_ModelPath (set_settings f p) = pp_ModelPath p"
  "pp_DefaultGenerationSettings (set_settings f p) = f (pp_DefaultGenerationSettings p)"
  by (simp_all add: set_settings_def)

lemma props_of_model_path [simp]: "pp_ModelPath (props_of_model m p) = pp_ModelPath p"
  unfolding props_of_model_def Let_def by (simp split: option.split)

lemma props_of_model_ID [simp]:
  "gs_ID (pp_DefaultGenerationSettings (props_of_model m p)) = (if loaded m then 1 else gs_ID (pp_DefaultGenerationSettings p))"
  unfolding props_of_model_def Let_def by (simp split: option.split)

lemma DefaultProps_ID [simp]: "gs_ID (pp_DefaultGenerationSettings DefaultProps) = 0"
  by (simp add: DefaultProps_def DefaultGenerationSettings_def)

lemma props_loaded:
  assumes "name \<noteq> ''''"
  shows "pp_ModelPath (propsHandler cfg (Some get) name) = name"
    and "gs_ID (pp_DefaultGenerationSettings (propsHandler cfg (Some get) name))
       = (case get (ServerNamespace cfg) name of None \<Rightarrow> 0 | Some m \<Rightarrow> if loaded m then 1 else 0)"
  using assms by (simp_all add: propsHandler_def Let_def split: option.split)

end
