(* ===== verification/Stall_Reader.thy ===== *)
theory Stall_Reader
  imports Prelude
begin

text \<open>
  The stall timeout of a download, \<open>StallTimeoutReader\<close> of \<open>internal/huggingface/client.go\<close>: a timer that every read with
  data sets anew, and a goroutine that waits for the timer and then cancels the request. Reader, timer and goroutine are
  interleaved, each call on the timer a step of its own: a read that returned data stops the timer, clears its channel if that
  failed, and sets it anew; the goroutine first receives and then cancels. A moment is attached to every step. The timer behaves
  as since Go 1.23: stopping it also takes back a value that nobody received yet.
\<close>

section \<open>The timer\<close>

datatype timer = Stopped | Armed go_time | Expired \<comment> \<open>with its value not received yet\<close>

definition timer_Stop :: "timer \<Rightarrow> bool \<times> timer" where
  "timer_Stop t = (t \<noteq> Stopped, Stopped)"

definition timer_Reset :: "go_time \<Rightarrow> timer \<Rightarrow> timer" where
  "timer_Reset deadline t = Armed deadline"

text \<open>The non-blocking receive that clears the channel of a timer that could not be stopped.\<close>

definition drain :: "timer \<Rightarrow> timer" where
  "drain t = (case t of Expired \<Rightarrow> Stopped | _ \<Rightarrow> t)"

section \<open>Reader and goroutine\<close>

datatype reader_at = InRead \<comment> \<open>or outside any call\<close> | AtStop | AtDrain | AtReset

datatype goroutine_at = Receiving | Cancelling | Gone

record StallTimeoutReader =
  st_timeout :: duration
  st_timer :: timer
  st_reader :: reader_at
  st_goroutine :: goroutine_at
  st_cancelled :: bool

definition NewStallTimeoutReader :: "duration \<Rightarrow> go_time \<Rightarrow> StallTimeoutReader" where
  "NewStallTimeoutReader timeout now =
     \<lparr>st_timeout = timeout, st_timer = Armed (now + timeout), st_reader = InRead, st_goroutine = Receiving,
      st_cancelled = False\<rparr>"

definition stall_Close :: "StallTimeoutReader \<Rightarrow> StallTimeoutReader" where
  "stall_Close s = s\<lparr>st_timer := snd (timer_Stop (st_timer s))\<rparr>"

section \<open>Steps\<close>

datatype stall_event =
    ReadReturns nat \<comment> \<open>the number of bytes\<close>
  | StopsTimer | DrainsChannel | ResetsTimer
  | ClosesReader
  | TimerExpires
  | Receives | Cancels

text \<open>The steps of \<open>Read\<close>, whose call of the wrapped reader returns at the first one.\<close>

fun stall_Read :: "go_time \<Rightarrow> stall_event \<Rightarrow> StallTimeoutReader \<Rightarrow> StallTimeoutReader option" where
  "stall_Read now (ReadReturns n) s =
     (if st_reader s = InRead then Some (if n > 0 then s\<lparr>st_reader := AtStop\<rparr> else s) else None)"
| "stall_Read now StopsTimer s =
     (if st_reader s = AtStop
      then case timer_Stop (st_timer s) of
             (active, t) \<Rightarrow> Some (s\<lparr>st_timer := t, st_reader := if active then AtReset else AtDrain\<rparr>)
      else None)"
| "stall_Read now DrainsChannel s =
     (if st_reader s = AtDrain then Some (s\<lparr>st_timer := drain (st_timer s), st_reader := AtReset\<rparr>) else None)"
| "stall_Read now ResetsTimer s =
     (if st_reader s = AtReset
      then Some (s\<lparr>st_timer := timer_Reset (now + st_timeout s) (st_timer s), st_reader := InRead\<rparr>) else None)"
| "stall_Read now _ s = None"

text \<open>The goroutine, once: it receives, and then cancels.\<close>

fun stall_goroutine :: "stall_event \<Rightarrow> StallTimeoutReader \<Rightarrow> StallTimeoutReader option" where
  "stall_goroutine Receives s =
     (if st_goroutine s = Receiving \<and> st_timer s = Expired
      then Some (s\<lparr>st_timer := Stopped, st_goroutine := Cancelling\<rparr>) else None)"
| "stall_goroutine Cancels s =
     (if st_goroutine s = Cancelling then Some (s\<lparr>st_goroutine := Gone, st_cancelled := True\<rparr>) else None)"
| "stall_goroutine _ s = None"

text \<open>All of them; the one who reads also closes, so not in the middle of a read.\<close>

definition stall_step :: "go_time \<Rightarrow> stall_event \<Rightarrow> StallTimeoutReader \<Rightarrow> StallTimeoutReader option" where
  "stall_step now e s =
     (case e of
        ClosesReader \<Rightarrow> if st_reader s = InRead then Some (stall_Close s) else None
      | TimerExpires \<Rightarrow>
          (case st_timer s of
             Armed deadline \<Rightarrow> if deadline \<le> now then Some (s\<lparr>st_timer := Expired\<rparr>) else None
           | _ \<Rightarrow> None)
      | Receives \<Rightarrow> stall_goroutine e s
      | Cancels \<Rightarrow> stall_goroutine e s
      | _ \<Rightarrow> stall_Read now e s)"

lemmas stall_defs = stall_step_def stall_Close_def timer_Stop_def timer_Reset_def drain_def

text \<open>Runs, with the moments in order.\<close>

inductive stall_run :: "go_time \<Rightarrow> StallTimeoutReader \<Rightarrow> (go_time \<times> stall_event) list \<Rightarrow> go_time \<Rightarrow> StallTimeoutReader \<Rightarrow> bool"
  for t0 s where
  none: "stall_run t0 s [] t0 s"
| more: "stall_run t0 s es t1 s1 \<Longrightarrow> t1 \<le> t2 \<Longrightarrow> stall_step t2 e s1 = Some s2 \<Longrightarrow> stall_run t0 s (es @ [(t2, e)]) t2 s2"

fun run_stall :: "(go_time \<times> stall_event) list \<Rightarrow> go_time \<times> StallTimeoutReader \<Rightarrow> (go_time \<times> StallTimeoutReader) option" where
  "run_stall [] c = Some c"
| "run_stall ((t2, e) # es) (t1, s) =
     (if t1 \<le> t2 then Option.bind (stall_step t2 e s) (\<lambda>s2. run_stall es (t2, s2)) else None)"

lemma run_stall_run:
  "stall_run t0 s0 es0 t s \<Longrightarrow> run_stall es (t, s) = Some (t', s') \<Longrightarrow> stall_run t0 s0 (es0 @ es) t' s'"
proof (induction es arbitrary: es0 t s)
  case Nil
  then show ?case by simp
next
  case (Cons te es)
  obtain t2 e where te: "te = (t2, e)" by (cases te)
  with Cons.prems(2) obtain s2 where "t \<le> t2" "stall_step t2 e s = Some s2" "run_stall es (t2, s2) = Some (t', s')"
    by (auto simp: bind_eq_Some_conv split: if_splits)
  with Cons.IH [OF stall_run.more [OF Cons.prems(1)]] te show ?case by simp
qed

section \<open>Only silence cancels\<close>

text \<open>The moment of the last data in a run that began at \<open>t0\<close>, and the moment at which the timer was last set.\<close>

definition last_data :: "go_time \<Rightarrow> (go_time \<times> stall_event) list \<Rightarrow> go_time" where
  "last_data t0 es = fold (\<lambda>(t, e) last. case e of ReadReturns n \<Rightarrow> if n > 0 then t else last | _ \<Rightarrow> last) es t0"

definition last_reset :: "go_time \<Rightarrow> (go_time \<times> stall_event) list \<Rightarrow> go_time" where
  "last_reset t0 es = fold (\<lambda>(t, e) last. if e = ResetsTimer then t else last) es t0"

text \<open>A read has returned data and has not yet set the timer anew.\<close>

definition between_data_and_reset :: "(go_time \<times> stall_event) list \<Rightarrow> bool" where
  "between_data_and_reset es =
     fold (\<lambda>(t, e) b. case e of ReadReturns n \<Rightarrow> n > 0 \<or> b | ResetsTimer \<Rightarrow> False | _ \<Rightarrow> b) es False"

lemma history_simps [simp]:
  "last_data t0 [] = t0" "last_reset t0 [] = t0" "\<not> between_data_and_reset []"
  "last_data t0 (es @ [(t, e)]) = (case e of ReadReturns n \<Rightarrow> if n > 0 then t else last_data t0 es | _ \<Rightarrow> last_data t0 es)"
  "last_reset t0 (es @ [(t, e)]) = (if e = ResetsTimer then t else last_reset t0 es)"
  "between_data_and_reset (es @ [(t, e)]) \<longleftrightarrow>
     (case e of ReadReturns n \<Rightarrow> n > 0 \<or> between_data_and_reset es | ResetsTimer \<Rightarrow> False | _ \<Rightarrow> between_data_and_reset es)"
  by (simp_all add: last_data_def last_reset_def between_data_and_reset_def split: stall_event.split)

text \<open>How timer and reader relate to the history.\<close>

definition timer_right :: "duration \<Rightarrow> go_time \<Rightarrow> (go_time \<times> stall_event) list \<Rightarrow> go_time \<Rightarrow> StallTimeoutReader \<Rightarrow> bool" where
  "timer_right timeout t0 es now s \<longleftrightarrow> st_timeout s = timeout
     \<and> (\<forall>d. st_timer s = Armed d \<longrightarrow> d = last_reset t0 es + timeout)
     \<and> (between_data_and_reset es \<longleftrightarrow> st_reader s \<noteq> InRead)
     \<and> last_data t0 es \<le> now \<and> last_reset t0 es \<le> now
     \<and> (st_reader s = InRead \<longrightarrow> last_data t0 es \<le> last_reset t0 es)
     \<and> (st_cancelled s \<longleftrightarrow> st_goroutine s = Gone)"

lemma timer_right_step:
  assumes "timer_right timeout t0 es t1 s1" and "t1 \<le> t2" and "stall_step t2 e s1 = Some s2"
  shows "timer_right timeout t0 (es @ [(t2, e)]) t2 s2"
  using assms by (cases e) (auto simp: timer_right_def stall_defs split: if_splits timer.splits)

lemma stall_run_right:
  assumes "stall_run t0 (NewStallTimeoutReader timeout t0) es t1 s1"
  shows "timer_right timeout t0 es t1 s1"
  using assms
proof (induction rule: stall_run.induct)
  case none
  then show ?case by (simp add: timer_right_def NewStallTimeoutReader_def)
next
  case more
  then show ?case using timer_right_step by blast
qed

text \<open>The timer expired at the end of \<open>before\<close>, at \<open>x\<close>, after a silence.\<close>

definition silent_expiry :: "duration \<Rightarrow> go_time \<Rightarrow> (go_time \<times> stall_event) list \<Rightarrow> go_time \<Rightarrow> bool" where
  "silent_expiry timeout t0 before x \<longleftrightarrow> last_reset t0 before + timeout \<le> x
     \<and> (between_data_and_reset before \<or> last_data t0 before + timeout \<le> x)"

text \<open>Nothing stopped the timer.\<close>

definition unstopped :: "(go_time \<times> stall_event) list \<Rightarrow> bool" where
  "unstopped es \<longleftrightarrow> (\<forall>(t, e) \<in> set es. e \<notin> {StopsTimer, ClosesReader})"

lemma stall_run_expired:
  assumes "stall_run t0 (NewStallTimeoutReader timeout t0) es t1 s1"
  shows "st_timer s1 = Expired \<Longrightarrow>
    \<exists>before x mid. es = before @ (x, TimerExpires) # mid \<and> silent_expiry timeout t0 before x \<and> unstopped mid"
  using assms
proof (induction rule: stall_run.induct)
  case none
  then show ?case by (simp add: NewStallTimeoutReader_def)
next
  case (more es t1 s1 t2 e s2)
  note right = stall_run_right [OF more.hyps(1)]
  show ?case
  proof (cases "e = TimerExpires")
    case True
    with more right have "silent_expiry timeout t0 es t2"
      by (auto simp: silent_expiry_def timer_right_def stall_step_def split: timer.splits if_splits)
    with True show ?thesis
      by (intro exI [of _ es] exI [of _ t2] exI [of _ "[]"]) (simp add: unstopped_def)
  next
    case False
    with more.prems more.hyps(3) have "st_timer s1 = Expired \<and> e \<notin> {StopsTimer, ClosesReader}"
      by (cases e) (auto simp: stall_defs split: if_splits timer.splits)
    with more.IH obtain before x mid where
      "es = before @ (x, TimerExpires) # mid" "silent_expiry timeout t0 before x" "unstopped mid" "e \<notin> {StopsTimer, ClosesReader}"
      by blast
    then show ?thesis
      by (intro exI [of _ before] exI [of _ x] exI [of _ "mid @ [(t2, e)]"]) (auto simp: unstopped_def)
  qed
qed

lemma stall_run_received:
  assumes "stall_run t0 (NewStallTimeoutReader timeout t0) es t1 s1"
  shows "st_goroutine s1 \<noteq> Receiving \<Longrightarrow>
    \<exists>before x mid r late. es = before @ (x, TimerExpires) # mid @ (r, Receives) # late
      \<and> silent_expiry timeout t0 before x \<and> unstopped mid \<and> (st_cancelled s1 \<longrightarrow> (\<exists>w. (w, Cancels) \<in> set late))"
  using assms
proof (induction rule: stall_run.induct)
  case none
  then show ?case by (simp add: NewStallTimeoutReader_def)
next
  case (more es t1 s1 t2 e s2)
  note right = stall_run_right [OF more.hyps(1)]
  show ?case
  proof (cases "e = Receives")
    case True
    with more.hyps(3) have "st_timer s1 = Expired" "st_goroutine s1 = Receiving" "st_cancelled s2 = st_cancelled s1"
      by (auto simp: stall_step_def split: if_splits)
    moreover obtain before x mid where
      "es = before @ (x, TimerExpires) # mid" "silent_expiry timeout t0 before x" "unstopped mid"
      using stall_run_expired [OF more.hyps(1)] calculation(1) by blast
    ultimately show ?thesis using True right
      by (intro exI [of _ before] exI [of _ x] exI [of _ mid] exI [of _ t2] exI [of _ "[]"]) (simp add: timer_right_def)
  next
    case False
    with more.prems more.hyps(3) have "st_goroutine s1 \<noteq> Receiving" "st_cancelled s2 \<longrightarrow> st_cancelled s1 \<or> e = Cancels"
      by (cases e; auto simp: stall_defs split: if_splits timer.splits)+
    moreover from this(1) more.IH obtain before x mid r late where
      "es = before @ (x, TimerExpires) # mid @ (r, Receives) # late" "silent_expiry timeout t0 before x" "unstopped mid"
      "st_cancelled s1 \<longrightarrow> (\<exists>w. (w, Cancels) \<in> set late)"
      by blast
    moreover from calculation have "st_cancelled s2 \<longrightarrow> (\<exists>w. (w, Cancels) \<in> set (late @ [(t2, e)]))" by auto
    ultimately show ?thesis
      by (intro exI [of _ before] exI [of _ x] exI [of _ mid] exI [of _ r] exI [of _ "late @ [(t2, e)]"]) simp
  qed
qed

text \<open>
  C32. A download is cancelled only after a silence: in every interleaving of the steps of reader, timer and goroutine, if the
  request was cancelled, then the timer expired at a moment \<open>x\<close> at which the last setting of the timer (by a read with data, or the
  start) lay at least the timeout back, and the last data as well unless a read that returned data was still on its way to set the
  timer anew; nothing stopped the timer before the goroutine received its value, and the cancelling came after that. Data that comes
  between expiry and cancelling does not save the download: \<open>data_cancelled_at_once\<close>.
\<close>

theorem only_silence_cancels:
  assumes "stall_run t0 (NewStallTimeoutReader timeout t0) es t1 s1" and "st_cancelled s1"
  shows "\<exists>before x mid r late w. es = before @ (x, TimerExpires) # mid @ (r, Receives) # late
    \<and> last_reset t0 before + timeout \<le> x \<and> (between_data_and_reset before \<or> last_data t0 before + timeout \<le> x)
    \<and> unstopped mid \<and> (w, Cancels) \<in> set late"
proof -
  have "st_goroutine s1 \<noteq> Receiving" using stall_run_right [OF assms(1)] assms(2) by (simp add: timer_right_def)
  with stall_run_received [OF assms(1)] assms(2) show ?thesis unfolding silent_expiry_def by blast
qed

lemmas eval_stall = stall_defs NewStallTimeoutReader_def

definition silent_run :: "(go_time \<times> stall_event) list" where
  "silent_run = [(3, ReadReturns 5), (3, StopsTimer), (3, ResetsTimer), (13, TimerExpires), (14, Receives), (15, Cancels)]"

lemma silent_run_runs: "\<exists>s. stall_run 0 (NewStallTimeoutReader 10 0) silent_run 15 s \<and> st_cancelled s"
proof -
  obtain s where "run_stall silent_run (0, NewStallTimeoutReader 10 0) = Some (15, s)" "st_cancelled s"
    by (simp add: silent_run_def eval_stall)
  with run_stall_run [OF stall_run.none] show ?thesis by fastforce
qed

lemma only_silence_cancels_witness:
  "\<exists>before x mid r late w. silent_run = before @ (x, TimerExpires) # mid @ (r, Receives) # late
    \<and> last_reset 0 before + 10 \<le> x \<and> (w, Cancels) \<in> set late"
  using silent_run_runs only_silence_cancels [of 0 10 silent_run 15] by blast

text \<open>
  Data does not protect a download at once: a read that returned data one unit before the timeout is cancelled when the timer expires
  before the read stops it, and so is one that returns data after the goroutine received and before it cancels.
\<close>

definition late_runs :: "(go_time \<times> stall_event) list list" where
  "late_runs =
     [[(9, ReadReturns 5), (10, TimerExpires), (10, Receives), (10, StopsTimer), (10, DrainsChannel), (10, ResetsTimer), (11, Cancels)],
      [(10, TimerExpires), (10, Receives), (10, ReadReturns 5), (10, StopsTimer), (10, DrainsChannel), (10, ResetsTimer), (11, Cancels)]]"

theorem data_cancelled_at_once:
  "list_all (\<lambda>es. \<exists>s. stall_run 0 (NewStallTimeoutReader 10 0) es 11 s \<and> st_cancelled s) late_runs"
proof -
  have run: "\<exists>s. stall_run 0 (NewStallTimeoutReader 10 0) es 11 s \<and> st_cancelled s"
    if "\<exists>s. run_stall es (0, NewStallTimeoutReader 10 0) = Some (11, s) \<and> st_cancelled s" for es
    using that run_stall_run [OF stall_run.none, of es 0 "NewStallTimeoutReader 10 0" 11] by fastforce
  show ?thesis by (auto simp: late_runs_def intro!: run) (simp_all add: eval_stall)
qed

section \<open>The goroutine that stays\<close>

text \<open>
  A download that ends in time leaves its goroutine behind: once the reader was closed before the timer was received, the
  goroutine waits for ever, whatever happens, unless data is read again. Every file downloaded leaks one.
\<close>

definition left_behind :: "StallTimeoutReader \<Rightarrow> bool" where
  "left_behind s \<longleftrightarrow> st_timer s = Stopped \<and> st_goroutine s = Receiving \<and> st_reader s = InRead"

lemma left_behind_step:
  assumes "left_behind s" and "stall_step t e s = Some s'" and "\<And>n. e = ReadReturns n \<Longrightarrow> n = 0"
  shows "left_behind s'"
  using assms by (cases e) (auto simp: left_behind_def stall_defs split: if_splits)

theorem closed_reader_leaks:
  assumes "stall_run t0 (stall_Close s) es t1 s1" and "st_goroutine s = Receiving" and "st_reader s = InRead"
    and "\<forall>(t, e) \<in> set es. \<forall>n. e = ReadReturns n \<longrightarrow> n = 0"
  shows "st_goroutine s1 = Receiving \<and> stall_step t TimerExpires s1 = None \<and> stall_step t Receives s1 = None"
proof -
  from assms(1,4) have "left_behind s1"
  proof (induction rule: stall_run.induct)
    case none
    then show ?case using assms(2,3) by (simp add: left_behind_def stall_Close_def timer_Stop_def)
  next
    case more
    then show ?case using left_behind_step by auto
  qed
  then show ?thesis by (simp add: left_behind_def stall_step_def)
qed

lemma closed_reader_leaks_witness:
  "let s = stall_Close (NewStallTimeoutReader 10 0) in stall_step 20 TimerExpires s = None \<and> stall_step 20 Receives s = None"
  using closed_reader_leaks [OF stall_run.none, of "NewStallTimeoutReader 10 0"] by (simp add: NewStallTimeoutReader_def)

end
