(* ===== verification/Buffer_Pool.thy ===== *)
theory Buffer_Pool
  imports Prelude
begin

text \<open>
  The pool of buffers, \<open>internal/download/buffer_pool.go\<close>. The \<open>sync.Pool\<close> of the library may hand out any buffer that was
  put back, or none, and forget buffers at any time; these choices are arguments.
\<close>

section \<open>Buffers\<close>

text \<open>A Go slice from the start of its array: the array up to the capacity, and the length.\<close>

record buffer =
  bf_array :: "byte list"
  bf_len :: nat

abbreviation cap :: "buffer \<Rightarrow> nat" where "cap b \<equiv> length (bf_array b)"

definition make_buffer :: "nat \<Rightarrow> buffer" where
  "make_buffer n = \<lparr>bf_array = replicate n 0, bf_len = n\<rparr>"

text \<open>\<open>buf[:n:n]\<close>\<close>

definition full_slice :: "nat \<Rightarrow> buffer \<Rightarrow> buffer" where
  "full_slice n b = \<lparr>bf_array = take n (bf_array b), bf_len = n\<rparr>"

section \<open>The pool\<close>

record BufferPool =
  bp_pool :: "buffer list"
  bp_bufSize :: nat

definition DefaultBufferSize :: nat where "DefaultBufferSize = 64 * 1024"

definition NewBufferPool :: "int \<Rightarrow> BufferPool" where
  "NewBufferPool bufSize = \<lparr>bp_pool = [], bp_bufSize = (if bufSize \<le> 0 then DefaultBufferSize else nat bufSize)\<rparr>"

text \<open>\<open>Get\<close>: the buffer at the place chosen by the library, if there is one, or a new one.\<close>

definition pool_Get :: "nat \<Rightarrow> BufferPool \<Rightarrow> buffer \<times> BufferPool" where
  "pool_Get k p =
     (if k < length (bp_pool p) then (bp_pool p ! k, p\<lparr>bp_pool := take k (bp_pool p) @ drop (Suc k) (bp_pool p)\<rparr>)
      else (make_buffer (bp_bufSize p), p))"

definition pool_Put :: "buffer \<Rightarrow> BufferPool \<Rightarrow> BufferPool" where
  "pool_Put b p = (if cap b \<ge> bp_bufSize p then p\<lparr>bp_pool := full_slice (bp_bufSize p) b # bp_pool p\<rparr> else p)"

definition BufferSize :: "BufferPool \<Rightarrow> nat" where "BufferSize p = bp_bufSize p"

section \<open>Every buffer has the size of the pool\<close>

datatype pool_op = Got nat | PutBack buffer | Forgotten "nat list"

text \<open>What an operation hands out, and the pool after it.\<close>

fun run_pool :: "pool_op \<Rightarrow> BufferPool \<Rightarrow> buffer option \<times> BufferPool" where
  "run_pool (Got k) p = (case pool_Get k p of (b, q) \<Rightarrow> (Some b, q))"
| "run_pool (PutBack b) p = (None, pool_Put b p)"
| "run_pool (Forgotten ks) p = (None, p\<lparr>bp_pool := nths (bp_pool p) (- set ks)\<rparr>)"

fun run_pools :: "pool_op list \<Rightarrow> BufferPool \<Rightarrow> buffer list \<times> BufferPool" where
  "run_pools [] p = ([], p)"
| "run_pools (op # ops) p =
     (case run_pool op p of (got, q) \<Rightarrow> (case run_pools ops q of (bs, r) \<Rightarrow> ((case got of None \<Rightarrow> bs | Some b \<Rightarrow> b # bs), r)))"

definition sized :: "nat \<Rightarrow> buffer \<Rightarrow> bool" where
  "sized n b \<longleftrightarrow> bf_len b = n \<and> cap b = n"

lemma sized_make [simp]: "sized n (make_buffer n)"
  by (simp add: sized_def make_buffer_def)

lemma sized_slice: "n \<le> cap b \<Longrightarrow> sized n (full_slice n b)"
  by (simp add: sized_def full_slice_def)

lemma run_pool_sized:
  assumes "run_pool op p = (got, q)" and "list_all (sized (bp_bufSize p)) (bp_pool p)"
  shows "bp_bufSize q = bp_bufSize p \<and> list_all (sized (bp_bufSize p)) (bp_pool q) \<and> (\<forall>b. got = Some b \<longrightarrow> sized (bp_bufSize p) b)"
proof (cases op)
  case (Got k)
  have "list_all (sized (bp_bufSize p)) (take k (bp_pool p))" "list_all (sized (bp_bufSize p)) (drop (Suc k) (bp_pool p))"
    using assms(2) by (metis append_take_drop_id list_all_append)+
  moreover have "k < length (bp_pool p) \<Longrightarrow> sized (bp_bufSize p) (bp_pool p ! k)"
    using assms(2) by (simp add: list_all_length)
  ultimately show ?thesis using Got assms by (auto simp: pool_Get_def split: if_splits)
next
  case (PutBack b)
  with assms show ?thesis by (auto simp: pool_Put_def sized_slice)
next
  case (Forgotten ks)
  with assms show ?thesis by (auto simp: list_all_iff dest: in_set_nthsD)
qed

lemma run_pools_sized:
  "run_pools ops p = (bs, q) \<Longrightarrow> list_all (sized (bp_bufSize p)) (bp_pool p) \<Longrightarrow>
     bp_bufSize q = bp_bufSize p \<and> list_all (sized (bp_bufSize p)) (bp_pool q) \<and> list_all (sized (bp_bufSize p)) bs"
proof (induction ops arbitrary: p bs q)
  case Nil
  then show ?case by simp
next
  case (Cons op ops)
  obtain got p1 where op: "run_pool op p = (got, p1)" by fastforce
  obtain cs q1 where rest: "run_pools ops p1 = (cs, q1)" by fastforce
  note step = run_pool_sized [OF op Cons.prems(2)]
  from Cons.prems(1) op rest have "q1 = q" "bs = (case got of None \<Rightarrow> cs | Some b \<Rightarrow> b # cs)" by simp_all
  with Cons.IH [OF rest] step show ?case by (cases got) simp_all
qed

text \<open>
  Every buffer that the pool ever hands out has exactly the size of the pool, whatever was put back, of whatever size, and
  whichever buffers the library keeps.
\<close>

theorem buffers_sized:
  "list_all (sized (BufferSize (NewBufferPool n))) (fst (run_pools ops (NewBufferPool n)))"
  using run_pools_sized [of ops "NewBufferPool n"]
  by (cases "run_pools ops (NewBufferPool n)") (simp add: BufferSize_def NewBufferPool_def)

text \<open>What was in it stays in it: a buffer is not cleared when it is put back.\<close>

lemma buffer_not_cleared:
  "bp_pool p = [] \<Longrightarrow> cap b = bp_bufSize p \<Longrightarrow> bf_array (fst (pool_Get 0 (pool_Put b p))) = bf_array b"
  by (simp add: pool_Get_def pool_Put_def full_slice_def)

end
