(* ===== verification/Process.thy ===== *)
theory Process
  imports Server_Setup Cache_Properties Controller_Properties Downloads
begin

text \<open>
  The process, \<open>cmd/main.go\<close>: the flags, the environment, and the parts that \<open>main\<close> makes of them and hands to each other;
  any step that fails on the way ends the process. The goroutines that it then starts are the operations of the parts.
\<close>

section \<open>Start\<close>

record flags =
  fg_metricsAddr :: string
  fg_probeAddr :: string
  fg_proxyAddr :: string
  fg_proxyNamespace :: string
  fg_defaultModel :: string
  fg_leaderElect :: bool

definition default_flags :: flags where
  "default_flags = \<lparr>fg_metricsAddr = '':8080'', fg_probeAddr = '':8081'', fg_proxyAddr = '':9000'',
     fg_proxyNamespace = ''inference'', fg_defaultModel = '''', fg_leaderElect = False\<rparr>"

definition main_downloads :: "network \<Rightarrow> Manager" where
  "main_downloads N = NewManager N [WithHFToken (getenv N ''HF_TOKEN''), WithCacheDir ''/models'', WithMaxConcurrent 3, OtherOption]"

definition main_cache :: CacheManager where
  "main_cache = NewCacheManager [WithCacheManagerDir ''/models'', WithTTL (24 * 3600 * 1000000000),
     WithCleanupInterval (3600 * 1000000000), WithNamespace ''inference'']"

definition main_memory :: "'q quantity_api \<Rightarrow> (string \<Rightarrow> string) \<Rightarrow> int64" where
  "main_memory Q env =
     (case ParseQuantity Q (getEnvWithDefault env ''MAX_MODEL_MEMORY'' ''96Gi'') of None \<Rightarrow> 0 | Some q \<Rightarrow> Value Q q)"

text \<open>The calls of the library whose error ends the process.\<close>

datatype setup_step = ManagerMade | MetricsRegistered | MetricsClientMade | ControllerSetUp | HealthzAdded | ReadyzAdded

record 'q process =
  pc_downloads :: Manager
  pc_cache :: CacheManager
  pc_tracker :: "'q Tracker"
  pc_registry :: registry
  pc_memory :: int64 \<comment> \<open>of the reconciler\<close>
  pc_server :: settings

definition main_start ::
  "'q quantity_api \<Rightarrow> rounding \<Rightarrow> network \<Rightarrow> (setup_step \<Rightarrow> bool) \<Rightarrow> flags \<Rightarrow> 'q process option" where
  "main_start Q fl N ok fg =
     (if \<not> ok ManagerMade then None
      else if \<not> ok MetricsRegistered then None
      else if \<not> ok MetricsClientMade then None
      else if \<not> ok ControllerSetUp then None
      else if \<not> ok HealthzAdded then None
      else if \<not> ok ReadyzAdded then None
      else Some \<lparr>pc_downloads = main_downloads N, pc_cache = main_cache, pc_tracker = NewTracker, pc_registry = NewRegistry,
                 pc_memory = main_memory Q (getenv N),
                 pc_server = main_server Q fl (getenv N) (fg_proxyAddr fg) (fg_proxyNamespace fg) (fg_defaultModel fg)\<rparr>)"

section \<open>The parts fit together\<close>

lemma main_start_parts:
  assumes "main_start Q fl N ok fg = Some p"
  shows "pc_downloads p = main_downloads N" "pc_cache p = main_cache" "pc_memory p = main_memory Q (getenv N)"
    "pc_server p = main_server Q fl (getenv N) (fg_proxyAddr fg) (fg_proxyNamespace fg) (fg_defaultModel fg)"
  using assms by (auto simp: main_start_def split: if_splits)

lemma main_cache_simps [simp]:
  "cm_cacheDir main_cache = ''/models''" "cm_namespace main_cache = ''inference''" "cm_ttl main_cache = 86400000000000"
  by (simp_all add: main_cache_def NewCacheManager_def)

text \<open>
  The parts agree: the limit that the proxy checks is the one that the reconciler reports, and the directory into which the
  controller downloads a model is the one that the cleanup keeps for a model of that name.
\<close>

theorem main_parts_agree:
  assumes "main_start Q fl N ok fg = Some p"
  shows "st_MaxMemoryBytes (pc_server p) = pc_memory p
    \<and> dest_dir (mg_cacheDir (pc_downloads p)) (buildDownloadSpec m hf) (im_Name m) = Join [cm_cacheDir (pc_cache p), im_Name m]"
proof -
  have "st_MaxMemoryBytes (pc_server p) = pc_memory p"
    by (simp add: main_start_parts [OF assms] main_server_def main_memory_def NewServer_def Let_def split: option.splits)
  moreover have "Join [''/models'', im_Name m] \<noteq> ''''"
    by (cases "im_Name m") (simp_all add: Join_def Clean_def Let_def)
  ultimately show ?thesis
    by (simp add: main_start_parts [OF assms] dest_dir_def buildDownloadSpec_def NewDownloadSpec_def getCacheDir_def)
qed

text \<open>The token of the environment, given as an option, gets lost, as there is no client yet; the client reads it again.\<close>

lemma token_option_ignored:
  assumes "main_start Q fl N ok fg = Some p" and "mg_hfClient (pc_downloads p) = Some c"
  shows "cfg_Token c = '''' \<and> getToken N c = getenv N ''HF_TOKEN''"
  using assms(2)
  by (auto simp: main_start_parts [OF assms(1)] main_downloads_def NewManager_def NewClient_def DefaultTokenEnvVar_def getToken_def Let_def
      split: option.splits)

section \<open>Where they do not\<close>

text \<open>
  The directory of a model depends on its name alone: models of the same name in two namespaces share their files, and what
  one downloads counts as the download of the other.
\<close>

lemma same_name_same_directory:
  "im_Name m1 = im_Name m2 \<Longrightarrow> sp_DestDir (buildDownloadSpec m1 hf1) = sp_DestDir (buildDownloadSpec m2 hf2)"
  by (simp add: buildDownloadSpec_def NewDownloadSpec_def)

text \<open>
  A verified directory counts as the model whatever its source says: once some files passed the check, a reconciliation
  downloads nothing and goes on to deploy, although the repository, the revision or the files of the model were changed
  since, or the directory was filled by a model of the same name in another namespace.
\<close>

theorem changed_source_ignored:
  assumes "CheckAndVerifyReadyMarkerDetailed (ce_storage E) i (getCacheDir (im_Name m)) (ct_disk s) = (v, ct_disk s)"
    and "Verified v" and "\<And>k. ce_status_update E k = None"
  shows "\<exists>s'. handleDownload E i (m\<lparr>Spec := (Spec m)\<lparr>Source := src\<rparr>\<rparr>) s = Returns (RequeueNow, None) s'
    \<and> ct_manager s' = ct_manager s \<and> ct_disk s' = ct_disk s"
  using assms
  by (simp add: handleDownload_def send_status_def transitionToDeploying_def ctl_def on_status_def)

text \<open>
  The revision of a model is used for Xet storage only: where a file is not there, whatever revision the model names, the same
  requests are made of the hub, for its branch \<open>main\<close>, and the same file is left.
\<close>

theorem revision_ignored:
  assumes "xetDownload (dl_storage E) (dl_xet E) i (xet_options spec f l) x d = (Inr False, x1, d1)"
    and "xetDownload (dl_storage E) (dl_xet E) i (xet_options (spec\<lparr>sp_Branch := revision\<rparr>) f l) x d = (Inr False, x2, d1)"
  shows "\<exists>r d'. downloadFile E c i spec f l x d = Inr (r, x1, d')
    \<and> downloadFile E c i (spec\<lparr>sp_Branch := revision\<rparr>) f l x d = Inr (r, x2, d')"
  using assms by (cases "plain_download E c i (sp_Repo spec) f l d1") (simp add: downloadFile_def)

end
