(* ===== verification/Xet_Files.thy ===== *)
theory Xet_Files
  imports Fetching
begin

text \<open>
  The operations of \<open>internal/xet\<close> beside the download of one file: the download of several files and the options of the
  downloader (\<open>download.go\<close>), the fetch of a whole xorb (\<open>client.go\<close>) and the little-endian integers of \<open>xorb.go\<close>.
\<close>

section \<open>Several files\<close>

definition WithConcurrency :: "int \<Rightarrow> int \<Rightarrow> int" where
  "WithConcurrency n concurrency = (if n > 0 then n else concurrency)"

text \<open>The number of downloads that the semaphore lets run at once.\<close>

definition downloader_concurrency :: "int list \<Rightarrow> int" where
  "downloader_concurrency opts = fold WithConcurrency opts 4"

text \<open>
  The goroutines of \<open>DownloadMultiple\<close> in the order in which they run, each with the moment at which it starts: the paths of the
  files that failed, or the panic of one of them, which nothing recovers.
\<close>

fun run_downloads ::
  "storage \<Rightarrow> xet_world \<Rightarrow> (nat \<times> DownloadOptions) list \<Rightarrow> XetClient \<Rightarrow> disk \<Rightarrow> string list may_panic \<times> XetClient \<times> disk" where
  "run_downloads S W [] c d = (Inr [], c, d)"
| "run_downloads S W ((i, f) # runs) c d =
     (case xetDownload S W i f c d of
        (Inl p, c1, d1) \<Rightarrow> (Inl p, c1, d1)
      | (Inr ok, c1, d1) \<Rightarrow>
          (case run_downloads S W runs c1 d1 of
             (Inl p, c2, d2) \<Rightarrow> (Inl p, c2, d2)
           | (Inr failed, c2, d2) \<Rightarrow> (Inr (if ok then failed else xo_FilePath f # failed), c2, d2)))"

text \<open>The error is that of all the files that failed; \<open>None\<close> is none.\<close>

definition DownloadMultiple ::
  "storage \<Rightarrow> xet_world \<Rightarrow> (nat \<times> DownloadOptions) list \<Rightarrow> XetClient \<Rightarrow> disk \<Rightarrow> string list option may_panic \<times> XetClient \<times> disk" where
  "DownloadMultiple S W runs c d =
     map_prod (map_sum id (\<lambda>failed. if failed = [] then None else Some failed)) id (run_downloads S W runs c d)"

lemma concurrency_positive: "downloader_concurrency opts > 0"
proof -
  have "k > 0 \<Longrightarrow> fold WithConcurrency opts k > 0" for k
    by (induction opts arbitrary: k) (simp_all add: WithConcurrency_def)
  then show ?thesis by (simp add: downloader_concurrency_def)
qed

text \<open>One download writes at most its own file.\<close>

lemma xetDownload_file:
  assumes "xetDownload S W i f c d = (Inr ok, c', d')" and "xo_OutputPath f \<noteq> ''''"
  shows "(q \<noteq> xo_OutputPath f \<longrightarrow> file_at d' q = file_at d q)
    \<and> (ok \<longrightarrow> (\<exists>bs. DownloadData W i f c = (Inr (Some bs), c') \<and> file_at d' (xo_OutputPath f) = Some bs))"
proof (cases rule: xetDownload_cases [OF assms(1) refl assms(2)])
  case 1
  then show ?thesis by (simp add: file_at_def)
next
  case (2 bs k)
  then show ?thesis by (auto simp: disk_laws)
qed

lemma run_downloads_files:
  "run_downloads S W runs c d = (Inr failed, c', d') \<Longrightarrow> \<forall>(i, f) \<in> set runs. xo_OutputPath f \<noteq> '''' \<Longrightarrow>
     distinct (map (xo_OutputPath \<circ> snd) runs) \<Longrightarrow>
     (\<forall>q. q \<notin> xo_OutputPath ` snd ` set runs \<longrightarrow> file_at d' q = file_at d q)
     \<and> (\<forall>(i, f) \<in> set runs. xo_FilePath f \<in> set failed
         \<or> (\<exists>c1 c2 bs. DownloadData W i f c1 = (Inr (Some bs), c2) \<and> file_at d' (xo_OutputPath f) = Some bs))"
proof (induction runs arbitrary: c d failed)
  case Nil
  then show ?case by simp
next
  case (Cons r runs)
  obtain i f where r: "r = (i, f)" by fastforce
  from Cons.prems(1) r obtain ok c1 d1 failed1 where one: "xetDownload S W i f c d = (Inr ok, c1, d1)"
    and rest: "run_downloads S W runs c1 d1 = (Inr failed1, c', d')"
    and failed: "failed = (if ok then failed1 else xo_FilePath f # failed1)"
    by (auto split: prod.splits sum.splits)
  from Cons.prems(2) r have path: "xo_OutputPath f \<noteq> ''''" by simp
  have ih: "(\<forall>q. q \<notin> xo_OutputPath ` snd ` set runs \<longrightarrow> file_at d' q = file_at d1 q)
     \<and> (\<forall>(i, f) \<in> set runs. xo_FilePath f \<in> set failed1
         \<or> (\<exists>c1 c2 bs. DownloadData W i f c1 = (Inr (Some bs), c2) \<and> file_at d' (xo_OutputPath f) = Some bs))"
    by (rule Cons.IH [OF rest]) (use Cons.prems(2,3) in auto)
  have own: "xo_OutputPath f \<notin> xo_OutputPath ` snd ` set runs" using Cons.prems(3) r by (auto simp: image_image)
  note own_file = xetDownload_file [OF one path]
  have "ok \<longrightarrow> (\<exists>c1 c2 bs. DownloadData W i f c1 = (Inr (Some bs), c2) \<and> file_at d' (xo_OutputPath f) = Some bs)"
    using own_file ih own by metis
  with ih own_file show ?case unfolding r failed by auto
qed

text \<open>
  When the download of several files reports no error, every file is on disk with the bytes that its reconstruction gave, in whatever
  order the goroutines ran.
\<close>

lemma multiple_files_written:
  assumes "DownloadMultiple S W runs c d = (Inr None, c', d')" and "\<forall>(i, f) \<in> set runs. xo_OutputPath f \<noteq> ''''"
    and "distinct (map (xo_OutputPath \<circ> snd) runs)" and "(i, f) \<in> set runs"
  shows "\<exists>c1 c2 bs. DownloadData W i f c1 = (Inr (Some bs), c2) \<and> file_at d' (xo_OutputPath f) = Some bs"
proof -
  from assms(1) have "run_downloads S W runs c d = (Inr [], c', d')"
    by (cases "run_downloads S W runs c d"; cases "fst (run_downloads S W runs c d)")
      (auto simp: DownloadMultiple_def split: if_splits)
  from run_downloads_files [OF this assms(2,3)] assms(4) show ?thesis by auto
qed

section \<open>A whole xorb\<close>

text \<open>\<open>valid\<close> says which texts parse as a URL; making the request parses it, and so does the code when it has a query.\<close>

definition FetchXorb :: "xet_world \<Rightarrow> (string \<Rightarrow> bool) \<Rightarrow> nat \<Rightarrow> string \<Rightarrow> byte list option" where
  "FetchXorb W valid i xorbURL =
     (if \<not> valid xorbURL then None
      else if CHR ''?'' \<in> set xorbURL \<and> \<not> valid xorbURL then None
      else case xw_http W i True (xet_request ''GET'' xorbURL '''' WholeBody) of
        None \<Rightarrow> None
      | Some resp \<Rightarrow> if xr_Status resp \<noteq> 200 then None else if xr_Clean resp then Some (xr_Body resp) else None)"

section \<open>Little-endian integers\<close>

fun le_bytes :: "nat \<Rightarrow> nat \<Rightarrow> byte list" where
  "le_bytes 0 n = []"
| "le_bytes (Suc k) n = of_nat n # le_bytes k (n div 256)"

text \<open>A slice \<open>data[offset:offset+k]\<close>, of the array up to its capacity.\<close>

definition slice_at :: "byte list \<Rightarrow> int \<Rightarrow> nat \<Rightarrow> byte list may_panic" where
  "slice_at data off k =
     (if off < 0 \<or> int (length data) < off + int k then Inl SliceOutOfRange else Inr (take k (drop (nat off) data)))"

definition write_at :: "byte list \<Rightarrow> int \<Rightarrow> byte list \<Rightarrow> byte list may_panic" where
  "write_at data off bs =
     (case slice_at data off (length bs) of
        Inl p \<Rightarrow> Inl p
      | Inr _ \<Rightarrow> Inr (take (nat off) data @ bs @ drop (nat off + length bs) data))"

definition ReadUint32LE :: "byte list \<Rightarrow> int \<Rightarrow> (32 word) may_panic" where
  "ReadUint32LE data off = map_sum id (\<lambda>bs. of_nat (le_nat bs)) (slice_at data off 4)"

definition ReadUint64LE :: "byte list \<Rightarrow> int \<Rightarrow> (64 word) may_panic" where
  "ReadUint64LE data off = map_sum id (\<lambda>bs. of_nat (le_nat bs)) (slice_at data off 8)"

definition WriteUint32LE :: "byte list \<Rightarrow> int \<Rightarrow> 32 word \<Rightarrow> byte list may_panic" where
  "WriteUint32LE data off v = write_at data off (le_bytes 4 (unat v))"

definition WriteUint64LE :: "byte list \<Rightarrow> int \<Rightarrow> 64 word \<Rightarrow> byte list may_panic" where
  "WriteUint64LE data off v = write_at data off (le_bytes 8 (unat v))"

lemma length_le_bytes [simp]: "length (le_bytes k n) = k"
  by (induction k arbitrary: n) simp_all

lemma le_nat_bytes: "le_nat (le_bytes k n) = n mod 256 ^ k"
proof (induction k arbitrary: n)
  case 0
  then show ?case by simp
next
  case (Suc k)
  have "unat (of_nat n :: byte) = n mod 256" by (simp add: unat_of_nat take_bit_eq_mod)
  with Suc show ?case by (simp add: mod_mult2_eq)
qed

lemma write_read:
  assumes "write_at data off bs = Inr data'"
  shows "length data' = length data \<and> slice_at data' off (length bs) = Inr bs"
  using assms by (auto simp: write_at_def slice_at_def split: if_splits)

text \<open>What was written is read back, and only its bytes change; both panic outside of the array.\<close>

lemma uint32_roundtrip:
  assumes "WriteUint32LE data off v = Inr data'"
  shows "ReadUint32LE data' off = Inr v"
proof -
  have "unat v < 2 ^ LENGTH(32)" by (rule unsigned_less)
  with assms write_read [of data off "le_bytes 4 (unat v)" data'] show ?thesis
    by (simp add: WriteUint32LE_def ReadUint32LE_def le_nat_bytes)
qed

lemma uint64_roundtrip:
  assumes "WriteUint64LE data off v = Inr data'"
  shows "ReadUint64LE data' off = Inr v"
proof -
  have "unat v < 2 ^ LENGTH(64)" by (rule unsigned_less)
  with assms write_read [of data off "le_bytes 8 (unat v)" data'] show ?thesis
    by (simp add: WriteUint64LE_def ReadUint64LE_def le_nat_bytes)
qed

lemma write_in_bounds: "(\<exists>data'. WriteUint32LE data off v = Inr data') \<longleftrightarrow> 0 \<le> off \<and> off + 4 \<le> int (length data)"
  by (auto simp: WriteUint32LE_def write_at_def slice_at_def)

end
