(* ===== verification/Repositories.thy ===== *)
theory Repositories
  imports Hub_Client
begin

text \<open>
  The handles of repositories, \<open>NewRepository\<close> and its variants in \<open>internal/huggingface/client.go\<close>: what the third-party
  library is given to make one. Its operations are in \<open>Hub_Client\<close> and \<open>Parallel_Download\<close>.
\<close>

datatype hub_type = HubModel | HubDataset | HubSpace

record hub_repo =
  hb_id :: string
  hb_token :: string
  hb_type :: hub_type
  hb_cacheDir :: "string option" \<comment> \<open>\<open>None\<close>: the default of the library\<close>

record Repository =
  re_repo :: hub_repo
  re_id :: string

definition RepositoryTypeModel :: string where "RepositoryTypeModel = ''model''"
definition RepositoryTypeDataset :: string where "RepositoryTypeDataset = ''dataset''"
definition RepositoryTypeSpace :: string where "RepositoryTypeSpace = ''space''"

text \<open>\<open>None\<close> is the error of a type that is not supported.\<close>

definition repo_type :: "string \<Rightarrow> hub_type option" where
  "repo_type t =
     (if t = RepositoryTypeModel then Some HubModel
      else if t = RepositoryTypeDataset then Some HubDataset
      else if t = RepositoryTypeSpace then Some HubSpace
      else None)"

definition NewRepository :: "network \<Rightarrow> Config \<Rightarrow> string \<Rightarrow> string \<Rightarrow> Repository option" where
  "NewRepository N c repoID repoType =
     (case repo_type repoType of
        None \<Rightarrow> None
      | Some t \<Rightarrow> Some \<lparr>re_repo = \<lparr>hb_id = repoID, hb_token = getToken N c, hb_type = t,
            hb_cacheDir = (if cfg_CacheDir c \<noteq> '''' then Some (cfg_CacheDir c) else None)\<rparr>, re_id = repoID\<rparr>)"

definition NewModelRepository :: "network \<Rightarrow> Config \<Rightarrow> string \<Rightarrow> Repository option" where
  "NewModelRepository N c modelID = NewRepository N c modelID RepositoryTypeModel"

definition NewDatasetRepository :: "network \<Rightarrow> Config \<Rightarrow> string \<Rightarrow> Repository option" where
  "NewDatasetRepository N c datasetID = NewRepository N c datasetID RepositoryTypeDataset"

text \<open>
  Models and data sets always get a handle, of their own type and with the token that the client sends at that moment; other types
  than the three are refused.
\<close>

lemma repository_handles:
  "\<exists>r. NewModelRepository N c i = Some r \<and> re_id r = i \<and> hb_type (re_repo r) = HubModel \<and> hb_token (re_repo r) = getToken N c"
  "\<exists>r. NewDatasetRepository N c i = Some r \<and> re_id r = i \<and> hb_type (re_repo r) = HubDataset \<and> hb_token (re_repo r) = getToken N c"
  "NewRepository N c i t = None \<longleftrightarrow> t \<notin> {''model'', ''dataset'', ''space''}"
  by (simp_all add: NewModelRepository_def NewDatasetRepository_def NewRepository_def repo_type_def RepositoryTypeModel_def
      RepositoryTypeDataset_def RepositoryTypeSpace_def)

end
