(* ===== verification/Idle_Race.thy ===== *)
theory Idle_Race
  imports Controller Proxy_Admission
begin

text \<open>
  Requests of the proxy interleaved with everything else that deletes the model's pod or its registry entry: the idle deletion of
  the controller (\<open>deleteIdlePod\<close> in \<open>inferencemodel_controller.go\<close>) and the evictions of the proxy (\<open>handler.go\<close>), which decide on
  the count of the registry, later delete the pod and later still the registry entry, with no lock in between; the controller's
  \<open>handleDeletion\<close>, which deletes the entry without a look at the count; \<open>waitForPodDeleted\<close>, which deletes it when it finds the pod
  gone; and the calls of \<open>SetState\<close>. The registry operations are those of the code.
\<close>

section \<open>One model\<close>

datatype deleter = Watching | Decided | PodRemoved

record race =
  ra_reg :: registry
  ra_inflight :: nat \<comment> \<open>requests between \<open>RecordRequest\<close> and \<open>FinishRequest\<close>\<close>
  ra_pod :: bool
  ra_deleter :: "nat \<Rightarrow> deleter"
  ra_waits :: "nat \<Rightarrow> bool" \<comment> \<open>requests in \<open>waitForPodDeleted\<close>\<close>
  ra_hurt :: bool \<comment> \<open>an idle deletion or an eviction deleted the pod with a request in flight\<close>

text \<open>
  \<open>MissesPod\<close> is a deleter whose \<open>Get\<close> or \<open>Delete\<close> does not find the pod and that goes on to the registry, \<open>GivesUp\<close> one that stops
  before it. \<open>PodGoes\<close> is a pod deleted by anyone else: the roll-back of a creation whose memory was refused, the garbage collection
  of a deleted model, a user.
\<close>

datatype race_event = Arrives go_time | Leaves | PodAppears | PodGoes | Marks go_time DeploymentState
  | Decides nat | RemovesPod nat | MissesPod nat | Forgets nat | GivesUp nat | ModelDeleted | AwaitsDeletion nat | FindsPodGone nat

abbreviation race_forget :: "InferenceModel \<Rightarrow> race \<Rightarrow> race" where
  "race_forget m s \<equiv> s\<lparr>ra_reg := Delete (im_Namespace m) (im_Name m) (ra_reg s)\<rparr>"

fun race_step :: "InferenceModel \<Rightarrow> race_event \<Rightarrow> race \<Rightarrow> race option" where
  "race_step m (Arrives now) s =
     Some (s\<lparr>ra_reg := RecordRequest now (im_Namespace m) (im_Name m) (ra_reg s), ra_inflight := Suc (ra_inflight s)\<rparr>)"
| "race_step m Leaves s =
     (if ra_inflight s = 0 then None
      else Some (s\<lparr>ra_reg := FinishRequest (im_Namespace m) (im_Name m) (ra_reg s), ra_inflight := ra_inflight s - 1\<rparr>))"
| "race_step m PodAppears s = Some (s\<lparr>ra_pod := True\<rparr>)"
| "race_step m PodGoes s = Some (s\<lparr>ra_pod := False\<rparr>)"
| "race_step m (Marks now st) s = \<comment> \<open>no call of the code marks a model as \<open>Deleting\<close>\<close>
     (if st = StateDeleting then None
      else Some (s\<lparr>ra_reg := SetState now (im_Namespace m) (im_Name m) st (ra_reg s)\<rparr>))"
| "race_step m (Decides d) s =
     (if ra_deleter s d = Watching \<and> \<not> busy m (Some (ra_reg s)) then Some (s\<lparr>ra_deleter := (ra_deleter s)(d := Decided)\<rparr>) else None)"
| "race_step m (RemovesPod d) s =
     (if ra_deleter s d = Decided
      then Some (s\<lparr>ra_deleter := (ra_deleter s)(d := PodRemoved), ra_pod := False,
                   ra_hurt := (ra_hurt s \<or> ra_pod s \<and> ra_inflight s > 0)\<rparr>)
      else None)"
| "race_step m (MissesPod d) s =
     (if ra_deleter s d = Decided then Some (s\<lparr>ra_deleter := (ra_deleter s)(d := PodRemoved)\<rparr>) else None)"
| "race_step m (Forgets d) s =
     (if ra_deleter s d = PodRemoved
      then Some (race_forget m (s\<lparr>ra_deleter := (ra_deleter s)(d := Watching)\<rparr>))
      else None)"
| "race_step m (GivesUp d) s =
     (if ra_deleter s d = Decided then Some (s\<lparr>ra_deleter := (ra_deleter s)(d := Watching)\<rparr>) else None)"
| "race_step m ModelDeleted s = Some (race_forget m s)"
| "race_step m (AwaitsDeletion w) s =
     (case Get (im_Namespace m) (im_Name m) (ra_reg s) of
        None \<Rightarrow> None
      | Some e \<Rightarrow> if State e = StateDeleting then Some (s\<lparr>ra_waits := (ra_waits s)(w := True)\<rparr>) else None)"
| "race_step m (FindsPodGone w) s =
     (if ra_waits s w \<and> \<not> ra_pod s then Some (race_forget m (s\<lparr>ra_waits := (ra_waits s)(w := False)\<rparr>)) else None)"

definition no_race :: race where
  "no_race = \<lparr>ra_reg = NewRegistry, ra_inflight = 0, ra_pod = False, ra_deleter = (\<lambda>d. Watching), ra_waits = (\<lambda>w. False), ra_hurt = False\<rparr>"

text \<open>The runs whose every step satisfies a guard.\<close>

inductive races :: "InferenceModel \<Rightarrow> (race_event \<Rightarrow> race \<Rightarrow> bool) \<Rightarrow> race_event list \<Rightarrow> race \<Rightarrow> bool" for m guard where
  races_init: "races m guard [] no_race"
| races_step: "races m guard es s \<Longrightarrow> guard e s \<Longrightarrow> race_step m e s = Some s' \<Longrightarrow> races m guard (es @ [e]) s'"

text \<open>
  No request arrives between a decision and the end of the deletion, and the resource of the model is not deleted while requests of
  it are in flight. Nothing in the code sees to either.
\<close>

fun apart :: "race_event \<Rightarrow> race \<Rightarrow> bool" where
  "apart (Arrives now) s \<longleftrightarrow> (\<forall>d. ra_deleter s d = Watching)"
| "apart ModelDeleted s \<longleftrightarrow> ra_inflight s = 0"
| "apart _ s \<longleftrightarrow> True"

abbreviation race_key :: "InferenceModel \<Rightarrow> string" where
  "race_key m \<equiv> entryKey (im_Namespace m) (im_Name m)"

lemma busy_active: "busy m (Some r) \<longleftrightarrow> active r (race_key m) > 0"
  by (simp add: busy_def registry_entry_def Get_def active_def split: option.split)

text \<open>Whatever the guard, no entry is ever \<open>Deleting\<close>, so that nobody ever waits in \<open>waitForPodDeleted\<close>.\<close>

definition none_deleting :: "InferenceModel \<Rightarrow> race \<Rightarrow> bool" where
  "none_deleting m s \<longleftrightarrow> (\<forall>e. map_of (ra_reg s) (race_key m) = Some e \<longrightarrow> State e \<noteq> StateDeleting) \<and> (\<forall>w. \<not> ra_waits s w)"

lemma none_deleting_step:
  assumes "none_deleting m s" and "race_step m e s = Some s'"
  shows "none_deleting m s'"
  using assms by (cases e)
    (auto simp: none_deleting_def reg_laws Get_def lookup_Delete map_laws split: if_splits option.splits)

lemma races_none_deleting: "races m guard es s \<Longrightarrow> none_deleting m s"
  by (induction rule: races.induct)
    (auto simp: none_deleting_def no_race_def NewRegistry_def dest: none_deleting_step [rotated])

definition counted_right :: "InferenceModel \<Rightarrow> race \<Rightarrow> bool" where
  "counted_right m s \<longleftrightarrow> active (ra_reg s) (race_key m) = ra_inflight s
     \<and> ((\<exists>d. ra_deleter s d \<noteq> Watching) \<longrightarrow> ra_inflight s = 0) \<and> \<not> ra_hurt s"

lemma counted_right_step:
  assumes "counted_right m s" and "none_deleting m s" and "apart e s" and "race_step m e s = Some s'"
  shows "counted_right m s'"
  using assms by (cases e)
    (auto simp: counted_right_def none_deleting_def active_laws busy_active split: if_splits option.splits)

text \<open>
  C22. Idle deletion spares requests in flight, whoever deletes and in whatever order: in every interleaving of the steps above in
  which no request arrives between a decision to delete and the end of that deletion, and the resource of the model is not deleted
  while requests of it are in flight, no idle deletion and no eviction deletes the pod while a request is in flight, and the registry
  counts exactly the requests in flight. \<open>recorded_request_loses_pod\<close> and \<open>deleted_model_forgets_requests\<close> show what happens without
  either condition.
\<close>

theorem idle_deletion_spares:
  assumes "races m apart es s"
  shows "\<not> ra_hurt s \<and> active (ra_reg s) (race_key m) = ra_inflight s"
proof -
  from assms have "counted_right m s"
  proof induction
    case races_init
    then show ?case by (simp add: counted_right_def no_race_def active_def NewRegistry_def)
  next
    case (races_step es s e s')
    then show ?case using counted_right_step races_none_deleting by blast
  qed
  then show ?thesis by (simp add: counted_right_def)
qed

section \<open>Witness and race\<close>

fun run_race :: "InferenceModel \<Rightarrow> race_event list \<Rightarrow> race \<Rightarrow> race option" where
  "run_race m [] s = Some s"
| "run_race m (e # es) s = (case race_step m e s of None \<Rightarrow> None | Some s1 \<Rightarrow> run_race m es s1)"

lemma run_races:
  assumes "races m (\<lambda>e s. True) es0 s" and "run_race m es s = Some s'"
  shows "races m (\<lambda>e s. True) (es0 @ es) s'"
  using assms
proof (induction es arbitrary: es0 s)
  case Nil
  then show ?case by simp
next
  case (Cons e es)
  then obtain s1 where step: "race_step m e s = Some s1" and rest: "run_race m es s1 = Some s'" by (auto split: option.splits)
  from Cons.IH [OF races_step [OF Cons.prems(1) TrueI step] rest] show ?case by simp
qed

lemma idle_deletion_spares_witness:
  "\<exists>s. races (demo_model ''a'' '''') apart [PodAppears, Arrives 1, Leaves, Decides 0, RemovesPod 0] s
     \<and> \<not> ra_pod s \<and> \<not> ra_hurt s \<and> active (ra_reg s) (race_key (demo_model ''a'' '''')) = ra_inflight s"
proof -
  let ?m = "demo_model ''a'' ''''"
  define s1 where "s1 = the (race_step ?m PodAppears no_race)"
  define s2 where "s2 = the (race_step ?m (Arrives 1) s1)"
  define s3 where "s3 = the (race_step ?m Leaves s2)"
  define s4 where "s4 = the (race_step ?m (Decides 0) s3)"
  define s5 where "s5 = the (race_step ?m (RemovesPod 0) s4)"
  have inflight: "ra_inflight s2 = 1" "active (ra_reg s2) (race_key ?m) = 1"
    by (simp_all add: s1_def s2_def no_race_def active_laws) (simp add: active_def NewRegistry_def)
  then have idle: "\<not> busy ?m (Some (ra_reg s3))" "ra_deleter s3 0 = Watching"
    by (simp_all add: busy_active s3_def active_laws) (simp add: s2_def s1_def no_race_def)
  have "races ?m apart ([] @ [PodAppears]) s1"
    by (rule races_step [OF races_init]) (simp_all add: s1_def)
  then have "races ?m apart (([] @ [PodAppears]) @ [Arrives 1]) s2"
    by (rule races_step) (simp_all add: s1_def s2_def no_race_def)
  then have "races ?m apart ((([] @ [PodAppears]) @ [Arrives 1]) @ [Leaves]) s3"
    by (rule races_step) (use inflight in \<open>simp_all add: s3_def\<close>)
  then have "races ?m apart (((([] @ [PodAppears]) @ [Arrives 1]) @ [Leaves]) @ [Decides 0]) s4"
    by (rule races_step) (use idle in \<open>simp_all add: s4_def\<close>)
  then have run: "races ?m apart ((((([] @ [PodAppears]) @ [Arrives 1]) @ [Leaves]) @ [Decides 0]) @ [RemovesPod 0]) s5"
    by (rule races_step) (use idle in \<open>simp_all add: s4_def s5_def\<close>)
  moreover have "\<not> ra_pod s5" using idle by (simp add: s5_def s4_def)
  ultimately show ?thesis using idle_deletion_spares [OF run] by auto
qed

text \<open>
  Recording a request first does not protect it: a request that arrives after the decision loses its pod; its count is forgotten with
  the entry, so when it leaves it is the count of another request that it takes, and that one, recorded before the next decision, is
  counted as absent and loses its pod as well.
\<close>

definition forgetful_run :: "race_event list" where
  "forgetful_run = [PodAppears, Decides 0, Arrives 1, RemovesPod 0, Forgets 0, PodAppears, Arrives 2, Leaves]"

theorem recorded_request_loses_pod:
  "\<exists>s s'. races m (\<lambda>e s. True) forgetful_run s \<and> ra_hurt s \<and> ra_pod s \<and> ra_inflight s = 1
    \<and> active (ra_reg s) (race_key m) = 0
    \<and> races m (\<lambda>e s. True) (forgetful_run @ [Decides 0, RemovesPod 0]) s' \<and> \<not> ra_pod s' \<and> ra_inflight s' = 1"
proof -
  obtain s where s: "run_race m forgetful_run no_race = Some s" "ra_hurt s" "ra_pod s" "ra_inflight s = 1"
    "active (ra_reg s) (race_key m) = 0" "ra_deleter s 0 = Watching"
    by (simp add: forgetful_run_def no_race_def busy_active active_laws) (simp add: active_def NewRegistry_def reg_laws)
  obtain s' where s': "run_race m [Decides 0, RemovesPod 0] s = Some s'" "\<not> ra_pod s'" "ra_inflight s' = 1"
    using s(4-6) by (simp add: busy_active)
  have run: "races m (\<lambda>e s. True) ([] @ forgetful_run) s" by (rule run_races [OF races_init s(1)])
  from run_races [OF run s'(1)] run s s' show ?thesis by auto
qed

text \<open>
  The deletion of the model's resource forgets its requests: the entry goes with its count, whatever it says, and a deleter that
  looks afterwards takes the pod from under a request.
\<close>

theorem deleted_model_forgets_requests:
  "\<exists>s. races m (\<lambda>e s. True) [PodAppears, Arrives 1, ModelDeleted, Decides 0, RemovesPod 0] s
    \<and> ra_hurt s \<and> ra_inflight s = 1 \<and> active (ra_reg s) (race_key m) = 0"
proof -
  obtain s where s: "run_race m [PodAppears, Arrives 1, ModelDeleted, Decides 0, RemovesPod 0] no_race = Some s"
    "ra_hurt s" "ra_inflight s = 1" "active (ra_reg s) (race_key m) = 0"
    by (simp add: no_race_def busy_active active_laws)
  have "races m (\<lambda>e s. True) ([] @ [PodAppears, Arrives 1, ModelDeleted, Decides 0, RemovesPod 0]) s"
    by (rule run_races [OF races_init s(1)])
  with s(2-) show ?thesis by auto
qed

end
