(* ===== verification/Spec2Isabelle.thy ===== *)
theory Spec2Isabelle
  imports Budget_Spec Single_Flight Proxy_Forwarding Pod_Properties Gguf_Bounds Reconcile_Properties Verified_Download
    Cache_Properties Parallel_Properties Status_Updater Server_Setup Props Stall_Reader Buffer_Pool Process Xet_Files Repositories Idle_Race
begin

text \<open>
  A verification library for the inference budget controller: a Kubernetes controller and an OpenAI
  compatible proxy that run large models on demand within a memory budget.

  \<^bold>\<open>The program.\<close> The proxy (\<open>internal/proxy\<close>) receives a request, looks up the \<open>InferenceModel\<close> it
  names, makes sure that a pod serves it and forwards the request. Before it creates a pod it asks the budget
  tracker (\<open>internal/budget\<close>) for room and evicts idle models if there is none; which models are idle it
  learns from the deployment registry (\<open>internal/registry\<close>), where every request is recorded when it starts
  and finished when it ends. The controller (\<open>internal/controller\<close>) reconciles each model: it downloads the files
  (\<open>internal/download\<close>, \<open>internal/huggingface\<close>, \<open>internal/xet\<close>), follows the pod into the status, the registry and
  the budget, and deletes the pod of an idle model. The process (\<open>cmd/main.go\<close>) joins the parts and runs a cleanup
  of the model cache beside them.

  \<^bold>\<open>Theories: budget, registry and proxy.\<close>
  \<^item> \<open>Prelude\<close>, \<open>Interfaces\<close>: Go values and association lists; the contracts \<open>budget_ledger\<close>,
    \<open>request_counter\<close> and \<open>evictable_counter\<close> with what their clients prove from them.
  \<^item> \<open>Budget\<close>, \<open>Budget_Accounting\<close>, \<open>Budget_Spec\<close>: \<open>internal/budget/tracker.go\<close>, its accounting invariant over
    every state that orderly operations lead to and what breaks it otherwise, exact admission, the refinement of a plain ledger, the usage statistics.
  \<^item> \<open>Registry\<close>: \<open>internal/registry/registry.go\<close>, the counting of requests and the order of eviction.
  \<^item> \<open>Api_Types\<close>, \<open>Pod_Builder\<close>: \<open>api/v1alpha1\<close> and the part of \<open>internal/proxy/handler.go\<close> that builds a pod.
  \<^item> \<open>Cluster\<close>: the Kubernetes API, the clock and the start of Go's \<open>range\<close> loops as functions of the moment at
    which the code asks, with nothing assumed of their answers; the memory shared by the requests, and a log of
    the changes asked of the cluster.
  \<^item> \<open>Request_Body\<close>, \<open>Http_Messages\<close>: the rewriting of the JSON body, whose numbers pass through \<open>float64\<close>, and the copying of a
    streamed answer; headers, the request
    of the client with what reading a form does to it, the request to the backend.
  \<^item> \<open>Proxy_Admission\<close>, \<open>Proxy_Handler\<close>: the rest of \<open>internal/proxy/handler.go\<close>, operation by operation, up to the two
    request handlers.
  \<^item> \<open>Eviction\<close>, \<open>Proxy_Limits\<close>, \<open>Proxy_Requests\<close>, \<open>Proxy_Answers\<close>, \<open>Pod_Properties\<close>: what the proxy keeps and where it
    does not: evictions spare models with requests, creation stays within the global limit, requests are bracketed, waits
    end, the pod requests the memory that was accounted.
  \<^item> \<open>Proxy_Forwarding\<close>: an answer is a backend's to the client's own request, forms never arrive, and each forward asks
    at most one backend and is metered once; the totals that the metrics then show.
  \<^item> \<open>Single_Flight\<close>: interleavings of concurrent requests around the creation of a pod, and why its mutex bounds nothing.
  \<^item> \<open>Server_Setup\<close>, \<open>Props\<close>: the options of \<open>server.go\<close> as \<open>cmd/main.go\<close> sets them, the routes, the list of models, the
    static pages (\<open>webui.go\<close>) and the llama.cpp properties (\<open>props.go\<close>).
  \<^item> \<open>Metrics\<close>: \<open>internal/metrics/collector.go\<close> as calls to metric vectors with their labels, the series left after a
    deletion, the recommendation logger, memory texts.

  \<^bold>\<open>Theories: controller.\<close>
  \<^item> \<open>Go_Time\<close>: durations as text and their rounding.
  \<^item> \<open>Controller\<close>, \<open>Controller_Properties\<close>, \<open>Reconcile_Properties\<close>: \<open>inferencemodel_controller.go\<close>, one call of
    \<open>Reconcile\<close> with every handler it reaches. Each handler is described by the effect it may have, so that the properties
    of \<open>Reconcile\<close> compose: whose memory it releases, when it deletes a pod, which conditions it writes.
  \<^item> \<open>Idle_Race\<close>: the requests of the proxy interleaved with the deletion of idle pods by the controller and by evictions, the
    deletion of the model and the waiting for a deleted pod: when requests in flight are spared and counted, and when not.

  \<^bold>\<open>Theories: downloads.\<close>
  \<^item> \<open>Go_Strings\<close>, \<open>Glob\<close>: the string and path functions used, and \<open>filepath.Match\<close>.
  \<^item> \<open>Disk\<close>, \<open>Disk_Properties\<close>: the file system and \<open>file_ops.go\<close>: atomic writes at every intermediate state, markers,
    the manifest and its round trip, the verification of a model directory.
  \<^item> \<open>Gguf\<close>, \<open>Gguf_Bounds\<close>: the check of a GGUF file and what it guarantees.
  \<^item> \<open>Hub_Client\<close>: \<open>internal/huggingface/client.go\<close>: tokens, metadata, the resumed download.
  \<^item> \<open>Chunked\<close>, \<open>Chunked_Properties\<close>: \<open>chunked.go\<close>: the plan, the retries, the assembly of a multipart download.
  \<^item> \<open>Xorb\<close>, \<open>Xet_Client\<close>, \<open>Xet_Download\<close>, \<open>Xet_Properties\<close>: \<open>internal/xet\<close>: the container format and its
    decompression, the API with its tokens, the reconstruction of a file into memory and into a writer.
  \<^item> \<open>Xet_Files\<close>, \<open>Repositories\<close>: what the Xet packages offer beside it, several files at once among it; the handles of
    repositories of the Hugging Face client.
  \<^item> \<open>Download_Manager\<close>, \<open>Downloads\<close>, \<open>Download_Properties\<close>: \<open>manager.go\<close>, \<open>status.go\<close>, \<open>spec.go\<close>: which files are
    chosen, how each is fetched, and what a completed download has verified.
  \<^item> \<open>Fetching\<close>, \<open>Honest_Download\<close>: the contract \<open>fetcher\<close> of every way to fetch a file, interpreted on the multipart, the
    resumed, the fresh and the Xet download and closed under trying one after the other; from it, that a download from an
    honest hub leaves exactly the remote files.
  \<^item> \<open>Verified_Download\<close>: the download composed with the marker and the verification of \<open>file_ops.go\<close>: what was completed is
    found verified later, unless the hub's own GGUF files do not pass the check.
  \<^item> \<open>Stall_Reader\<close>, \<open>Buffer_Pool\<close>: the stall timeout of a download in the single steps of reader, timer and goroutine; the
    pool of buffers with the choices of \<open>sync.Pool\<close> as arguments.
  \<^item> \<open>Cache\<close>, \<open>Cache_Properties\<close>: \<open>cache.go\<close>: what a cleanup removes and keeps.
  \<^item> \<open>Progress\<close>, \<open>Status_Updater\<close>: \<open>progress.go\<close> and \<open>status_updater.go\<close>: the byte counts, and the status whose
    updates are let through at intervals.
  \<^item> \<open>Parallel_Download\<close>, \<open>Parallel_Properties\<close>: \<open>multi_file.go\<close>, \<open>stream.go\<close>, \<open>detector.go\<close>, \<open>resolver.go\<close>.

  \<^bold>\<open>Theories: the process.\<close>
  \<^item> \<open>Process\<close>: \<open>cmd/main.go\<close>: the flags and their defaults, the parts that \<open>main\<close> makes, and where their settings agree and
    where they do not.

  \<^bold>\<open>Conventions.\<close> A call that may panic returns a sum, a handler an \<open>outcome\<close> that returns, panics or is still waiting
  when its events run out. Waiting loops recurse over the list of events they see (ticks with the answer of the
  API, the timeout, the end of the request), so no fuel is needed; loops over bytes recurse with a termination measure on
  what is left to read. \<open>int64\<close> sums are \<open>64 word\<close>. A \<open>resource.Quantity\<close> is any ordered group, its parser and its
  \<open>Value()\<close> are parameters. Floats are rationals with the rounding of the hardware as a parameter. The file system is a
  map from paths to contents; which of its calls fail, and how much a failed write leaves, is a parameter; so are the answers
  of the hub and of the storage servers at each moment. Several workers of one download run one after the other, in any
  order where the order can be seen.

  \<^bold>\<open>Not modelled.\<close> HTTP, gin, the Kubernetes client, Prometheus, LZ4 and the library of hub repositories are the
  environment or a parameter. Generated deep copies, the registration of types and watches, logging, the parsing of flags and
  the start of the goroutines in \<open>main\<close> are left out, and so are the start and the
  shutdown of the HTTP server. What a form contains and how much of a body its parser leaves is part of the request; the
  text of a JSON value is its value, the order of its fields apart, and how a \<open>float64\<close> is printed is a parameter.
\<close>

end
